(* ===== verification/Prelude.thy ===== *)
theory Prelude
  imports Main "HOL-Library.Word" "HOL-Library.Multiset"
begin

text \<open>
  Shared vocabulary of the development: the machine types, the parameters that stand for code
  outside the repository (the record \<open>ext\<close>), the environment readings one step of the
  program consumes (the record \<open>tick\<close>), Rust's \<open>HashMap\<close> as an association
  list with the interface it is used through (locale \<open>hash_map\<close>), and small lemmas on
  options and lists that several components need.
\<close>

named_theorems hm_simps \<open>equations of the hash-map operations\<close>
named_theorems wire_simps \<open>equations of the JSON decoders and encoders\<close>
named_theorems db_simps \<open>equations of the storage operations\<close>

type_synonym uuid = "128 word"
type_synonym u8 = "8 word"
type_synonym u16 = "16 word"
type_synonym u32 = "32 word"

text \<open>
  A \<open>String\<close> is its UTF-8 byte sequence, so \<open>length\<close> is Rust's
  \<open>len()\<close>. \<open>i64\<close> and \<open>i32\<close> values are \<open>int\<close>s kept in range by
  the decoders; arithmetic that can leave the range wraps explicitly with \<open>wrap_i64\<close>
  (the release profile of the workspace has no overflow checks).
\<close>

definition i64_range :: "int \<Rightarrow> bool" where
  "i64_range i \<longleftrightarrow> - (2 ^ 63) \<le> i \<and> i < 2 ^ 63"

definition i32_range :: "int \<Rightarrow> bool" where
  "i32_range i \<longleftrightarrow> - (2 ^ 31) \<le> i \<and> i < 2 ^ 31"

definition wrap_i64 :: "int \<Rightarrow> int" where
  "wrap_i64 i = (i + 2 ^ 63) mod 2 ^ 64 - 2 ^ 63"

lemma wrap_i64_range: "i64_range (wrap_i64 i)"
proof -
  have "0 \<le> (i + 2 ^ 63) mod 2 ^ 64" and "(i + 2 ^ 63) mod 2 ^ 64 < (2 ^ 64 :: int)"
    by simp_all
  then show ?thesis
    by (simp add: i64_range_def wrap_i64_def)
qed

lemma wrap_i64_id: "i64_range i \<Longrightarrow> wrap_i64 i = i"
  unfolding i64_range_def wrap_i64_def by (simp add: mod_pos_pos_trivial)

section \<open>JSON values\<close>

text \<open>
  \<open>serde_json::Value\<close>. Integers keep their value; a number that is no integer keeps its
  decimal text in \<open>JFloat\<close>. An object is its list of entries; it is only read through
  \<open>map_of\<close>, so the order of the entries does not matter.
\<close>

datatype json =
    JNull
  | JBool bool
  | JInt int
  | JFloat string
  | JStr string
  | JArr "json list"
  | JObj "(string \<times> json) list"

text \<open>\<open>Value::get(key)\<close>, \<open>Value::as_str()\<close> and \<open>Value::as_bool()\<close>.\<close>

fun json_get :: "json \<Rightarrow> string \<Rightarrow> json option" where
  "json_get (JObj o') k = map_of o' k"
| "json_get _ k = None"

fun json_as_str :: "json \<Rightarrow> string option" where
  "json_as_str (JStr s) = Some s"
| "json_as_str _ = None"

fun json_as_bool :: "json \<Rightarrow> bool option" where
  "json_as_bool (JBool b) = Some b"
| "json_as_bool _ = None"

section \<open>Parameters of the model\<close>

text \<open>
  Functions of crates outside the repository. \<open>uuid_str\<close> and \<open>uuid_parse\<close> are
  the \<open>Display\<close> and \<open>FromStr\<close> of the uuid crate; \<open>b64_enc\<close> and
  \<open>b64_dec\<close> the URL-safe, unpadded engine of the base64 crate; \<open>sha256\<close> is
  ring's digest; \<open>hkdf4\<close> the four bytes of output key material of the hkdf crate for a
  salt, an info string and a secret; \<open>ec_public\<close> and \<open>ec_agree\<close> are ring's
  P-256 operations on a private key (a number here); \<open>rcgen_cert\<close> the certificate
  PEM, key PEM and certificate DER that rcgen makes for a name and a seed, or its error text;
  \<open>serde_error\<close> the error text of serde for a payload that does not decode;
  \<open>chrono_ok\<close> whether chrono can represent a time in milliseconds;
  \<open>json_parse\<close> reads a text frame with serde_json; \<open>chan_accepts\<close> tells
  whether a tokio channel takes one more envelope at once after the given history of envelopes
  handed to channels, \<open>chan_open\<close> whether its receiver is still there, so that an
  awaited send succeeds.
\<close>

record 'e ext =
  uuid_str :: "uuid \<Rightarrow> string"
  uuid_parse :: "string \<Rightarrow> uuid option"
  b64_enc :: "u8 list \<Rightarrow> string"
  b64_dec :: "string \<Rightarrow> u8 list option"
  sha256 :: "u8 list \<Rightarrow> u8 list"
  hkdf4 :: "string \<Rightarrow> string \<Rightarrow> u8 list \<Rightarrow> u8 list"
  ec_public :: "nat \<Rightarrow> u8 list option"
  ec_agree :: "nat \<Rightarrow> u8 list \<Rightarrow> u8 list option"
  rcgen_cert :: "string \<Rightarrow> nat \<Rightarrow> string + (string \<times> string \<times> u8 list)"
  serde_error :: "json \<Rightarrow> string"
  chrono_ok :: "int \<Rightarrow> bool"
  json_parse :: "string \<Rightarrow> json option"
  chan_accepts :: "(nat \<times> 'e) list \<Rightarrow> nat \<Rightarrow> bool"
  chan_open :: "(nat \<times> 'e) list \<Rightarrow> nat \<Rightarrow> bool"

definition uuid_ok :: "'e ext \<Rightarrow> bool" where
  "uuid_ok X \<longleftrightarrow> (\<forall>u. uuid_parse X (uuid_str X u) = Some u)"

text \<open>
  What one step reads from its environment: successive \<open>Utc::now()\<close> readings in
  milliseconds, \<open>SystemTime\<close> readings in seconds, fresh \<open>Uuid::new_v4()\<close>
  values, the P-256 private keys ring draws and the seeds of rcgen. The argument is the number of the call within the step.
\<close>

record tick =
  t_ms :: "nat \<Rightarrow> int"
  t_secs :: "nat \<Rightarrow> int"
  t_uuid :: "nat \<Rightarrow> uuid"
  t_key :: "nat \<Rightarrow> nat option"
  t_seed :: "nat \<Rightarrow> nat"

text \<open>A step that may panic: an \<open>expect\<close> that fails ends the process.\<close>

datatype 'a run = Done 'a | Panic

section \<open>Hash maps\<close>

type_synonym ('k, 'v) hmap = "('k \<times> 'v) list"

definition hm_get :: "('k, 'v) hmap \<Rightarrow> 'k \<Rightarrow> 'v option" where
  "hm_get m k = map_of m k"

definition hm_remove :: "'k \<Rightarrow> ('k, 'v) hmap \<Rightarrow> ('k, 'v) hmap" where
  "hm_remove k m = filter (\<lambda>p. fst p \<noteq> k) m"

definition hm_insert :: "'k \<Rightarrow> 'v \<Rightarrow> ('k, 'v) hmap \<Rightarrow> ('k, 'v) hmap" where
  "hm_insert k v m = (k, v) # hm_remove k m"

definition hm_keys :: "('k, 'v) hmap \<Rightarrow> 'k list" where
  "hm_keys m = map fst m"

definition hm_wf :: "('k, 'v) hmap \<Rightarrow> bool" where
  "hm_wf m \<longleftrightarrow> distinct (map fst m)"

lemma hm_get_Nil [hm_simps, simp]: "hm_get [] k = None"
  by (simp add: hm_get_def)

lemma hm_get_remove [hm_simps, simp]:
  "hm_get (hm_remove k m) j = (if j = k then None else hm_get m j)"
  unfolding hm_get_def hm_remove_def by (induction m) auto

lemma hm_get_insert [hm_simps, simp]:
  "hm_get (hm_insert k v m) j = (if j = k then Some v else hm_get m j)"
proof (cases "j = k")
  case True
  then show ?thesis by (simp add: hm_insert_def hm_get_def)
next
  case False
  then have "hm_get (hm_insert k v m) j = hm_get (hm_remove k m) j"
    by (simp add: hm_insert_def hm_get_def)
  with False show ?thesis by simp
qed

lemma hm_wf_Nil [simp]: "hm_wf []"
  by (simp add: hm_wf_def)

lemma hm_wf_remove [intro, simp]: "hm_wf m \<Longrightarrow> hm_wf (hm_remove k m)"
  unfolding hm_wf_def hm_remove_def by (induction m) auto

lemma hm_wf_insert [intro, simp]: "hm_wf m \<Longrightarrow> hm_wf (hm_insert k v m)"
  using hm_wf_remove [of m k] by (auto simp: hm_insert_def hm_wf_def hm_remove_def)

lemma fold_insert_get:
  "hm_get (fold (\<lambda>(k, v). hm_insert k v) es m) k =
     (case map_of (rev es) k of None \<Rightarrow> hm_get m k | Some v \<Rightarrow> Some v)"
  by (induction es arbitrary: m) (auto split: option.split)

lemma hm_keys_iff: "k \<in> set (hm_keys m) \<longleftrightarrow> hm_get m k \<noteq> None"
  by (simp add: hm_keys_def hm_get_def map_of_eq_None_iff)

lemma hm_remove_absent: "hm_get m k = None \<Longrightarrow> hm_remove k m = m"
  unfolding hm_get_def hm_remove_def
  by (auto simp: map_of_eq_None_iff filter_id_conv)

lemma hm_get_in_set: "hm_get m k = Some v \<Longrightarrow> (k, v) \<in> set m"
  by (simp add: hm_get_def map_of_SomeD)

text \<open>
  The interface the components use: what a lookup returns after each operation, and that the
  keys are exactly the entries, each once.
\<close>

locale hash_map =
  fixes get :: "'m \<Rightarrow> 'k \<Rightarrow> 'v option"
    and insert' :: "'k \<Rightarrow> 'v \<Rightarrow> 'm \<Rightarrow> 'm"
    and remove' :: "'k \<Rightarrow> 'm \<Rightarrow> 'm"
    and keys :: "'m \<Rightarrow> 'k list"
    and wf :: "'m \<Rightarrow> bool"
  assumes get_insert: "get (insert' k v m) j = (if j = k then Some v else get m j)"
    and get_remove: "get (remove' k m) j = (if j = k then None else get m j)"
    and keys_iff: "k \<in> set (keys m) \<longleftrightarrow> get m k \<noteq> None"
    and keys_distinct: "wf m \<Longrightarrow> distinct (keys m)"
    and wf_insert: "wf m \<Longrightarrow> wf (insert' k v m)"
    and wf_remove: "wf m \<Longrightarrow> wf (remove' k m)"
begin

lemma put_back: "get m k = Some v \<Longrightarrow> get (insert' k v (remove' k m)) = get m"
  by (auto simp: fun_eq_iff get_insert get_remove)

lemma remove_insert: "get (remove' k (insert' k v m)) = get (remove' k m)"
  by (auto simp: fun_eq_iff get_insert get_remove)

lemma set_keys_insert: "set (keys (insert' k v m)) = insert k (set (keys m))"
  by (auto simp: keys_iff get_insert split: if_splits)

lemma set_keys_remove: "set (keys (remove' k m)) = set (keys m) - {k}"
  by (auto simp: keys_iff get_remove split: if_splits)

lemma count_insert:
  "wf m \<Longrightarrow> length (keys (insert' k v m)) =
     (if get m k = None then Suc (length (keys m)) else length (keys m))"
  by (metis card_insert_disjoint card_insert_if distinct_card finite_set insert_absorb
      keys_distinct keys_iff set_keys_insert wf_insert)

lemma count_remove:
  "wf m \<Longrightarrow> length (keys (remove' k m)) =
     (if get m k = None then length (keys m) else length (keys m) - 1)"
  by (metis Diff_empty Diff_insert0 card_Diff_singleton distinct_card keys_distinct keys_iff
      set_keys_remove wf_remove)

end

interpretation hm: hash_map hm_get hm_insert hm_remove hm_keys hm_wf
  by unfold_locales (auto simp: hm_keys_iff, simp add: hm_wf_def hm_keys_def)

section \<open>Options and lists\<close>

text \<open>Sorting in descending order of a key, as \<open>ORDER BY key DESC\<close>, and \<open>LIMIT\<close>.\<close>

definition sort_desc :: "('a \<Rightarrow> int) \<Rightarrow> 'a list \<Rightarrow> 'a list" where
  "sort_desc f xs = sort_key (\<lambda>x. - f x) xs"

definition limit_rows :: "int \<Rightarrow> 'a list \<Rightarrow> 'a list" where
  "limit_rows n xs = (if n < 0 then xs else take (nat n) xs)"

lemma set_sort_desc [simp]: "set (sort_desc f xs) = set xs"
  by (simp add: sort_desc_def)

lemma mset_sort_desc [simp]: "mset (sort_desc f xs) = mset xs"
  by (simp add: sort_desc_def)

lemma length_sort_desc [simp]: "length (sort_desc f xs) = length xs"
  by (simp add: sort_desc_def)

lemma sorted_sort_desc: "sorted_wrt (\<lambda>x y. f x \<ge> f y) (sort_desc f xs)"
proof -
  have "sorted (map (\<lambda>x. - f x) (sort_desc f xs))"
    by (simp add: sort_desc_def)
  then show ?thesis
    by (simp add: sorted_wrt_map)
qed

lemma sorted_wrt_limit: "sorted_wrt P xs \<Longrightarrow> sorted_wrt P (limit_rows n xs)"
  by (simp add: limit_rows_def sorted_wrt_take)

lemma set_limit_rows: "set (limit_rows n xs) \<subseteq> set xs"
  by (auto simp: limit_rows_def dest: in_set_takeD)

lemma length_limit_rows: "0 \<le> n \<Longrightarrow> length (limit_rows n xs) = min (nat n) (length xs)"
  by (simp add: limit_rows_def)

lemma limit_rows_all: "int (length xs) \<le> n \<Longrightarrow> limit_rows n xs = xs"
  by (simp add: limit_rows_def)

end
