(* ===== verification/Text.thy ===== *)
theory Text
  imports Prelude "HOL-Library.Sublist"
begin

text \<open>
  The string functions of Rust's standard library that the program uses, on strings as byte
  lists: splitting, searching, trimming, decimal and hexadecimal formatting and parsing.
\<close>

section \<open>Splitting and searching\<close>

text \<open>\<open>s.split(c).collect()\<close>; the empty string has one, empty part.\<close>

fun split_char :: "char \<Rightarrow> string \<Rightarrow> string list" where
  "split_char c [] = [[]]"
| "split_char c (x # xs) =
     (if x = c then [] # split_char c xs
      else (case split_char c xs of [] \<Rightarrow> [[x]] | p # ps \<Rightarrow> (x # p) # ps))"

fun join_char :: "char \<Rightarrow> string list \<Rightarrow> string" where
  "join_char c [] = []"
| "join_char c [p] = p"
| "join_char c (p # ps) = p @ c # join_char c ps"

lemma split_char_nonempty: "split_char c s \<noteq> []"
  by (induction s) (auto split: list.splits)

lemma split_char_plain: "c \<notin> set p \<Longrightarrow> split_char c p = [p]"
  by (induction p) auto

lemma split_char_sep: "c \<notin> set p \<Longrightarrow> split_char c (p @ c # s) = p # split_char c s"
  by (induction p) auto

lemma split_join_char:
  "ps \<noteq> [] \<Longrightarrow> (\<And>p. p \<in> set ps \<Longrightarrow> c \<notin> set p) \<Longrightarrow> split_char c (join_char c ps) = ps"
  by (induction ps rule: join_char.induct [case_names Nil One Many])
     (simp_all add: split_char_plain split_char_sep)

lemma length_join_char:
  "ps \<noteq> [] \<Longrightarrow> length (join_char c ps) = sum_list (map length ps) + length ps - 1"
  by (induction c ps rule: join_char.induct) auto

fun contains :: "string \<Rightarrow> string \<Rightarrow> bool" where
  "contains [] pat = (pat = [])"
| "contains (x # xs) pat = (prefix pat (x # xs) \<or> contains xs pat)"

definition starts_with :: "string \<Rightarrow> string \<Rightarrow> bool" where
  "starts_with s pat = prefix pat s"

definition ends_with :: "string \<Rightarrow> string \<Rightarrow> bool" where
  "ends_with s pat = prefix (rev pat) (rev s)"

lemma contains_append: "contains (pre @ pat @ post) pat"
proof (induction pre)
  case Nil
  have "prefix pat (pat @ post)" by simp
  then show ?case by (cases "pat @ post") (simp_all only: append_Nil contains.simps prefix_Nil, simp)
qed auto

text \<open>\<open>str::trim\<close> on ASCII white space.\<close>

definition is_space :: "char \<Rightarrow> bool" where
  "is_space c \<longleftrightarrow> c \<in> {CHR '' '', CHR 0x09, CHR 0x0A, CHR 0x0B, CHR 0x0C, CHR 0x0D}"

definition trim :: "string \<Rightarrow> string" where
  "trim s = rev (dropWhile is_space (rev (dropWhile is_space s)))"

text \<open>\<open>str::lines\<close>; the carriage return it strips is white space \<open>trim\<close> removes.\<close>

definition str_lines :: "string \<Rightarrow> string list" where
  "str_lines s = (let ps = split_char (CHR 0x0A) s in if last ps = [] then butlast ps else ps)"

lemma split_terminated:
  "\<forall>l \<in> set ls. c \<notin> set l \<Longrightarrow> split_char c (concat (map (\<lambda>l. l @ [c]) ls)) = ls @ [[]]"
  by (induction ls) (simp_all add: split_char_sep)

lemma str_lines_terminated:
  "\<forall>l \<in> set ls. CHR 0x0A \<notin> set l \<Longrightarrow> str_lines (concat (map (\<lambda>l. l @ [CHR 0x0A]) ls)) = ls"
  by (simp add: str_lines_def split_terminated)

text \<open>\<open>str::trim_end_matches('/')\<close>.\<close>

definition trim_slashes :: "string \<Rightarrow> string" where
  "trim_slashes s = rev (dropWhile (\<lambda>c. c = CHR ''/'') (rev s))"

text \<open>\<open>Path::join\<close> with a relative name.\<close>

definition path_join :: "string \<Rightarrow> string \<Rightarrow> string" where
  "path_join dir name = (if dir = [] \<or> last dir = CHR ''/'' then dir @ name else dir @ ''/'' @ name)"

lemma path_join_eq [simp]: "path_join dir a = path_join dir b \<longleftrightarrow> a = b"
  by (simp add: path_join_def)

section \<open>Decimal and hexadecimal\<close>

definition is_ascii_digit :: "char \<Rightarrow> bool" where
  "is_ascii_digit c \<longleftrightarrow> c \<in> set ''0123456789''"

definition hex_tbl :: "(char \<times> nat) list" where
  "hex_tbl = zip ''0123456789abcdefABCDEF'' ([0..<16] @ [10..<16])"

definition hex_val :: "char \<Rightarrow> nat option" where
  "hex_val c = map_of hex_tbl c"

definition is_ascii_hexdigit :: "char \<Rightarrow> bool" where
  "is_ascii_hexdigit c \<longleftrightarrow> hex_val c \<noteq> None"

definition digit_upper :: "nat \<Rightarrow> char" where
  "digit_upper n = ''0123456789ABCDEF'' ! n"

definition digit_lower :: "nat \<Rightarrow> char" where
  "digit_lower n = ''0123456789abcdef'' ! n"

lemma less_16_cases: "n < 16 \<Longrightarrow> n \<in> set [0..<16]"
  by simp

lemma hex_digit_props:
  assumes "n < 16"
  shows "hex_val (digit_upper n) = Some n" and "hex_val (digit_lower n) = Some n"
    and "digit_upper n \<noteq> CHR ''+''" and "digit_upper n \<noteq> CHR '':''"
    and "digit_upper n \<noteq> CHR ''-''"
proof -
  have "\<forall>n \<in> set [0..<16]. hex_val (digit_upper n) = Some n \<and> hex_val (digit_lower n) = Some n
      \<and> digit_upper n \<noteq> CHR ''+'' \<and> digit_upper n \<noteq> CHR '':'' \<and> digit_upper n \<noteq> CHR ''-''"
    by code_simp
  with assms show "hex_val (digit_upper n) = Some n" "hex_val (digit_lower n) = Some n"
    "digit_upper n \<noteq> CHR ''+''" "digit_upper n \<noteq> CHR '':''" "digit_upper n \<noteq> CHR ''-''"
    by simp_all
qed

lemma hex_val_16: "hex_val c = Some v \<Longrightarrow> v < 16"
proof -
  assume "hex_val c = Some v"
  then have "v \<in> snd ` set hex_tbl"
    unfolding hex_val_def by (force dest: map_of_SomeD)
  moreover have "\<forall>v \<in> snd ` set hex_tbl. v < 16" by code_simp
  ultimately show ?thesis by blast
qed

text \<open>Decimal output of a \<open>nat\<close>, and padding with zeros as \<open>{:04}\<close> does.\<close>

fun nat_dec :: "nat \<Rightarrow> string" where
  "nat_dec n =
     (if n < 10 then [digit_lower n] else nat_dec (n div 10) @ [digit_lower (n mod 10)])"

declare nat_dec.simps [simp del]

definition int_dec :: "int \<Rightarrow> string" where
  "int_dec i = (if i < 0 then CHR ''-'' # nat_dec (nat (- i)) else nat_dec (nat i))"

definition pad_zero :: "nat \<Rightarrow> string \<Rightarrow> string" where
  "pad_zero w s = replicate (w - length s) (CHR ''0'') @ s"

lemma digit_lower_digit: "n < 10 \<Longrightarrow> is_ascii_digit (digit_lower n)"
proof -
  assume "n < 10"
  moreover have "\<forall>n \<in> set [0..<10]. is_ascii_digit (digit_lower n)" by code_simp
  ultimately show ?thesis by simp
qed

lemma nat_dec_small: "n < 10 \<Longrightarrow> nat_dec n = [digit_lower n]"
  by (subst nat_dec.simps) simp

lemma nat_dec_big: "\<not> n < 10 \<Longrightarrow> nat_dec n = nat_dec (n div 10) @ [digit_lower (n mod 10)]"
  by (subst nat_dec.simps) simp

lemma nat_dec_digits: "list_all is_ascii_digit (nat_dec n)"
proof (induction n rule: nat_dec.induct)
  case (1 n)
  then show ?case
    by (cases "n < 10") (simp_all add: nat_dec_small nat_dec_big digit_lower_digit)
qed

lemma nat_dec_length: "n < 10 ^ Suc k \<Longrightarrow> length (nat_dec n) \<le> Suc k"
proof (induction k arbitrary: n)
  case 0
  then show ?case by (simp add: nat_dec_small)
next
  case (Suc k)
  show ?case
  proof (cases "n < 10")
    case True
    then show ?thesis by (simp add: nat_dec_small)
  next
    case False
    have "n div 10 < 10 ^ Suc k"
      by (rule less_mult_imp_div_less) (use Suc.prems in \<open>simp add: mult.commute\<close>)
    with Suc.IH have "length (nat_dec (n div 10)) \<le> Suc k" by blast
    with False show ?thesis by (simp add: nat_dec_big)
  qed
qed

lemma pad_zero_length: "length s \<le> w \<Longrightarrow> length (pad_zero w s) = w"
  by (simp add: pad_zero_def)

lemma pad_zero_digits: "list_all is_ascii_digit s \<Longrightarrow> list_all is_ascii_digit (pad_zero w s)"
proof -
  have "is_ascii_digit (CHR ''0'')" by code_simp
  then have "list_all is_ascii_digit (replicate n (CHR ''0''))" for n
    by (induction n) simp_all
  then show "list_all is_ascii_digit s \<Longrightarrow> ?thesis"
    by (simp add: pad_zero_def)
qed

text \<open>
  \<open>u8::from_str_radix(s, 16)\<close>: one leading plus sign is taken, at least one digit
  must follow, and a value above 255 is refused.
\<close>

fun hex_value :: "nat \<Rightarrow> string \<Rightarrow> nat option" where
  "hex_value acc [] = Some acc"
| "hex_value acc (c # cs) =
     (case hex_val c of None \<Rightarrow> None
      | Some v \<Rightarrow> if acc * 16 + v \<le> 255 then hex_value (acc * 16 + v) cs else None)"

definition u8_from_hex :: "string \<Rightarrow> u8 option" where
  "u8_from_hex s = (case s of
       [] \<Rightarrow> None
     | c # cs \<Rightarrow>
        (if c = CHR ''+'' then (if cs = [] then None else map_option of_nat (hex_value 0 cs))
         else map_option of_nat (hex_value 0 (c # cs))))"

definition hex2_upper :: "u8 \<Rightarrow> string" where
  "hex2_upper b = [digit_upper (unat b div 16), digit_upper (unat b mod 16)]"

definition hex2_lower :: "u8 \<Rightarrow> string" where
  "hex2_lower b = [digit_lower (unat b div 16), digit_lower (unat b mod 16)]"

lemma unat_u8: "unat (b :: u8) < 256"
  using unsigned_less [of b] by simp

lemma unat_u8_div: "unat (b :: u8) div 16 < 16"
  using unat_u8 [of b] by simp

lemma u8_from_hex2_upper: "u8_from_hex (hex2_upper b) = Some b"
proof -
  have "unat b div 16 * 16 + unat b mod 16 = unat b" by simp
  with unat_u8 [of b] unat_u8_div [of b] show ?thesis
    by (simp add: u8_from_hex_def hex2_upper_def hex_digit_props)
qed

end
