(* ===== verification/Crypto.thy ===== *)
theory Crypto
  imports Text
begin

text \<open>
  Crate phonebridge-crypto and the certificate pinning of phonebridge-net: fingerprints
  (fingerprint.rs), the four-digit pairing code (pairing_code.rs), ephemeral P-256 keys
  (ecdh.rs), self-signed identities (cert.rs) and the pin check (tls_pinning.rs). SHA-256,
  HKDF, base64, P-256 and rcgen are parameters (\<open>ext\<close>).
\<close>

section \<open>Fingerprints\<close>

definition SHA256_LEN :: nat where
  "SHA256_LEN = 32"

definition cert_fingerprint_der :: "'e ext \<Rightarrow> u8 list \<Rightarrow> string" where
  "cert_fingerprint_der X der = join_char (CHR '':'') (map hex2_upper (sha256 X der))"

datatype fingerprint_error = PairCount nat | PairLength nat nat | PairHex nat

fun parse_pairs :: "nat \<Rightarrow> string list \<Rightarrow> fingerprint_error + u8 list" where
  "parse_pairs i [] = Inr []"
| "parse_pairs i (p # ps) =
     (if length p \<noteq> 2 then Inl (PairLength i (length p))
      else (case u8_from_hex p of
              None \<Rightarrow> Inl (PairHex i)
            | Some b \<Rightarrow> (case parse_pairs (Suc i) ps of
                           Inl e \<Rightarrow> Inl e
                         | Inr bs \<Rightarrow> Inr (b # bs))))"

definition parse_fingerprint :: "string \<Rightarrow> fingerprint_error + u8 list" where
  "parse_fingerprint s =
     (let parts = split_char (CHR '':'') s
      in if length parts \<noteq> SHA256_LEN then Inl (PairCount (length parts))
         else parse_pairs 0 parts)"

lemma parse_pairs_length: "parse_pairs i ps = Inr bs \<Longrightarrow> length bs = length ps"
  by (induction ps arbitrary: i bs) (auto split: if_splits option.splits sum.splits)

lemma parse_fingerprint_length: "parse_fingerprint s = Inr bs \<Longrightarrow> length bs = SHA256_LEN"
  by (auto simp: parse_fingerprint_def Let_def dest: parse_pairs_length split: if_splits)

lemma parse_pairs_hex2: "parse_pairs i (map hex2_upper bs) = Inr bs"
  by (induction bs arbitrary: i) (simp_all add: u8_from_hex2_upper, simp add: hex2_upper_def)

lemma hex2_upper_no_colon: "CHR '':'' \<notin> set (hex2_upper b)"
  using hex_digit_props(4) [OF unat_u8_div [of b]] hex_digit_props(4) [of "unat b mod 16"]
  by (auto simp: hex2_upper_def)

lemma split_fingerprint:
  "bs \<noteq> [] \<Longrightarrow> split_char (CHR '':'') (join_char (CHR '':'') (map hex2_upper bs)) = map hex2_upper bs"
  by (rule split_join_char) (auto simp: hex2_upper_no_colon)

lemma parse_format:
  "length (sha256 X der) = SHA256_LEN \<Longrightarrow>
     parse_fingerprint (cert_fingerprint_der X der) = Inr (sha256 X der)"
  by (cases "sha256 X der = []")
     (simp_all add: parse_fingerprint_def cert_fingerprint_der_def split_fingerprint
        parse_pairs_hex2 SHA256_LEN_def)

section \<open>Pairing code\<close>

definition HKDF_SALT :: string where
  "HKDF_SALT = ''phonebridge/v1/pair''"

definition HKDF_INFO :: string where
  "HKDF_INFO = ''phonebridge/v1/code''"

text \<open>\<open>u32::from_be_bytes\<close> on the key material.\<close>

definition from_be_bytes :: "u8 list \<Rightarrow> nat" where
  "from_be_bytes bs = foldl (\<lambda>n b. n * 256 + unat b) 0 bs"

definition derive_pairing_code :: "'e ext \<Rightarrow> u8 list \<Rightarrow> string" where
  "derive_pairing_code X shared =
     pad_zero 4 (nat_dec (from_be_bytes (hkdf4 X HKDF_SALT HKDF_INFO shared) mod 10000))"

definition code_shape :: "string \<Rightarrow> bool" where
  "code_shape c \<longleftrightarrow> length c = 4 \<and> list_all is_ascii_digit c"

lemma pairing_code_shape: "code_shape (derive_pairing_code X s)"
proof -
  have "length (nat_dec (n mod 10000)) \<le> 4" for n
    using nat_dec_length [of "n mod 10000" 3] by simp
  then show ?thesis
    by (simp add: code_shape_def derive_pairing_code_def pad_zero_length pad_zero_digits
        nat_dec_digits)
qed

section \<open>Ephemeral keys\<close>

datatype ecdh_error =
    EKeygen
  | EPublicKey
  | EPublicKeyLength nat
  | EPublicKeyFormat
  | ESharedSecretLength nat
  | EAgreement
  | EBase64

definition PUBLIC_KEY_LEN :: nat where
  "PUBLIC_KEY_LEN = 65"

type_synonym public_key = "u8 list"

record ephemeral_key_pair =
  kp_private :: nat
  kp_public :: public_key

text \<open>\<open>EphemeralKeyPair::generate\<close> with the key drawn by the system RNG.\<close>

definition keypair_generate :: "'e ext \<Rightarrow> nat option \<Rightarrow> ecdh_error + ephemeral_key_pair" where
  "keypair_generate X drawn =
     (case drawn of
        None \<Rightarrow> Inl EKeygen
      | Some k \<Rightarrow>
         (case ec_public X k of
            None \<Rightarrow> Inl EPublicKey
          | Some p \<Rightarrow>
             if length p \<noteq> PUBLIC_KEY_LEN then Inl (EPublicKeyLength (length p))
             else Inr \<lparr>kp_private = k, kp_public = p\<rparr>))"

definition keypair_agree :: "'e ext \<Rightarrow> ephemeral_key_pair \<Rightarrow> public_key \<Rightarrow> ecdh_error + u8 list" where
  "keypair_agree X kp peer =
     (case ec_agree X (kp_private kp) peer of
        None \<Rightarrow> Inl EAgreement
      | Some s \<Rightarrow> if length s \<noteq> 32 then Inl (ESharedSecretLength (length s)) else Inr s)"

definition public_key_from_bytes :: "u8 list \<Rightarrow> ecdh_error + public_key" where
  "public_key_from_bytes bs =
     (if length bs \<noteq> PUBLIC_KEY_LEN then Inl (EPublicKeyLength (length bs))
      else if bs ! 0 \<noteq> 4 then Inl EPublicKeyFormat
      else Inr bs)"

definition public_key_to_base64 :: "'e ext \<Rightarrow> public_key \<Rightarrow> string" where
  "public_key_to_base64 X k = b64_enc X k"

definition public_key_from_base64 :: "'e ext \<Rightarrow> string \<Rightarrow> ecdh_error + public_key" where
  "public_key_from_base64 X s =
     (case b64_dec X s of None \<Rightarrow> Inl EBase64 | Some bs \<Rightarrow> public_key_from_bytes bs)"

definition b64_ok :: "'e ext \<Rightarrow> bool" where
  "b64_ok X \<longleftrightarrow> (\<forall>bs. b64_dec X (b64_enc X bs) = Some bs)"

lemma public_key_roundtrip:
  "b64_ok X \<Longrightarrow> public_key_from_bytes k = Inr k \<Longrightarrow>
     public_key_from_base64 X (public_key_to_base64 X k) = Inr k"
  by (simp add: b64_ok_def public_key_from_base64_def public_key_to_base64_def)

lemma public_key_from_bytes_shape:
  "public_key_from_bytes bs = Inr k \<Longrightarrow> k = bs \<and> length k = 65 \<and> hd k = 4"
  by (cases bs) (auto simp: public_key_from_bytes_def PUBLIC_KEY_LEN_def split: if_splits)

section \<open>Identities\<close>

record identity =
  id_cert_pem :: string
  id_key_pem :: string
  id_fingerprint :: string

datatype cert_error = CertGenerate string

definition generate_self_signed :: "'e ext \<Rightarrow> string \<Rightarrow> nat \<Rightarrow> cert_error + identity" where
  "generate_self_signed X cn seed =
     (case rcgen_cert X cn seed of
        Inl msg \<Rightarrow> Inl (CertGenerate msg)
      | Inr (pem, key, der) \<Rightarrow>
          Inr \<lparr>id_cert_pem = pem, id_key_pem = key, id_fingerprint = cert_fingerprint_der X der\<rparr>)"

section \<open>Certificate pinning\<close>

datatype pin_error = NoCert | Mismatch string string | UnknownDevice

type_synonym pin_store = "(uuid, string) hmap"

definition verify_pin :: "'e ext \<Rightarrow> pin_store \<Rightarrow> uuid \<Rightarrow> u8 list list \<Rightarrow> pin_error + unit" where
  "verify_pin X store dev certs =
     (case certs of
        [] \<Rightarrow> Inl NoCert
      | leaf # _ \<Rightarrow>
         (let got = cert_fingerprint_der X leaf
          in case hm_get store dev of
               None \<Rightarrow> Inl UnknownDevice
             | Some pinned \<Rightarrow> if pinned = got then Inr () else Inl (Mismatch pinned got)))"

lemma verify_pin_Inr_iff:
  "verify_pin X store dev certs = Inr () \<longleftrightarrow>
     (\<exists>leaf rest. certs = leaf # rest \<and> hm_get store dev = Some (cert_fingerprint_der X leaf))"
  by (auto simp: verify_pin_def Let_def split: list.splits option.splits)

end
