(* ===== verification/Json.thy ===== *)
theory Json
  imports Prelude "HOL-Library.Monad_Syntax"
begin

text \<open>
  How serde's derived code reads and writes the JSON values of the wire protocol: the scalar
  decoders, the field access of a derived struct (an object read by key, or an array read by
  position), optional and defaulted fields, and unit-only enums. The laws at the end are what
  the round trips of the payloads rest on.
\<close>

section \<open>Scalars\<close>

fun dec_str :: "json \<Rightarrow> string option" where
  "dec_str (JStr s) = Some s"
| "dec_str _ = None"

fun dec_bool :: "json \<Rightarrow> bool option" where
  "dec_bool (JBool b) = Some b"
| "dec_bool _ = None"

fun dec_json :: "json \<Rightarrow> json option" where
  "dec_json j = Some j"

fun dec_int :: "(int \<Rightarrow> bool) \<Rightarrow> json \<Rightarrow> int option" where
  "dec_int ok (JInt i) = (if ok i then Some i else None)"
| "dec_int ok _ = None"

fun dec_word :: "json \<Rightarrow> 'a::len word option" where
  "dec_word (JInt i) =
     (if 0 \<le> i \<and> i < 2 ^ LENGTH('a) then Some (word_of_int i) else None)"
| "dec_word _ = None"

definition enc_word :: "'a::len word \<Rightarrow> json" where
  "enc_word w = JInt (uint w)"

fun dec_uuid :: "'e ext \<Rightarrow> json \<Rightarrow> uuid option" where
  "dec_uuid X (JStr s) = uuid_parse X s"
| "dec_uuid X _ = None"

definition enc_uuid :: "'e ext \<Rightarrow> uuid \<Rightarrow> json" where
  "enc_uuid X u = JStr (uuid_str X u)"

fun dec_list :: "(json \<Rightarrow> 'a option) \<Rightarrow> json \<Rightarrow> 'a list option" where
  "dec_list d (JArr xs) = those (map d xs)"
| "dec_list d _ = None"

definition enc_list :: "('a \<Rightarrow> json) \<Rightarrow> 'a list \<Rightarrow> json" where
  "enc_list e xs = JArr (map e xs)"

section \<open>Structs\<close>

text \<open>
  The fields of a struct with \<open>n\<close> fields: by name from an object (unknown keys are
  ignored), by position from an array of at most \<open>n\<close> elements.
\<close>

fun struct_fields :: "nat \<Rightarrow> json \<Rightarrow> (nat \<Rightarrow> string \<Rightarrow> json option) option" where
  "struct_fields n (JObj o') = Some (\<lambda>_ k. map_of o' k)"
| "struct_fields n (JArr xs) =
     (if length xs \<le> n then Some (\<lambda>i _. if i < length xs then Some (xs ! i) else None)
      else None)"
| "struct_fields n _ = None"

definition req :: "(json \<Rightarrow> 'a option) \<Rightarrow> json option \<Rightarrow> 'a option" where
  "req d f = Option.bind f d"

fun opt :: "(json \<Rightarrow> 'a option) \<Rightarrow> json option \<Rightarrow> 'a option option" where
  "opt d None = Some None"
| "opt d (Some JNull) = Some None"
| "opt d (Some j) = map_option Some (d j)"

fun dflt :: "(json \<Rightarrow> 'a option) \<Rightarrow> 'a \<Rightarrow> json option \<Rightarrow> 'a option" where
  "dflt d a None = Some a"
| "dflt d a (Some j) = d j"

text \<open>A field written only when it is present (\<open>skip_serializing_if\<close>).\<close>

definition opt_f :: "string \<Rightarrow> ('a \<Rightarrow> json) \<Rightarrow> 'a option \<Rightarrow> (string \<times> json) list" where
  "opt_f k e v = (case v of None \<Rightarrow> [] | Some a \<Rightarrow> [(k, e a)])"

text \<open>A unit-only enum: its wire name, or an object with that single key and a null.\<close>

fun dec_enum :: "(string \<times> 'a) list \<Rightarrow> json \<Rightarrow> 'a option" where
  "dec_enum tbl (JStr s) = map_of tbl s"
| "dec_enum tbl (JObj [(s, JNull)]) = map_of tbl s"
| "dec_enum tbl _ = None"

section \<open>Laws\<close>

declare dec_str.simps [wire_simps] dec_bool.simps [wire_simps] dec_json.simps [wire_simps]
  struct_fields.simps [wire_simps]

lemma req_Some [wire_simps]: "req d (Some j) = d j"
  by (simp add: req_def)

lemma req_None [wire_simps]: "req d None = None"
  by (simp add: req_def)

lemma map_of_opt_f [wire_simps]:
  "map_of (opt_f k e v) j = (if j = k then map_option e v else None)"
  by (cases v) (auto simp: opt_f_def)

lemma map_add_apply [wire_simps]:
  "(m ++ n) k = (case n k of None \<Rightarrow> m k | Some v \<Rightarrow> Some v)"
  by (simp add: map_add_def)

lemma case_Some_map_option [wire_simps]:
  "(case v of None \<Rightarrow> None | Some x \<Rightarrow> Some (g x)) = map_option g v"
  by (simp add: map_option_case)

lemma opt_map_option:
  assumes "\<And>a. v = Some a \<Longrightarrow> d (e a) = Some a" and "\<And>a. e a \<noteq> JNull"
  shows "opt d (map_option e v) = Some v"
proof (cases v)
  case (Some a)
  with assms have "d (e a) = Some a" and "e a \<noteq> JNull" by simp_all
  with Some show ?thesis by (cases "e a") auto
qed simp

lemma dec_enc_word [wire_simps]: "dec_word (enc_word w) = Some w"
  by (simp add: enc_word_def)

lemma dec_enc_uuid [wire_simps]: "uuid_ok X \<Longrightarrow> dec_uuid X (enc_uuid X u) = Some u"
  by (simp add: uuid_ok_def enc_uuid_def)

lemma dec_int_JInt [wire_simps]: "ok i \<Longrightarrow> dec_int ok (JInt i) = Some i"
  by simp

lemma opt_str [wire_simps]: "opt dec_str (map_option JStr v) = Some v"
  by (rule opt_map_option) simp_all

lemma opt_bool [wire_simps]: "opt dec_bool (map_option JBool v) = Some v"
  by (rule opt_map_option) simp_all

lemma opt_word [wire_simps]: "opt dec_word (map_option enc_word v) = Some v"
  by (rule opt_map_option) (simp_all add: dec_enc_word, simp add: enc_word_def)

lemma opt_int [wire_simps]: "pred_option ok v \<Longrightarrow> opt (dec_int ok) (map_option JInt v) = Some v"
  by (rule opt_map_option) simp_all

lemma dec_enc_list [wire_simps]:
  "(\<And>x. x \<in> set xs \<Longrightarrow> d (e x) = Some x) \<Longrightarrow> dec_list d (enc_list e xs) = Some xs"
proof -
  assume "\<And>x. x \<in> set xs \<Longrightarrow> d (e x) = Some x"
  then have "those (map d (map e xs)) = Some xs"
    by (induction xs) auto
  then show ?thesis by (simp add: enc_list_def)
qed

end
