(* ===== verification/Wire.thy ===== *)
theory Wire
  imports Json
begin

text \<open>
  The wire protocol (crate phonebridge-proto): the shared enums of types.rs, the message types
  and the envelope of envelope.rs and the payload structs of payload.rs, each with the encoder
  and decoder that serde derives from the field attributes. The lemmas \<open>rt_*\<close> are the
  round trips.
\<close>

section \<open>Enums\<close>

datatype device_type = DtDesktop | DtAndroid
datatype network_type = NtWifi | NtCellular | NtEthernet | NtNone
datatype call_state_kind = CsIdle | CsRinging | CsOffhook
datatype call_direction = CdIncoming | CdOutgoing | CdMissed

definition device_type_tbl :: "(string \<times> device_type) list" where
  "device_type_tbl = [(''desktop'', DtDesktop), (''android'', DtAndroid)]"

definition network_type_tbl :: "(string \<times> network_type) list" where
  "network_type_tbl = [(''wifi'', NtWifi), (''cellular'', NtCellular),
     (''ethernet'', NtEthernet), (''none'', NtNone)]"

definition call_state_tbl :: "(string \<times> call_state_kind) list" where
  "call_state_tbl = [(''idle'', CsIdle), (''ringing'', CsRinging), (''offhook'', CsOffhook)]"

definition call_direction_tbl :: "(string \<times> call_direction) list" where
  "call_direction_tbl = [(''incoming'', CdIncoming), (''outgoing'', CdOutgoing),
     (''missed'', CdMissed)]"

fun device_type_str :: "device_type \<Rightarrow> string" where
  "device_type_str DtDesktop = ''desktop''"
| "device_type_str DtAndroid = ''android''"

fun network_type_str :: "network_type \<Rightarrow> string" where
  "network_type_str NtWifi = ''wifi''"
| "network_type_str NtCellular = ''cellular''"
| "network_type_str NtEthernet = ''ethernet''"
| "network_type_str NtNone = ''none''"

fun call_state_str :: "call_state_kind \<Rightarrow> string" where
  "call_state_str CsIdle = ''idle''"
| "call_state_str CsRinging = ''ringing''"
| "call_state_str CsOffhook = ''offhook''"

fun call_direction_str :: "call_direction \<Rightarrow> string" where
  "call_direction_str CdIncoming = ''incoming''"
| "call_direction_str CdOutgoing = ''outgoing''"
| "call_direction_str CdMissed = ''missed''"

lemma tbl_device_type [simp]: "map_of device_type_tbl (device_type_str d) = Some d"
  by (cases d) (simp_all add: device_type_tbl_def)

lemma tbl_network_type [simp]: "map_of network_type_tbl (network_type_str d) = Some d"
  by (cases d) (simp_all add: network_type_tbl_def)

lemma tbl_call_state [simp]: "map_of call_state_tbl (call_state_str d) = Some d"
  by (cases d) (simp_all add: call_state_tbl_def)

lemma tbl_call_direction [simp]: "map_of call_direction_tbl (call_direction_str d) = Some d"
  by (cases d) (simp_all add: call_direction_tbl_def)

lemma opt_network_type [wire_simps]:
  "opt (dec_enum network_type_tbl) (map_option (\<lambda>d. JStr (network_type_str d)) v) = Some v"
  by (rule opt_map_option) simp_all

text \<open>The SIM slot is a byte on the wire: 0 and 1 are the slots, any other byte is none.\<close>

datatype sim_slot = SimNone | SimSlot0 | SimSlot1

fun sim_slot_to_u8 :: "sim_slot \<Rightarrow> u8" where
  "sim_slot_to_u8 SimNone = 255"
| "sim_slot_to_u8 SimSlot0 = 0"
| "sim_slot_to_u8 SimSlot1 = 1"

definition sim_slot_of_u8 :: "u8 \<Rightarrow> sim_slot" where
  "sim_slot_of_u8 v = (if v = 0 then SimSlot0 else if v = 1 then SimSlot1 else SimNone)"

section \<open>Message types\<close>

datatype message_type =
    MtDeviceHello
  | MtDeviceHeartbeat
  | MtDeviceInfoUpdate
  | MtDevicePairRequest
  | MtDevicePairChallenge
  | MtDevicePairConfirm
  | MtDevicePairAccept
  | MtDevicePairReject
  | MtDevicePairComplete
  | MtDeviceUnpair
  | MtNotificationReceived
  | MtNotificationDismissed
  | MtSmsReceived
  | MtSmsSendRequest
  | MtSmsSendResult
  | MtSmsListRequest
  | MtSmsListResult
  | MtCallState
  | MtCallIncoming
  | MtCallAnswerRequest
  | MtCallEndRequest
  | MtCallDialRequest
  | MtCallHistory

text \<open>\<open>MessageType::as_str\<close>, and the names serde reads (the rename of each variant).\<close>

fun mt_str :: "message_type \<Rightarrow> string" where
  "mt_str MtDeviceHello = ''device.hello''"
| "mt_str MtDeviceHeartbeat = ''device.heartbeat''"
| "mt_str MtDeviceInfoUpdate = ''device.info.update''"
| "mt_str MtDevicePairRequest = ''device.pair.request''"
| "mt_str MtDevicePairChallenge = ''device.pair.challenge''"
| "mt_str MtDevicePairConfirm = ''device.pair.confirm''"
| "mt_str MtDevicePairAccept = ''device.pair.accept''"
| "mt_str MtDevicePairReject = ''device.pair.reject''"
| "mt_str MtDevicePairComplete = ''device.pair.complete''"
| "mt_str MtDeviceUnpair = ''device.unpair''"
| "mt_str MtNotificationReceived = ''notification.received''"
| "mt_str MtNotificationDismissed = ''notification.dismissed''"
| "mt_str MtSmsReceived = ''sms.received''"
| "mt_str MtSmsSendRequest = ''sms.send.request''"
| "mt_str MtSmsSendResult = ''sms.send.result''"
| "mt_str MtSmsListRequest = ''sms.list.request''"
| "mt_str MtSmsListResult = ''sms.list.result''"
| "mt_str MtCallState = ''call.state''"
| "mt_str MtCallIncoming = ''call.incoming''"
| "mt_str MtCallAnswerRequest = ''call.answer.request''"
| "mt_str MtCallEndRequest = ''call.end.request''"
| "mt_str MtCallDialRequest = ''call.dial.request''"
| "mt_str MtCallHistory = ''call.history''"

definition mt_tbl :: "(string \<times> message_type) list" where
  "mt_tbl = [
     (''device.hello'', MtDeviceHello),
     (''device.heartbeat'', MtDeviceHeartbeat),
     (''device.info.update'', MtDeviceInfoUpdate),
     (''device.pair.request'', MtDevicePairRequest),
     (''device.pair.challenge'', MtDevicePairChallenge),
     (''device.pair.confirm'', MtDevicePairConfirm),
     (''device.pair.accept'', MtDevicePairAccept),
     (''device.pair.reject'', MtDevicePairReject),
     (''device.pair.complete'', MtDevicePairComplete),
     (''device.unpair'', MtDeviceUnpair),
     (''notification.received'', MtNotificationReceived),
     (''notification.dismissed'', MtNotificationDismissed),
     (''sms.received'', MtSmsReceived),
     (''sms.send.request'', MtSmsSendRequest),
     (''sms.send.result'', MtSmsSendResult),
     (''sms.list.request'', MtSmsListRequest),
     (''sms.list.result'', MtSmsListResult),
     (''call.state'', MtCallState),
     (''call.incoming'', MtCallIncoming),
     (''call.answer.request'', MtCallAnswerRequest),
     (''call.end.request'', MtCallEndRequest),
     (''call.dial.request'', MtCallDialRequest),
     (''call.history'', MtCallHistory)]"

lemma mt_tbl_lookup [simp]: "map_of mt_tbl (mt_str m) = Some m"
  by (cases m) (simp_all add: mt_tbl_def)

lemma mt_str_inject [simp]: "mt_str a = mt_str b \<longleftrightarrow> a = b"
  by (metis mt_tbl_lookup option.inject)

lemma mt_tbl_range: "map_of mt_tbl s = Some m \<Longrightarrow> s = mt_str m"
  by (auto simp: mt_tbl_def split: if_splits)

section \<open>Envelope\<close>

record envelope =
  env_v :: u16
  env_id :: uuid
  env_ts :: int
  env_type :: message_type
  env_device_id :: uuid
  env_payload :: json

text \<open>
  \<open>Envelope::new\<close>: the fresh id and the clock reading are arguments; serialising the
  payload structs of this crate cannot fail.
\<close>

definition envelope_new :: "message_type \<Rightarrow> uuid \<Rightarrow> json \<Rightarrow> uuid \<Rightarrow> int \<Rightarrow> envelope" where
  "envelope_new mt dev p fresh now =
     \<lparr>env_v = 1, env_id = fresh, env_ts = now, env_type = mt, env_device_id = dev,
      env_payload = p\<rparr>"

definition enc_envelope :: "'e ext \<Rightarrow> envelope \<Rightarrow> json" where
  "enc_envelope X e = JObj [
     (''v'', enc_word (env_v e)), (''id'', enc_uuid X (env_id e)), (''ts'', JInt (env_ts e)),
     (''type'', JStr (mt_str (env_type e))), (''device_id'', enc_uuid X (env_device_id e)),
     (''payload'', env_payload e)]"

definition dec_envelope :: "'e ext \<Rightarrow> json \<Rightarrow> envelope option" where
  "dec_envelope X j = do {
     f \<leftarrow> struct_fields 6 j;
     v \<leftarrow> req dec_word (f 0 ''v'');
     i \<leftarrow> req (dec_uuid X) (f 1 ''id'');
     t \<leftarrow> req (dec_int i64_range) (f 2 ''ts'');
     m \<leftarrow> req (dec_enum mt_tbl) (f 3 ''type'');
     d \<leftarrow> req (dec_uuid X) (f 4 ''device_id'');
     p \<leftarrow> req dec_json (f 5 ''payload'');
     Some \<lparr>env_v = v, env_id = i, env_ts = t, env_type = m, env_device_id = d,
       env_payload = p\<rparr>
   }"

text \<open>\<open>Envelope::from_json\<close> on the text of a frame.\<close>

definition envelope_from_text :: "'e ext \<Rightarrow> string \<Rightarrow> envelope option" where
  "envelope_from_text X s = Option.bind (json_parse X s) (dec_envelope X)"

lemma rt_envelope:
  "uuid_ok X \<Longrightarrow> i64_range (env_ts e) \<Longrightarrow> dec_envelope X (enc_envelope X e) = Some e"
  by (cases e) (simp add: enc_envelope_def dec_envelope_def wire_simps)

section \<open>Payloads\<close>

record device_hello =
  dh_name :: string
  dh_device_type :: device_type
  dh_protocol_version :: u16
  dh_pubkey :: string
  dh_port :: "u16 option"
  dh_manufacturer :: "string option"
  dh_model :: "string option"
  dh_hardware_id :: "string option"

definition enc_device_hello :: "device_hello \<Rightarrow> json" where
  "enc_device_hello p = JObj (
     [(''name'', JStr (dh_name p)),
       (''device_type'', JStr (device_type_str (dh_device_type p))),
       (''protocol_version'', enc_word (dh_protocol_version p)),
       (''pubkey'', JStr (dh_pubkey p))] @
     opt_f ''port'' enc_word (dh_port p) @
     opt_f ''manufacturer'' JStr (dh_manufacturer p) @
     opt_f ''model'' JStr (dh_model p) @
     opt_f ''hardware_id'' JStr (dh_hardware_id p))"

definition dec_device_hello :: "json \<Rightarrow> device_hello option" where
  "dec_device_hello j = do {
     f \<leftarrow> struct_fields 8 j;
     x0 \<leftarrow> req dec_str (f 0 ''name'');
     x1 \<leftarrow> req (dec_enum device_type_tbl) (f 1 ''device_type'');
     x2 \<leftarrow> req dec_word (f 2 ''protocol_version'');
     x3 \<leftarrow> req dec_str (f 3 ''pubkey'');
     x4 \<leftarrow> opt dec_word (f 4 ''port'');
     x5 \<leftarrow> opt dec_str (f 5 ''manufacturer'');
     x6 \<leftarrow> opt dec_str (f 6 ''model'');
     x7 \<leftarrow> opt dec_str (f 7 ''hardware_id'');
     Some \<lparr>dh_name = x0, dh_device_type = x1, dh_protocol_version = x2, dh_pubkey = x3,
       dh_port = x4, dh_manufacturer = x5, dh_model = x6, dh_hardware_id = x7\<rparr>
   }"

lemma rt_device_hello [wire_simps]:
  "dec_device_hello (enc_device_hello p) = Some p"
  by (cases p) (simp add: enc_device_hello_def dec_device_hello_def wire_simps cong: option.case_cong)

record display_event =
  de_kind :: string
  de_device_id :: uuid
  de_envelope_id :: uuid
  de_timestamp :: int
  de_payload :: json
  de_summary :: json

definition enc_display_event :: "'e ext \<Rightarrow> display_event \<Rightarrow> json" where
  "enc_display_event X p = JObj (
     [(''kind'', JStr (de_kind p)),
       (''device_id'', enc_uuid X (de_device_id p)),
       (''envelope_id'', enc_uuid X (de_envelope_id p)),
       (''timestamp'', JInt (de_timestamp p)),
       (''payload'', de_payload p),
       (''summary'', de_summary p)])"

definition dec_display_event :: "'e ext \<Rightarrow> json \<Rightarrow> display_event option" where
  "dec_display_event X j = do {
     f \<leftarrow> struct_fields 6 j;
     x0 \<leftarrow> req dec_str (f 0 ''kind'');
     x1 \<leftarrow> req (dec_uuid X) (f 1 ''device_id'');
     x2 \<leftarrow> req (dec_uuid X) (f 2 ''envelope_id'');
     x3 \<leftarrow> req (dec_int i64_range) (f 3 ''timestamp'');
     x4 \<leftarrow> req dec_json (f 4 ''payload'');
     x5 \<leftarrow> dflt dec_json JNull (f 5 ''summary'');
     Some \<lparr>de_kind = x0, de_device_id = x1, de_envelope_id = x2, de_timestamp = x3,
       de_payload = x4, de_summary = x5\<rparr>
   }"

lemma rt_display_event [wire_simps]:
  "uuid_ok X \<Longrightarrow> i64_range (de_timestamp p) \<Longrightarrow> dec_display_event X (enc_display_event X p) = Some p"
  by (cases p) (simp add: enc_display_event_def dec_display_event_def wire_simps cong: option.case_cong)

record display_action =
  da_kind :: string
  da_envelope_id :: uuid
  da_device_id :: uuid
  da_to :: "string option"
  da_body :: "string option"
  da_call_id :: "string option"

definition enc_display_action :: "'e ext \<Rightarrow> display_action \<Rightarrow> json" where
  "enc_display_action X p = JObj (
     [(''kind'', JStr (da_kind p)),
       (''envelope_id'', enc_uuid X (da_envelope_id p)),
       (''device_id'', enc_uuid X (da_device_id p))] @
     opt_f ''to'' JStr (da_to p) @
     opt_f ''body'' JStr (da_body p) @
     opt_f ''call_id'' JStr (da_call_id p))"

definition dec_display_action :: "'e ext \<Rightarrow> json \<Rightarrow> display_action option" where
  "dec_display_action X j = do {
     f \<leftarrow> struct_fields 6 j;
     x0 \<leftarrow> req dec_str (f 0 ''kind'');
     x1 \<leftarrow> req (dec_uuid X) (f 1 ''envelope_id'');
     x2 \<leftarrow> req (dec_uuid X) (f 2 ''device_id'');
     x3 \<leftarrow> opt dec_str (f 3 ''to'');
     x4 \<leftarrow> opt dec_str (f 4 ''body'');
     x5 \<leftarrow> opt dec_str (f 5 ''call_id'');
     Some \<lparr>da_kind = x0, da_envelope_id = x1, da_device_id = x2, da_to = x3, da_body = x4,
       da_call_id = x5\<rparr>
   }"

lemma rt_display_action [wire_simps]:
  "uuid_ok X \<Longrightarrow> dec_display_action X (enc_display_action X p) = Some p"
  by (cases p) (simp add: enc_display_action_def dec_display_action_def wire_simps cong: option.case_cong)

record action_result_event =
  ar_kind :: string
  ar_request_envelope_id :: uuid
  ar_device_id :: uuid
  ar_action_kind :: string
  ar_ok :: bool
  ar_message :: "string option"
  ar_timestamp :: int

definition enc_action_result_event :: "'e ext \<Rightarrow> action_result_event \<Rightarrow> json" where
  "enc_action_result_event X p = JObj (
     [(''kind'', JStr (ar_kind p)),
       (''request_envelope_id'', enc_uuid X (ar_request_envelope_id p)),
       (''device_id'', enc_uuid X (ar_device_id p)),
       (''action_kind'', JStr (ar_action_kind p)),
       (''ok'', JBool (ar_ok p))] @
     opt_f ''message'' JStr (ar_message p) @
     [(''timestamp'', JInt (ar_timestamp p))])"

definition dec_action_result_event :: "'e ext \<Rightarrow> json \<Rightarrow> action_result_event option" where
  "dec_action_result_event X j = do {
     f \<leftarrow> struct_fields 7 j;
     x0 \<leftarrow> req dec_str (f 0 ''kind'');
     x1 \<leftarrow> req (dec_uuid X) (f 1 ''request_envelope_id'');
     x2 \<leftarrow> req (dec_uuid X) (f 2 ''device_id'');
     x3 \<leftarrow> req dec_str (f 3 ''action_kind'');
     x4 \<leftarrow> req dec_bool (f 4 ''ok'');
     x5 \<leftarrow> opt dec_str (f 5 ''message'');
     x6 \<leftarrow> req (dec_int i64_range) (f 6 ''timestamp'');
     Some \<lparr>ar_kind = x0, ar_request_envelope_id = x1, ar_device_id = x2, ar_action_kind =
       x3, ar_ok = x4, ar_message = x5, ar_timestamp = x6\<rparr>
   }"

lemma rt_action_result_event [wire_simps]:
  "uuid_ok X \<Longrightarrow> i64_range (ar_timestamp p) \<Longrightarrow> dec_action_result_event X (enc_action_result_event X p) = Some p"
  by (cases p) (simp add: enc_action_result_event_def dec_action_result_event_def wire_simps cong: option.case_cong)

record device_heartbeat =
  hb_rtt_ms :: "u32 option"

definition enc_device_heartbeat :: "device_heartbeat \<Rightarrow> json" where
  "enc_device_heartbeat p = JObj (
     opt_f ''rtt_ms'' enc_word (hb_rtt_ms p))"

definition dec_device_heartbeat :: "json \<Rightarrow> device_heartbeat option" where
  "dec_device_heartbeat j = do {
     f \<leftarrow> struct_fields 1 j;
     x0 \<leftarrow> opt dec_word (f 0 ''rtt_ms'');
     Some \<lparr>hb_rtt_ms = x0\<rparr>
   }"

lemma rt_device_heartbeat [wire_simps]:
  "dec_device_heartbeat (enc_device_heartbeat p) = Some p"
  by (cases p) (simp add: enc_device_heartbeat_def dec_device_heartbeat_def wire_simps cong: option.case_cong)

record device_info_update =
  iu_battery_level :: "u8 option"
  iu_is_charging :: "bool option"
  iu_network_type :: "network_type option"
  iu_android_version :: "string option"
  iu_app_version :: "string option"

definition enc_device_info_update :: "device_info_update \<Rightarrow> json" where
  "enc_device_info_update p = JObj (
     opt_f ''battery_level'' enc_word (iu_battery_level p) @
     opt_f ''is_charging'' JBool (iu_is_charging p) @
     opt_f ''network_type'' (\<lambda>d. JStr (network_type_str d)) (iu_network_type p) @
     opt_f ''android_version'' JStr (iu_android_version p) @
     opt_f ''app_version'' JStr (iu_app_version p))"

definition dec_device_info_update :: "json \<Rightarrow> device_info_update option" where
  "dec_device_info_update j = do {
     f \<leftarrow> struct_fields 5 j;
     x0 \<leftarrow> opt dec_word (f 0 ''battery_level'');
     x1 \<leftarrow> opt dec_bool (f 1 ''is_charging'');
     x2 \<leftarrow> opt (dec_enum network_type_tbl) (f 2 ''network_type'');
     x3 \<leftarrow> opt dec_str (f 3 ''android_version'');
     x4 \<leftarrow> opt dec_str (f 4 ''app_version'');
     Some \<lparr>iu_battery_level = x0, iu_is_charging = x1, iu_network_type = x2,
       iu_android_version = x3, iu_app_version = x4\<rparr>
   }"

lemma rt_device_info_update [wire_simps]:
  "dec_device_info_update (enc_device_info_update p) = Some p"
  by (cases p) (simp add: enc_device_info_update_def dec_device_info_update_def wire_simps cong: option.case_cong)

record pair_request =
  pq_ephemeral_pubkey :: string

definition enc_pair_request :: "pair_request \<Rightarrow> json" where
  "enc_pair_request p = JObj (
     [(''ephemeral_pubkey'', JStr (pq_ephemeral_pubkey p))])"

definition dec_pair_request :: "json \<Rightarrow> pair_request option" where
  "dec_pair_request j = do {
     f \<leftarrow> struct_fields 1 j;
     x0 \<leftarrow> req dec_str (f 0 ''ephemeral_pubkey'');
     Some \<lparr>pq_ephemeral_pubkey = x0\<rparr>
   }"

lemma rt_pair_request [wire_simps]:
  "dec_pair_request (enc_pair_request p) = Some p"
  by (cases p) (simp add: enc_pair_request_def dec_pair_request_def wire_simps cong: option.case_cong)

record pair_challenge =
  pch_ephemeral_pubkey :: string
  pch_code :: string
  pch_expires_at :: int

definition enc_pair_challenge :: "pair_challenge \<Rightarrow> json" where
  "enc_pair_challenge p = JObj (
     [(''ephemeral_pubkey'', JStr (pch_ephemeral_pubkey p)),
       (''code'', JStr (pch_code p)),
       (''expires_at'', JInt (pch_expires_at p))])"

definition dec_pair_challenge :: "json \<Rightarrow> pair_challenge option" where
  "dec_pair_challenge j = do {
     f \<leftarrow> struct_fields 3 j;
     x0 \<leftarrow> req dec_str (f 0 ''ephemeral_pubkey'');
     x1 \<leftarrow> req dec_str (f 1 ''code'');
     x2 \<leftarrow> req (dec_int i64_range) (f 2 ''expires_at'');
     Some \<lparr>pch_ephemeral_pubkey = x0, pch_code = x1, pch_expires_at = x2\<rparr>
   }"

lemma rt_pair_challenge [wire_simps]:
  "i64_range (pch_expires_at p) \<Longrightarrow> dec_pair_challenge (enc_pair_challenge p) = Some p"
  by (cases p) (simp add: enc_pair_challenge_def dec_pair_challenge_def wire_simps cong: option.case_cong)

record pair_confirm =
  pcf_accepted :: bool

definition enc_pair_confirm :: "pair_confirm \<Rightarrow> json" where
  "enc_pair_confirm p = JObj (
     [(''accepted'', JBool (pcf_accepted p))])"

definition dec_pair_confirm :: "json \<Rightarrow> pair_confirm option" where
  "dec_pair_confirm j = do {
     f \<leftarrow> struct_fields 1 j;
     x0 \<leftarrow> req dec_bool (f 0 ''accepted'');
     Some \<lparr>pcf_accepted = x0\<rparr>
   }"

lemma rt_pair_confirm [wire_simps]:
  "dec_pair_confirm (enc_pair_confirm p) = Some p"
  by (cases p) (simp add: enc_pair_confirm_def dec_pair_confirm_def wire_simps cong: option.case_cong)

datatype pair_accept = Mk_pair_accept

definition enc_pair_accept :: "pair_accept \<Rightarrow> json" where
  "enc_pair_accept p = JObj []"

definition dec_pair_accept :: "json \<Rightarrow> pair_accept option" where
  "dec_pair_accept j = map_option (\<lambda>_. Mk_pair_accept) (struct_fields 0 j)"

lemma rt_pair_accept [wire_simps]: "dec_pair_accept (enc_pair_accept p) = Some p"
  by (cases p) (simp add: enc_pair_accept_def dec_pair_accept_def)

record pair_reject =
  pr_reason :: "string option"

definition enc_pair_reject :: "pair_reject \<Rightarrow> json" where
  "enc_pair_reject p = JObj (
     opt_f ''reason'' JStr (pr_reason p))"

definition dec_pair_reject :: "json \<Rightarrow> pair_reject option" where
  "dec_pair_reject j = do {
     f \<leftarrow> struct_fields 1 j;
     x0 \<leftarrow> opt dec_str (f 0 ''reason'');
     Some \<lparr>pr_reason = x0\<rparr>
   }"

lemma rt_pair_reject [wire_simps]:
  "dec_pair_reject (enc_pair_reject p) = Some p"
  by (cases p) (simp add: enc_pair_reject_def dec_pair_reject_def wire_simps cong: option.case_cong)

record pair_complete =
  pcp_cert_pem :: string
  pcp_cert_fingerprint :: string

definition enc_pair_complete :: "pair_complete \<Rightarrow> json" where
  "enc_pair_complete p = JObj (
     [(''cert_pem'', JStr (pcp_cert_pem p)),
       (''cert_fingerprint'', JStr (pcp_cert_fingerprint p))])"

definition dec_pair_complete :: "json \<Rightarrow> pair_complete option" where
  "dec_pair_complete j = do {
     f \<leftarrow> struct_fields 2 j;
     x0 \<leftarrow> req dec_str (f 0 ''cert_pem'');
     x1 \<leftarrow> req dec_str (f 1 ''cert_fingerprint'');
     Some \<lparr>pcp_cert_pem = x0, pcp_cert_fingerprint = x1\<rparr>
   }"

lemma rt_pair_complete [wire_simps]:
  "dec_pair_complete (enc_pair_complete p) = Some p"
  by (cases p) (simp add: enc_pair_complete_def dec_pair_complete_def wire_simps cong: option.case_cong)

record unpair =
  up_reason :: "string option"

definition enc_unpair :: "unpair \<Rightarrow> json" where
  "enc_unpair p = JObj (
     opt_f ''reason'' JStr (up_reason p))"

definition dec_unpair :: "json \<Rightarrow> unpair option" where
  "dec_unpair j = do {
     f \<leftarrow> struct_fields 1 j;
     x0 \<leftarrow> opt dec_str (f 0 ''reason'');
     Some \<lparr>up_reason = x0\<rparr>
   }"

lemma rt_unpair [wire_simps]:
  "dec_unpair (enc_unpair p) = Some p"
  by (cases p) (simp add: enc_unpair_def dec_unpair_def wire_simps cong: option.case_cong)

record notification_received =
  nr_id :: string
  nr_package :: string
  nr_app_name :: "string option"
  nr_title :: string
  nr_content :: string
  nr_posted_at :: int
  nr_is_sensitive :: bool
  nr_category :: "string option"

definition enc_notification_received :: "notification_received \<Rightarrow> json" where
  "enc_notification_received p = JObj (
     [(''id'', JStr (nr_id p)),
       (''package'', JStr (nr_package p))] @
     opt_f ''app_name'' JStr (nr_app_name p) @
     [(''title'', JStr (nr_title p)),
       (''content'', JStr (nr_content p)),
       (''posted_at'', JInt (nr_posted_at p)),
       (''is_sensitive'', JBool (nr_is_sensitive p))] @
     opt_f ''category'' JStr (nr_category p))"

definition dec_notification_received :: "json \<Rightarrow> notification_received option" where
  "dec_notification_received j = do {
     f \<leftarrow> struct_fields 8 j;
     x0 \<leftarrow> req dec_str (f 0 ''id'');
     x1 \<leftarrow> req dec_str (f 1 ''package'');
     x2 \<leftarrow> opt dec_str (f 2 ''app_name'');
     x3 \<leftarrow> req dec_str (f 3 ''title'');
     x4 \<leftarrow> req dec_str (f 4 ''content'');
     x5 \<leftarrow> req (dec_int i64_range) (f 5 ''posted_at'');
     x6 \<leftarrow> dflt dec_bool False (f 6 ''is_sensitive'');
     x7 \<leftarrow> opt dec_str (f 7 ''category'');
     Some \<lparr>nr_id = x0, nr_package = x1, nr_app_name = x2, nr_title = x3, nr_content = x4,
       nr_posted_at = x5, nr_is_sensitive = x6, nr_category = x7\<rparr>
   }"

lemma rt_notification_received [wire_simps]:
  "i64_range (nr_posted_at p) \<Longrightarrow> dec_notification_received (enc_notification_received p) = Some p"
  by (cases p) (simp add: enc_notification_received_def dec_notification_received_def wire_simps cong: option.case_cong)

record notification_dismissed =
  nd_id :: string

definition enc_notification_dismissed :: "notification_dismissed \<Rightarrow> json" where
  "enc_notification_dismissed p = JObj (
     [(''id'', JStr (nd_id p))])"

definition dec_notification_dismissed :: "json \<Rightarrow> notification_dismissed option" where
  "dec_notification_dismissed j = do {
     f \<leftarrow> struct_fields 1 j;
     x0 \<leftarrow> req dec_str (f 0 ''id'');
     Some \<lparr>nd_id = x0\<rparr>
   }"

lemma rt_notification_dismissed [wire_simps]:
  "dec_notification_dismissed (enc_notification_dismissed p) = Some p"
  by (cases p) (simp add: enc_notification_dismissed_def dec_notification_dismissed_def wire_simps cong: option.case_cong)

record sms_received =
  sr_id :: string
  sr_address :: string
  sr_body :: string
  sr_received_at :: int
  sr_sim_slot :: "u8 option"
  sr_subscription_id :: "int option"

definition enc_sms_received :: "sms_received \<Rightarrow> json" where
  "enc_sms_received p = JObj (
     [(''id'', JStr (sr_id p)),
       (''address'', JStr (sr_address p)),
       (''body'', JStr (sr_body p)),
       (''received_at'', JInt (sr_received_at p))] @
     opt_f ''sim_slot'' enc_word (sr_sim_slot p) @
     opt_f ''subscription_id'' JInt (sr_subscription_id p))"

definition dec_sms_received :: "json \<Rightarrow> sms_received option" where
  "dec_sms_received j = do {
     f \<leftarrow> struct_fields 6 j;
     x0 \<leftarrow> req dec_str (f 0 ''id'');
     x1 \<leftarrow> req dec_str (f 1 ''address'');
     x2 \<leftarrow> req dec_str (f 2 ''body'');
     x3 \<leftarrow> req (dec_int i64_range) (f 3 ''received_at'');
     x4 \<leftarrow> opt dec_word (f 4 ''sim_slot'');
     x5 \<leftarrow> opt (dec_int i32_range) (f 5 ''subscription_id'');
     Some \<lparr>sr_id = x0, sr_address = x1, sr_body = x2, sr_received_at = x3, sr_sim_slot =
       x4, sr_subscription_id = x5\<rparr>
   }"

definition sms_received_wf :: "sms_received \<Rightarrow> bool" where
  "sms_received_wf p \<longleftrightarrow> i64_range (sr_received_at p) \<and> pred_option i32_range (sr_subscription_id p)"

lemma rt_sms_received [wire_simps]:
  "sms_received_wf p \<Longrightarrow> dec_sms_received (enc_sms_received p) = Some p"
  by (cases p) (simp add: enc_sms_received_def dec_sms_received_def wire_simps sms_received_wf_def cong: option.case_cong)

record sms_send_request =
  sq_to :: string
  sq_body :: string
  sq_subscription_id :: "int option"

definition enc_sms_send_request :: "sms_send_request \<Rightarrow> json" where
  "enc_sms_send_request p = JObj (
     [(''to'', JStr (sq_to p)),
       (''body'', JStr (sq_body p))] @
     opt_f ''subscription_id'' JInt (sq_subscription_id p))"

definition dec_sms_send_request :: "json \<Rightarrow> sms_send_request option" where
  "dec_sms_send_request j = do {
     f \<leftarrow> struct_fields 3 j;
     x0 \<leftarrow> req dec_str (f 0 ''to'');
     x1 \<leftarrow> req dec_str (f 1 ''body'');
     x2 \<leftarrow> opt (dec_int i32_range) (f 2 ''subscription_id'');
     Some \<lparr>sq_to = x0, sq_body = x1, sq_subscription_id = x2\<rparr>
   }"

lemma rt_sms_send_request [wire_simps]:
  "pred_option i32_range (sq_subscription_id p) \<Longrightarrow> dec_sms_send_request (enc_sms_send_request p) = Some p"
  by (cases p) (simp add: enc_sms_send_request_def dec_sms_send_request_def wire_simps cong: option.case_cong)

record sms_send_result =
  ss_request_id :: uuid
  ss_ok :: bool
  ss_error_code :: "string option"
  ss_error_message :: "string option"

definition enc_sms_send_result :: "'e ext \<Rightarrow> sms_send_result \<Rightarrow> json" where
  "enc_sms_send_result X p = JObj (
     [(''request_id'', enc_uuid X (ss_request_id p)),
       (''ok'', JBool (ss_ok p))] @
     opt_f ''error_code'' JStr (ss_error_code p) @
     opt_f ''error_message'' JStr (ss_error_message p))"

definition dec_sms_send_result :: "'e ext \<Rightarrow> json \<Rightarrow> sms_send_result option" where
  "dec_sms_send_result X j = do {
     f \<leftarrow> struct_fields 4 j;
     x0 \<leftarrow> req (dec_uuid X) (f 0 ''request_id'');
     x1 \<leftarrow> req dec_bool (f 1 ''ok'');
     x2 \<leftarrow> opt dec_str (f 2 ''error_code'');
     x3 \<leftarrow> opt dec_str (f 3 ''error_message'');
     Some \<lparr>ss_request_id = x0, ss_ok = x1, ss_error_code = x2, ss_error_message = x3\<rparr>
   }"

lemma rt_sms_send_result [wire_simps]:
  "uuid_ok X \<Longrightarrow> dec_sms_send_result X (enc_sms_send_result X p) = Some p"
  by (cases p) (simp add: enc_sms_send_result_def dec_sms_send_result_def wire_simps cong: option.case_cong)

record sms_list_request =
  lq_limit :: "u32 option"
  lq_before :: "int option"

definition enc_sms_list_request :: "sms_list_request \<Rightarrow> json" where
  "enc_sms_list_request p = JObj (
     opt_f ''limit'' enc_word (lq_limit p) @
     opt_f ''before'' JInt (lq_before p))"

definition dec_sms_list_request :: "json \<Rightarrow> sms_list_request option" where
  "dec_sms_list_request j = do {
     f \<leftarrow> struct_fields 2 j;
     x0 \<leftarrow> opt dec_word (f 0 ''limit'');
     x1 \<leftarrow> opt (dec_int i64_range) (f 1 ''before'');
     Some \<lparr>lq_limit = x0, lq_before = x1\<rparr>
   }"

lemma rt_sms_list_request [wire_simps]:
  "pred_option i64_range (lq_before p) \<Longrightarrow> dec_sms_list_request (enc_sms_list_request p) = Some p"
  by (cases p) (simp add: enc_sms_list_request_def dec_sms_list_request_def wire_simps cong: option.case_cong)

record sms_list_result =
  lr_messages :: "sms_received list"

definition enc_sms_list_result :: "sms_list_result \<Rightarrow> json" where
  "enc_sms_list_result p = JObj (
     [(''messages'', enc_list enc_sms_received (lr_messages p))])"

definition dec_sms_list_result :: "json \<Rightarrow> sms_list_result option" where
  "dec_sms_list_result j = do {
     f \<leftarrow> struct_fields 1 j;
     x0 \<leftarrow> req (dec_list dec_sms_received) (f 0 ''messages'');
     Some \<lparr>lr_messages = x0\<rparr>
   }"

lemma rt_sms_list_result [wire_simps]:
  "(\<And>m. m \<in> set (lr_messages p) \<Longrightarrow> sms_received_wf m) \<Longrightarrow>
   dec_sms_list_result (enc_sms_list_result p) = Some p"
  by (cases p) (simp add: enc_sms_list_result_def dec_sms_list_result_def wire_simps cong: option.case_cong)

record call_state =
  cs_state :: call_state_kind
  cs_phone_number :: "string option"
  cs_call_id :: "string option"
  cs_contact_name :: "string option"
  cs_sim_slot :: "u8 option"

definition enc_call_state :: "call_state \<Rightarrow> json" where
  "enc_call_state p = JObj (
     [(''state'', JStr (call_state_str (cs_state p)))] @
     opt_f ''phone_number'' JStr (cs_phone_number p) @
     opt_f ''call_id'' JStr (cs_call_id p) @
     opt_f ''contact_name'' JStr (cs_contact_name p) @
     opt_f ''sim_slot'' enc_word (cs_sim_slot p))"

definition dec_call_state :: "json \<Rightarrow> call_state option" where
  "dec_call_state j = do {
     f \<leftarrow> struct_fields 5 j;
     x0 \<leftarrow> req (dec_enum call_state_tbl) (f 0 ''state'');
     x1 \<leftarrow> opt dec_str (f 1 ''phone_number'');
     x2 \<leftarrow> opt dec_str (f 2 ''call_id'');
     x3 \<leftarrow> opt dec_str (f 3 ''contact_name'');
     x4 \<leftarrow> opt dec_word (f 4 ''sim_slot'');
     Some \<lparr>cs_state = x0, cs_phone_number = x1, cs_call_id = x2, cs_contact_name = x3,
       cs_sim_slot = x4\<rparr>
   }"

lemma rt_call_state [wire_simps]:
  "dec_call_state (enc_call_state p) = Some p"
  by (cases p) (simp add: enc_call_state_def dec_call_state_def wire_simps cong: option.case_cong)

record call_incoming =
  ci_phone_number :: string
  ci_contact_name :: "string option"
  ci_sim_slot :: "u8 option"

definition enc_call_incoming :: "call_incoming \<Rightarrow> json" where
  "enc_call_incoming p = JObj (
     [(''phone_number'', JStr (ci_phone_number p))] @
     opt_f ''contact_name'' JStr (ci_contact_name p) @
     opt_f ''sim_slot'' enc_word (ci_sim_slot p))"

definition dec_call_incoming :: "json \<Rightarrow> call_incoming option" where
  "dec_call_incoming j = do {
     f \<leftarrow> struct_fields 3 j;
     x0 \<leftarrow> req dec_str (f 0 ''phone_number'');
     x1 \<leftarrow> opt dec_str (f 1 ''contact_name'');
     x2 \<leftarrow> opt dec_word (f 2 ''sim_slot'');
     Some \<lparr>ci_phone_number = x0, ci_contact_name = x1, ci_sim_slot = x2\<rparr>
   }"

lemma rt_call_incoming [wire_simps]:
  "dec_call_incoming (enc_call_incoming p) = Some p"
  by (cases p) (simp add: enc_call_incoming_def dec_call_incoming_def wire_simps cong: option.case_cong)

datatype call_answer_request = Mk_call_answer_request

definition enc_call_answer_request :: "call_answer_request \<Rightarrow> json" where
  "enc_call_answer_request p = JObj []"

definition dec_call_answer_request :: "json \<Rightarrow> call_answer_request option" where
  "dec_call_answer_request j = map_option (\<lambda>_. Mk_call_answer_request) (struct_fields 0 j)"

lemma rt_call_answer_request [wire_simps]: "dec_call_answer_request (enc_call_answer_request p) = Some p"
  by (cases p) (simp add: enc_call_answer_request_def dec_call_answer_request_def)

datatype call_end_request = Mk_call_end_request

definition enc_call_end_request :: "call_end_request \<Rightarrow> json" where
  "enc_call_end_request p = JObj []"

definition dec_call_end_request :: "json \<Rightarrow> call_end_request option" where
  "dec_call_end_request j = map_option (\<lambda>_. Mk_call_end_request) (struct_fields 0 j)"

lemma rt_call_end_request [wire_simps]: "dec_call_end_request (enc_call_end_request p) = Some p"
  by (cases p) (simp add: enc_call_end_request_def dec_call_end_request_def)

record call_dial_request =
  cdq_number :: string

definition enc_call_dial_request :: "call_dial_request \<Rightarrow> json" where
  "enc_call_dial_request p = JObj (
     [(''number'', JStr (cdq_number p))])"

definition dec_call_dial_request :: "json \<Rightarrow> call_dial_request option" where
  "dec_call_dial_request j = do {
     f \<leftarrow> struct_fields 1 j;
     x0 \<leftarrow> req dec_str (f 0 ''number'');
     Some \<lparr>cdq_number = x0\<rparr>
   }"

lemma rt_call_dial_request [wire_simps]:
  "dec_call_dial_request (enc_call_dial_request p) = Some p"
  by (cases p) (simp add: enc_call_dial_request_def dec_call_dial_request_def wire_simps cong: option.case_cong)

record call_history_entry =
  che_phone_number :: string
  che_contact_name :: "string option"
  che_started_at :: int
  che_duration_seconds :: "u32 option"
  che_direction :: call_direction
  che_sim_slot :: "u8 option"

definition enc_call_history_entry :: "call_history_entry \<Rightarrow> json" where
  "enc_call_history_entry p = JObj (
     [(''phone_number'', JStr (che_phone_number p))] @
     opt_f ''contact_name'' JStr (che_contact_name p) @
     [(''started_at'', JInt (che_started_at p))] @
     opt_f ''duration_seconds'' enc_word (che_duration_seconds p) @
     [(''direction'', JStr (call_direction_str (che_direction p)))] @
     opt_f ''sim_slot'' enc_word (che_sim_slot p))"

definition dec_call_history_entry :: "json \<Rightarrow> call_history_entry option" where
  "dec_call_history_entry j = do {
     f \<leftarrow> struct_fields 6 j;
     x0 \<leftarrow> req dec_str (f 0 ''phone_number'');
     x1 \<leftarrow> opt dec_str (f 1 ''contact_name'');
     x2 \<leftarrow> req (dec_int i64_range) (f 2 ''started_at'');
     x3 \<leftarrow> opt dec_word (f 3 ''duration_seconds'');
     x4 \<leftarrow> req (dec_enum call_direction_tbl) (f 4 ''direction'');
     x5 \<leftarrow> opt dec_word (f 5 ''sim_slot'');
     Some \<lparr>che_phone_number = x0, che_contact_name = x1, che_started_at = x2,
       che_duration_seconds = x3, che_direction = x4, che_sim_slot = x5\<rparr>
   }"

lemma rt_call_history_entry [wire_simps]:
  "i64_range (che_started_at p) \<Longrightarrow> dec_call_history_entry (enc_call_history_entry p) = Some p"
  by (cases p) (simp add: enc_call_history_entry_def dec_call_history_entry_def wire_simps cong: option.case_cong)

record call_history =
  ch_entries :: "call_history_entry list"

definition enc_call_history :: "call_history \<Rightarrow> json" where
  "enc_call_history p = JObj (
     [(''entries'', enc_list enc_call_history_entry (ch_entries p))])"

definition dec_call_history :: "json \<Rightarrow> call_history option" where
  "dec_call_history j = do {
     f \<leftarrow> struct_fields 1 j;
     x0 \<leftarrow> req (dec_list dec_call_history_entry) (f 0 ''entries'');
     Some \<lparr>ch_entries = x0\<rparr>
   }"

lemma rt_call_history [wire_simps]:
  "(\<And>m. m \<in> set (ch_entries p) \<Longrightarrow> i64_range (che_started_at m)) \<Longrightarrow>
   dec_call_history (enc_call_history p) = Some p"
  by (cases p) (simp add: enc_call_history_def dec_call_history_def wire_simps cong: option.case_cong)

end
