(* ===== verification/Demo.thy ===== *)
theory Demo
  imports Crypto Wire
begin

text \<open>
  One concrete instance of the parameters, used by the witnesses only: identifiers as strings
  of their length, an invertible stand-in for base64, constant digests and keys of the right
  lengths, channels of capacity 32 (the capacity the connection handlers create).
\<close>

definition demo_ext :: "envelope ext" where
  "demo_ext = \<lparr>
     uuid_str = (\<lambda>u. replicate (unat u) (CHR ''u'')),
     uuid_parse = (\<lambda>s. Some (of_nat (length s))),
     b64_enc = map (\<lambda>b. char_of (unat b)),
     b64_dec = (\<lambda>s. Some (map (\<lambda>c. of_nat (of_char c)) s)),
     sha256 = (\<lambda>_. replicate 32 171),
     hkdf4 = (\<lambda>_ _ _. [0, 0, 4, 210]),
     ec_public = (\<lambda>k. Some (4 # replicate 64 (of_nat k))),
     ec_agree = (\<lambda>_ _. Some (replicate 32 7)),
     rcgen_cert = (\<lambda>_ _. Inr (''-----BEGIN CERTIFICATE-----'', ''key'', [1])),
     serde_error = (\<lambda>_. ''serde''),
     chrono_ok = (\<lambda>_. True),
     json_parse = (\<lambda>_. None),
     chan_accepts = (\<lambda>h c. length (filter (\<lambda>p. fst p = c) h) < 32),
     chan_open = (\<lambda>_ _. True)\<rparr>"

definition demo_tick :: "int \<Rightarrow> tick" where
  "demo_tick now = \<lparr>t_ms = (\<lambda>_. now), t_secs = (\<lambda>_. now), t_uuid = (\<lambda>n. of_nat (100 + n)),
     t_key = (\<lambda>_. Some 9), t_seed = (\<lambda>_. 0)\<rparr>"

lemma demo_uuid_ok [simp]: "uuid_ok demo_ext"
  by (simp add: uuid_ok_def demo_ext_def)

lemma demo_b64_ok [simp]: "b64_ok demo_ext"
proof -
  have "of_char (char_of (unat b) :: char) = unat (b :: u8)" for b
    using unat_u8 [of b] by simp
  then show ?thesis
    by (simp add: b64_ok_def demo_ext_def comp_def)
qed

lemma demo_sha256_length [simp]: "length (sha256 demo_ext d) = SHA256_LEN"
  by (simp add: demo_ext_def SHA256_LEN_def)

end
