(* ===== verification/Pairing.thy ===== *)
theory Pairing
  imports Demo
begin

text \<open>
  The pairing state machine, both sides (phonebridge-net/src/pairing.rs): the initiator that
  the message-center drives, and the responder. Each method is one definition; a method on
  \<open>&mut self\<close> returns the new state with its result, and no method changes its state
  on an error path. The end of the theory is the responder as a step relation with its
  invariant.
\<close>

section \<open>Errors\<close>

datatype pairing_error =
    BadState string message_type
  | PEcdh ecdh_error
  | BadCode string
  | BadCert string
  | Expired int int
  | PSerde string
  | PCert cert_error

text \<open>The texts of the errors (\<open>Display\<close>), with the variant names \<open>{:?}\<close> prints.\<close>

fun mt_debug :: "message_type \<Rightarrow> string" where
  "mt_debug MtDeviceHello = ''DeviceHello''"
| "mt_debug MtDeviceHeartbeat = ''DeviceHeartbeat''"
| "mt_debug MtDeviceInfoUpdate = ''DeviceInfoUpdate''"
| "mt_debug MtDevicePairRequest = ''DevicePairRequest''"
| "mt_debug MtDevicePairChallenge = ''DevicePairChallenge''"
| "mt_debug MtDevicePairConfirm = ''DevicePairConfirm''"
| "mt_debug MtDevicePairAccept = ''DevicePairAccept''"
| "mt_debug MtDevicePairReject = ''DevicePairReject''"
| "mt_debug MtDevicePairComplete = ''DevicePairComplete''"
| "mt_debug MtDeviceUnpair = ''DeviceUnpair''"
| "mt_debug MtNotificationReceived = ''NotificationReceived''"
| "mt_debug MtNotificationDismissed = ''NotificationDismissed''"
| "mt_debug MtSmsReceived = ''SmsReceived''"
| "mt_debug MtSmsSendRequest = ''SmsSendRequest''"
| "mt_debug MtSmsSendResult = ''SmsSendResult''"
| "mt_debug MtSmsListRequest = ''SmsListRequest''"
| "mt_debug MtSmsListResult = ''SmsListResult''"
| "mt_debug MtCallState = ''CallState''"
| "mt_debug MtCallIncoming = ''CallIncoming''"
| "mt_debug MtCallAnswerRequest = ''CallAnswerRequest''"
| "mt_debug MtCallEndRequest = ''CallEndRequest''"
| "mt_debug MtCallDialRequest = ''CallDialRequest''"
| "mt_debug MtCallHistory = ''CallHistory''"

fun fingerprint_error_str :: "fingerprint_error \<Rightarrow> string" where
  "fingerprint_error_str (PairCount n) =
     ''fingerprint must have '' @ nat_dec SHA256_LEN @ '' pairs, got '' @ nat_dec n"
| "fingerprint_error_str (PairLength i n) =
     ''pair '' @ nat_dec i @ '' has length '' @ nat_dec n @ '', expected 2''"
| "fingerprint_error_str (PairHex i) = ''pair '' @ nat_dec i @ '' is not valid hex''"

fun ecdh_error_str :: "ecdh_error \<Rightarrow> string" where
  "ecdh_error_str EKeygen = ''ECDH keygen failed''"
| "ecdh_error_str EPublicKey = ''could not extract public key''"
| "ecdh_error_str (EPublicKeyLength n) = ''public key has wrong length: '' @ nat_dec n"
| "ecdh_error_str EPublicKeyFormat = ''public key must be uncompressed (leading 0x04)''"
| "ecdh_error_str (ESharedSecretLength n) = ''shared secret has wrong length: '' @ nat_dec n"
| "ecdh_error_str EAgreement = ''ECDH agreement failed''"
| "ecdh_error_str EBase64 = ''base64 decode failed''"

fun cert_error_str :: "cert_error \<Rightarrow> string" where
  "cert_error_str (CertGenerate m) = ''cert generation failed: '' @ m"

fun pairing_error_str :: "pairing_error \<Rightarrow> string" where
  "pairing_error_str (BadState ex got) =
     ''invalid state transition: expected '' @ ex @ '', got '' @ mt_debug got"
| "pairing_error_str (PEcdh e) = ''ECDH error: '' @ ecdh_error_str e"
| "pairing_error_str (BadCode c) = ''malformed pairing code: '' @ c"
| "pairing_error_str (BadCert m) = ''malformed cert: '' @ m"
| "pairing_error_str (Expired now ex) =
     ''pairing code expired (now='' @ int_dec now @ '', expires='' @ int_dec ex @ '')''"
| "pairing_error_str (PSerde m) = ''serialize error: '' @ m"
| "pairing_error_str (PCert e) = ''cert generation failed: '' @ cert_error_str e"

text \<open>\<open>env.parse_payload()?\<close>, with serde's text on failure.\<close>

definition parse_payload :: "'e ext \<Rightarrow> (json \<Rightarrow> 'a option) \<Rightarrow> envelope \<Rightarrow> pairing_error + 'a" where
  "parse_payload X d e =
     (case d (env_payload e) of
        None \<Rightarrow> Inl (PSerde (serde_error X (env_payload e)))
      | Some p \<Rightarrow> Inr p)"

section \<open>Outcome\<close>

record pairing_outcome =
  po_peer_device_id :: uuid
  po_peer_fingerprint :: string
  po_peer_cert_pem :: string

text \<open>The checks both sides make on the peer's \<open>device.pair.complete\<close>.\<close>

definition accept_complete :: "'e ext \<Rightarrow> uuid \<Rightarrow> envelope \<Rightarrow> pairing_error + pairing_outcome" where
  "accept_complete X peer e =
     (if env_type e \<noteq> MtDevicePairComplete
      then Inl (BadState ''device.pair.complete'' (env_type e))
      else (case parse_payload X dec_pair_complete e of
              Inl er \<Rightarrow> Inl er
            | Inr c \<Rightarrow>
               (case parse_fingerprint (pcp_cert_fingerprint c) of
                  Inl er \<Rightarrow> Inl (BadCert (fingerprint_error_str er))
                | Inr _ \<Rightarrow>
                   if \<not> contains (pcp_cert_pem c) ''BEGIN CERTIFICATE''
                   then Inl (BadCert ''missing BEGIN CERTIFICATE'')
                   else Inr \<lparr>po_peer_device_id = peer,
                             po_peer_fingerprint = pcp_cert_fingerprint c,
                             po_peer_cert_pem = pcp_cert_pem c\<rparr>)))"

section \<open>Initiator\<close>

record initiator =
  in_identity :: identity
  in_peer_device_id :: uuid
  in_peer_name :: string
  in_ephemeral :: "ephemeral_key_pair option"
  in_peer_ephemeral_pub :: "public_key option"
  in_challenge_code :: "string option"

definition initiator_start :: "'e ext \<Rightarrow> tick \<Rightarrow> uuid \<Rightarrow> string \<Rightarrow> pairing_error + initiator" where
  "initiator_start X t peer name =
     (case generate_self_signed X ''phonebridge-test-peer'' (t_seed t 0) of
        Inl e \<Rightarrow> Inl (PCert e)
      | Inr ident \<Rightarrow>
         (case keypair_generate X (t_key t 0) of
            Inl e \<Rightarrow> Inl (PEcdh e)
          | Inr kp \<Rightarrow>
             Inr \<lparr>in_identity = ident, in_peer_device_id = peer, in_peer_name = name,
                  in_ephemeral = Some kp, in_peer_ephemeral_pub = None,
                  in_challenge_code = None\<rparr>))"

definition initiator_request :: "'e ext \<Rightarrow> initiator \<Rightarrow> uuid \<Rightarrow> uuid \<Rightarrow> int \<Rightarrow> pairing_error + envelope" where
  "initiator_request X i our fresh now =
     (case in_ephemeral i of
        None \<Rightarrow> Inl (BadState ''ephemeral keypair present'' MtDevicePairRequest)
      | Some kp \<Rightarrow>
          Inr (envelope_new MtDevicePairRequest our
            (enc_pair_request \<lparr>pq_ephemeral_pubkey = public_key_to_base64 X (kp_public kp)\<rparr>)
            fresh now))"

text \<open>
  \<open>on_challenge\<close>; the second component is the time it returns, the expiry when chrono
  can represent it and else the clock.
\<close>

definition initiator_on_challenge ::
  "'e ext \<Rightarrow> tick \<Rightarrow> initiator \<Rightarrow> envelope \<Rightarrow> pairing_error + (initiator \<times> int)" where
  "initiator_on_challenge X t i e =
     (if env_type e \<noteq> MtDevicePairChallenge
      then Inl (BadState ''device.pair.challenge'' (env_type e))
      else (case parse_payload X dec_pair_challenge e of
              Inl er \<Rightarrow> Inl er
            | Inr c \<Rightarrow>
               if length (pch_code c) \<noteq> 4 \<or> \<not> list_all is_ascii_digit (pch_code c)
               then Inl (BadCode (pch_code c))
               else if t_ms t 0 > pch_expires_at c
               then Inl (Expired (t_ms t 0) (pch_expires_at c))
               else (case public_key_from_base64 X (pch_ephemeral_pubkey c) of
                       Inl er \<Rightarrow> Inl (PEcdh er)
                     | Inr k \<Rightarrow>
                         Inr (i\<lparr>in_peer_ephemeral_pub := Some k,
                                in_challenge_code := Some (pch_code c)\<rparr>,
                              if chrono_ok X (pch_expires_at c) then pch_expires_at c
                              else t_ms t 1))))"

definition initiator_accept :: "initiator \<Rightarrow> uuid \<Rightarrow> uuid \<Rightarrow> int \<Rightarrow> pairing_error + envelope" where
  "initiator_accept i our fresh now =
     (if in_peer_ephemeral_pub i = None
      then Inl (BadState ''challenge received'' MtDevicePairAccept)
      else Inr (envelope_new MtDevicePairAccept our (enc_pair_accept Mk_pair_accept) fresh now))"

definition initiator_reject :: "initiator \<Rightarrow> uuid \<Rightarrow> string \<Rightarrow> uuid \<Rightarrow> int \<Rightarrow> pairing_error + envelope" where
  "initiator_reject i our reason fresh now =
     Inr (envelope_new MtDevicePairReject our (enc_pair_reject \<lparr>pr_reason = Some reason\<rparr>) fresh now)"

definition identity_complete :: "identity \<Rightarrow> json" where
  "identity_complete i =
     enc_pair_complete \<lparr>pcp_cert_pem = id_cert_pem i, pcp_cert_fingerprint = id_fingerprint i\<rparr>"

definition initiator_complete :: "initiator \<Rightarrow> uuid \<Rightarrow> uuid \<Rightarrow> int \<Rightarrow> pairing_error + envelope" where
  "initiator_complete i our fresh now =
     Inr (envelope_new MtDevicePairComplete our (identity_complete (in_identity i)) fresh now)"

definition initiator_on_complete ::
  "'e ext \<Rightarrow> initiator \<Rightarrow> envelope \<Rightarrow> pairing_error + pairing_outcome" where
  "initiator_on_complete X i e = accept_complete X (in_peer_device_id i) e"

section \<open>Responder\<close>

record responder =
  rs_identity :: identity
  rs_peer_device_id :: uuid
  rs_ephemeral_pub :: "public_key option"
  rs_code :: "string option"
  rs_expires_at :: "int option"
  rs_accepted :: "bool option"

definition responder_start :: "'e ext \<Rightarrow> tick \<Rightarrow> uuid \<Rightarrow> pairing_error + responder" where
  "responder_start X t peer =
     (case generate_self_signed X ''phonebridge-android'' (t_seed t 0) of
        Inl e \<Rightarrow> Inl (PCert e)
      | Inr ident \<Rightarrow>
         Inr \<lparr>rs_identity = ident, rs_peer_device_id = peer, rs_ephemeral_pub = None,
              rs_code = None, rs_expires_at = None, rs_accepted = None\<rparr>)"

definition responder_on_request ::
  "'e ext \<Rightarrow> tick \<Rightarrow> responder \<Rightarrow> envelope \<Rightarrow> pairing_error + responder" where
  "responder_on_request X t r e =
     (if env_type e \<noteq> MtDevicePairRequest
      then Inl (BadState ''device.pair.request'' (env_type e))
      else (case parse_payload X dec_pair_request e of
              Inl er \<Rightarrow> Inl er
            | Inr q \<Rightarrow>
               (case public_key_from_base64 X (pq_ephemeral_pubkey q) of
                  Inl er \<Rightarrow> Inl (PEcdh er)
                | Inr peer \<Rightarrow>
                   (case keypair_generate X (t_key t 0) of
                      Inl er \<Rightarrow> Inl (PEcdh er)
                    | Inr kp \<Rightarrow>
                       (case keypair_agree X kp peer of
                          Inl er \<Rightarrow> Inl (PEcdh er)
                        | Inr shared \<Rightarrow>
                            Inr (r\<lparr>rs_ephemeral_pub := Some (kp_public kp),
                                   rs_code := Some (derive_pairing_code X shared),
                                   rs_expires_at := Some (wrap_i64 (t_ms t 0 + 30000))\<rparr>))))))"

definition responder_challenge ::
  "'e ext \<Rightarrow> responder \<Rightarrow> uuid \<Rightarrow> uuid \<Rightarrow> int \<Rightarrow> pairing_error + envelope" where
  "responder_challenge X r our fresh now =
     (case rs_ephemeral_pub r of
        None \<Rightarrow> Inl (BadState ''request received'' MtDevicePairChallenge)
      | Some k \<Rightarrow>
         (case rs_code r of
            None \<Rightarrow> Inl (BadState ''code computed'' MtDevicePairChallenge)
          | Some c \<Rightarrow>
             (case rs_expires_at r of
                None \<Rightarrow> Inl (BadState ''expires_at set'' MtDevicePairChallenge)
              | Some ex \<Rightarrow>
                  Inr (envelope_new MtDevicePairChallenge our
                    (enc_pair_challenge \<lparr>pch_ephemeral_pubkey = public_key_to_base64 X k,
                        pch_code = c, pch_expires_at = ex\<rparr>) fresh now))))"

definition responder_confirm ::
  "responder \<Rightarrow> uuid \<Rightarrow> bool \<Rightarrow> uuid \<Rightarrow> int \<Rightarrow> pairing_error + (responder \<times> envelope)" where
  "responder_confirm r our accepted fresh now =
     (if rs_code r = None then Inl (BadState ''request received'' MtDevicePairConfirm)
      else Inr (r\<lparr>rs_accepted := Some accepted\<rparr>,
                envelope_new MtDevicePairConfirm our
                  (enc_pair_confirm \<lparr>pcf_accepted = accepted\<rparr>) fresh now))"

definition responder_complete :: "responder \<Rightarrow> uuid \<Rightarrow> uuid \<Rightarrow> int \<Rightarrow> pairing_error + envelope" where
  "responder_complete r our fresh now =
     (if rs_accepted r \<noteq> Some True
      then Inl (BadState ''user accepted'' MtDevicePairComplete)
      else Inr (envelope_new MtDevicePairComplete our (identity_complete (rs_identity r)) fresh now))"

definition responder_on_complete ::
  "'e ext \<Rightarrow> responder \<Rightarrow> envelope \<Rightarrow> pairing_error + pairing_outcome" where
  "responder_on_complete X r e =
     (if rs_accepted r \<noteq> Some True then Inl (BadState ''user accepted'' (env_type e))
      else accept_complete X (rs_peer_device_id r) e)"

section \<open>Hello\<close>

definition build_hello_envelope ::
  "uuid \<Rightarrow> string \<Rightarrow> string \<Rightarrow> u16 \<Rightarrow> uuid \<Rightarrow> int \<Rightarrow> envelope" where
  "build_hello_envelope our name pubkey port fresh now =
     envelope_new MtDeviceHello our
       (enc_device_hello \<lparr>dh_name = name, dh_device_type = DtAndroid,
          dh_protocol_version = 1, dh_pubkey = pubkey, dh_port = Some port,
          dh_manufacturer = None, dh_model = None, dh_hardware_id = None\<rparr>) fresh now"

section \<open>What the two sides guarantee\<close>

lemma accept_complete_Inr:
  "accept_complete X peer e = Inr out \<Longrightarrow>
     env_type e = MtDevicePairComplete \<and> po_peer_device_id out = peer \<and>
     (\<exists>bs. parse_fingerprint (po_peer_fingerprint out) = Inr bs \<and> length bs = SHA256_LEN) \<and>
     contains (po_peer_cert_pem out) ''BEGIN CERTIFICATE''"
  by (auto simp: accept_complete_def dest: parse_fingerprint_length split: if_splits sum.splits)

text \<open>A complete built by either side from an rcgen identity is accepted by the other.\<close>

definition identity_wf :: "identity \<Rightarrow> bool" where
  "identity_wf i \<longleftrightarrow> (\<exists>bs. parse_fingerprint (id_fingerprint i) = Inr bs) \<and>
     contains (id_cert_pem i) ''BEGIN CERTIFICATE''"

lemma accept_identity_complete:
  "identity_wf i \<Longrightarrow>
     accept_complete X peer (envelope_new MtDevicePairComplete our (identity_complete i) fresh now)
       = Inr \<lparr>po_peer_device_id = peer, po_peer_fingerprint = id_fingerprint i,
              po_peer_cert_pem = id_cert_pem i\<rparr>"
  by (auto simp: identity_wf_def accept_complete_def envelope_new_def parse_payload_def
      identity_complete_def rt_pair_complete)

text \<open>Public keys of the curve are uncompressed points.\<close>

definition ec_ok :: "'e ext \<Rightarrow> bool" where
  "ec_ok X \<longleftrightarrow> (\<forall>k p. ec_public X k = Some p \<longrightarrow> p ! 0 = 4)"

lemma keypair_public_valid:
  "ec_ok X \<Longrightarrow> keypair_generate X drawn = Inr kp \<Longrightarrow>
     public_key_from_bytes (kp_public kp) = Inr (kp_public kp)"
  by (auto simp: keypair_generate_def ec_ok_def public_key_from_bytes_def
      split: option.splits if_splits)

section \<open>The responder as a state machine\<close>

inductive responder_step :: "'e ext \<Rightarrow> responder \<Rightarrow> responder \<Rightarrow> bool" for X where
  request: "responder_on_request X t r e = Inr r' \<Longrightarrow> responder_step X r r'"
| decide: "responder_confirm r our b fresh now = Inr (r', env) \<Longrightarrow> responder_step X r r'"

inductive responder_reach :: "'e ext \<Rightarrow> responder \<Rightarrow> bool" for X where
  start: "responder_start X t peer = Inr r \<Longrightarrow> responder_reach X r"
| step: "responder_reach X r \<Longrightarrow> responder_step X r r' \<Longrightarrow> responder_reach X r'"

inductive_cases responder_stepE: "responder_step X r r'"

definition responder_inv :: "responder \<Rightarrow> bool" where
  "responder_inv r \<longleftrightarrow>
     (rs_code r = None \<longleftrightarrow> rs_ephemeral_pub r = None) \<and>
     (rs_code r = None \<longleftrightarrow> rs_expires_at r = None) \<and>
     (rs_accepted r \<noteq> None \<longrightarrow> rs_code r \<noteq> None) \<and>
     pred_option code_shape (rs_code r) \<and>
     pred_option (\<lambda>k. length k = PUBLIC_KEY_LEN) (rs_ephemeral_pub r) \<and>
     pred_option i64_range (rs_expires_at r)"

lemma keypair_generate_length:
  "keypair_generate X d = Inr kp \<Longrightarrow> length (kp_public kp) = PUBLIC_KEY_LEN"
  by (auto simp: keypair_generate_def split: option.splits if_splits)

lemma responder_on_request_Inr:
  "responder_on_request X t r e = Inr r' \<Longrightarrow>
     \<exists>kp shared. keypair_generate X (t_key t 0) = Inr kp \<and>
       r' = r\<lparr>rs_ephemeral_pub := Some (kp_public kp),
              rs_code := Some (derive_pairing_code X shared),
              rs_expires_at := Some (wrap_i64 (t_ms t 0 + 30000))\<rparr>"
  by (auto simp: responder_on_request_def split: if_splits sum.splits)

lemma responder_confirm_Inr:
  "responder_confirm r our b fresh now = Inr (r', env) \<Longrightarrow>
     rs_code r \<noteq> None \<and> r' = r\<lparr>rs_accepted := Some b\<rparr>"
  by (auto simp: responder_confirm_def split: if_splits)

lemma responder_step_inv: "responder_step X r r' \<Longrightarrow> responder_inv r \<Longrightarrow> responder_inv r'"
  by (erule responder_stepE)
     (auto simp: responder_inv_def pairing_code_shape wrap_i64_range
      dest!: responder_on_request_Inr responder_confirm_Inr dest: keypair_generate_length)

lemma responder_start_inv: "responder_start X t peer = Inr r \<Longrightarrow> responder_inv r"
  by (auto simp: responder_start_def responder_inv_def split: sum.splits)

lemma responder_reach_inv: "responder_reach X r \<Longrightarrow> responder_inv r"
  by (induction rule: responder_reach.induct) (auto intro: responder_start_inv responder_step_inv)

section \<open>Properties\<close>


text \<open>
  The initiator takes a challenge exactly when it is a pair.challenge that decodes, its
  code is four ASCII digits, it has not expired and its key is an uncompressed point; it then
  records that key and code and changes nothing else.
\<close>

lemma initiator_challenge_iff:
  "(\<exists>d. initiator_on_challenge X t i e = Inr (i', d)) \<longleftrightarrow>
     (\<exists>c k. env_type e = MtDevicePairChallenge \<and> dec_pair_challenge (env_payload e) = Some c \<and>
        code_shape (pch_code c) \<and> t_ms t 0 \<le> pch_expires_at c \<and>
        public_key_from_base64 X (pch_ephemeral_pubkey c) = Inr k \<and>
        i' = i\<lparr>in_peer_ephemeral_pub := Some k, in_challenge_code := Some (pch_code c)\<rparr>)"
  by (auto simp: initiator_on_challenge_def parse_payload_def code_shape_def
      split: if_splits option.splits sum.splits)

lemma challenge_taken:
  assumes "b64_ok X" and "ec_ok X" and "responder_on_request X t r q = Inr r'"
    and "responder_challenge X r' our fresh now = Inr c"
    and "t_ms t' 0 \<le> wrap_i64 (t_ms t 0 + 30000)"
  shows "\<exists>i' d. initiator_on_challenge X t' i c = Inr (i', d) \<and>
    in_challenge_code i' = rs_code r' \<and> in_peer_ephemeral_pub i' = rs_ephemeral_pub r' \<and>
    in_identity i' = in_identity i \<and> in_peer_device_id i' = in_peer_device_id i"
proof -
  from responder_on_request_Inr [OF assms(3)] obtain kp shared
    where kp: "keypair_generate X (t_key t 0) = Inr kp"
      and r': "r' = r\<lparr>rs_ephemeral_pub := Some (kp_public kp),
        rs_code := Some (derive_pairing_code X shared),
        rs_expires_at := Some (wrap_i64 (t_ms t 0 + 30000))\<rparr>" by blast
  from public_key_roundtrip [OF assms(1) keypair_public_valid [OF assms(2) kp]]
  have "public_key_from_base64 X (public_key_to_base64 X (kp_public kp)) = Inr (kp_public kp)" .
  with assms(4,5) r' pairing_code_shape [of X shared] show ?thesis
    by (auto simp: responder_challenge_def initiator_on_challenge_def envelope_new_def
        parse_payload_def code_shape_def rt_pair_challenge wrap_i64_range)
qed

text \<open>
  C9: The whole exchange: a request built by a fresh initiator, answered by a responder within
  the thirty seconds of its code and accepted by its user, ends with both sides holding the
  other's certificate and fingerprint, and with the initiator holding the code the responder
  shows.
\<close>

theorem pairing_exchange:
  assumes "b64_ok X" and "ec_ok X"
    and "initiator_start X ti pi name = Inr i" and "responder_start X tr pr = Inr r"
    and "initiator_request X i a f1 n1 = Inr q" and "responder_on_request X t r q = Inr r1"
    and "responder_challenge X r1 b f2 n2 = Inr c" and "t_ms t' 0 \<le> wrap_i64 (t_ms t 0 + 30000)"
    and "responder_confirm r1 b True f3 n3 = Inr (r2, cf)"
    and "identity_wf (in_identity i)" and "identity_wf (rs_identity r)"
  shows "\<exists>i' d ic rc. initiator_on_challenge X t' i c = Inr (i', d) \<and>
    in_challenge_code i' = rs_code r2 \<and>
    initiator_complete i' a f4 n4 = Inr ic \<and> responder_complete r2 b f5 n5 = Inr rc \<and>
    initiator_on_complete X i' rc = Inr \<lparr>po_peer_device_id = pi,
      po_peer_fingerprint = id_fingerprint (rs_identity r),
      po_peer_cert_pem = id_cert_pem (rs_identity r)\<rparr> \<and>
    responder_on_complete X r2 ic = Inr \<lparr>po_peer_device_id = pr,
      po_peer_fingerprint = id_fingerprint (in_identity i),
      po_peer_cert_pem = id_cert_pem (in_identity i)\<rparr>"
proof -
  from challenge_taken [OF assms(1,2,6,7,8), of i] obtain i' d
    where i': "initiator_on_challenge X t' i c = Inr (i', d)"
      "in_challenge_code i' = rs_code r1" "in_identity i' = in_identity i"
      "in_peer_device_id i' = in_peer_device_id i" by blast
  from responder_confirm_Inr [OF assms(9)] have r2: "r2 = r1\<lparr>rs_accepted := Some True\<rparr>" by simp
  from responder_on_request_Inr [OF assms(6)]
  have r1: "rs_identity r1 = rs_identity r" "rs_peer_device_id r1 = rs_peer_device_id r" by auto
  have peers: "in_peer_device_id i = pi" "rs_peer_device_id r = pr"
    using assms(3,4) by (auto simp: initiator_start_def responder_start_def split: sum.splits)
  show ?thesis
    using i' r1 r2 peers accept_identity_complete [OF assms(10), of X]
      accept_identity_complete [OF assms(11), of X]
    by (simp add: initiator_complete_def responder_complete_def initiator_on_complete_def
        responder_on_complete_def)
qed

section \<open>Witnesses\<close>

text \<open>A concrete run: the request, challenge, confirm and completes of the demo instance.\<close>

definition demo_identity :: identity where
  "demo_identity = \<lparr>id_cert_pem = ''-----BEGIN CERTIFICATE-----'', id_key_pem = ''key'',
     id_fingerprint = join_char (CHR '':'') (map hex2_upper (replicate 32 171))\<rparr>"

definition demo_public :: public_key where
  "demo_public = 4 # replicate 64 9"

definition demo_initiator :: initiator where
  "demo_initiator = \<lparr>in_identity = demo_identity, in_peer_device_id = 1, in_peer_name = ''P'',
     in_ephemeral = Some \<lparr>kp_private = 9, kp_public = demo_public\<rparr>,
     in_peer_ephemeral_pub = None, in_challenge_code = None\<rparr>"

definition demo_responder :: responder where
  "demo_responder = \<lparr>rs_identity = demo_identity, rs_peer_device_id = 2,
     rs_ephemeral_pub = None, rs_code = None, rs_expires_at = None, rs_accepted = None\<rparr>"

definition demo_request :: envelope where
  "demo_request = envelope_new MtDevicePairRequest 2
     (enc_pair_request \<lparr>pq_ephemeral_pubkey = public_key_to_base64 demo_ext demo_public\<rparr>) 50 1000"

definition demo_requested :: responder where
  "demo_requested = demo_responder\<lparr>rs_ephemeral_pub := Some demo_public,
     rs_code := Some (derive_pairing_code demo_ext (replicate 32 7)),
     rs_expires_at := Some 31000\<rparr>"

definition demo_complete :: envelope where
  "demo_complete = envelope_new MtDevicePairComplete 2 (identity_complete demo_identity) 52 1000"

lemma demo_identity_wf: "identity_wf demo_identity"
proof -
  have "\<exists>bs. parse_fingerprint (id_fingerprint demo_identity) = Inr bs"
    using parse_format [OF demo_sha256_length, of "[]"]
    by (simp add: demo_identity_def cert_fingerprint_der_def demo_ext_def)
  moreover have "contains (id_cert_pem demo_identity) ''BEGIN CERTIFICATE''"
    by (simp add: demo_identity_def)
  ultimately show ?thesis by (simp add: identity_wf_def)
qed

lemma demo_starts:
  "initiator_start demo_ext (demo_tick 1000) 1 ''P'' = Inr demo_initiator"
  "responder_start demo_ext (demo_tick 1000) 2 = Inr demo_responder"
  by (simp_all add: initiator_start_def responder_start_def generate_self_signed_def
      keypair_generate_def demo_ext_def demo_tick_def demo_initiator_def demo_responder_def
      demo_identity_def demo_public_def cert_fingerprint_der_def PUBLIC_KEY_LEN_def)

lemma demo_ec_ok: "ec_ok demo_ext"
  by (simp add: ec_ok_def demo_ext_def)

lemma demo_on_request: "responder_on_request demo_ext (demo_tick 1000) demo_responder demo_request = Inr demo_requested"
proof -
  have "public_key_from_base64 demo_ext (public_key_to_base64 demo_ext demo_public) = Inr demo_public"
    by (rule public_key_roundtrip)
       (simp_all add: demo_public_def public_key_from_bytes_def PUBLIC_KEY_LEN_def)
  moreover have "keypair_generate demo_ext (Some 9) = Inr \<lparr>kp_private = 9, kp_public = demo_public\<rparr>"
    by (simp add: keypair_generate_def demo_ext_def demo_public_def PUBLIC_KEY_LEN_def)
  moreover have "keypair_agree demo_ext \<lparr>kp_private = 9, kp_public = demo_public\<rparr> demo_public
      = Inr (replicate 32 7)"
    by (simp add: keypair_agree_def demo_ext_def)
  ultimately show ?thesis
    by (simp add: responder_on_request_def demo_request_def envelope_new_def parse_payload_def
        rt_pair_request demo_tick_def demo_requested_def wrap_i64_id i64_range_def)
qed


theorem pairing_exchange_witness:
  "\<exists>i' d. initiator_on_challenge demo_ext (demo_tick 2000) demo_initiator
      (envelope_new MtDevicePairChallenge 1 (enc_pair_challenge
        \<lparr>pch_ephemeral_pubkey = public_key_to_base64 demo_ext demo_public,
         pch_code = derive_pairing_code demo_ext (replicate 32 7), pch_expires_at = 31000\<rparr>) 53 1000)
      = Inr (i', d)"
proof -
  have q: "initiator_request demo_ext demo_initiator 2 50 1000 = Inr demo_request"
    by (simp add: initiator_request_def demo_initiator_def demo_request_def)
  have c: "responder_challenge demo_ext demo_requested 1 53 1000 = Inr
      (envelope_new MtDevicePairChallenge 1 (enc_pair_challenge
        \<lparr>pch_ephemeral_pubkey = public_key_to_base64 demo_ext demo_public,
         pch_code = derive_pairing_code demo_ext (replicate 32 7), pch_expires_at = 31000\<rparr>) 53 1000)"
    by (simp add: responder_challenge_def demo_requested_def)
  have time: "t_ms (demo_tick 2000) 0 \<le> wrap_i64 (t_ms (demo_tick 1000) 0 + 30000)"
    by (simp add: demo_tick_def wrap_i64_id i64_range_def)
  have cf: "responder_confirm demo_requested 1 True 54 1000 =
      Inr (demo_requested\<lparr>rs_accepted := Some True\<rparr>, envelope_new MtDevicePairConfirm 1
        (enc_pair_confirm \<lparr>pcf_accepted = True\<rparr>) 54 1000)"
    by (simp add: responder_confirm_def demo_requested_def)
  have wf: "identity_wf (in_identity demo_initiator)" "identity_wf (rs_identity demo_responder)"
    using demo_identity_wf by (simp_all add: demo_initiator_def demo_responder_def)
  show ?thesis
    using pairing_exchange [OF demo_b64_ok demo_ec_ok demo_starts q demo_on_request c time cf wf,
        where ?f4.0 = 0 and ?n4.0 = 0 and ?f5.0 = 0 and ?n5.0 = 0]
    by blast
qed

end
