(* ===== verification/Sessions.thy ===== *)
theory Sessions
  imports Pairing
begin

text \<open>
  The shared maps of the network layer: the registry of connected devices
  (phonebridge-net/src/registry.rs), and the pairing sessions and pending phone-initiated
  requests (the maps of phonebridge-net/src/ws_handler.rs). An outbound channel is a number;
  the envelopes handed to channels are recorded in the order they were accepted.
\<close>

section \<open>Registry of connected devices\<close>

datatype downstream_error = NotConnected uuid | QueueFull uuid

type_synonym registry = "(uuid, nat) hmap"
type_synonym channel_log = "(nat \<times> envelope) list"

definition registry_register :: "uuid \<Rightarrow> nat \<Rightarrow> registry \<Rightarrow> registry" where
  "registry_register d c r = hm_insert d c r"

definition registry_unregister :: "uuid \<Rightarrow> registry \<Rightarrow> registry" where
  "registry_unregister d r = hm_remove d r"

text \<open>\<open>Sender::try_send\<close> on a tokio channel, and the awaited \<open>send\<close>.\<close>

definition chan_try_send :: "envelope ext \<Rightarrow> channel_log \<Rightarrow> nat \<Rightarrow> envelope \<Rightarrow> channel_log option" where
  "chan_try_send X h c e = (if chan_accepts X h c then Some (h @ [(c, e)]) else None)"

definition chan_send :: "envelope ext \<Rightarrow> channel_log \<Rightarrow> nat \<Rightarrow> envelope \<Rightarrow> channel_log option" where
  "chan_send X h c e = (if chan_open X h c then Some (h @ [(c, e)]) else None)"

definition registry_try_send ::
  "envelope ext \<Rightarrow> registry \<Rightarrow> channel_log \<Rightarrow> uuid \<Rightarrow> envelope \<Rightarrow> downstream_error + channel_log" where
  "registry_try_send X r h d e =
     (case hm_get r d of
        None \<Rightarrow> Inl (NotConnected d)
      | Some c \<Rightarrow>
         (case chan_try_send X h c e of
            None \<Rightarrow> Inl (QueueFull d)
          | Some h' \<Rightarrow> Inr h'))"

definition connected_count :: "registry \<Rightarrow> nat" where
  "connected_count r = length r"

definition connected_ids :: "registry \<Rightarrow> uuid list" where
  "connected_ids r = hm_keys r"

definition registry_fire :: "envelope ext \<Rightarrow> registry \<Rightarrow> channel_log \<Rightarrow> uuid \<Rightarrow> envelope \<Rightarrow> channel_log" where
  "registry_fire X r h d e =
     (case hm_get r d of
        None \<Rightarrow> h
      | Some c \<Rightarrow> (case chan_try_send X h c e of None \<Rightarrow> h | Some h' \<Rightarrow> h'))"

fun downstream_error_str :: "'e ext \<Rightarrow> downstream_error \<Rightarrow> string" where
  "downstream_error_str X (NotConnected d) = ''device '' @ uuid_str X d @ '' not connected''"
| "downstream_error_str X (QueueFull d) = ''device '' @ uuid_str X d @ '' send queue full''"

lemma connected_ids_iff: "d \<in> set (connected_ids r) \<longleftrightarrow> hm_get r d \<noteq> None"
  by (simp add: connected_ids_def hm_keys_iff)

lemma registry_try_send_Inr_iff:
  "registry_try_send X r h d e = Inr h' \<longleftrightarrow>
     (\<exists>c. hm_get r d = Some c \<and> chan_accepts X h c \<and> h' = h @ [(c, e)])"
  by (auto simp: registry_try_send_def chan_try_send_def split: option.splits if_splits)

lemma registry_fire_try_send:
  "registry_fire X r h d e =
     (case registry_try_send X r h d e of Inl _ \<Rightarrow> h | Inr h' \<Rightarrow> h')"
  by (simp add: registry_fire_def registry_try_send_def split: option.splits)

text \<open>
  After a device registers, a send to it reaches exactly the channel it registered last, and
  sends to other devices are not affected; after it is unregistered every send to it is refused
  as not connected. The count of connected devices follows.
\<close>

lemma registry_contract:
  "(registry_try_send X (registry_register d c r) h d' e =
      (if d' = d then (if chan_accepts X h c then Inr (h @ [(c, e)]) else Inl (QueueFull d))
       else registry_try_send X r h d' e)) \<and>
   (registry_try_send X (registry_unregister d r) h d' e =
      (if d' = d then Inl (NotConnected d) else registry_try_send X r h d' e)) \<and>
   set (connected_ids (registry_register d c r)) = insert d (set (connected_ids r)) \<and>
   set (connected_ids (registry_unregister d r)) = set (connected_ids r) - {d}"
  by (simp add: registry_try_send_def registry_register_def registry_unregister_def
      chan_try_send_def connected_ids_def hm.set_keys_insert hm.set_keys_remove)

section \<open>Pending phone-initiated requests\<close>

record pending_incoming =
  pi_device_id :: uuid
  pi_name :: string
  pi_received_at :: int
  pi_peer_ephemeral_pub_b64 :: "string option"

type_synonym pending_map = "(uuid, pending_incoming) hmap"

definition pending_insert :: "pending_incoming \<Rightarrow> pending_map \<Rightarrow> pending_map" where
  "pending_insert p m = hm_insert (pi_device_id p) p m"

definition pending_remove :: "uuid \<Rightarrow> pending_map \<Rightarrow> pending_incoming option \<times> pending_map" where
  "pending_remove d m = (hm_get m d, hm_remove d m)"

definition pending_get :: "uuid \<Rightarrow> pending_map \<Rightarrow> pending_incoming option" where
  "pending_get d m = hm_get m d"

definition pending_list :: "pending_map \<Rightarrow> pending_incoming list" where
  "pending_list m = map snd m"

section \<open>Pairing sessions\<close>

record paired_session =
  ps_device_id :: uuid
  ps_name :: string
  ps_cert_fingerprint :: string

datatype unpaired_session = USInitiator initiator | USResponder responder
datatype device_session = Unpaired unpaired_session | Paired paired_session

type_synonym pairing_map = "(uuid, device_session) hmap"

text \<open>
  \<open>clone_session\<close>: a paired session is copied, an unpaired one is replaced by a fresh
  responder for the nil identifier, whose start is expected to succeed.
\<close>

fun clone_session :: "envelope ext \<Rightarrow> tick \<Rightarrow> device_session \<Rightarrow> device_session run" where
  "clone_session X t (Paired p) = Done (Paired p)"
| "clone_session X t (Unpaired _) =
     (case responder_start X t 0 of
        Inl _ \<Rightarrow> Panic
      | Inr r \<Rightarrow> Done (Unpaired (USResponder r)))"

definition pairing_insert :: "uuid \<Rightarrow> device_session \<Rightarrow> pairing_map \<Rightarrow> pairing_map" where
  "pairing_insert d s m = hm_insert d s m"

definition pairing_get :: "envelope ext \<Rightarrow> tick \<Rightarrow> uuid \<Rightarrow> pairing_map \<Rightarrow> device_session option run" where
  "pairing_get X t d m =
     (case hm_get m d of
        None \<Rightarrow> Done None
      | Some s \<Rightarrow> (case clone_session X t s of Panic \<Rightarrow> Panic | Done s' \<Rightarrow> Done (Some s')))"

definition take_unpaired_initiator :: "uuid \<Rightarrow> pairing_map \<Rightarrow> initiator option \<times> pairing_map" where
  "take_unpaired_initiator d m =
     (case hm_get m d of
        Some (Unpaired (USInitiator i)) \<Rightarrow> (Some i, hm_remove d m)
      | Some s \<Rightarrow> (None, hm_insert d s (hm_remove d m))
      | None \<Rightarrow> (None, hm_remove d m))"

definition take_unpaired_responder :: "uuid \<Rightarrow> pairing_map \<Rightarrow> responder option \<times> pairing_map" where
  "take_unpaired_responder d m =
     (case hm_get m d of
        Some (Unpaired (USResponder r)) \<Rightarrow> (Some r, hm_remove d m)
      | Some s \<Rightarrow> (None, hm_insert d s (hm_remove d m))
      | None \<Rightarrow> (None, hm_remove d m))"

definition pairing_remove :: "uuid \<Rightarrow> pairing_map \<Rightarrow> device_session option \<times> pairing_map" where
  "pairing_remove d m = (hm_get m d, hm_remove d m)"

definition list_paired :: "pairing_map \<Rightarrow> (uuid \<times> paired_session) list" where
  "list_paired m = List.map_filter
     (\<lambda>(d, s). case s of Paired p \<Rightarrow> Some (d, p) | Unpaired _ \<Rightarrow> None) m"

lemma take_initiator_Some:
  "take_unpaired_initiator d m = (Some i, m') \<longleftrightarrow>
     hm_get m d = Some (Unpaired (USInitiator i)) \<and> m' = hm_remove d m"
  by (auto simp: take_unpaired_initiator_def
      split: option.splits device_session.splits unpaired_session.splits)

lemma take_initiator_None:
  "take_unpaired_initiator d m = (None, m') \<Longrightarrow> hm_get m' = hm_get m"
  by (auto simp: take_unpaired_initiator_def fun_eq_iff
      split: option.splits device_session.splits unpaired_session.splits)

lemma take_responder_Some:
  "take_unpaired_responder d m = (Some r, m') \<longleftrightarrow>
     hm_get m d = Some (Unpaired (USResponder r)) \<and> m' = hm_remove d m"
  by (auto simp: take_unpaired_responder_def
      split: option.splits device_session.splits unpaired_session.splits)

lemma take_responder_None:
  "take_unpaired_responder d m = (None, m') \<Longrightarrow> hm_get m' = hm_get m"
  by (auto simp: take_unpaired_responder_def fun_eq_iff
      split: option.splits device_session.splits unpaired_session.splits)

lemma take_wf:
  "hm_wf m \<Longrightarrow> hm_wf (snd (take_unpaired_initiator d m))"
  "hm_wf m \<Longrightarrow> hm_wf (snd (take_unpaired_responder d m))"
  by (auto simp: take_unpaired_initiator_def take_unpaired_responder_def
      split: option.splits device_session.splits unpaired_session.splits)

lemma list_paired_iff:
  "hm_wf m \<Longrightarrow> (d, p) \<in> set (list_paired m) \<longleftrightarrow> hm_get m d = Some (Paired p)"
  by (auto simp: list_paired_def List.map_filter_def hm_wf_def hm_get_def
      split: device_session.splits intro: map_of_is_SomeI dest: map_of_SomeD) force

text \<open>
  Reading a session through the map never shows an initiator: whatever unpaired session is
  in flight, \<open>PairingMap::get\<close> returns a fresh responder for the nil identifier.
\<close>

lemma pairing_get_hides_initiator:
  "pairing_get X t d m \<noteq> Done (Some (Unpaired (USInitiator i)))"
  by (auto simp: pairing_get_def split: option.splits run.splits
      elim!: clone_session.elims split: sum.splits)

text \<open>
  Taking an in-flight session out of the map removes exactly that session and no other, and
  putting it back restores the map; when there is no session of the asked role, no entry
  changes. The same for both roles.
\<close>

lemma take_unpaired_contract:
  "(case take_unpaired_initiator d m of
      (Some i, m') \<Rightarrow> hm_get m d = Some (Unpaired (USInitiator i)) \<and>
         hm_get m' = (hm_get m)(d := None) \<and>
         hm_get (pairing_insert d (Unpaired (USInitiator i)) m') = hm_get m
    | (None, m') \<Rightarrow> (\<nexists>i. hm_get m d = Some (Unpaired (USInitiator i))) \<and> hm_get m' = hm_get m) \<and>
   (case take_unpaired_responder d m of
      (Some r, m') \<Rightarrow> hm_get m d = Some (Unpaired (USResponder r)) \<and>
         hm_get m' = (hm_get m)(d := None) \<and>
         hm_get (pairing_insert d (Unpaired (USResponder r)) m') = hm_get m
    | (None, m') \<Rightarrow> (\<nexists>r. hm_get m d = Some (Unpaired (USResponder r))) \<and> hm_get m' = hm_get m)"
  by (auto simp: take_unpaired_initiator_def take_unpaired_responder_def pairing_insert_def fun_eq_iff
      split: option.splits device_session.splits unpaired_session.splits)

end
