(* ===== verification/NoiseFilter.thy ===== *)
theory NoiseFilter
  imports Wire Text
begin

text \<open>
  The deny list in front of the display bus (message-center/src/noise_filter.rs): seven named
  predicates on a display event, tried in order, the first match naming the reason.
\<close>

definition OWN_PACKAGES :: "string list" where
  "OWN_PACKAGES = [''im.zyx.phonebridge'', ''im.zyx.phonebridge.debug'']"

definition SYSTEM_NOISE_PACKAGES :: "string list" where
  "SYSTEM_NOISE_PACKAGES =
     [''com.android.systemui'', ''com.android.shell'', ''com.android.providers.downloads'',
      ''android'']"

definition TRANSIENT_CATEGORIES :: "string list" where
  "TRANSIENT_CATEGORIES = [''progress'', ''service'', ''transport'', ''status'']"

definition payload_str :: "json \<Rightarrow> string \<Rightarrow> string option" where
  "payload_str p key = Option.bind (json_get p key) json_as_str"

text \<open>\<open>payload_str(..).map(|s| set.contains(&s)).unwrap_or(false)\<close>\<close>

definition payload_in :: "json \<Rightarrow> string \<Rightarrow> string list \<Rightarrow> bool" where
  "payload_in p key l = (case payload_str p key of None \<Rightarrow> False | Some s \<Rightarrow> s \<in> set l)"

definition NOISE_FILTERS :: "(string \<times> (display_event \<Rightarrow> bool)) list" where
  "NOISE_FILTERS = [
     (''is_heartbeat'', \<lambda>e. de_kind e = ''device.heartbeat''),
     (''is_pair_internal'', \<lambda>e. starts_with (de_kind e) ''device.pair.''),
     (''is_info_update'', \<lambda>e. de_kind e = ''device.info.update''),
     (''is_unpair'', \<lambda>e. de_kind e = ''device.unpair''),
     (''is_own_pkg'', \<lambda>e. de_kind e = ''notification.received'' \<and>
        payload_in (de_payload e) ''package'' OWN_PACKAGES),
     (''is_sys_noise'', \<lambda>e. de_kind e = ''notification.received'' \<and>
        payload_in (de_payload e) ''package'' SYSTEM_NOISE_PACKAGES),
     (''is_transient_cat'', \<lambda>e. de_kind e = ''notification.received'' \<and>
        payload_in (de_payload e) ''category'' TRANSIENT_CATEGORIES)]"

fun first_match :: "(string \<times> ('a \<Rightarrow> bool)) list \<Rightarrow> 'a \<Rightarrow> string option" where
  "first_match [] e = None"
| "first_match ((name, pred) # fs) e = (if pred e then Some name else first_match fs e)"

definition should_filter :: "display_event \<Rightarrow> string option" where
  "should_filter e = first_match NOISE_FILTERS e"

text \<open>What the filter reads of a message of the protocol.\<close>

lemma filter_by_type:
  "mt \<noteq> MtNotificationReceived \<Longrightarrow> de_kind e = mt_str mt \<Longrightarrow>
     should_filter e =
       (case mt of
          MtDeviceHeartbeat \<Rightarrow> Some ''is_heartbeat''
        | MtDevicePairRequest \<Rightarrow> Some ''is_pair_internal''
        | MtDevicePairChallenge \<Rightarrow> Some ''is_pair_internal''
        | MtDevicePairConfirm \<Rightarrow> Some ''is_pair_internal''
        | MtDevicePairAccept \<Rightarrow> Some ''is_pair_internal''
        | MtDevicePairReject \<Rightarrow> Some ''is_pair_internal''
        | MtDevicePairComplete \<Rightarrow> Some ''is_pair_internal''
        | MtDeviceInfoUpdate \<Rightarrow> Some ''is_info_update''
        | MtDeviceUnpair \<Rightarrow> Some ''is_unpair''
        | _ \<Rightarrow> None)"
  by (cases mt) (simp_all add: should_filter_def NOISE_FILTERS_def starts_with_def)

lemma filter_notification:
  assumes "de_kind e = mt_str MtNotificationReceived" "de_payload e = enc_notification_received n"
  shows "should_filter e =
    (if nr_package n \<in> set OWN_PACKAGES then Some ''is_own_pkg''
     else if nr_package n \<in> set SYSTEM_NOISE_PACKAGES then Some ''is_sys_noise''
     else if nr_category n \<in> Some ` set TRANSIENT_CATEGORIES
     then Some ''is_transient_cat'' else None)"
proof -
  have p: "payload_str (de_payload e) ''package'' = Some (nr_package n)"
    by (simp add: payload_str_def assms enc_notification_received_def)
  have c: "payload_str (de_payload e) ''category'' = nr_category n"
    by (cases "nr_category n") (simp_all add: payload_str_def assms enc_notification_received_def opt_f_def
      split: option.split)
  show ?thesis
    by (cases "nr_category n")
      (auto simp: should_filter_def NOISE_FILTERS_def payload_in_def p c assms(1) starts_with_def)
qed

text \<open>
  The filter of every message the center builds, whatever its payload: heartbeats, all pairing
  messages, info updates and unpairs are always dropped, a received notification exactly when its
  package is one of ours or a system package or its category is transient, the first reason in
  that order named, and every other message type always passes.
\<close>

lemma noise_filter_decides:
  assumes "de_kind e = mt_str mt"
    and "mt = MtNotificationReceived \<longrightarrow> de_payload e = enc_notification_received n"
  shows "should_filter e =
    (case mt of
       MtNotificationReceived \<Rightarrow>
         (if nr_package n \<in> set OWN_PACKAGES then Some ''is_own_pkg''
          else if nr_package n \<in> set SYSTEM_NOISE_PACKAGES then Some ''is_sys_noise''
          else (case nr_category n of
                  Some c \<Rightarrow> if c \<in> set TRANSIENT_CATEGORIES then Some ''is_transient_cat'' else None
                | None \<Rightarrow> None))
     | MtDeviceHeartbeat \<Rightarrow> Some ''is_heartbeat''
     | MtDeviceInfoUpdate \<Rightarrow> Some ''is_info_update''
     | MtDeviceUnpair \<Rightarrow> Some ''is_unpair''
     | _ \<Rightarrow> if starts_with (mt_str mt) ''device.pair.'' then Some ''is_pair_internal'' else None)"
proof (cases "mt = MtNotificationReceived")
  case True
  then show ?thesis using filter_notification[of e n] assms
    by (auto split: option.splits)
next
  case False
  then show ?thesis using filter_by_type[OF False assms(1)]
    by (cases mt) (simp_all add: starts_with_def)
qed

text \<open>A quiet system notification and one of an app.\<close>

definition demo_event :: "string \<Rightarrow> display_event" where
  "demo_event pkg = \<lparr>de_kind = ''notification.received'', de_device_id = 1, de_envelope_id = 2,
     de_timestamp = 0, de_payload = enc_notification_received \<lparr>nr_id = ''k'', nr_package = pkg,
       nr_app_name = None, nr_title = [], nr_content = [], nr_posted_at = 0,
       nr_is_sensitive = False, nr_category = Some ''msg''\<rparr>, de_summary = JNull\<rparr>"

theorem noise_filter_decides_witness:
  "should_filter (demo_event ''android'') = Some ''is_sys_noise'' \<and>
   should_filter (demo_event ''org.mail'') = None"
  using noise_filter_decides[of "demo_event ''android''" MtNotificationReceived
      "\<lparr>nr_id = ''k'', nr_package = ''android'', nr_app_name = None, nr_title = [], nr_content = [],
        nr_posted_at = 0, nr_is_sensitive = False, nr_category = Some ''msg''\<rparr>"]
    noise_filter_decides[of "demo_event ''org.mail''" MtNotificationReceived
      "\<lparr>nr_id = ''k'', nr_package = ''org.mail'', nr_app_name = None, nr_title = [], nr_content = [],
        nr_posted_at = 0, nr_is_sensitive = False, nr_category = Some ''msg''\<rparr>"]
  by (simp add: demo_event_def OWN_PACKAGES_def SYSTEM_NOISE_PACKAGES_def TRANSIENT_CATEGORIES_def)

end
