(* ===== verification/Buses.thy ===== *)
theory Buses
  imports NoiseFilter Demo
begin

text \<open>
  The buses of the message-center: the broadcast channel all are built on, the bus of one
  connection (phonebridge-bus), the process-wide console bus with the summaries it extracts
  (console_bus.rs) and display bus (display_bus.rs), and the contract of the last two as a locale. A subscriber is its number, its queue and
  whether it lagged; the channel holds the last \<open>bus_cap\<close> events for each.
\<close>

section \<open>Broadcast channel\<close>

record 'e bus_sub =
  sub_id :: nat
  sub_queue :: "'e list"
  sub_lagged :: bool

record 'e bus =
  bus_cap :: nat
  bus_next :: nat
  bus_count :: nat
  bus_subs :: "'e bus_sub list"

datatype 'e recv = RvEvent 'e | RvLagged | RvWait

definition bus_new :: "nat \<Rightarrow> 'e bus" where
  "bus_new cap = \<lparr>bus_cap = cap, bus_next = 0, bus_count = 0, bus_subs = []\<rparr>"

definition sub_push :: "nat \<Rightarrow> 'e \<Rightarrow> 'e bus_sub \<Rightarrow> 'e bus_sub" where
  "sub_push cap e s =
     (let q = sub_queue s @ [e]
      in if length q > cap then s\<lparr>sub_queue := drop (length q - cap) q, sub_lagged := True\<rparr>
         else s\<lparr>sub_queue := q\<rparr>)"

text \<open>\<open>broadcast::Sender::send\<close>: every receiver gets the event; their number is returned.\<close>

definition bus_send :: "'e \<Rightarrow> 'e bus \<Rightarrow> 'e bus \<times> nat" where
  "bus_send e b = (b\<lparr>bus_subs := map (sub_push (bus_cap b) e) (bus_subs b)\<rparr>, length (bus_subs b))"

definition bus_subscribe :: "'e bus \<Rightarrow> 'e bus \<times> nat" where
  "bus_subscribe b =
     (b\<lparr>bus_next := bus_next b + 1, bus_count := bus_count b + 1,
        bus_subs := bus_subs b @ [\<lparr>sub_id = bus_next b, sub_queue = [], sub_lagged = False\<rparr>]\<rparr>,
      bus_next b)"

text \<open>Dropping a subscriber: the counter goes down unless it is zero.\<close>

definition bus_drop :: "nat \<Rightarrow> 'e bus \<Rightarrow> 'e bus" where
  "bus_drop i b = b\<lparr>bus_count := bus_count b - 1,
     bus_subs := filter (\<lambda>s. sub_id s \<noteq> i) (bus_subs b)\<rparr>"

definition bus_recv :: "nat \<Rightarrow> 'e bus \<Rightarrow> ('e bus \<times> 'e recv) option" where
  "bus_recv i b =
     (case find (\<lambda>s. sub_id s = i) (bus_subs b) of
        None \<Rightarrow> None
      | Some s \<Rightarrow>
          let upd = (\<lambda>s'. b\<lparr>bus_subs := map (\<lambda>q. if sub_id q = i then s' else q) (bus_subs b)\<rparr>)
          in Some (if sub_lagged s then (upd (s\<lparr>sub_lagged := False\<rparr>), RvLagged)
                   else (case sub_queue s of
                           [] \<Rightarrow> (b, RvWait)
                         | e # q \<Rightarrow> (upd (s\<lparr>sub_queue := q\<rparr>), RvEvent e))))"

definition bus_queue :: "'e bus \<Rightarrow> nat \<Rightarrow> 'e list option" where
  "bus_queue b i = map_option sub_queue (find (\<lambda>s. sub_id s = i) (bus_subs b))"

text \<open>Distinct numbers below the next one, and the counter counting the live subscribers.\<close>

definition bus_wf :: "'e bus \<Rightarrow> bool" where
  "bus_wf b \<longleftrightarrow> distinct (map sub_id (bus_subs b)) \<and> (\<forall>s \<in> set (bus_subs b). sub_id s < bus_next b) \<and>
     bus_count b = length (bus_subs b) \<and> (\<forall>s \<in> set (bus_subs b). length (sub_queue s) \<le> bus_cap b)"

lemma sub_push_id [simp]: "sub_id (sub_push cap e s) = sub_id s"
  by (simp add: sub_push_def Let_def)

lemma sub_push_length: "length (sub_queue (sub_push cap e s)) \<le> cap"
  by (simp add: sub_push_def Let_def) arith

lemma sub_push_room: "length (sub_queue s) < cap \<Longrightarrow> sub_push cap e s = s\<lparr>sub_queue := sub_queue s @ [e]\<rparr>"
  by (simp add: sub_push_def Let_def)

lemma bus_new_wf: "bus_wf (bus_new cap)"
  by (simp add: bus_wf_def bus_new_def)

lemma bus_subscribe_wf: "bus_wf b \<Longrightarrow> bus_wf (fst (bus_subscribe b))"
  by (auto simp: bus_wf_def bus_subscribe_def less_Suc_eq)

lemma bus_send_wf: "bus_wf b \<Longrightarrow> bus_wf (fst (bus_send e b))"
  using sub_push_length[of "bus_cap b" e]
  by (auto simp: bus_wf_def bus_send_def comp_def)

lemma length_filter_key:
  "distinct (map k xs) \<Longrightarrow> i \<in> k ` set xs \<Longrightarrow> length (filter (\<lambda>s. k s \<noteq> i) xs) = length xs - 1"
proof (induction xs)
  case (Cons x xs)
  show ?case
  proof (cases "k x = i")
    case True
    then have "i \<notin> k ` set xs" using Cons.prems by auto
    then have "filter (\<lambda>s. k s \<noteq> i) xs = xs" by (auto simp: filter_id_conv)
    then show ?thesis using True by simp
  next
    case False
    then have "xs \<noteq> []" "i \<in> k ` set xs" using Cons.prems by auto
    then show ?thesis using Cons False by (cases xs) auto
  qed
qed simp

lemma bus_drop_wf: "bus_wf b \<Longrightarrow> i \<in> sub_id ` set (bus_subs b) \<Longrightarrow> bus_wf (bus_drop i b)"
  by (auto simp: bus_wf_def bus_drop_def length_filter_key distinct_map inj_on_def)

lemma find_append:
  "find P (xs @ ys) = (case find P xs of None \<Rightarrow> find P ys | Some x \<Rightarrow> Some x)"
  by (induction xs) auto

lemma find_map: "find P (map f xs) = map_option f (find (\<lambda>x. P (f x)) xs)"
  by (induction xs) auto

lemma find_filter_ne: "find (\<lambda>s. k s = i) (filter (\<lambda>s. k s \<noteq> j) xs) = (if i = j then None else find (\<lambda>s. k s = i) xs)"
  by (induction xs) auto

lemma find_key_le:
  "bus_wf b \<Longrightarrow> find (\<lambda>s. sub_id s = i) (bus_subs b) = Some s \<Longrightarrow> length (sub_queue s) \<le> bus_cap b"
  by (auto simp: bus_wf_def find_Some_iff)

lemma find_fresh: "bus_wf b \<Longrightarrow> find (\<lambda>s. sub_id s = bus_next b) (bus_subs b) = None"
  by (auto simp: bus_wf_def find_None_iff)

section \<open>The contract of a bus\<close>

text \<open>
  What subscribers of either bus rely on: a fresh subscriber starts with nothing queued, a
  published event is queued last for every live subscriber with room, and nothing else touches
  a queue.
\<close>

locale broadcast_bus =
  fixes ok :: "'b \<Rightarrow> bool"
    and subscribe :: "'b \<Rightarrow> 'b \<times> nat"
    and drop_sub :: "nat \<Rightarrow> 'b \<Rightarrow> 'b"
    and publish :: "'e \<Rightarrow> 'b \<Rightarrow> 'b"
    and queue :: "'b \<Rightarrow> nat \<Rightarrow> 'v list option"
    and view :: "'e \<Rightarrow> 'v"
    and cap :: "'b \<Rightarrow> nat"
  assumes subscribe_ok: "ok b \<Longrightarrow> ok (fst (subscribe b))"
    and publish_ok: "ok b \<Longrightarrow> ok (publish e b)"
    and subscribe_queue: "ok b \<Longrightarrow>
      queue (fst (subscribe b)) = (queue b)(snd (subscribe b) \<mapsto> [])"
    and subscribe_fresh: "ok b \<Longrightarrow> queue b (snd (subscribe b)) = None"
    and publish_queue: "ok b \<Longrightarrow> queue b i = Some q \<Longrightarrow> length q < cap b \<Longrightarrow>
      queue (publish e b) i = Some (q @ [view e])"
    and publish_none: "ok b \<Longrightarrow> queue b i = None \<Longrightarrow> queue (publish e b) i = None"
    and cap_publish: "cap (publish e b) = cap b"
    and cap_subscribe: "cap (fst (subscribe b)) = cap b"
    and drop_queue: "ok b \<Longrightarrow> queue (drop_sub i b) = (queue b)(i := None)"
begin

lemma publish_all_ok: "ok b \<Longrightarrow> ok (fold publish es b)"
  by (induction es arbitrary: b) (simp_all add: publish_ok)

lemma publish_all_queue:
  "ok b \<Longrightarrow> queue b i = Some q \<Longrightarrow> length q + length es \<le> cap b \<Longrightarrow>
     queue (fold publish es b) i = Some (q @ map view es)"
proof (induction es arbitrary: b q)
  case (Cons e es)
  then have "queue (publish e b) i = Some (q @ [view e])" by (simp add: publish_queue)
  then show ?case using Cons by (simp add: publish_ok cap_publish)
qed simp

lemma new_subscriber_sees:
  "ok b \<Longrightarrow> length es \<le> cap b \<Longrightarrow>
     queue (fold publish es (fst (subscribe b))) (snd (subscribe b)) = Some (map view es)"
  using publish_all_queue[OF subscribe_ok, of b "snd (subscribe b)" "[]" es]
  by (simp add: subscribe_queue cap_subscribe)

lemma dropped_sees_nothing:
  "ok b \<Longrightarrow> ok (drop_sub i b) \<Longrightarrow> queue (fold publish es (drop_sub i b)) i = None"
proof -
  assume o: "ok b" and d: "ok (drop_sub i b)"
  have "ok c \<Longrightarrow> queue c i = None \<Longrightarrow> queue (fold publish es c) i = None" for c
    by (induction es arbitrary: c) (simp_all add: publish_ok publish_none)
  then show ?thesis using o d by (simp add: drop_queue)
qed

end

section \<open>The bus of a connection\<close>

text \<open>
  \<open>phonebridge_bus::Bus\<close>, which every connection of a phone has its own of. It counts
  nothing itself: its subscribers are the receivers of its channel.
\<close>

definition DEFAULT_CHANNEL_CAPACITY :: nat where
  "DEFAULT_CHANNEL_CAPACITY = 1024"

type_synonym proto_bus = "envelope bus"

definition proto_bus_new :: proto_bus where
  "proto_bus_new = bus_new DEFAULT_CHANNEL_CAPACITY"

definition proto_subscriber_count :: "proto_bus \<Rightarrow> nat" where
  "proto_subscriber_count b = length (bus_subs b)"

lemma proto_bus_new [simp]: "proto_bus_new = bus_new 1024"
  by (simp add: proto_bus_new_def DEFAULT_CHANNEL_CAPACITY_def)

text \<open>Publishing creates no subscriber, and reaches none where there is none.\<close>

lemma proto_publish_unheard:
  "proto_subscriber_count (fst (bus_send e b)) = proto_subscriber_count b"
  "snd (bus_send e b) = proto_subscriber_count b"
  by (simp_all add: proto_subscriber_count_def bus_send_def)

section \<open>Console bus\<close>

record console_event =
  ce_kind :: string
  ce_device_id :: uuid
  ce_envelope_id :: uuid
  ce_timestamp :: int
  ce_summary :: json

text \<open>\<open>summary.insert\<close> of each field; a field that does not decode inserts nothing.\<close>

definition console_summary :: "envelope \<Rightarrow> (string \<times> json) list" where
  "console_summary e =
     (case env_type e of
        MtNotificationReceived \<Rightarrow>
          (case dec_notification_received (env_payload e) of
             None \<Rightarrow> []
           | Some n \<Rightarrow> [(''package'', JStr (nr_package n)), (''title'', JStr (nr_title n)),
               (''app_name'', case nr_app_name n of None \<Rightarrow> JNull | Some a \<Rightarrow> JStr a)])
      | MtSmsReceived \<Rightarrow>
          (case dec_sms_received (env_payload e) of
             None \<Rightarrow> []
           | Some s \<Rightarrow> [(''address'', JStr (sr_address s)), (''body'', JStr (sr_body s))])
      | MtCallIncoming \<Rightarrow> [(''raw'', env_payload e)]
      | MtCallState \<Rightarrow> [(''raw'', env_payload e)]
      | MtDeviceHello \<Rightarrow>
          (case dec_device_hello (env_payload e) of
             None \<Rightarrow> []
           | Some h \<Rightarrow> [(''name'', JStr (dh_name h))])
      | _ \<Rightarrow> [])"

definition console_event_from_envelope :: "envelope \<Rightarrow> console_event" where
  "console_event_from_envelope e =
     \<lparr>ce_kind = mt_str (env_type e), ce_device_id = env_device_id e, ce_envelope_id = env_id e,
      ce_timestamp = env_ts e, ce_summary = JObj (console_summary e)\<rparr>"

type_synonym console_bus = "console_event bus"

definition console_bus_new :: console_bus where
  "console_bus_new = bus_new 1024"

definition console_publish :: "envelope \<Rightarrow> console_bus \<Rightarrow> console_bus" where
  "console_publish e b = fst (bus_send (console_event_from_envelope e) b)"

definition console_subscriber_count :: "console_bus \<Rightarrow> nat" where
  "console_subscriber_count b = bus_count b"

section \<open>Display bus\<close>

type_synonym display_bus = "display_event bus"

definition display_bus_new :: display_bus where
  "display_bus_new = bus_new 1024"

text \<open>Publishing is skipped when nobody is counted as listening.\<close>

definition display_publish :: "display_event \<Rightarrow> display_bus \<Rightarrow> display_bus \<times> nat" where
  "display_publish e b = (if bus_count b = 0 then (b, 0) else bus_send e b)"

definition display_subscriber_count :: "display_bus \<Rightarrow> nat" where
  "display_subscriber_count b = bus_count b"

definition build_display_event :: "string \<Rightarrow> uuid \<Rightarrow> uuid \<Rightarrow> json \<Rightarrow> int \<Rightarrow> display_event" where
  "build_display_event kind dev eid p now =
     \<lparr>de_kind = kind, de_device_id = dev, de_envelope_id = eid, de_timestamp = now,
      de_payload = p, de_summary = JNull\<rparr>"

section \<open>Both buses keep the contract\<close>

lemma send_queue:
  "bus_queue (fst (bus_send e b)) i =
     map_option sub_queue (map_option (sub_push (bus_cap b) e) (find (\<lambda>s. sub_id s = i) (bus_subs b)))"
  by (simp add: bus_queue_def bus_send_def find_map)

lemma send_queue_room:
  "bus_queue b i = Some q \<Longrightarrow> length q < bus_cap b \<Longrightarrow> bus_queue (fst (bus_send e b)) i = Some (q @ [e])"
  unfolding send_queue unfolding bus_queue_def by (auto simp: sub_push_room)

lemma send_queue_none: "bus_queue b i = None \<Longrightarrow> bus_queue (fst (bus_send e b)) i = None"
  unfolding send_queue unfolding bus_queue_def by simp

lemma subscribe_queue_eq:
  "bus_wf b \<Longrightarrow> bus_queue (fst (bus_subscribe b)) = (bus_queue b)(snd (bus_subscribe b) \<mapsto> [])"
  by (auto simp: bus_queue_def bus_subscribe_def find_append fun_eq_iff find_fresh split: option.splits)

lemma drop_queue_eq: "bus_queue (bus_drop i b) = (bus_queue b)(i := None)"
  by (auto simp: bus_queue_def bus_drop_def find_filter_ne fun_eq_iff)

lemma subscribe_fresh: "bus_wf b \<Longrightarrow> bus_queue b (snd (bus_subscribe b)) = None"
  by (simp add: bus_queue_def bus_subscribe_def find_fresh)

lemma bus_cap_kept [simp]:
  "bus_cap (fst (bus_send e b)) = bus_cap b" "bus_cap (fst (bus_subscribe b)) = bus_cap b"
  by (simp_all add: bus_send_def bus_subscribe_def)

interpretation console_channel: broadcast_bus bus_wf bus_subscribe bus_drop console_publish bus_queue
  console_event_from_envelope bus_cap
  by unfold_locales (simp_all add: console_publish_def bus_subscribe_wf bus_send_wf
    subscribe_queue_eq subscribe_fresh send_queue_room send_queue_none drop_queue_eq)

lemma display_publish_send: "bus_wf b \<Longrightarrow> fst (display_publish e b) = fst (bus_send e b)"
  by (cases b) (auto simp: display_publish_def bus_send_def bus_wf_def)

lemma display_publish_cap: "bus_cap (fst (display_publish e b)) = bus_cap b"
  by (simp add: display_publish_def bus_send_def)

interpretation display_channel: broadcast_bus bus_wf bus_subscribe bus_drop
  "\<lambda>e b. fst (display_publish e b)" bus_queue "\<lambda>e. e" bus_cap
  by unfold_locales (simp_all add: display_publish_send display_publish_cap bus_subscribe_wf
    bus_send_wf subscribe_queue_eq subscribe_fresh send_queue_room send_queue_none drop_queue_eq)

text \<open>
  A subscriber of either bus receives exactly the events published after it subscribed, in
  order and none lost as long as no more than the capacity are outstanding, on the console bus as
  the summaries of the envelopes; nothing reaches it once it has been dropped.
\<close>

lemma bus_subscribers_see_all:
  assumes "bus_wf c" "bus_wf d" "length es \<le> bus_cap c" "length vs \<le> bus_cap d"
    "i \<in> sub_id ` set (bus_subs d)"
  shows "bus_queue (fold console_publish es (fst (bus_subscribe c))) (snd (bus_subscribe c)) =
      Some (map console_event_from_envelope es) \<and>
    bus_queue (fold (\<lambda>e b. fst (display_publish e b)) vs (fst (bus_subscribe d))) (snd (bus_subscribe d)) =
      Some vs \<and>
    bus_queue (fold (\<lambda>e b. fst (display_publish e b)) vs (bus_drop i d)) i = None"
  using console_channel.new_subscriber_sees[OF assms(1,3)] display_channel.new_subscriber_sees[OF assms(2,4)]
    display_channel.dropped_sees_nothing[OF assms(2) bus_drop_wf[OF assms(2,5)], of vs]
  by simp

theorem bus_subscribers_see_all_witness:
  "let d = fst (bus_subscribe display_bus_new); e = demo_event ''p'' in
     bus_queue (fst (display_publish e (fst (bus_subscribe d)))) (snd (bus_subscribe d)) = Some [e]"
proof -
  let ?d = "fst (bus_subscribe display_bus_new)"
  have c: "bus_wf console_bus_new" "bus_wf ?d"
    by (simp_all add: console_bus_new_def display_bus_new_def bus_new_wf bus_subscribe_wf)
  have m: "0 \<in> sub_id ` set (bus_subs ?d)"
    by (simp add: display_bus_new_def bus_subscribe_def bus_new_def)
  have r: "length [] \<le> bus_cap console_bus_new" "length [demo_event ''p''] \<le> bus_cap ?d"
    by (simp_all add: display_bus_new_def) (simp add: bus_new_def)
  show ?thesis using bus_subscribers_see_all[OF c r m] by (simp add: Let_def)
qed

text \<open>
  The subscriber counters of both buses count the live subscribers through every sequence of
  subscribing, publishing and dropping a live subscriber, so the display bus skips publishing only
  when nobody listens.
\<close>

lemma bus_counts_subscribers:
  assumes "bus_wf b" "i \<in> sub_id ` set (bus_subs b)"
  shows "bus_wf (fst (bus_subscribe b)) \<and> bus_wf (fst (display_publish e b)) \<and> bus_wf (bus_drop i b) \<and>
    bus_count (fst (bus_subscribe b)) = bus_count b + 1 \<and> bus_count (bus_drop i b) = bus_count b - 1 \<and>
    snd (display_publish e b) = length (bus_subs b)"
  using bus_subscribe_wf[OF assms(1)] display_channel.publish_ok[OF assms(1)] bus_drop_wf[OF assms] assms(1)
  by (simp add: bus_subscribe_def bus_drop_def) (auto simp: display_publish_def bus_send_def bus_wf_def)

theorem bus_counts_subscribers_witness:
  "let b = fst (bus_subscribe display_bus_new) in bus_count (bus_drop 0 b) = 0 \<and> bus_count b = 1"
proof -
  let ?d = "fst (bus_subscribe display_bus_new)"
  have w: "bus_wf ?d" by (simp add: display_bus_new_def bus_new_wf bus_subscribe_wf)
  have m: "0 \<in> sub_id ` set (bus_subs ?d)" and n: "bus_count ?d = 1"
    by (simp_all add: display_bus_new_def bus_subscribe_def bus_new_def)
  show ?thesis using bus_counts_subscribers[OF w m] n by (simp add: Let_def)
qed

end
