(* ===== verification/Storage.thy ===== *)
theory Storage
  imports Text
begin

text \<open>
  The storage layer (phonebridge-storage): the row structs of models.rs and the queries of
  pool.rs over the tables of the migrations. A table is the list of its rows in the order of
  insertion; a statement checks the constraints the schema declares (unique keys, foreign keys
  to \<open>devices.device_id\<close> with cascading deletes and no update action) and fails without
  effect when one is violated. \<open>AUTOINCREMENT\<close> ids come from a counter per table.
  \<open>db_up\<close> is whether the pool serves queries at all: when it does not, every query
  fails.
\<close>

section \<open>Rows\<close>

record device_row =
  dr_id :: int
  dr_name :: string
  dr_device_id :: uuid
  dr_public_key :: string
  dr_last_seen :: int
  dr_paired :: bool
  dr_hardware_id :: "string option"

record pairing_row =
  pw_id :: int
  pw_device_id :: uuid
  pw_cert_pem :: string
  pw_cert_fingerprint :: string
  pw_paired_at :: int

record notification_row =
  nw_id :: string
  nw_device_id :: uuid
  nw_package_name :: string
  nw_app_name :: "string option"
  nw_title :: string
  nw_content :: string
  nw_posted_at :: int
  nw_is_sensitive :: bool
  nw_category :: "string option"
  nw_read :: bool

datatype sms_direction = SdIn | SdOut

fun sms_direction_str :: "sms_direction \<Rightarrow> string" where
  "sms_direction_str SdIn = ''in''"
| "sms_direction_str SdOut = ''out''"

definition sms_direction_parse :: "string \<Rightarrow> sms_direction option" where
  "sms_direction_parse s =
     (if s = ''in'' then Some SdIn else if s = ''out'' then Some SdOut else None)"

lemma sms_direction_roundtrip: "sms_direction_parse (sms_direction_str d) = Some d"
  by (cases d) (simp_all add: sms_direction_parse_def)

record sms_row =
  sw_id :: string
  sw_device_id :: uuid
  sw_sim_slot :: "u8 option"
  sw_phone_number :: string
  sw_body :: string
  sw_direction :: string
  sw_timestamp :: int

text \<open>The values the state and the direction of a call are documented to take.\<close>

datatype call_state_col = StRinging | StOffhook | StIdle

fun call_state_col_str :: "call_state_col \<Rightarrow> string" where
  "call_state_col_str StRinging = ''ringing''"
| "call_state_col_str StOffhook = ''offhook''"
| "call_state_col_str StIdle = ''idle''"

datatype call_dir_col = DirIncoming | DirOutgoing | DirMissed

fun call_dir_col_str :: "call_dir_col \<Rightarrow> string" where
  "call_dir_col_str DirIncoming = ''incoming''"
| "call_dir_col_str DirOutgoing = ''outgoing''"
| "call_dir_col_str DirMissed = ''missed''"

record call_row =
  cw_id :: int
  cw_device_id :: uuid
  cw_phone_number :: string
  cw_contact_name :: "string option"
  cw_state :: string
  cw_started_at :: int
  cw_ended_at :: "int option"
  cw_direction :: string
  cw_duration_secs :: "int option"
  cw_sim_slot :: "u8 option"

record audit_row =
  aw_id :: int
  aw_timestamp :: int
  aw_device_id :: "uuid option"
  aw_event :: string
  aw_detail :: "string option"

record db =
  db_up :: bool
  t_devices :: "device_row list"
  t_pairings :: "pairing_row list"
  t_notifications :: "notification_row list"
  t_sms :: "sms_row list"
  t_calls :: "call_row list"
  t_audit :: "audit_row list"
  seq_devices :: int
  seq_pairings :: int
  seq_calls :: int
  seq_audit :: int

datatype db_error = DbUnavailable | DbForeignKey | DbUnique | DbMismatch

text \<open>A migrated, empty database.\<close>

definition db_empty :: db where
  "db_empty = \<lparr>db_up = True, t_devices = [], t_pairings = [], t_notifications = [], t_sms = [],
     t_calls = [], t_audit = [], seq_devices = 0, seq_pairings = 0, seq_calls = 0, seq_audit = 0\<rparr>"

section \<open>Constraints\<close>

definition has_device :: "db \<Rightarrow> uuid \<Rightarrow> bool" where
  "has_device db u \<longleftrightarrow> list_ex (\<lambda>r. dr_device_id r = u) (t_devices db)"

definition referenced :: "db \<Rightarrow> uuid \<Rightarrow> bool" where
  "referenced db u \<longleftrightarrow>
     list_ex (\<lambda>r. pw_device_id r = u) (t_pairings db) \<or>
     list_ex (\<lambda>r. nw_device_id r = u) (t_notifications db) \<or>
     list_ex (\<lambda>r. sw_device_id r = u) (t_sms db) \<or>
     list_ex (\<lambda>r. cw_device_id r = u) (t_calls db)"

lemma has_device_iff: "has_device db u \<longleftrightarrow> u \<in> dr_device_id ` set (t_devices db)"
  by (auto simp: has_device_def list_ex_iff)

lemma referenced_iff:
  "referenced db u \<longleftrightarrow>
     u \<in> pw_device_id ` set (t_pairings db) \<union> nw_device_id ` set (t_notifications db) \<union>
         sw_device_id ` set (t_sms db) \<union> cw_device_id ` set (t_calls db)"
  by (auto simp: referenced_def list_ex_iff)

text \<open>What the schema promises of every reachable database.\<close>

definition db_wf :: "db \<Rightarrow> bool" where
  "db_wf db \<longleftrightarrow>
     distinct (map dr_id (t_devices db)) \<and>
     distinct (map dr_device_id (t_devices db)) \<and>
     (\<forall>r \<in> set (t_devices db). dr_id r \<le> seq_devices db) \<and>
     distinct (map pw_device_id (t_pairings db)) \<and>
     distinct (map (\<lambda>r. (nw_id r, nw_device_id r)) (t_notifications db)) \<and>
     distinct (map (\<lambda>r. (sw_id r, sw_device_id r)) (t_sms db)) \<and>
     (\<forall>u. referenced db u \<longrightarrow> has_device db u)"

section \<open>Devices\<close>

definition insert_device :: "db \<Rightarrow> device_row \<Rightarrow> db_error + db" where
  "insert_device db d =
     (if has_device db (dr_device_id d)
      then Inr (db\<lparr>t_devices := map (\<lambda>r.
             if dr_device_id r = dr_device_id d
             then r\<lparr>dr_name := dr_name d, dr_public_key := dr_public_key d,
                    dr_last_seen := dr_last_seen d,
                    dr_hardware_id := (case dr_hardware_id d of
                       None \<Rightarrow> dr_hardware_id r | Some h \<Rightarrow> Some h)\<rparr>
             else r) (t_devices db)\<rparr>)
      else Inr (db\<lparr>t_devices := t_devices db @ [d\<lparr>dr_id := seq_devices db + 1\<rparr>],
                   seq_devices := seq_devices db + 1\<rparr>))"

definition update_device :: "db \<Rightarrow> device_row \<Rightarrow> device_row \<Rightarrow> string \<Rightarrow> db_error + db" where
  "update_device db row d hw =
     (if dr_device_id d \<noteq> dr_device_id row \<and> has_device db (dr_device_id d) then Inl DbUnique
      else if dr_device_id d \<noteq> dr_device_id row \<and> referenced db (dr_device_id row)
      then Inl DbForeignKey
      else Inr (db\<lparr>t_devices := map (\<lambda>r.
             if dr_id r = dr_id row
             then r\<lparr>dr_name := dr_name d, dr_device_id := dr_device_id d,
                    dr_public_key := dr_public_key d, dr_last_seen := dr_last_seen d,
                    dr_paired := dr_paired d, dr_hardware_id := Some hw\<rparr>
             else r) (t_devices db)\<rparr>))"

definition upsert_device :: "db \<Rightarrow> device_row \<Rightarrow> db_error + db" where
  "upsert_device db d =
     (if \<not> db_up db then Inl DbUnavailable
      else case dr_hardware_id d of
             None \<Rightarrow> insert_device db d
           | Some hw \<Rightarrow>
               (case find (\<lambda>r. dr_hardware_id r = Some hw) (t_devices db) of
                  Some row \<Rightarrow> update_device db row d hw
                | None \<Rightarrow> insert_device db d))"

definition list_devices :: "db \<Rightarrow> db_error + device_row list" where
  "list_devices db =
     (if \<not> db_up db then Inl DbUnavailable else Inr (sort_desc dr_last_seen (t_devices db)))"

definition get_device :: "db \<Rightarrow> uuid \<Rightarrow> db_error + device_row option" where
  "get_device db u =
     (if \<not> db_up db then Inl DbUnavailable
      else Inr (find (\<lambda>r. dr_device_id r = u) (t_devices db)))"

text \<open>\<open>DELETE FROM devices\<close>, with the cascades of the schema.\<close>

definition remove_device :: "db \<Rightarrow> uuid \<Rightarrow> db_error + db" where
  "remove_device db u =
     (if \<not> db_up db then Inl DbUnavailable
      else Inr (db\<lparr>t_devices := filter (\<lambda>r. dr_device_id r \<noteq> u) (t_devices db),
                   t_pairings := filter (\<lambda>r. pw_device_id r \<noteq> u) (t_pairings db),
                   t_notifications := filter (\<lambda>r. nw_device_id r \<noteq> u) (t_notifications db),
                   t_sms := filter (\<lambda>r. sw_device_id r \<noteq> u) (t_sms db),
                   t_calls := filter (\<lambda>r. cw_device_id r \<noteq> u) (t_calls db)\<rparr>))"

definition touch_device :: "db \<Rightarrow> uuid \<Rightarrow> int \<Rightarrow> db_error + db" where
  "touch_device db u seen =
     (if \<not> db_up db then Inl DbUnavailable
      else Inr (db\<lparr>t_devices := map (\<lambda>r.
        if dr_device_id r = u then r\<lparr>dr_last_seen := seen\<rparr> else r) (t_devices db)\<rparr>))"

section \<open>Pairings\<close>

definition insert_pairing :: "db \<Rightarrow> uuid \<Rightarrow> string \<Rightarrow> string \<Rightarrow> int \<Rightarrow> db_error + db" where
  "insert_pairing db u pem fp at =
     (if \<not> db_up db then Inl DbUnavailable
      else if list_ex (\<lambda>r. pw_device_id r = u) (t_pairings db)
      then Inr (db\<lparr>t_pairings := map (\<lambda>r.
             if pw_device_id r = u
             then r\<lparr>pw_cert_pem := pem, pw_cert_fingerprint := fp, pw_paired_at := at\<rparr>
             else r) (t_pairings db)\<rparr>)
      else if \<not> has_device db u then Inl DbForeignKey
      else Inr (db\<lparr>t_pairings := t_pairings db @
                     [\<lparr>pw_id = seq_pairings db + 1, pw_device_id = u, pw_cert_pem = pem,
                       pw_cert_fingerprint = fp, pw_paired_at = at\<rparr>],
                   seq_pairings := seq_pairings db + 1\<rparr>))"

definition get_pairing :: "db \<Rightarrow> uuid \<Rightarrow> db_error + pairing_row option" where
  "get_pairing db u =
     (if \<not> db_up db then Inl DbUnavailable
      else Inr (find (\<lambda>r. pw_device_id r = u) (t_pairings db)))"

definition mark_device_paired :: "db \<Rightarrow> uuid \<Rightarrow> db_error + db" where
  "mark_device_paired db u =
     (if \<not> db_up db then Inl DbUnavailable
      else Inr (db\<lparr>t_devices := map (\<lambda>r.
        if dr_device_id r = u then r\<lparr>dr_paired := True\<rparr> else r) (t_devices db)\<rparr>))"

section \<open>Notifications\<close>

definition insert_notification :: "db \<Rightarrow> notification_row \<Rightarrow> db_error + db" where
  "insert_notification db n =
     (if \<not> db_up db then Inl DbUnavailable
      else if \<not> has_device db (nw_device_id n) then Inl DbForeignKey
      else Inr (db\<lparr>t_notifications :=
        filter (\<lambda>r. \<not> (nw_id r = nw_id n \<and> nw_device_id r = nw_device_id n)) (t_notifications db)
          @ [n]\<rparr>))"

text \<open>
  \<open>list_notifications\<close> picks one of eight statements and binds its parameters in a
  second case distinction; a statement is its conjuncts, each with the number of the parameter
  it compares with, and the parameter of its limit.
\<close>

datatype bind = BUuid uuid | BText string | BInt int
datatype ncond = NDevice nat | NUnread | NPackage nat

definition bind_param :: "bind list \<Rightarrow> nat \<Rightarrow> bind option" where
  "bind_param bs k = (if 1 \<le> k \<and> k \<le> length bs then Some (bs ! (k - 1)) else None)"

fun ncond_holds :: "bind list \<Rightarrow> notification_row \<Rightarrow> ncond \<Rightarrow> bool" where
  "ncond_holds bs r (NDevice k) = (bind_param bs k = Some (BUuid (nw_device_id r)))"
| "ncond_holds bs r NUnread = (\<not> nw_read r)"
| "ncond_holds bs r (NPackage k) = (bind_param bs k = Some (BText (nw_package_name r)))"

definition notif_stmt :: "bool \<Rightarrow> bool \<Rightarrow> bool \<Rightarrow> ncond list \<times> nat" where
  "notif_stmt only_unread dev pkg =
     (if only_unread \<and> dev \<and> pkg then ([NDevice 1, NUnread, NPackage 2], 3)
      else if only_unread \<and> dev then ([NDevice 1, NUnread], 2)
      else if only_unread \<and> pkg then ([NUnread, NPackage 1], 2)
      else if dev \<and> pkg then ([NDevice 1, NPackage 2], 3)
      else if dev then ([NDevice 1], 2)
      else if pkg then ([NPackage 1], 2)
      else if only_unread then ([NUnread], 1)
      else ([], 1))"

fun notif_binds :: "bool \<Rightarrow> uuid option \<Rightarrow> string option \<Rightarrow> int \<Rightarrow> bind list" where
  "notif_binds True (Some d) (Some p) limit = [BUuid d, BText p, BInt limit]"
| "notif_binds True (Some d) None limit = [BUuid d, BInt limit]"
| "notif_binds True None (Some p) limit = [BText p, BInt limit]"
| "notif_binds False (Some d) (Some p) limit = [BUuid d, BText p, BInt limit]"
| "notif_binds False (Some d) None limit = [BUuid d, BInt limit]"
| "notif_binds False None (Some p) limit = [BText p, BInt limit]"
| "notif_binds True None None limit = [BInt limit]"
| "notif_binds False None None limit = [BInt limit]"

definition list_notifications ::
  "db \<Rightarrow> uuid option \<Rightarrow> int \<Rightarrow> bool \<Rightarrow> string option \<Rightarrow> db_error + notification_row list" where
  "list_notifications db dev limit only_unread pkg =
     (if \<not> db_up db then Inl DbUnavailable
      else let (conds, lim) = notif_stmt only_unread (dev \<noteq> None) (pkg \<noteq> None);
               bs = notif_binds only_unread dev pkg limit;
               rows = filter (\<lambda>r. list_all (ncond_holds bs r) conds) (t_notifications db)
           in case bind_param bs lim of
                Some (BInt n) \<Rightarrow> Inr (limit_rows n (sort_desc nw_posted_at rows))
              | _ \<Rightarrow> Inl DbMismatch)"

definition mark_notification_read :: "db \<Rightarrow> uuid \<Rightarrow> string \<Rightarrow> db_error + db" where
  "mark_notification_read db u i =
     (if \<not> db_up db then Inl DbUnavailable
      else Inr (db\<lparr>t_notifications := map (\<lambda>r.
        if nw_device_id r = u \<and> nw_id r = i then r\<lparr>nw_read := True\<rparr> else r)
        (t_notifications db)\<rparr>))"

definition dismiss_notification :: "db \<Rightarrow> uuid \<Rightarrow> string \<Rightarrow> db_error + (db \<times> string option)" where
  "dismiss_notification db u i =
     (if \<not> db_up db then Inl DbUnavailable
      else Inr (db\<lparr>t_notifications := map (\<lambda>r.
             if nw_device_id r = u \<and> nw_id r = i then r\<lparr>nw_read := True\<rparr> else r)
             (t_notifications db)\<rparr>,
           map_option nw_id
             (find (\<lambda>r. nw_device_id r = u \<and> nw_id r = i) (t_notifications db))))"

definition count_unread_notifications :: "db \<Rightarrow> uuid option \<Rightarrow> db_error + int" where
  "count_unread_notifications db dev =
     (if \<not> db_up db then Inl DbUnavailable
      else Inr (int (length (filter (\<lambda>r. \<not> nw_read r \<and>
        (case dev of None \<Rightarrow> True | Some d \<Rightarrow> nw_device_id r = d)) (t_notifications db)))))"

definition count_notifications_by_package :: "db \<Rightarrow> uuid option \<Rightarrow> db_error + (string \<times> int) list" where
  "count_notifications_by_package db dev =
     (if \<not> db_up db then Inl DbUnavailable
      else let rows = filter (\<lambda>r. case dev of None \<Rightarrow> True | Some d \<Rightarrow> nw_device_id r = d)
                        (t_notifications db)
           in Inr (sort_desc snd (map (\<lambda>p.
                (p, int (length (filter (\<lambda>r. nw_package_name r = p) rows))))
                (remdups (map nw_package_name rows)))))"

section \<open>SMS\<close>

definition insert_sms :: "db \<Rightarrow> sms_row \<Rightarrow> db_error + db" where
  "insert_sms db s =
     (if \<not> db_up db then Inl DbUnavailable
      else if \<not> has_device db (sw_device_id s) then Inl DbForeignKey
      else Inr (db\<lparr>t_sms :=
        filter (\<lambda>r. \<not> (sw_id r = sw_id s \<and> sw_device_id r = sw_device_id s)) (t_sms db) @ [s]\<rparr>))"

datatype scond = SDevice nat | SPhone nat

fun scond_holds :: "bind list \<Rightarrow> sms_row \<Rightarrow> scond \<Rightarrow> bool" where
  "scond_holds bs r (SDevice k) = (bind_param bs k = Some (BUuid (sw_device_id r)))"
| "scond_holds bs r (SPhone k) = (bind_param bs k = Some (BText (sw_phone_number r)))"

fun sms_stmt :: "bool \<Rightarrow> bool \<Rightarrow> scond list \<times> nat" where
  "sms_stmt True True = ([SDevice 1, SPhone 2], 3)"
| "sms_stmt True False = ([SDevice 1], 2)"
| "sms_stmt False True = ([SPhone 1], 2)"
| "sms_stmt False False = ([], 1)"

fun sms_binds :: "uuid option \<Rightarrow> string option \<Rightarrow> int \<Rightarrow> bind list" where
  "sms_binds (Some d) (Some p) limit = [BUuid d, BText p, BInt limit]"
| "sms_binds (Some d) None limit = [BUuid d, BInt limit]"
| "sms_binds None (Some p) limit = [BText p, BInt limit]"
| "sms_binds None None limit = [BInt limit]"

definition list_sms :: "db \<Rightarrow> uuid option \<Rightarrow> string option \<Rightarrow> int \<Rightarrow> db_error + sms_row list" where
  "list_sms db dev phone limit =
     (if \<not> db_up db then Inl DbUnavailable
      else let (conds, lim) = sms_stmt (dev \<noteq> None) (phone \<noteq> None);
               bs = sms_binds dev phone limit;
               rows = filter (\<lambda>r. list_all (scond_holds bs r) conds) (t_sms db)
           in case bind_param bs lim of
                Some (BInt n) \<Rightarrow> Inr (limit_rows n (sort_desc sw_timestamp rows))
              | _ \<Rightarrow> Inl DbMismatch)"

definition list_sms_conversations :: "db \<Rightarrow> uuid option \<Rightarrow> db_error + (string \<times> int \<times> int) list" where
  "list_sms_conversations db dev =
     (if \<not> db_up db then Inl DbUnavailable
      else let rows = filter (\<lambda>r. case dev of None \<Rightarrow> True | Some d \<Rightarrow> sw_device_id r = d) (t_sms db);
               grp = (\<lambda>p. filter (\<lambda>r. sw_phone_number r = p) rows)
           in Inr (sort_desc (\<lambda>(_, last, _). last) (map (\<lambda>p.
                (p, Max (sw_timestamp ` set (grp p)), int (length (grp p))))
                (remdups (map sw_phone_number rows)))))"

section \<open>Calls and audit log\<close>

definition insert_call :: "db \<Rightarrow> call_row \<Rightarrow> db_error + (db \<times> int)" where
  "insert_call db c =
     (if \<not> db_up db then Inl DbUnavailable
      else if \<not> has_device db (cw_device_id c) then Inl DbForeignKey
      else Inr (db\<lparr>t_calls := t_calls db @ [c\<lparr>cw_id := seq_calls db + 1\<rparr>],
                   seq_calls := seq_calls db + 1\<rparr>, seq_calls db + 1))"

definition list_calls :: "db \<Rightarrow> uuid option \<Rightarrow> int \<Rightarrow> db_error + call_row list" where
  "list_calls db dev limit =
     (if \<not> db_up db then Inl DbUnavailable
      else Inr (limit_rows limit (sort_desc cw_started_at (filter (\<lambda>r.
        case dev of None \<Rightarrow> True | Some d \<Rightarrow> cw_device_id r = d) (t_calls db)))))"

definition insert_audit_log ::
  "db \<Rightarrow> int \<Rightarrow> uuid option \<Rightarrow> string \<Rightarrow> string option \<Rightarrow> db_error + db" where
  "insert_audit_log db ts dev ev detail =
     (if \<not> db_up db then Inl DbUnavailable
      else Inr (db\<lparr>t_audit := t_audit db @
                     [\<lparr>aw_id = seq_audit db + 1, aw_timestamp = ts, aw_device_id = dev,
                       aw_event = ev, aw_detail = detail\<rparr>],
                   seq_audit := seq_audit db + 1\<rparr>))"

definition list_audit_log :: "db \<Rightarrow> int \<Rightarrow> db_error + audit_row list" where
  "list_audit_log db limit =
     (if \<not> db_up db then Inl DbUnavailable
      else Inr (limit_rows limit (sort_desc aw_timestamp (t_audit db))))"

section \<open>What the schema keeps\<close>

text \<open>
  One write of the storage layer, whatever its arguments, that SQLite accepted.
\<close>

inductive db_write :: "db \<Rightarrow> db \<Rightarrow> bool" where
  w_upsert: "upsert_device s d = Inr s' \<Longrightarrow> db_write s s'"
| w_remove: "remove_device s u = Inr s' \<Longrightarrow> db_write s s'"
| w_touch: "touch_device s u seen = Inr s' \<Longrightarrow> db_write s s'"
| w_pairing: "insert_pairing s u pem fp at = Inr s' \<Longrightarrow> db_write s s'"
| w_paired: "mark_device_paired s u = Inr s' \<Longrightarrow> db_write s s'"
| w_notification: "insert_notification s n = Inr s' \<Longrightarrow> db_write s s'"
| w_read: "mark_notification_read s u i = Inr s' \<Longrightarrow> db_write s s'"
| w_dismiss: "dismiss_notification s u i = Inr (s', r) \<Longrightarrow> db_write s s'"
| w_sms: "insert_sms s m = Inr s' \<Longrightarrow> db_write s s'"
| w_call: "insert_call s c = Inr (s', i) \<Longrightarrow> db_write s s'"
| w_audit: "insert_audit_log s ts dev ev det = Inr s' \<Longrightarrow> db_write s s'"

text \<open>No two device rows carry the same hardware id.\<close>

definition hw_list :: "device_row list \<Rightarrow> string list" where
  "hw_list ds = concat (map (\<lambda>r. case dr_hardware_id r of None \<Rightarrow> [] | Some h \<Rightarrow> [h]) ds)"

definition hw_unique :: "db \<Rightarrow> bool" where
  "hw_unique s \<longleftrightarrow> distinct (hw_list (t_devices s))"

lemma hw_list_simps [simp]:
  "hw_list [] = []"
  "hw_list (r # ds) = (case dr_hardware_id r of None \<Rightarrow> hw_list ds | Some h \<Rightarrow> h # hw_list ds)"
  "hw_list (us @ vs) = hw_list us @ hw_list vs"
  by (simp_all add: hw_list_def split: option.split)

lemma set_hw_list: "h \<in> set (hw_list ds) \<longleftrightarrow> (\<exists>r \<in> set ds. dr_hardware_id r = Some h)"
  by (induction ds) (auto split: option.split)

text \<open>The constraints only read the key columns.\<close>

definition wf_keys ::
  "int list \<Rightarrow> uuid list \<Rightarrow> int \<Rightarrow> uuid list \<Rightarrow> (string \<times> uuid) list \<Rightarrow>
     (string \<times> uuid) list \<Rightarrow> uuid list \<Rightarrow> bool" where
  "wf_keys ids dids n ps ns ss cs \<longleftrightarrow>
     distinct ids \<and> distinct dids \<and> (\<forall>i \<in> set ids. i \<le> n) \<and> distinct ps \<and> distinct ns \<and> distinct ss \<and>
     set ps \<union> snd ` set ns \<union> snd ` set ss \<union> set cs \<subseteq> set dids"

lemma db_wf_keys:
  "db_wf s = wf_keys (map dr_id (t_devices s)) (map dr_device_id (t_devices s)) (seq_devices s)
     (map pw_device_id (t_pairings s)) (map (\<lambda>r. (nw_id r, nw_device_id r)) (t_notifications s))
     (map (\<lambda>r. (sw_id r, sw_device_id r)) (t_sms s)) (map cw_device_id (t_calls s))"
proof -
  have c: "(\<forall>u. referenced s u \<longrightarrow> has_device s u) \<longleftrightarrow>
      pw_device_id ` set (t_pairings s) \<union> nw_device_id ` set (t_notifications s) \<union>
        sw_device_id ` set (t_sms s) \<union> cw_device_id ` set (t_calls s)
      \<subseteq> dr_device_id ` set (t_devices s)"
    unfolding referenced_iff has_device_iff subset_iff ..
  have n: "snd ` (\<lambda>r. (nw_id r, nw_device_id r)) ` A = nw_device_id ` A" for A
    by force
  have m: "snd ` (\<lambda>r. (sw_id r, sw_device_id r)) ` A = sw_device_id ` A" for A
    by force
  show ?thesis unfolding db_wf_def wf_keys_def c list.set_map n m ball_simps(9) ..
qed

lemma map_if_keep [db_simps]:
  "(\<And>x. f (g x) = f x) \<Longrightarrow> map f (map (\<lambda>x. if P x then g x else x) xs) = map f xs"
  by auto

lemma wf_keys_distinctD:
  "wf_keys ids dids n ps ns ss cs \<Longrightarrow> distinct ids"
  "wf_keys ids dids n ps ns ss cs \<Longrightarrow> distinct dids"
  by (auto simp: wf_keys_def)

lemma distinct_replace:
  "distinct (map f xs) \<Longrightarrow> distinct (map f (filter (\<lambda>x. f x \<noteq> f a) xs @ [a]))"
  by (auto simp: distinct_map inj_on_def)

lemma wf_keys_replace:
  assumes w: "wf_keys ids dids k ps (map f xs) ss cs" and a: "snd (f a) \<in> set dids"
  shows "wf_keys ids dids k ps (map f (filter (\<lambda>x. f x \<noteq> f a) xs @ [a])) ss cs"
proof -
  have "distinct (map f (filter (\<lambda>x. f x \<noteq> f a) xs @ [a]))"
    using w by (intro distinct_replace) (simp add: wf_keys_def)
  moreover have "snd ` set (map f (filter (\<lambda>x. f x \<noteq> f a) xs @ [a])) \<subseteq> set dids"
    using w a by (auto simp: wf_keys_def)
  ultimately show ?thesis using w unfolding wf_keys_def by blast
qed

lemma filter_map_swap: "filter P (map f xs) = map f (filter (\<lambda>x. P (f x)) xs)"
  by (simp add: filter_map comp_def)

lemma wf_keys_remove:
  assumes "wf_keys (map f xs) (map g xs) n ps ns ss cs"
  shows "wf_keys (map f (filter (\<lambda>x. g x \<noteq> u) xs)) (filter (\<lambda>d. d \<noteq> u) (map g xs)) n
     (filter (\<lambda>d. d \<noteq> u) ps) (filter (\<lambda>k. snd k \<noteq> u) ns) (filter (\<lambda>k. snd k \<noteq> u) ss)
     (filter (\<lambda>d. d \<noteq> u) cs)"
proof -
  have "distinct (map f (filter (\<lambda>x. g x \<noteq> u) xs))"
    using assms by (auto simp: wf_keys_def distinct_map inj_on_def)
  moreover have "set (map f (filter (\<lambda>x. g x \<noteq> u) xs)) \<subseteq> set (map f xs)" by auto
  ultimately show ?thesis using assms unfolding wf_keys_def distinct_filter set_filter
    by (intro conjI) (auto simp del: set_map)
qed

lemma wf_keys_sms_replace:
  assumes w: "wf_keys ids dids k ps ns (map f xs) cs" and a: "snd (f a) \<in> set dids"
  shows "wf_keys ids dids k ps ns (map f (filter (\<lambda>x. f x \<noteq> f a) xs @ [a])) cs"
proof -
  have "distinct (map f (filter (\<lambda>x. f x \<noteq> f a) xs @ [a]))"
    using w by (intro distinct_replace) (simp add: wf_keys_def)
  moreover have "snd ` set (map f (filter (\<lambda>x. f x \<noteq> f a) xs @ [a])) \<subseteq> set dids"
    using w a by (auto simp: wf_keys_def)
  ultimately show ?thesis using w unfolding wf_keys_def by blast
qed

lemma wf_keys_new_device:
  "wf_keys ids dids n ps ns ss cs \<Longrightarrow> d \<notin> set dids \<Longrightarrow>
   wf_keys (ids @ [n + 1]) (dids @ [d]) (n + 1) ps ns ss cs"
  by (force simp: wf_keys_def)

lemma wf_keys_rename:
  assumes "wf_keys ids (us @ d # vs) n ps ns ss cs"
    "e = d \<or> e \<notin> set (us @ d # vs) \<and> d \<notin> set ps \<union> snd ` set ns \<union> snd ` set ss \<union> set cs"
  shows "wf_keys ids (us @ e # vs) n ps ns ss cs"
  using assms by (auto simp: wf_keys_def)

lemma wf_keys_append:
  "wf_keys ids dids n ps ns ss cs \<Longrightarrow> u \<in> set dids \<Longrightarrow> u \<notin> set ps \<Longrightarrow>
   wf_keys ids dids n (ps @ [u]) ns ss cs"
  "wf_keys ids dids n ps ns ss cs \<Longrightarrow> u \<in> set dids \<Longrightarrow> wf_keys ids dids n ps ns ss (cs @ [u])"
  by (simp_all add: wf_keys_def)

lemma has_device_keys: "has_device s u \<longleftrightarrow> u \<in> set (map dr_device_id (t_devices s))"
  by (simp add: has_device_iff)

lemma find_in_set: "find P xs = Some x \<Longrightarrow> x \<in> set xs \<and> P x"
  by (induction xs) (auto split: if_splits)

lemma insert_device_wf: "db_wf s \<Longrightarrow> insert_device s d = Inr s' \<Longrightarrow> db_wf s'"
  using wf_keys_new_device[where d = "dr_device_id d"]
  by (cases "has_device s (dr_device_id d)")
    (auto simp: insert_device_def db_wf_keys has_device_keys db_simps simp del: map_map set_map)

lemma map_update_at:
  assumes "distinct (map f (us @ x # vs))"
  shows "map (\<lambda>r. if f r = f x then g r else r) (us @ x # vs) = us @ g x # vs"
proof -
  have "f x \<notin> f ` set us" "f x \<notin> f ` set vs" using assms by auto
  then have "map (\<lambda>r. if f r = f x then g r else r) us = us"
    "map (\<lambda>r. if f r = f x then g r else r) vs = vs"
    by (auto intro!: map_idI) (metis image_eqI)+
  then show ?thesis by simp
qed

lemma update_device_wf:
  assumes w: "db_wf s" and i: "update_device s row d hw = Inr s'" and r: "row \<in> set (t_devices s)"
  shows "db_wf s'"
proof -
  define g where "g = (\<lambda>r :: device_row. r\<lparr>dr_name := dr_name d, dr_device_id := dr_device_id d,
                    dr_public_key := dr_public_key d, dr_last_seen := dr_last_seen d,
                    dr_paired := dr_paired d, dr_hardware_id := Some hw\<rparr>)"
  obtain us vs where ds: "t_devices s = us @ row # vs" using r by (auto simp: in_set_conv_decomp)
  have "s' = s\<lparr>t_devices := map (\<lambda>r. if dr_id r = dr_id row then g r else r) (t_devices s)\<rparr>"
    using i by (auto simp: update_device_def g_def split: if_splits)
  then have s': "s' = s\<lparr>t_devices := us @ g row # vs\<rparr>"
    using map_update_at[of dr_id us row vs g] w unfolding db_wf_def ds by simp
  have ok: "dr_device_id d = dr_device_id row \<or>
        \<not> has_device s (dr_device_id d) \<and> \<not> referenced s (dr_device_id row)"
    using i by (auto simp: update_device_def split: if_splits)
  have "dr_id (g row) = dr_id row" "dr_device_id (g row) = dr_device_id d"
    by (simp_all add: g_def)
  then show ?thesis
    using w ok unfolding s' db_wf_keys
    by (auto simp: ds image_image has_device_iff referenced_iff elim!: wf_keys_rename)
qed

lemma upsert_device_wf: "db_wf s \<Longrightarrow> upsert_device s d = Inr s' \<Longrightarrow> db_wf s'"
  by (auto simp: upsert_device_def insert_device_wf split: if_splits option.splits
      dest!: find_in_set intro: update_device_wf)

lemma remove_device_wf: "db_wf s \<Longrightarrow> remove_device s u = Inr s' \<Longrightarrow> db_wf s'"
  by (auto simp: remove_device_def db_wf_keys filter_map_swap split: if_splits dest: wf_keys_remove[where u = u])

lemma touch_device_wf: "db_wf s \<Longrightarrow> touch_device s u seen = Inr s' \<Longrightarrow> db_wf s'"
  by (auto simp: touch_device_def db_wf_keys db_simps simp del: map_map split: if_splits)

lemma mark_device_paired_wf: "db_wf s \<Longrightarrow> mark_device_paired s u = Inr s' \<Longrightarrow> db_wf s'"
  by (auto simp: mark_device_paired_def db_wf_keys db_simps simp del: map_map split: if_splits)

lemma insert_pairing_wf: "db_wf s \<Longrightarrow> insert_pairing s u pem fp at = Inr s' \<Longrightarrow> db_wf s'"
  by (auto simp: insert_pairing_def db_wf_keys db_simps has_device_keys list_ex_iff
      simp del: map_map set_map split: if_splits intro!: wf_keys_append) auto

lemma insert_notification_wf: "db_wf s \<Longrightarrow> insert_notification s n = Inr s' \<Longrightarrow> db_wf s'"
  using wf_keys_replace[where f = "\<lambda>r. (nw_id r, nw_device_id r)" and a = n and xs = "t_notifications s"]
  by (auto simp: insert_notification_def db_wf_keys has_device_keys split: if_splits)

lemma insert_sms_wf: "db_wf s \<Longrightarrow> insert_sms s n = Inr s' \<Longrightarrow> db_wf s'"
  using wf_keys_sms_replace[where f = "\<lambda>r. (sw_id r, sw_device_id r)" and a = n and xs = "t_sms s"]
  by (auto simp: insert_sms_def db_wf_keys has_device_keys split: if_splits)

lemma mark_notification_read_wf: "db_wf s \<Longrightarrow> mark_notification_read s u i = Inr s' \<Longrightarrow> db_wf s'"
  by (auto simp: mark_notification_read_def db_wf_keys db_simps simp del: map_map split: if_splits)

lemma dismiss_notification_wf: "db_wf s \<Longrightarrow> dismiss_notification s u i = Inr (s', r) \<Longrightarrow> db_wf s'"
  by (auto simp: dismiss_notification_def db_wf_keys db_simps simp del: map_map split: if_splits)

lemma insert_call_wf: "db_wf s \<Longrightarrow> insert_call s c = Inr (s', i) \<Longrightarrow> db_wf s'"
  by (auto simp: insert_call_def db_wf_keys has_device_keys simp del: set_map split: if_splits
      intro!: wf_keys_append)

lemma insert_audit_log_wf: "db_wf s \<Longrightarrow> insert_audit_log s ts dev ev det = Inr s' \<Longrightarrow> db_wf s'"
  by (auto simp: insert_audit_log_def db_wf_keys split: if_splits)

lemmas storage_wf =
  upsert_device_wf remove_device_wf touch_device_wf mark_device_paired_wf insert_pairing_wf
  insert_notification_wf insert_sms_wf mark_notification_read_wf dismiss_notification_wf
  insert_call_wf insert_audit_log_wf

lemma db_write_wf: "db_write s s' \<Longrightarrow> db_wf s \<Longrightarrow> db_wf s'"
  by (induction rule: db_write.induct) (rule storage_wf; assumption)+

lemma db_empty_wf: "db_wf db_empty" "hw_unique db_empty"
  by (simp_all add: db_wf_keys wf_keys_def db_empty_def hw_unique_def)

lemma hw_uniqueD:
  assumes "hw_unique s" "r \<in> set (t_devices s)" "q \<in> set (t_devices s)"
    "dr_hardware_id r = Some h" "dr_hardware_id q = Some h"
  shows "r = q"
proof (rule ccontr)
  assume "r \<noteq> q"
  obtain us vs where ds: "t_devices s = us @ r # vs" using assms(2) by (auto simp: in_set_conv_decomp)
  then have "q \<in> set us \<union> set vs" using assms(3) \<open>r \<noteq> q\<close> by auto
  then have "h \<in> set (hw_list us) \<union> set (hw_list vs)" using assms(5) by (auto simp: set_hw_list)
  then show False using assms(1,4) by (auto simp: hw_unique_def ds)
qed

lemma update_device_Inr:
  assumes w: "db_wf s" and ds: "t_devices s = us @ row # vs"
  shows "update_device s row d hw = Inr s' \<longleftrightarrow>
    (dr_device_id d = dr_device_id row \<or>
     \<not> has_device s (dr_device_id d) \<and> \<not> referenced s (dr_device_id row)) \<and>
    s' = s\<lparr>t_devices := us @
       row\<lparr>dr_name := dr_name d, dr_device_id := dr_device_id d, dr_public_key := dr_public_key d,
           dr_last_seen := dr_last_seen d, dr_paired := dr_paired d, dr_hardware_id := Some hw\<rparr> # vs\<rparr>"
proof -
  define g where "g = (\<lambda>r :: device_row. r\<lparr>dr_name := dr_name d, dr_device_id := dr_device_id d,
                    dr_public_key := dr_public_key d, dr_last_seen := dr_last_seen d,
                    dr_paired := dr_paired d, dr_hardware_id := Some hw\<rparr>)"
  have *: "map (\<lambda>r. if dr_id r = dr_id row then g r else r) (t_devices s) = us @ g row # vs"
    using map_update_at[of dr_id us row vs g] w unfolding db_wf_def ds by simp
  have "update_device s row d hw =
     (if dr_device_id d \<noteq> dr_device_id row \<and> has_device s (dr_device_id d) then Inl DbUnique
      else if dr_device_id d \<noteq> dr_device_id row \<and> referenced s (dr_device_id row)
      then Inl DbForeignKey
      else Inr (s\<lparr>t_devices := us @ g row # vs\<rparr>))"
    by (simp only: update_device_def *[unfolded g_def] g_def)
  then show ?thesis unfolding g_def by auto
qed

lemma hw_unique_insert:
  assumes w: "db_wf s" and h: "hw_unique s" and i: "insert_device s d = Inr s'"
    and new: "\<And>x. dr_hardware_id d = Some x \<Longrightarrow> x \<notin> set (hw_list (t_devices s))"
  shows "hw_unique s'"
proof (cases "has_device s (dr_device_id d)")
  case True
  then obtain us row vs where ds: "t_devices s = us @ row # vs" and e: "dr_device_id d = dr_device_id row"
    by (fastforce simp: has_device_iff in_set_conv_decomp)
  have "s' = s\<lparr>t_devices := us @ row\<lparr>dr_name := dr_name d, dr_public_key := dr_public_key d,
                    dr_last_seen := dr_last_seen d,
                    dr_hardware_id := (case dr_hardware_id d of
                       None \<Rightarrow> dr_hardware_id row | Some h \<Rightarrow> Some h)\<rparr> # vs\<rparr>"
    using i True w map_update_at[of dr_device_id us row vs
      "\<lambda>r. r\<lparr>dr_name := dr_name d, dr_public_key := dr_public_key d, dr_last_seen := dr_last_seen d,
         dr_hardware_id := (case dr_hardware_id d of None \<Rightarrow> dr_hardware_id r | Some h \<Rightarrow> Some h)\<rparr>"]
    by (simp add: insert_device_def ds db_wf_def e)
  then show ?thesis using h new by (auto simp: hw_unique_def ds split: option.splits)
next
  case False
  then show ?thesis using i h new by (auto simp: insert_device_def hw_unique_def split: option.splits)
qed

lemma hw_unique_upsert:
  assumes w: "db_wf s" and h: "hw_unique s" and u: "upsert_device s d = Inr s'"
  shows "hw_unique s'"
proof (cases "\<exists>hw row. dr_hardware_id d = Some hw \<and>
    find (\<lambda>r. dr_hardware_id r = Some hw) (t_devices s) = Some row")
  case True
  then obtain hw row where d: "dr_hardware_id d = Some hw"
    and f: "find (\<lambda>r. dr_hardware_id r = Some hw) (t_devices s) = Some row" by auto
  from find_in_set[OF f] obtain us vs where ds: "t_devices s = us @ row # vs"
    and r: "dr_hardware_id row = Some hw" by (auto simp: in_set_conv_decomp)
  have "update_device s row d hw = Inr s'" using u d f by (simp add: upsert_device_def split: if_splits)
  then show ?thesis using h r unfolding update_device_Inr[OF w ds] by (auto simp: hw_unique_def ds)
next
  case False
  then have "insert_device s d = Inr s'"
    using u by (auto simp: upsert_device_def split: if_splits option.splits)
  then show ?thesis
    by (rule hw_unique_insert[OF w h]) (use False in \<open>auto simp: set_hw_list find_None_iff\<close>)
qed

lemma hw_list_cong: "(\<And>r. dr_hardware_id (g r) = dr_hardware_id r) \<Longrightarrow> hw_list (map g ds) = hw_list ds"
  by (simp add: hw_list_def comp_def)

lemma distinct_hw_filter: "distinct (hw_list ds) \<Longrightarrow> distinct (hw_list (filter P ds))"
  by (induction ds) (auto simp: set_hw_list split: option.splits)

lemma db_write_inv: "db_write s s' \<Longrightarrow> db_wf s \<and> hw_unique s \<Longrightarrow> db_wf s' \<and> hw_unique s'"
proof (intro conjI)
  assume w: "db_write s s'" and i: "db_wf s \<and> hw_unique s"
  show "db_wf s'" using db_write_wf[OF w] i by simp
  show "hw_unique s'" using w
  proof cases
    case (w_upsert d)
    then show ?thesis using hw_unique_upsert i by blast
  qed (use i in \<open>auto simp: remove_device_def touch_device_def insert_pairing_def
      mark_device_paired_def insert_notification_def mark_notification_read_def
      dismiss_notification_def insert_sms_def insert_call_def insert_audit_log_def hw_unique_def
      hw_list_cong distinct_hw_filter
      split: if_splits\<close>)
qed

text \<open>
  C10: Whatever sequence of writes the storage layer accepts from a freshly migrated database, the
  schema's constraints hold of the result (unique device ids and keys, every child row's device
  exists), and no two devices carry the same hardware id, although no constraint of the schema
  enforces that.
\<close>

theorem storage_invariant: "db_write\<^sup>*\<^sup>* db_empty s \<Longrightarrow> db_wf s \<and> hw_unique s"
  by (induction rule: rtranclp_induct) (use db_empty_wf db_write_inv in blast)+

text \<open>A database with one phone and one notification of it.\<close>

definition demo_phone :: device_row where
  "demo_phone = \<lparr>dr_id = 1, dr_name = ''phone'', dr_device_id = 7, dr_public_key = [],
     dr_last_seen = 5, dr_paired = False, dr_hardware_id = Some ''hw''\<rparr>"

definition demo_note :: notification_row where
  "demo_note = \<lparr>nw_id = ''n'', nw_device_id = 7, nw_package_name = ''p'', nw_app_name = None,
     nw_title = [], nw_content = [], nw_posted_at = 5, nw_is_sensitive = False,
     nw_category = None, nw_read = False\<rparr>"

definition demo_db :: db where
  "demo_db = db_empty\<lparr>t_devices := [demo_phone], t_notifications := [demo_note], seq_devices := 1\<rparr>"

lemma demo_db_reach: "db_write\<^sup>*\<^sup>* db_empty demo_db"
proof -
  have a: "upsert_device db_empty demo_phone = Inr (db_empty\<lparr>t_devices := [demo_phone], seq_devices := 1\<rparr>)"
    by (simp add: upsert_device_def insert_device_def has_device_def db_empty_def demo_phone_def)
  have b: "insert_notification (db_empty\<lparr>t_devices := [demo_phone], seq_devices := 1\<rparr>) demo_note = Inr demo_db"
    by (simp add: insert_notification_def has_device_def db_empty_def demo_phone_def demo_note_def demo_db_def)
  from w_upsert[OF a] w_notification[OF b] show ?thesis by (meson r_into_rtranclp rtranclp.rtrancl_into_rtrancl)
qed

lemma demo_db_wf: "db_wf demo_db" "hw_unique demo_db" "db_up demo_db"
  by (auto simp: demo_db_def db_wf_keys wf_keys_def hw_unique_def demo_phone_def demo_note_def db_empty_def)

theorem storage_invariant_witness:
  "db_wf demo_db \<and> hw_unique demo_db \<and> t_notifications demo_db = [demo_note]"
  using storage_invariant[OF demo_db_reach] by (simp add: demo_db_def)

section \<open>Queries against a reference\<close>

definition notif_wanted :: "uuid option \<Rightarrow> bool \<Rightarrow> string option \<Rightarrow> notification_row \<Rightarrow> bool" where
  "notif_wanted dev only_unread pkg r \<longleftrightarrow>
     (\<forall>d. dev = Some d \<longrightarrow> nw_device_id r = d) \<and> (only_unread \<longrightarrow> \<not> nw_read r) \<and>
     (\<forall>p. pkg = Some p \<longrightarrow> nw_package_name r = p)"

definition sms_wanted :: "uuid option \<Rightarrow> string option \<Rightarrow> sms_row \<Rightarrow> bool" where
  "sms_wanted dev phone r \<longleftrightarrow>
     (\<forall>d. dev = Some d \<longrightarrow> sw_device_id r = d) \<and> (\<forall>p. phone = Some p \<longrightarrow> sw_phone_number r = p)"

lemma list_notifications_reference:
  "list_notifications s dev lim ur pkg =
     (if db_up s then Inr (limit_rows lim (sort_desc nw_posted_at
        (filter (notif_wanted dev ur pkg) (t_notifications s)))) else Inl DbUnavailable)"
  by (cases dev; cases pkg; cases ur)
    (simp_all add: list_notifications_def notif_stmt_def bind_param_def
      notif_wanted_def eq_commute conj_commute cong: filter_cong)

lemma list_sms_reference:
  "list_sms s dev phone lim =
     (if db_up s then Inr (limit_rows lim (sort_desc sw_timestamp
        (filter (sms_wanted dev phone) (t_sms s)))) else Inl DbUnavailable)"
  by (cases dev; cases phone)
    (simp_all add: list_sms_def bind_param_def sms_wanted_def eq_commute conj_commute cong: filter_cong)

text \<open>
  C24: For each of the eight notification statements and the four SMS statements the parameters
  bound are the ones the statement numbers, so the query returns exactly the rows the filters
  ask for, newest first and cut to the limit; it never fails on a live database.
\<close>

theorem list_queries_reference:
  "list_notifications s dev lim ur pkg =
     (if db_up s then Inr (limit_rows lim (sort_desc nw_posted_at
        (filter (notif_wanted dev ur pkg) (t_notifications s)))) else Inl DbUnavailable) \<and>
   list_sms s dev phone lim =
     (if db_up s then Inr (limit_rows lim (sort_desc sw_timestamp
        (filter (sms_wanted dev phone) (t_sms s)))) else Inl DbUnavailable)"
  by (rule conjI[OF list_notifications_reference list_sms_reference])

lemma list_notifications_rows:
  "list_notifications s dev lim ur pkg = Inr l \<Longrightarrow>
     set l \<subseteq> {r \<in> set (t_notifications s). notif_wanted dev ur pkg r}"
  using list_notifications_reference[of s dev lim ur pkg]
  by (auto split: if_splits dest: set_limit_rows[THEN subsetD])

lemma filter_other: "v \<noteq> u \<Longrightarrow> filter (\<lambda>r. k r \<noteq> u \<and> k r = v) xs = filter (\<lambda>r. k r = v) xs"
  by (induction xs) auto

text \<open>
  Removing a device removes its row and, by the cascades, every pairing, notification, SMS and
  call of it, and keeps every row of every other device; the audit log is kept whole.
\<close>

lemma remove_device_cascades:
  "remove_device s u = Inr s' \<Longrightarrow>
     \<not> has_device s' u \<and> \<not> referenced s' u \<and> t_audit s' = t_audit s \<and>
     (\<forall>v. v \<noteq> u \<longrightarrow> has_device s' v = has_device s v \<and> referenced s' v = referenced s v \<and>
       filter (\<lambda>r. nw_device_id r = v) (t_notifications s') =
         filter (\<lambda>r. nw_device_id r = v) (t_notifications s) \<and>
       filter (\<lambda>r. sw_device_id r = v) (t_sms s') = filter (\<lambda>r. sw_device_id r = v) (t_sms s) \<and>
       filter (\<lambda>r. cw_device_id r = v) (t_calls s') = filter (\<lambda>r. cw_device_id r = v) (t_calls s))"
  by (auto simp: remove_device_def has_device_def referenced_def list_ex_iff filter_other
      split: if_splits)

theorem remove_device_cascades_witness:
  "has_device demo_db 7 \<and> referenced demo_db 7 \<and>
   (\<exists>s'. remove_device demo_db 7 = Inr s' \<and> \<not> has_device s' 7 \<and> \<not> referenced s' 7)"
proof -
  obtain s' where r: "remove_device demo_db 7 = Inr s'"
    by (simp add: remove_device_def demo_db_wf)
  show ?thesis using remove_device_cascades[OF r] r
    by (auto simp: has_device_def referenced_def demo_db_def demo_phone_def demo_note_def)
qed

text \<open>
  A hello from a phone whose hardware id is already stored, under a new device id: the row of
  the phone is renamed in place only when nothing refers to its old device id. As soon as one
  notification, SMS, call or pairing of the old id is stored, the update fails on the foreign
  key, and the phone stays unknown under its new id.
\<close>

lemma upsert_known_hardware:
  assumes "db_up s" "db_wf s" "hw_unique s" "row \<in> set (t_devices s)"
    "dr_hardware_id row = Some hw" "dr_hardware_id d = Some hw"
    "\<not> has_device s (dr_device_id d)"
  shows "case upsert_device s d of
      Inl e \<Rightarrow> e = DbForeignKey \<and> referenced s (dr_device_id row)
    | Inr s' \<Rightarrow> \<not> referenced s (dr_device_id row) \<and> has_device s' (dr_device_id d) \<and>
        \<not> has_device s' (dr_device_id row) \<and>
        map dr_id (t_devices s') = map dr_id (t_devices s)"
proof -
  obtain row' where f: "find (\<lambda>r. dr_hardware_id r = Some hw) (t_devices s) = Some row'"
    using assms(4,5) by (cases "find (\<lambda>r. dr_hardware_id r = Some hw) (t_devices s)")
      (auto simp: find_None_iff)
  have [simp]: "row' = row" using find_in_set[OF f] assms(4,5) hw_uniqueD[OF assms(3)] by blast
  have u: "upsert_device s d = update_device s row d hw"
    using assms(1,6) f by (simp add: upsert_device_def)
  have ne: "dr_device_id d \<noteq> dr_device_id row" using assms(4,7) by (auto simp: has_device_iff)
  show ?thesis
  proof (cases "update_device s row d hw")
    case (Inl e)
    then show ?thesis using u ne assms(7) by (auto simp: update_device_def split: if_splits)
  next
    case (Inr s')
    obtain us vs where ds: "t_devices s = us @ row # vs" using assms(4) by (auto simp: in_set_conv_decomp)
    have ok: "\<not> referenced s (dr_device_id row)" and s': "s' = s\<lparr>t_devices := us @
       row\<lparr>dr_name := dr_name d, dr_device_id := dr_device_id d, dr_public_key := dr_public_key d,
           dr_last_seen := dr_last_seen d, dr_paired := dr_paired d, dr_hardware_id := Some hw\<rparr> # vs\<rparr>"
      using Inr ne unfolding update_device_Inr[OF assms(2) ds] by auto
    have "dr_device_id row \<notin> dr_device_id ` (set us \<union> set vs)"
      using assms(2) by (auto simp: db_wf_def ds)
    then show ?thesis using u Inr ok ne by (auto simp: s' ds has_device_iff)
  qed
qed

theorem upsert_known_hardware_witness:
  "upsert_device demo_db (demo_phone\<lparr>dr_device_id := 8\<rparr>) = Inl DbForeignKey"
proof -
  have new: "\<not> has_device demo_db (dr_device_id (demo_phone\<lparr>dr_device_id := 8\<rparr>))"
    by (simp add: has_device_def demo_db_def demo_phone_def)
  have old: "referenced demo_db (dr_device_id demo_phone)"
    by (simp add: referenced_def demo_db_def demo_phone_def demo_note_def)
  show ?thesis
    using upsert_known_hardware[OF demo_db_wf(3,1,2) _ _ _ new, of demo_phone "''hw''"] old
    by (auto simp: demo_db_def demo_phone_def split: sum.splits)
qed

lemma read_after_read:
  "list_all (\<lambda>r. nw_device_id r = u \<and> nw_id r = i \<longrightarrow> nw_read r)
     (map (\<lambda>r. if nw_device_id r = u \<and> nw_id r = i then r\<lparr>nw_read := True\<rparr> else r) ns)"
  by (induction ns) (simp, simp, blast)

lemma unread_after_read:
  assumes "distinct (map (\<lambda>r. (nw_id r, nw_device_id r)) ns)"
  shows "length (filter (\<lambda>r. \<not> nw_read r \<and> P (nw_device_id r)) ns) =
     length (filter (\<lambda>r. \<not> nw_read r \<and> P (nw_device_id r))
       (map (\<lambda>r. if nw_device_id r = u \<and> nw_id r = i then r\<lparr>nw_read := True\<rparr> else r) ns)) +
     (if \<exists>r \<in> set ns. nw_device_id r = u \<and> nw_id r = i \<and> \<not> nw_read r \<and> P u then 1 else 0)"
  using assms
proof (induction ns)
  case (Cons n ns)
  have "nw_device_id n = u \<Longrightarrow> nw_id n = i \<Longrightarrow> r \<in> set ns \<Longrightarrow> \<not> (nw_device_id r = u \<and> nw_id r = i)" for r
    using Cons.prems by (auto simp: image_iff)
  then show ?case using Cons by (cases "nw_device_id n = u \<and> nw_id n = i") auto
qed simp

text \<open>
  Marking a notification read takes it out of every unread listing and lowers the unread
  count by one exactly when it was stored and unread; a notification that is stored again comes
  back unread.
\<close>

lemma mark_read_contract:
  assumes "db_wf s" "mark_notification_read s u i = Inr s'"
  shows "(\<forall>dev lim pkg l r. list_notifications s' dev lim True pkg = Inr l \<longrightarrow> r \<in> set l \<longrightarrow>
       \<not> (nw_device_id r = u \<and> nw_id r = i)) \<and>
     (\<forall>dev. \<exists>n n'. count_unread_notifications s dev = Inr n \<and>
       count_unread_notifications s' dev = Inr n' \<and>
       n = n' + (if \<exists>r \<in> set (t_notifications s). nw_device_id r = u \<and> nw_id r = i \<and> \<not> nw_read r \<and>
                     (dev = None \<or> dev = Some u) then 1 else 0)) \<and>
     (\<forall>r s''. nw_id r = i \<longrightarrow> nw_device_id r = u \<longrightarrow> \<not> nw_read r \<longrightarrow> insert_notification s' r = Inr s'' \<longrightarrow>
       (\<forall>q \<in> set (t_notifications s''). nw_id q = i \<longrightarrow> nw_device_id q = u \<longrightarrow> \<not> nw_read q))"
proof (intro conjI)
  let ?m = "map (\<lambda>r. if nw_device_id r = u \<and> nw_id r = i then r\<lparr>nw_read := True\<rparr> else r)
      (t_notifications s)"
  have up: "db_up s" using assms(2) by (cases "db_up s") (simp_all add: mark_notification_read_def)
  then have s': "s' = s\<lparr>t_notifications := ?m\<rparr>" using assms(2) by (simp add: mark_notification_read_def)
  have ns: "t_notifications s' = ?m" and up': "db_up s'" unfolding s' using up by simp_all
  have "\<not> notif_wanted dev True pkg r"
    if "r \<in> set (t_notifications s')" "nw_device_id r = u" "nw_id r = i" for dev pkg r
    using read_after_read[of u i "t_notifications s", folded ns] that
    by (simp add: list_all_iff notif_wanted_def)
  then show "\<forall>dev lim pkg l r. list_notifications s' dev lim True pkg = Inr l \<longrightarrow> r \<in> set l \<longrightarrow>
       \<not> (nw_device_id r = u \<and> nw_id r = i)"
    using list_notifications_rows[of s'] by fast
  have d: "distinct (map (\<lambda>r. (nw_id r, nw_device_id r)) (t_notifications s))"
    using assms(1) by (simp add: db_wf_def)
  show "\<forall>dev. \<exists>n n'. count_unread_notifications s dev = Inr n \<and>
       count_unread_notifications s' dev = Inr n' \<and>
       n = n' + (if \<exists>r \<in> set (t_notifications s). nw_device_id r = u \<and> nw_id r = i \<and> \<not> nw_read r \<and>
                     (dev = None \<or> dev = Some u) then 1 else 0)"
  proof
    fix dev
    show "\<exists>n n'. count_unread_notifications s dev = Inr n \<and>
       count_unread_notifications s' dev = Inr n' \<and>
       n = n' + (if \<exists>r \<in> set (t_notifications s). nw_device_id r = u \<and> nw_id r = i \<and> \<not> nw_read r \<and>
                     (dev = None \<or> dev = Some u) then 1 else 0)"
      (is "\<exists>n n'. _ \<and> _ \<and> n = n' + (if ?hit then 1 else 0)")
    proof (intro exI conjI)
      let ?P = "\<lambda>v. case dev of None \<Rightarrow> True | Some d \<Rightarrow> v = d"
      show "count_unread_notifications s dev =
          Inr (int (length (filter (\<lambda>r. \<not> nw_read r \<and> ?P (nw_device_id r)) (t_notifications s))))"
        "count_unread_notifications s' dev =
          Inr (int (length (filter (\<lambda>r. \<not> nw_read r \<and> ?P (nw_device_id r)) (t_notifications s'))))"
        using up up' by (simp_all add: count_unread_notifications_def)
      have "?P u \<longleftrightarrow> dev = None \<or> dev = Some u" by (cases dev) auto
      then show "int (length (filter (\<lambda>r. \<not> nw_read r \<and> ?P (nw_device_id r)) (t_notifications s))) =
          int (length (filter (\<lambda>r. \<not> nw_read r \<and> ?P (nw_device_id r)) (t_notifications s'))) +
          (if ?hit then 1 else 0)"
        unfolding unread_after_read[OF d, of ?P u i] ns by simp blast
    qed
  qed
qed (auto simp: insert_notification_def split: if_splits)

theorem mark_read_contract_witness:
  "count_unread_notifications demo_db None = Inr 1 \<and>
   (\<exists>s'. mark_notification_read demo_db 7 ''n'' = Inr s' \<and> count_unread_notifications s' None = Inr 0)"
proof -
  obtain s' where r: "mark_notification_read demo_db 7 ''n'' = Inr s'"
    by (simp add: mark_notification_read_def demo_db_wf)
  have c: "count_unread_notifications demo_db None = Inr 1"
    by (simp add: count_unread_notifications_def demo_db_wf) (simp add: demo_db_def demo_note_def)
  have h: "\<exists>r \<in> set (t_notifications demo_db). nw_device_id r = 7 \<and> nw_id r = ''n'' \<and> \<not> nw_read r"
    by (simp add: demo_db_def demo_note_def)
  obtain n n' where "count_unread_notifications demo_db None = Inr n"
    "count_unread_notifications s' None = Inr n'" "n = n' + 1"
    using mark_read_contract[OF demo_db_wf(1) r] h by (auto simp: all_conj_distrib split: if_splits) 
  then show ?thesis using c r by simp
qed

end
