(* ===== verification/CenterSink.thy ===== *)
theory CenterSink
  imports Buses Storage
begin

text \<open>
  The sink of the connection handler: the trait \<open>WsSink\<close> as a record of operations on
  the sink's state with its contract as a locale, the sink that does nothing
  (phonebridge-net/src/ws_handler.rs), and the message-center's sink
  (message-center/src/center_sink.rs), which writes the database, the audit log and both
  buses. A failed write is logged and ignored. Each operation gets the envelope id, the device id and the payload;
  clock readings and fresh ids of a sink operation are numbered from 10.
\<close>

section \<open>The trait\<close>

record 's sink =
  sk_notification :: "tick \<Rightarrow> uuid \<Rightarrow> uuid \<Rightarrow> notification_received \<Rightarrow> 's \<Rightarrow> 's"
  sk_notification_dismissed :: "tick \<Rightarrow> uuid \<Rightarrow> uuid \<Rightarrow> notification_dismissed \<Rightarrow> 's \<Rightarrow> 's"
  sk_sms_received :: "tick \<Rightarrow> uuid \<Rightarrow> uuid \<Rightarrow> sms_received \<Rightarrow> 's \<Rightarrow> 's"
  sk_sms_send_result :: "tick \<Rightarrow> uuid \<Rightarrow> uuid \<Rightarrow> sms_send_result \<Rightarrow> 's \<Rightarrow> 's"
  sk_call_state :: "tick \<Rightarrow> uuid \<Rightarrow> uuid \<Rightarrow> call_state \<Rightarrow> 's \<Rightarrow> 's"
  sk_call_incoming :: "tick \<Rightarrow> uuid \<Rightarrow> uuid \<Rightarrow> call_incoming \<Rightarrow> 's \<Rightarrow> 's"
  sk_call_history :: "tick \<Rightarrow> uuid \<Rightarrow> uuid \<Rightarrow> call_history \<Rightarrow> 's \<Rightarrow> 's"
  sk_sms_list_result :: "tick \<Rightarrow> uuid \<Rightarrow> uuid \<Rightarrow> sms_list_result \<Rightarrow> 's \<Rightarrow> 's"
  sk_hello :: "tick \<Rightarrow> uuid \<Rightarrow> uuid \<Rightarrow> device_hello \<Rightarrow> 's \<Rightarrow> 's"
  sk_unpair :: "tick \<Rightarrow> uuid \<Rightarrow> uuid \<Rightarrow> unpair \<Rightarrow> 's \<Rightarrow> 's"
  sk_disconnect :: "tick \<Rightarrow> uuid \<Rightarrow> 's \<Rightarrow> 's"

definition noop_sink :: "'s sink" where
  "noop_sink = \<lparr>sk_notification = \<lambda>_ _ _ _ s. s, sk_notification_dismissed = \<lambda>_ _ _ _ s. s,
     sk_sms_received = \<lambda>_ _ _ _ s. s, sk_sms_send_result = \<lambda>_ _ _ _ s. s,
     sk_call_state = \<lambda>_ _ _ _ s. s, sk_call_incoming = \<lambda>_ _ _ _ s. s,
     sk_call_history = \<lambda>_ _ _ _ s. s, sk_sms_list_result = \<lambda>_ _ _ _ s. s,
     sk_hello = \<lambda>_ _ _ _ s. s, sk_unpair = \<lambda>_ _ _ _ s. s, sk_disconnect = \<lambda>_ _ s. s\<rparr>"

text \<open>What the handler relies on: every operation keeps the sink's invariant.\<close>

locale ws_sink =
  fixes K :: "'s sink" and ok :: "'s \<Rightarrow> bool"
  assumes notification_ok: "ok s \<Longrightarrow> ok (sk_notification K t e d n s)"
    and notification_dismissed_ok: "ok s \<Longrightarrow> ok (sk_notification_dismissed K t e d nd s)"
    and sms_received_ok: "ok s \<Longrightarrow> ok (sk_sms_received K t e d sr s)"
    and sms_send_result_ok: "ok s \<Longrightarrow> ok (sk_sms_send_result K t e d ss s)"
    and call_state_ok: "ok s \<Longrightarrow> ok (sk_call_state K t e d cs s)"
    and call_incoming_ok: "ok s \<Longrightarrow> ok (sk_call_incoming K t e d ci s)"
    and call_history_ok: "ok s \<Longrightarrow> ok (sk_call_history K t e d ch s)"
    and sms_list_result_ok: "ok s \<Longrightarrow> ok (sk_sms_list_result K t e d lr s)"
    and hello_ok: "ok s \<Longrightarrow> ok (sk_hello K t e d h s)"
    and unpair_ok: "ok s \<Longrightarrow> ok (sk_unpair K t e d up s)"
    and disconnect_ok: "ok s \<Longrightarrow> ok (sk_disconnect K t d s)"

section \<open>The message-center's sink\<close>

record center =
  cn_db :: db
  cn_console :: console_bus
  cn_display :: display_bus

definition db_apply :: "(db \<Rightarrow> db_error + db) \<Rightarrow> center \<Rightarrow> center" where
  "db_apply f c = (case f (cn_db c) of Inl _ \<Rightarrow> c | Inr d \<Rightarrow> c\<lparr>cn_db := d\<rparr>)"

definition db_apply_id :: "(db \<Rightarrow> db_error + db \<times> int) \<Rightarrow> center \<Rightarrow> center" where
  "db_apply_id f c = (case f (cn_db c) of Inl _ \<Rightarrow> c | Inr (d, _) \<Rightarrow> c\<lparr>cn_db := d\<rparr>)"

definition center_audit :: "int \<Rightarrow> uuid option \<Rightarrow> string \<Rightarrow> string option \<Rightarrow> center \<Rightarrow> center" where
  "center_audit now dev ev detail = db_apply (\<lambda>db. insert_audit_log db now dev ev detail)"

definition center_touch :: "int \<Rightarrow> uuid \<Rightarrow> center \<Rightarrow> center" where
  "center_touch secs dev = db_apply (\<lambda>db. touch_device db dev secs)"

definition center_publish_console :: "envelope \<Rightarrow> center \<Rightarrow> center" where
  "center_publish_console e c = c\<lparr>cn_console := console_publish e (cn_console c)\<rparr>"

definition center_publish_display ::
  "message_type \<Rightarrow> uuid \<Rightarrow> uuid \<Rightarrow> json \<Rightarrow> int \<Rightarrow> center \<Rightarrow> center" where
  "center_publish_display kind eid dev p now c =
     (let ev = \<lparr>de_kind = mt_str kind, de_device_id = dev, de_envelope_id = eid,
                de_timestamp = now, de_payload = p, de_summary = JNull\<rparr>
      in case should_filter ev of
           Some _ \<Rightarrow> c
         | None \<Rightarrow> c\<lparr>cn_display := fst (display_publish ev (cn_display c))\<rparr>)"

text \<open>
  The two publishes most handlers end with: a synthetic envelope for the console, the event
  for the display.
\<close>

definition center_publish ::
  "tick \<Rightarrow> message_type \<Rightarrow> uuid \<Rightarrow> uuid \<Rightarrow> json \<Rightarrow> center \<Rightarrow> center" where
  "center_publish t kind eid dev p c =
     center_publish_display kind eid dev p (t_ms t 12)
       (center_publish_console (envelope_new kind dev p (t_uuid t 10) (t_ms t 11)) c)"

definition on_notification ::
  "tick \<Rightarrow> uuid \<Rightarrow> uuid \<Rightarrow> notification_received \<Rightarrow> center \<Rightarrow> center" where
  "on_notification t eid dev n c =
     center_publish t MtNotificationReceived eid dev (enc_notification_received n)
       (db_apply (\<lambda>db. insert_notification db
          \<lparr>nw_id = nr_id n, nw_device_id = dev, nw_package_name = nr_package n,
           nw_app_name = nr_app_name n, nw_title = nr_title n, nw_content = nr_content n,
           nw_posted_at = nr_posted_at n, nw_is_sensitive = nr_is_sensitive n,
           nw_category = nr_category n, nw_read = False\<rparr>) c)"

definition on_notification_dismissed ::
  "tick \<Rightarrow> uuid \<Rightarrow> uuid \<Rightarrow> notification_dismissed \<Rightarrow> center \<Rightarrow> center" where
  "on_notification_dismissed t eid dev n c =
     center_publish t MtNotificationDismissed eid dev (enc_notification_dismissed n)
       (db_apply (\<lambda>db. mark_notification_read db dev (nd_id n)) c)"

definition sms_in_row :: "uuid \<Rightarrow> sms_received \<Rightarrow> sms_row" where
  "sms_in_row dev m = \<lparr>sw_id = sr_id m, sw_device_id = dev, sw_sim_slot = sr_sim_slot m,
     sw_phone_number = sr_address m, sw_body = sr_body m,
     sw_direction = sms_direction_str SdIn, sw_timestamp = sr_received_at m\<rparr>"

definition on_sms_received :: "tick \<Rightarrow> uuid \<Rightarrow> uuid \<Rightarrow> sms_received \<Rightarrow> center \<Rightarrow> center" where
  "on_sms_received t eid dev m c =
     center_publish t MtSmsReceived eid dev (enc_sms_received m)
       (db_apply (\<lambda>db. insert_sms db (sms_in_row dev m)) c)"

definition on_sms_send_result ::
  "'e ext \<Rightarrow> tick \<Rightarrow> uuid \<Rightarrow> uuid \<Rightarrow> sms_send_result \<Rightarrow> center \<Rightarrow> center" where
  "on_sms_send_result X t eid dev r c =
     center_publish t MtSmsSendResult eid dev (enc_sms_send_result X r) c"

definition on_call_state :: "tick \<Rightarrow> uuid \<Rightarrow> uuid \<Rightarrow> call_state \<Rightarrow> center \<Rightarrow> center" where
  "on_call_state t eid dev s c =
     center_publish t MtCallState eid dev (enc_call_state s)
       (db_apply_id (\<lambda>db. insert_call db
          \<lparr>cw_id = 0, cw_device_id = dev,
           cw_phone_number = (case cs_phone_number s of None \<Rightarrow> [] | Some n \<Rightarrow> n),
           cw_contact_name = cs_contact_name s,
           cw_state = (case cs_state s of CsIdle \<Rightarrow> ''idle'' | CsRinging \<Rightarrow> ''ringing''
                         | CsOffhook \<Rightarrow> ''offhook''),
           cw_started_at = t_ms t 10, cw_ended_at = None, cw_direction = ''incoming'',
           cw_duration_secs = None, cw_sim_slot = cs_sim_slot s\<rparr>) c)"

definition on_call_incoming :: "tick \<Rightarrow> uuid \<Rightarrow> uuid \<Rightarrow> call_incoming \<Rightarrow> center \<Rightarrow> center" where
  "on_call_incoming t eid dev s c =
     center_publish t MtCallIncoming eid dev (enc_call_incoming s)
       (db_apply_id (\<lambda>db. insert_call db
          \<lparr>cw_id = 0, cw_device_id = dev, cw_phone_number = ci_phone_number s,
           cw_contact_name = ci_contact_name s, cw_state = ''ringing'',
           cw_started_at = t_ms t 10, cw_ended_at = None, cw_direction = ''incoming'',
           cw_duration_secs = None, cw_sim_slot = ci_sim_slot s\<rparr>) c)"

text \<open>
  The row of one entry of a call history; the end is computed in i64, wrapping (release
  builds carry no overflow checks).
\<close>

definition call_history_row :: "uuid \<Rightarrow> call_history_entry \<Rightarrow> call_row" where
  "call_history_row dev en =
     \<lparr>cw_id = 0, cw_device_id = dev, cw_phone_number = che_phone_number en,
      cw_contact_name = che_contact_name en, cw_state = ''ended'',
      cw_started_at = che_started_at en,
      cw_ended_at = (case che_duration_seconds en of
         None \<Rightarrow> None
       | Some d \<Rightarrow> Some (wrap_i64 (che_started_at en + wrap_i64 (uint d * 1000)))),
      cw_direction = (case che_direction en of CdIncoming \<Rightarrow> ''incoming''
         | CdOutgoing \<Rightarrow> ''outgoing'' | CdMissed \<Rightarrow> ''missed''),
      cw_duration_secs = map_option uint (che_duration_seconds en),
      cw_sim_slot = che_sim_slot en\<rparr>"

definition on_call_history :: "tick \<Rightarrow> uuid \<Rightarrow> uuid \<Rightarrow> call_history \<Rightarrow> center \<Rightarrow> center" where
  "on_call_history t eid dev h c =
     fold (\<lambda>en. db_apply_id (\<lambda>db. insert_call db (call_history_row dev en))) (ch_entries h) c"

definition on_sms_list_result :: "tick \<Rightarrow> uuid \<Rightarrow> uuid \<Rightarrow> sms_list_result \<Rightarrow> center \<Rightarrow> center" where
  "on_sms_list_result t eid dev r c =
     center_publish_display MtSmsListResult eid dev (enc_sms_list_result r) (t_ms t 10)
       (fold (\<lambda>m. db_apply (\<lambda>db. insert_sms db (sms_in_row dev m))) (lr_messages r) c)"

definition on_hello :: "tick \<Rightarrow> uuid \<Rightarrow> uuid \<Rightarrow> device_hello \<Rightarrow> center \<Rightarrow> center" where
  "on_hello t eid dev h c =
     center_publish t MtDeviceHello eid dev (enc_device_hello h)
       (center_audit (t_ms t 10) (Some dev) ''ws.connected'' None
         (center_touch (t_secs t 11) dev
           (db_apply (\<lambda>db. upsert_device db
              \<lparr>dr_id = 0, dr_name = dh_name h, dr_device_id = dev, dr_public_key = dh_pubkey h,
               dr_last_seen = t_secs t 10, dr_paired = False, dr_hardware_id = dh_hardware_id h\<rparr>)
             c)))"

definition on_unpair :: "tick \<Rightarrow> uuid \<Rightarrow> uuid \<Rightarrow> unpair \<Rightarrow> center \<Rightarrow> center" where
  "on_unpair t eid dev u c =
     db_apply (\<lambda>db. remove_device db dev)
       (center_audit (t_ms t 10) (Some dev) ''device.unpair''
          (Some (case up_reason u of None \<Rightarrow> [] | Some r \<Rightarrow> r)) c)"

definition on_disconnect :: "tick \<Rightarrow> uuid \<Rightarrow> center \<Rightarrow> center" where
  "on_disconnect t dev c =
     center_audit (t_ms t 10) (Some dev) ''ws.closed'' None (center_touch (t_secs t 10) dev c)"

definition center_sink :: "'e ext \<Rightarrow> center sink" where
  "center_sink X = \<lparr>sk_notification = on_notification,
     sk_notification_dismissed = on_notification_dismissed, sk_sms_received = on_sms_received,
     sk_sms_send_result = on_sms_send_result X, sk_call_state = on_call_state,
     sk_call_incoming = on_call_incoming, sk_call_history = on_call_history,
     sk_sms_list_result = on_sms_list_result, sk_hello = on_hello, sk_unpair = on_unpair,
     sk_disconnect = on_disconnect\<rparr>"

section \<open>The invariant of the center\<close>

definition center_ok :: "center \<Rightarrow> bool" where
  "center_ok c \<longleftrightarrow> db_wf (cn_db c) \<and> hw_unique (cn_db c) \<and> bus_wf (cn_console c) \<and> bus_wf (cn_display c)"

lemma db_apply_ok:
  "center_ok c \<Longrightarrow> (\<And>s s'. f s = Inr s' \<Longrightarrow> db_write s s') \<Longrightarrow> center_ok (db_apply f c)"
  using db_write_inv by (auto simp: db_apply_def center_ok_def split: sum.splits)

lemma db_apply_id_ok:
  "center_ok c \<Longrightarrow> (\<And>s s' i. f s = Inr (s', i) \<Longrightarrow> db_write s s') \<Longrightarrow> center_ok (db_apply_id f c)"
  using db_write_inv by (fastforce simp: db_apply_id_def center_ok_def split: sum.splits)

lemma center_publish_console_ok: "center_ok c \<Longrightarrow> center_ok (center_publish_console e c)"
  by (simp add: center_ok_def center_publish_console_def console_channel.publish_ok)

lemma center_publish_display_ok: "center_ok c \<Longrightarrow> center_ok (center_publish_display k e d p now c)"
  using display_channel.publish_ok
  by (simp add: center_ok_def center_publish_display_def Let_def split: option.splits)

lemma fold_ok: "(\<And>x s. ok s \<Longrightarrow> ok (f x s)) \<Longrightarrow> ok s \<Longrightarrow> ok (fold f xs s)"
  by (induction xs arbitrary: s) simp_all

lemma center_publish_ok: "center_ok c \<Longrightarrow> center_ok (center_publish t k e d p c)"
  by (simp add: center_publish_def center_publish_console_ok center_publish_display_ok)

lemma center_touch_ok: "center_ok c \<Longrightarrow> center_ok (center_touch now d c)"
  by (auto simp: center_touch_def intro!: db_apply_ok intro: w_touch)

lemma center_audit_ok: "center_ok c \<Longrightarrow> center_ok (center_audit now d ev det c)"
  by (auto simp: center_audit_def intro!: db_apply_ok intro: w_audit)

interpretation noop: ws_sink noop_sink "\<lambda>_. True"
  by unfold_locales simp_all

lemma on_notification_ok: "center_ok c \<Longrightarrow> center_ok (on_notification t e d n c)"
  unfolding on_notification_def by (intro center_publish_ok db_apply_ok) (assumption, erule w_notification)

lemma on_notification_dismissed_ok: "center_ok c \<Longrightarrow> center_ok (on_notification_dismissed t e d n c)"
  unfolding on_notification_dismissed_def by (intro center_publish_ok db_apply_ok) (assumption, erule w_read)

lemma on_sms_received_ok: "center_ok c \<Longrightarrow> center_ok (on_sms_received t e d n c)"
  unfolding on_sms_received_def by (intro center_publish_ok db_apply_ok) (assumption, erule w_sms)

lemma on_call_state_ok: "center_ok c \<Longrightarrow> center_ok (on_call_state t e d n c)"
  unfolding on_call_state_def by (intro center_publish_ok db_apply_id_ok) (assumption, erule w_call)

lemma on_call_incoming_ok: "center_ok c \<Longrightarrow> center_ok (on_call_incoming t e d n c)"
  unfolding on_call_incoming_def by (intro center_publish_ok db_apply_id_ok) (assumption, erule w_call)

lemma on_sms_send_result_ok: "center_ok c \<Longrightarrow> center_ok (on_sms_send_result X t e d n c)"
  unfolding on_sms_send_result_def by (rule center_publish_ok)

lemma on_call_history_ok: "center_ok c \<Longrightarrow> center_ok (on_call_history t e d n c)"
  unfolding on_call_history_def by (rule fold_ok[where ok = center_ok]) (rule db_apply_id_ok, assumption, erule w_call)

lemma on_sms_list_result_ok: "center_ok c \<Longrightarrow> center_ok (on_sms_list_result t e d n c)"
  unfolding on_sms_list_result_def
  by (rule center_publish_display_ok, rule fold_ok[where ok = center_ok]) (rule db_apply_ok, assumption, erule w_sms)

lemma on_hello_ok: "center_ok c \<Longrightarrow> center_ok (on_hello t e d n c)"
  unfolding on_hello_def
  by (intro center_publish_ok center_audit_ok center_touch_ok db_apply_ok) (assumption, erule w_upsert)

lemma on_unpair_ok: "center_ok c \<Longrightarrow> center_ok (on_unpair t e d n c)"
  unfolding on_unpair_def by (intro db_apply_ok center_audit_ok) (assumption, erule w_remove)

lemma on_disconnect_ok: "center_ok c \<Longrightarrow> center_ok (on_disconnect t d c)"
  unfolding on_disconnect_def by (intro center_audit_ok center_touch_ok)

interpretation center: ws_sink "center_sink X" center_ok for X
  by unfold_locales (simp_all add: center_sink_def on_notification_ok on_notification_dismissed_ok
    on_sms_received_ok on_sms_send_result_ok on_call_state_ok on_call_incoming_ok
    on_call_history_ok on_sms_list_result_ok on_hello_ok on_unpair_ok on_disconnect_ok)

section \<open>What each message leaves behind\<close>

lemma publish_db [simp]:
  "cn_db (center_publish t k e d p c) = cn_db c"
  "cn_db (center_publish_display k e d p now c) = cn_db c"
  "cn_db (center_publish_console env c) = cn_db c"
  by (simp_all add: center_publish_def center_publish_display_def center_publish_console_def
      Let_def split: option.split)

lemma db_apply_buses [simp]:
  "cn_console (db_apply f c) = cn_console c" "cn_display (db_apply f c) = cn_display c"
  "cn_console (db_apply_id g c) = cn_console c" "cn_display (db_apply_id g c) = cn_display c"
  by (simp_all add: db_apply_def db_apply_id_def split: sum.split prod.split)

lemma cn_db_apply [simp]:
  "cn_db (db_apply f c) = (case f (cn_db c) of Inl _ \<Rightarrow> cn_db c | Inr d \<Rightarrow> d)"
  "cn_db (db_apply_id g c) = (case g (cn_db c) of Inl _ \<Rightarrow> cn_db c | Inr (d, _) \<Rightarrow> d)"
  by (simp_all add: db_apply_def db_apply_id_def split: sum.split prod.split)

lemma publish_display_buses:
  "cn_console (center_publish t k e d p c) =
     console_publish (envelope_new k d p (t_uuid t 10) (t_ms t 11)) (cn_console c)"
  "cn_display (center_publish t k e d p c) =
     (let ev = build_display_event (mt_str k) d e p (t_ms t 12)
      in if should_filter ev = None then fst (display_publish ev (cn_display c)) else cn_display c)"
  by (simp_all add: center_publish_def center_publish_display_def center_publish_console_def
      build_display_event_def Let_def split: option.split)

text \<open>
  C14: A received notification of a known device is stored as the device's only row of that id,
  unread; its summary reaches every console subscriber with room whatever its package; and it
  reaches the display subscribers exactly when the noise filter lets it pass.
\<close>

theorem notification_flow:
  assumes "center_ok c" "db_up (cn_db c)" "has_device (cn_db c) dev" "i64_range (nr_posted_at n)"
    and "bus_queue (cn_console c) i = Some p" "length p < bus_cap (cn_console c)"
    and "bus_queue (cn_display c) j = Some q" "length q < bus_cap (cn_display c)"
  shows "\<exists>r. filter (\<lambda>r. nw_id r = nr_id n \<and> nw_device_id r = dev)
        (t_notifications (cn_db (on_notification t eid dev n c))) = [r] \<and>
      \<not> nw_read r \<and> nw_package_name r = nr_package n \<and> nw_content r = nr_content n \<and>
    (\<exists>e. bus_queue (cn_console (on_notification t eid dev n c)) i = Some (p @ [e]) \<and>
      ce_kind e = ''notification.received'' \<and> ce_device_id e = dev \<and>
      json_get (ce_summary e) ''title'' = Some (JStr (nr_title n))) \<and>
    (let ev = build_display_event ''notification.received'' dev eid (enc_notification_received n) (t_ms t 12)
     in bus_queue (cn_display (on_notification t eid dev n c)) j =
          Some (if should_filter ev = None then q @ [ev] else q))"
proof -
  let ?row = "\<lparr>nw_id = nr_id n, nw_device_id = dev, nw_package_name = nr_package n,
           nw_app_name = nr_app_name n, nw_title = nr_title n, nw_content = nr_content n,
           nw_posted_at = nr_posted_at n, nw_is_sensitive = nr_is_sensitive n,
           nw_category = nr_category n, nw_read = False\<rparr>"
  let ?e = "envelope_new MtNotificationReceived dev (enc_notification_received n) (t_uuid t 10) (t_ms t 11)"
  have w: "bus_wf (cn_console c)" "bus_wf (cn_display c)" using assms(1) by (simp_all add: center_ok_def)
  have "filter (\<lambda>r. nw_id r = nr_id n \<and> nw_device_id r = dev)
        (t_notifications (cn_db (on_notification t eid dev n c))) = [?row]"
    using assms(2,3) by (auto simp: on_notification_def insert_notification_def filter_empty_conv)
  moreover have "bus_queue (cn_console (on_notification t eid dev n c)) i =
      Some (p @ [console_event_from_envelope ?e])"
    using console_channel.publish_queue[OF w(1) assms(5,6)]
    by (simp add: on_notification_def publish_display_buses)
  moreover have "ce_kind (console_event_from_envelope ?e) = ''notification.received''"
    "ce_device_id (console_event_from_envelope ?e) = dev"
    "json_get (ce_summary (console_event_from_envelope ?e)) ''title'' = Some (JStr (nr_title n))"
    using rt_notification_received[OF assms(4)]
    by (simp_all add: console_event_from_envelope_def console_summary_def envelope_new_def)
  moreover have "bus_queue (fst (display_publish ev (cn_display c))) j = Some (q @ [ev])" for ev
    using display_channel.publish_queue[OF w(2) assms(7,8)] .
  ultimately show ?thesis using assms(7)
    by (auto simp: on_notification_def publish_display_buses Let_def)
qed

definition demo_center :: center where
  "demo_center = \<lparr>cn_db = demo_db, cn_console = fst (bus_subscribe console_bus_new),
     cn_display = fst (bus_subscribe display_bus_new)\<rparr>"

definition demo_message :: "string \<Rightarrow> notification_received" where
  "demo_message pkg = \<lparr>nr_id = ''k'', nr_package = pkg, nr_app_name = None, nr_title = ''t'',
     nr_content = ''c'', nr_posted_at = 0, nr_is_sensitive = False, nr_category = None\<rparr>"

lemma demo_center_ok: "center_ok demo_center"
  by (simp add: center_ok_def demo_center_def demo_db_wf bus_subscribe_wf bus_new_wf
      console_bus_new_def display_bus_new_def)

lemma demo_center_queues:
  "bus_queue (cn_console demo_center) 0 = Some []" "bus_queue (cn_display demo_center) 0 = Some []"
  "bus_cap (cn_console demo_center) = 1024" "bus_cap (cn_display demo_center) = 1024"
  by (simp_all add: demo_center_def console_bus_new_def display_bus_new_def)
    (simp_all add: bus_queue_def bus_subscribe_def bus_new_def)

theorem notification_flow_witness:
  "let c = on_notification (demo_tick 0) 3 7 (demo_message ''android'') demo_center in
     (\<exists>r. filter (\<lambda>r. nw_id r = ''k'' \<and> nw_device_id r = 7) (t_notifications (cn_db c)) = [r]) \<and>
     bus_queue (cn_display c) 0 = Some []"
proof -
  have d: "db_up (cn_db demo_center)" "has_device (cn_db demo_center) 7"
    "i64_range (nr_posted_at (demo_message ''android''))"
    by (simp_all add: demo_center_def demo_db_wf demo_message_def i64_range_def)
      (simp add: has_device_def demo_db_def demo_phone_def)
  have q: "length [] < bus_cap (cn_console demo_center)" "length [] < bus_cap (cn_display demo_center)"
    by (simp_all add: demo_center_queues)
  have f: "should_filter (build_display_event ''notification.received'' dev eid
      (enc_notification_received (demo_message ''android'')) now) = Some ''is_sys_noise''" for dev eid now
    by (subst filter_notification[of _ "demo_message ''android''"])
      (simp_all add: build_display_event_def demo_message_def OWN_PACKAGES_def SYSTEM_NOISE_PACKAGES_def)
  have k: "nr_id (demo_message ''android'') = ''k''" by (simp add: demo_message_def)
  show ?thesis
    using notification_flow[OF demo_center_ok d demo_center_queues(1) q(1) demo_center_queues(2) q(2),
        where t = "demo_tick 0" and eid = 3]
    unfolding Let_def f k by auto
qed

lemma history_columns:
  "cw_direction (call_history_row dev en) \<in> range call_dir_col_str"
  "cw_state (call_history_row dev en) \<notin> range call_state_col_str"
proof -
  have "\<exists>d. cw_direction (call_history_row dev en) = call_dir_col_str d"
    by (cases "che_direction en"; simp add: call_history_row_def)
      (metis call_dir_col_str.simps(1), metis call_dir_col_str.simps(2), metis call_dir_col_str.simps(3))
  then show "cw_direction (call_history_row dev en) \<in> range call_dir_col_str" by auto
  have "''ended'' \<noteq> call_state_col_str c" for c by (cases c) simp_all
  then show "cw_state (call_history_row dev en) \<notin> range call_state_col_str"
    by (auto simp: call_history_row_def)
qed

text \<open>
  C40: The end of a call read from the phone's history is its start plus its duration whenever that
  fits in 64 bits; when it does not, the stored end wraps to before the start. It is always a
  64-bit value, the direction of the row is one of the documented ones, and its state none.
\<close>

theorem call_history_end:
  assumes "i64_range (che_started_at en)" "che_duration_seconds en = Some d"
  shows "cw_ended_at (call_history_row dev en) =
     Some (if che_started_at en + uint d * 1000 < 2 ^ 63 then che_started_at en + uint d * 1000
           else che_started_at en + uint d * 1000 - 2 ^ 64) \<and>
    (\<forall>e. cw_ended_at (call_history_row dev en) = Some e \<longrightarrow> i64_range e) \<and>
    cw_direction (call_history_row dev en) \<in> range call_dir_col_str \<and>
    cw_state (call_history_row dev en) \<notin> range call_state_col_str"
proof -
  have r: "\<forall>e. cw_ended_at (call_history_row dev en) = Some e \<longrightarrow> i64_range e"
    by (simp add: call_history_row_def assms(2) wrap_i64_range)
  have c: "cw_direction (call_history_row dev en) \<in> range call_dir_col_str"
    "cw_state (call_history_row dev en) \<notin> range call_state_col_str"
    using history_columns by blast+
  have d: "0 \<le> uint d" "uint d < 2 ^ 32" using uint_bounded[of d] by simp_all
  then have m: "wrap_i64 (uint d * 1000) = uint d * 1000"
    by (intro wrap_i64_id) (auto simp: i64_range_def intro: order_trans[of _ 0])
  show ?thesis
  proof (cases "che_started_at en + uint d * 1000 < 2 ^ 63")
    case True
    then have "wrap_i64 (che_started_at en + uint d * 1000) = che_started_at en + uint d * 1000"
      using assms(1) d unfolding i64_range_def by (intro wrap_i64_id, unfold i64_range_def) linarith
    then show ?thesis using True r c by (simp add: call_history_row_def assms(2) m)
  next
    case False
    have "(che_started_at en + uint d * 1000 + 2 ^ 63) mod 2 ^ 64 =
        che_started_at en + uint d * 1000 + 2 ^ 63 - 2 ^ 64"
      using False assms(1) d unfolding i64_range_def by (intro int_mod_pos_eq[where q = 1]) simp_all
    then have "wrap_i64 (che_started_at en + uint d * 1000) = che_started_at en + uint d * 1000 - 2 ^ 64"
      unfolding wrap_i64_def by simp
    then show ?thesis using False r c by (simp add: call_history_row_def assms(2) m)
  qed
qed

theorem call_history_end_witness:
  "cw_ended_at (call_history_row 1 \<lparr>che_phone_number = [], che_contact_name = None,
      che_started_at = 9223372036854775807, che_duration_seconds = Some 1,
      che_direction = CdIncoming, che_sim_slot = None\<rparr>) = Some (- 9223372036854774809)"
  using call_history_end[of "\<lparr>che_phone_number = [], che_contact_name = None,
      che_started_at = 9223372036854775807, che_duration_seconds = Some 1,
      che_direction = CdIncoming, che_sim_slot = None\<rparr>" 1 1]
  by (simp add: i64_range_def)

text \<open>Of several messages with the same id in one list the last one stays.\<close>

fun keep_last :: "sms_received list \<Rightarrow> sms_received list" where
  "keep_last [] = []"
| "keep_last (m # ms) = (if sr_id m \<in> sr_id ` set ms then keep_last ms else m # keep_last ms)"

lemma sms_rows_keys: "sw_id (sms_in_row dev m) = sr_id m" "sw_device_id (sms_in_row dev m) = dev"
  "sw_direction (sms_in_row dev m) = ''in''"
  by (simp_all add: sms_in_row_def)

lemma store_list:
  "db_up (cn_db c) \<Longrightarrow> has_device (cn_db c) dev \<Longrightarrow>
     cn_db (fold (\<lambda>m. db_apply (\<lambda>db. insert_sms db (sms_in_row dev m))) ms c) = (cn_db c)\<lparr>t_sms :=
       filter (\<lambda>r. \<not> (sw_device_id r = dev \<and> sw_id r \<in> sr_id ` set ms)) (t_sms (cn_db c)) @
       map (sms_in_row dev) (keep_last ms)\<rparr>"
proof (induction ms arbitrary: c)
  case (Cons m ms)
  let ?c = "db_apply (\<lambda>db. insert_sms db (sms_in_row dev m)) c"
  have c: "cn_db ?c = (cn_db c)\<lparr>t_sms := filter (\<lambda>r. \<not> (sw_id r = sr_id m \<and> sw_device_id r = dev))
      (t_sms (cn_db c)) @ [sms_in_row dev m]\<rparr>"
    using Cons.prems by (simp add: insert_sms_def sms_rows_keys)
  have "db_up (cn_db ?c)" "has_device (cn_db ?c) dev"
    using Cons.prems unfolding c by (simp_all add: has_device_def)
  from Cons.IH[OF this] show ?case
    by (simp only: fold_simps c) (auto simp: sms_rows_keys intro!: db.equality filter_cong)
qed simp

lemma skip_list:
  "\<not> (db_up (cn_db c) \<and> has_device (cn_db c) dev) \<Longrightarrow>
     cn_db (fold (\<lambda>m. db_apply (\<lambda>db. insert_sms db (sms_in_row dev m))) ms c) = cn_db c"
  by (induction ms arbitrary: c) (simp_all add: insert_sms_def sms_rows_keys)

text \<open>
  What the results of a phone store. An SMS list of a known device replaces, of the whole
  database, exactly the rows of its own message ids by one row per id, the last of that id, and
  every one of them is marked incoming; for an unknown device, or when the database is down,
  nothing is stored. A send result changes no table: the outcome of a send is never persisted.
\<close>

lemma sms_results_stored:
  "cn_db (on_sms_list_result t eid dev l c) =
     (if db_up (cn_db c) \<and> has_device (cn_db c) dev
      then (cn_db c)\<lparr>t_sms :=
        filter (\<lambda>r. \<not> (sw_device_id r = dev \<and> sw_id r \<in> sr_id ` set (lr_messages l))) (t_sms (cn_db c)) @
        map (\<lambda>m. (sms_in_row dev m)\<lparr>sw_direction := ''in''\<rparr>) (keep_last (lr_messages l))\<rparr>
      else cn_db c) \<and>
   cn_db (on_sms_send_result X t eid dev res c) = cn_db c"
proof -
  have "(\<lambda>m. (sms_in_row dev m)\<lparr>sw_direction := ''in''\<rparr>) = sms_in_row dev"
    by (rule ext) (simp add: sms_in_row_def)
  then show ?thesis
    using store_list[of c dev "lr_messages l"] skip_list[of c dev "lr_messages l"]
    by (simp add: on_sms_list_result_def on_sms_send_result_def)
qed

end
