(* ===== verification/WsHandler.thy ===== *)
theory WsHandler
  imports Sessions CenterSink
begin

text \<open>
  The device endpoint (phonebridge-net/src/ws_handler.rs): the shared maps with the sink, one
  connection with its outbound channel, the effects of a frame, the pairing dispatcher and the
  whole connection from the hello to the cleanup. Both connection functions of the source run
  the same steps; a frame is what either transport yields.
\<close>

section \<open>State\<close>

record ws_cfg =
  wc_device_id :: uuid
  wc_name :: string
  wc_public_key :: string
  wc_port :: "u16 option"

record 's net =
  n_pairing :: pairing_map
  n_pending :: pending_map
  n_registry :: registry
  n_hist :: channel_log
  n_sink :: 's

record conn =
  cx_chan :: nat
  cx_device :: "uuid option"
  cx_bus :: proto_bus

datatype frame = FText string | FClose | FPing | FOther | FError

section \<open>Hello of the desktop\<close>

definition build_desktop_hello :: "ws_cfg \<Rightarrow> uuid \<Rightarrow> int \<Rightarrow> envelope" where
  "build_desktop_hello W fresh now =
     envelope_new MtDeviceHello (wc_device_id W)
       (enc_device_hello \<lparr>dh_name = wc_name W, dh_device_type = DtDesktop, dh_protocol_version = 1,
          dh_pubkey = wc_public_key W, dh_port = wc_port W, dh_manufacturer = None,
          dh_model = None, dh_hardware_id = None\<rparr>) fresh now"

definition send_out :: "envelope ext \<Rightarrow> nat \<Rightarrow> envelope \<Rightarrow> 's net \<Rightarrow> 's net" where
  "send_out X c e n =
     (case chan_send X (n_hist n) c e of None \<Rightarrow> n | Some h \<Rightarrow> n\<lparr>n_hist := h\<rparr>)"

definition send_hello :: "envelope ext \<Rightarrow> ws_cfg \<Rightarrow> tick \<Rightarrow> conn \<Rightarrow> 's net \<Rightarrow> 's net" where
  "send_hello X W t cx n =
     (if wc_name W = [] then n
      else send_out X (cx_chan cx) (build_desktop_hello W (t_uuid t 0) (t_ms t 0)) n)"

section \<open>Effects of a message\<close>

text \<open>The sink call of a message whose payload decodes; a payload that does not is skipped.\<close>

definition sink_call ::
  "(json \<Rightarrow> 'p option) \<Rightarrow> (uuid \<Rightarrow> uuid \<Rightarrow> 'p \<Rightarrow> 's \<Rightarrow> 's) \<Rightarrow> envelope \<Rightarrow> 's net \<Rightarrow> 's net" where
  "sink_call dec f e n =
     (case dec (env_payload e) of
        None \<Rightarrow> n
      | Some p \<Rightarrow> n\<lparr>n_sink := f (env_id e) (env_device_id e) p (n_sink n)\<rparr>)"

definition side_effects ::
  "envelope ext \<Rightarrow> 's sink \<Rightarrow> tick \<Rightarrow> envelope \<Rightarrow> conn \<Rightarrow> 's net \<Rightarrow> conn \<times> 's net" where
  "side_effects X K t e cx n =
     (case env_type e of
        MtDeviceHello \<Rightarrow>
          (let n' = sink_call dec_device_hello (sk_hello K t) e n
           in (cx\<lparr>cx_device := Some (env_device_id e)\<rparr>,
               n'\<lparr>n_registry := registry_register (env_device_id e) (cx_chan cx) (n_registry n')\<rparr>))
      | MtNotificationReceived \<Rightarrow>
          (cx, sink_call dec_notification_received (sk_notification K t) e n)
      | MtNotificationDismissed \<Rightarrow>
          (cx, sink_call dec_notification_dismissed (sk_notification_dismissed K t) e n)
      | MtSmsReceived \<Rightarrow> (cx, sink_call dec_sms_received (sk_sms_received K t) e n)
      | MtSmsSendResult \<Rightarrow> (cx, sink_call (dec_sms_send_result X) (sk_sms_send_result K t) e n)
      | MtCallState \<Rightarrow> (cx, sink_call dec_call_state (sk_call_state K t) e n)
      | MtCallIncoming \<Rightarrow> (cx, sink_call dec_call_incoming (sk_call_incoming K t) e n)
      | MtCallHistory \<Rightarrow> (cx, sink_call dec_call_history (sk_call_history K t) e n)
      | MtSmsListResult \<Rightarrow> (cx, sink_call dec_sms_list_result (sk_sms_list_result K t) e n)
      | MtDeviceUnpair \<Rightarrow> (cx, sink_call dec_unpair (sk_unpair K t) e n)
      | _ \<Rightarrow> (cx, n))"

section \<open>The dispatcher\<close>

definition paired_as :: "uuid \<Rightarrow> pairing_outcome \<Rightarrow> device_session" where
  "paired_as peer o' = Paired \<lparr>ps_device_id = peer, ps_name = ''(unknown)'',
     ps_cert_fingerprint = po_peer_fingerprint o'\<rparr>"

definition dispatch_hello ::
  "envelope ext \<Rightarrow> tick \<Rightarrow> uuid \<Rightarrow> 's net \<Rightarrow> (envelope option \<times> 's net) run" where
  "dispatch_hello X t peer n =
     (case pairing_get X t peer (n_pairing n) of
        Panic \<Rightarrow> Panic
      | Done (Some _) \<Rightarrow> Done (None, n)
      | Done None \<Rightarrow>
          (case responder_start X t peer of
             Inl _ \<Rightarrow> Done (None, n)
           | Inr r \<Rightarrow> Done (None, n\<lparr>n_pairing :=
               pairing_insert peer (Unpaired (USResponder r)) (n_pairing n)\<rparr>)))"

definition dispatch_request :: "envelope ext \<Rightarrow> tick \<Rightarrow> envelope \<Rightarrow> 's net \<Rightarrow> 's net" where
  "dispatch_request X t e n =
     (let key = (case dec_pair_request (env_payload e) of
                   None \<Rightarrow> [] | Some q \<Rightarrow> pq_ephemeral_pubkey q)
      in n\<lparr>n_pending := pending_insert
             \<lparr>pi_device_id = env_device_id e,
              pi_name = ''device-'' @ take 8 (uuid_str X (env_device_id e)),
              pi_received_at = t_ms t 0,
              pi_peer_ephemeral_pub_b64 = (if key = [] then None else Some key)\<rparr> (n_pending n)\<rparr>)"

definition dispatch_challenge ::
  "envelope ext \<Rightarrow> ws_cfg \<Rightarrow> tick \<Rightarrow> envelope \<Rightarrow> 's net \<Rightarrow> envelope option \<times> 's net" where
  "dispatch_challenge X W t e n =
     (let peer = env_device_id e;
          (taken, m) = take_unpaired_initiator peer (n_pairing n)
      in case taken of
           None \<Rightarrow> (None, n\<lparr>n_pairing := m\<rparr>)
         | Some i \<Rightarrow>
             (case initiator_on_challenge X t i e of
                Inl er \<Rightarrow>
                  ((case initiator_reject i (wc_device_id W) (pairing_error_str er)
                           (t_uuid t 0) (t_ms t 2) of
                      Inl _ \<Rightarrow> None | Inr r \<Rightarrow> Some r),
                   n\<lparr>n_pairing := pairing_insert peer (Unpaired (USInitiator i)) m\<rparr>)
              | Inr (i', _) \<Rightarrow>
                  (None, n\<lparr>n_pairing := pairing_insert peer (Unpaired (USInitiator i')) m\<rparr>)))"

definition dispatch_confirm ::
  "envelope ext \<Rightarrow> ws_cfg \<Rightarrow> tick \<Rightarrow> envelope \<Rightarrow> 's net \<Rightarrow> envelope option \<times> 's net" where
  "dispatch_confirm X W t e n =
     (let peer = env_device_id e;
          (taken, m) = take_unpaired_initiator peer (n_pairing n)
      in case taken of
           None \<Rightarrow> (None, n\<lparr>n_pairing := m\<rparr>)
         | Some i \<Rightarrow>
             if (case dec_pair_confirm (env_payload e) of
                   None \<Rightarrow> False | Some c \<Rightarrow> pcf_accepted c)
             then ((case initiator_complete i (wc_device_id W) (t_uuid t 0) (t_ms t 0) of
                      Inl _ \<Rightarrow> None | Inr r \<Rightarrow> Some r),
                   n\<lparr>n_pairing := pairing_insert peer (Unpaired (USInitiator i)) m\<rparr>)
             else (None, n\<lparr>n_pairing := m\<rparr>))"

definition dispatch_complete :: "envelope ext \<Rightarrow> envelope \<Rightarrow> 's net \<Rightarrow> 's net" where
  "dispatch_complete X e n =
     (let peer = env_device_id e;
          (taken, m) = take_unpaired_initiator peer (n_pairing n)
      in case taken of
           Some i \<Rightarrow>
             (case initiator_on_complete X i e of
                Inl _ \<Rightarrow> n\<lparr>n_pairing := m\<rparr>
              | Inr o' \<Rightarrow> n\<lparr>n_pairing := pairing_insert peer (paired_as peer o') m\<rparr>)
         | None \<Rightarrow>
             (let (taken', m') = take_unpaired_responder peer m
              in case taken' of
                   None \<Rightarrow> n\<lparr>n_pairing := m'\<rparr>
                 | Some r \<Rightarrow>
                     (case responder_on_complete X r e of
                        Inl _ \<Rightarrow> n\<lparr>n_pairing := m'\<rparr>
                      | Inr o' \<Rightarrow> n\<lparr>n_pairing := pairing_insert peer (paired_as peer o') m'\<rparr>)))"

definition dispatch ::
  "envelope ext \<Rightarrow> ws_cfg \<Rightarrow> tick \<Rightarrow> envelope \<Rightarrow> 's net \<Rightarrow> (envelope option \<times> 's net) run" where
  "dispatch X W t e n =
     (case env_type e of
        MtDeviceHello \<Rightarrow> dispatch_hello X t (env_device_id e) n
      | MtDeviceHeartbeat \<Rightarrow>
          Done (Some (envelope_new MtDeviceHeartbeat (wc_device_id W)
            (enc_device_heartbeat \<lparr>hb_rtt_ms = None\<rparr>) (t_uuid t 0) (t_ms t 0)), n)
      | MtDevicePairRequest \<Rightarrow> Done (None, dispatch_request X t e n)
      | MtDevicePairChallenge \<Rightarrow> Done (dispatch_challenge X W t e n)
      | MtDevicePairConfirm \<Rightarrow> Done (dispatch_confirm X W t e n)
      | MtDevicePairComplete \<Rightarrow> Done (None, dispatch_complete X e n)
      | _ \<Rightarrow> Done (None, n))"

section \<open>One connection\<close>

definition handle_envelope ::
  "envelope ext \<Rightarrow> ws_cfg \<Rightarrow> 's sink \<Rightarrow> tick \<Rightarrow> envelope \<Rightarrow> conn \<Rightarrow> 's net \<Rightarrow> (conn \<times> 's net) run" where
  "handle_envelope X W K t e cx n =
     (let (cx1, n1) = side_effects X K t e cx n
      in case dispatch X W t e n1 of
           Panic \<Rightarrow> Panic
         | Done (reply, n2) \<Rightarrow>
             Done (cx1\<lparr>cx_bus := fst (bus_send e (cx_bus cx1))\<rparr>,
                   case reply of None \<Rightarrow> n2 | Some r \<Rightarrow> send_out X (cx_chan cx1) r n2))"

text \<open>What a frame does with the loop: go on, leave it, or return the transport's error.\<close>

datatype loop_ctl = LcContinue | LcBreak | LcError

definition handle_frame ::
  "envelope ext \<Rightarrow> ws_cfg \<Rightarrow> 's sink \<Rightarrow> tick \<Rightarrow> frame \<Rightarrow> conn \<Rightarrow> 's net \<Rightarrow>
     (loop_ctl \<times> conn \<times> 's net) run" where
  "handle_frame X W K t fr cx n =
     (case fr of
        FError \<Rightarrow> Done (LcError, cx, n)
      | FClose \<Rightarrow> Done (LcBreak, cx, n)
      | FPing \<Rightarrow> Done (LcContinue, cx, n)
      | FOther \<Rightarrow> Done (LcContinue, cx, n)
      | FText s \<Rightarrow>
          (case envelope_from_text X s of
             None \<Rightarrow> Done (LcContinue, cx, n)
           | Some e \<Rightarrow>
               (case handle_envelope X W K t e cx n of
                  Panic \<Rightarrow> Panic
                | Done (cx', n') \<Rightarrow> Done (LcContinue, cx', n'))))"

text \<open>The loop over the frames the transport yields until it ends.\<close>

fun conn_loop ::
  "envelope ext \<Rightarrow> ws_cfg \<Rightarrow> 's sink \<Rightarrow> (tick \<times> frame) list \<Rightarrow> conn \<Rightarrow> 's net \<Rightarrow>
     (bool \<times> conn \<times> 's net) run" where
  "conn_loop X W K [] cx n = Done (True, cx, n)"
| "conn_loop X W K ((t, fr) # fs) cx n =
     (case handle_frame X W K t fr cx n of
        Panic \<Rightarrow> Panic
      | Done (LcContinue, cx', n') \<Rightarrow> conn_loop X W K fs cx' n'
      | Done (LcBreak, cx', n') \<Rightarrow> Done (True, cx', n')
      | Done (LcError, cx', n') \<Rightarrow> Done (False, cx', n'))"

text \<open>Nobody ever listens on the bus of a connection: nothing but the handler holds it.\<close>

lemma side_effects_bus: "cx_bus (fst (side_effects X K t e cx n)) = cx_bus cx"
  by (simp add: side_effects_def Let_def split: message_type.split option.split)

lemma conn_loop_unheard:
  "conn_loop X W K fs cx n = Done (ok, cx', n') \<Longrightarrow>
     proto_subscriber_count (cx_bus cx') = proto_subscriber_count (cx_bus cx)"
proof (induction X W K fs cx n rule: conn_loop.induct)
  case (2 X W K t fr fs cx n)
  have e: "handle_envelope X W K t e cx n = Done (cx1, n1) \<Longrightarrow>
      proto_subscriber_count (cx_bus cx1) = proto_subscriber_count (cx_bus cx)" for e cx1 n1
    using side_effects_bus[of X K t e cx n]
    by (auto simp: handle_envelope_def proto_publish_unheard split: prod.splits run.splits)
  then have "handle_frame X W K t fr cx n = Done (c, cx1, n1) \<Longrightarrow>
      proto_subscriber_count (cx_bus cx1) = proto_subscriber_count (cx_bus cx)" for c cx1 n1
    by (auto simp: handle_frame_def split: frame.splits option.splits run.splits)
  then show ?case using 2 by (auto split: run.splits prod.splits loop_ctl.splits)
qed simp

definition cleanup :: "'s sink \<Rightarrow> tick \<Rightarrow> conn \<Rightarrow> 's net \<Rightarrow> 's net" where
  "cleanup K t cx n =
     (case cx_device cx of
        None \<Rightarrow> n
      | Some d \<Rightarrow> n\<lparr>n_registry := registry_unregister d (n_registry n),
                    n_sink := sk_disconnect K t d (n_sink n)\<rparr>)"

text \<open>
  A connection on a fresh channel; the flag of the result is whether the function returned
  \<open>Ok\<close>. On a transport error the loop is left by \<open>?\<close>, before the cleanup.
\<close>

definition handle_connection ::
  "envelope ext \<Rightarrow> ws_cfg \<Rightarrow> 's sink \<Rightarrow> nat \<Rightarrow> tick \<Rightarrow> (tick \<times> frame) list \<Rightarrow> tick \<Rightarrow> 's net \<Rightarrow>
     (bool \<times> 's net) run" where
  "handle_connection X W K c t0 fs t1 n =
     (let cx = \<lparr>cx_chan = c, cx_device = None, cx_bus = proto_bus_new\<rparr>
      in case conn_loop X W K fs cx (send_hello X W t0 cx n) of
           Panic \<Rightarrow> Panic
         | Done (True, cx', n') \<Rightarrow> Done (True, cleanup K t1 cx' n')
         | Done (False, cx', n') \<Rightarrow> Done (False, n'))"

text \<open>
  Last, the handler waits for its writer task, which ends when no sender of the channel is left. Its
  own is dropped; what can remain are those in the registry, under devices it announced.
\<close>

datatype conn_end = CeReturned | CeFailed | CeWaits

definition channel_held :: "nat \<Rightarrow> registry \<Rightarrow> bool" where
  "channel_held c r \<longleftrightarrow> list_ex (\<lambda>d. hm_get r d = Some c) (hm_keys r)"

definition connection_end ::
  "envelope ext \<Rightarrow> ws_cfg \<Rightarrow> 's sink \<Rightarrow> nat \<Rightarrow> tick \<Rightarrow> (tick \<times> frame) list \<Rightarrow> tick \<Rightarrow> 's net \<Rightarrow>
     (conn_end \<times> 's net) run" where
  "connection_end X W K c t0 fs t1 n =
     (case handle_connection X W K c t0 fs t1 n of
        Panic \<Rightarrow> Panic
      | Done (ok, n') \<Rightarrow>
          Done (if \<not> ok then CeFailed else if channel_held c (n_registry n') then CeWaits else CeReturned, n'))"

section \<open>The sink under the handler\<close>

lemma sink_call_sink:
  "(\<And>p. ok (n_sink n) \<Longrightarrow> ok (f (env_id e) (env_device_id e) p (n_sink n))) \<Longrightarrow>
     ok (n_sink n) \<Longrightarrow> ok (n_sink (sink_call dec f e n))"
  by (simp add: sink_call_def split: option.split)

lemma sink_call_net [simp]:
  "n_pairing (sink_call dec f e n) = n_pairing n" "n_pending (sink_call dec f e n) = n_pending n"
  "n_registry (sink_call dec f e n) = n_registry n" "n_hist (sink_call dec f e n) = n_hist n"
  by (simp_all add: sink_call_def split: option.split)

lemma send_out_net [simp]:
  "n_pairing (send_out X c e n) = n_pairing n" "n_pending (send_out X c e n) = n_pending n"
  "n_registry (send_out X c e n) = n_registry n" "n_sink (send_out X c e n) = n_sink n"
  by (simp_all add: send_out_def split: option.split)

lemma send_hello_net [simp]:
  "n_pairing (send_hello X W t cx n) = n_pairing n" "n_pending (send_hello X W t cx n) = n_pending n"
  "n_registry (send_hello X W t cx n) = n_registry n" "n_sink (send_hello X W t cx n) = n_sink n"
  by (simp_all add: send_hello_def)

lemma dispatch_frame:
  "dispatch X W t e n = Done (r, n') \<Longrightarrow>
     n_sink n' = n_sink n \<and> n_registry n' = n_registry n \<and> n_hist n' = n_hist n"
  by (auto simp: dispatch_def dispatch_hello_def dispatch_request_def dispatch_challenge_def
      dispatch_confirm_def dispatch_complete_def Let_def
      split: message_type.splits run.splits option.splits sum.splits prod.splits if_splits)

context ws_sink begin

lemma side_effects_ok:
  "ok (n_sink n) \<Longrightarrow> ok (n_sink (snd (side_effects X K t e cx n)))"
  by (cases "env_type e")
    (simp_all add: side_effects_def Let_def sink_call_sink hello_ok notification_ok
      notification_dismissed_ok sms_received_ok sms_send_result_ok call_state_ok call_incoming_ok
      call_history_ok sms_list_result_ok unpair_ok)

lemma handle_envelope_ok:
  "handle_envelope X W K t e cx n = Done (cx', n') \<Longrightarrow> ok (n_sink n) \<Longrightarrow> ok (n_sink n')"
  using side_effects_ok[of n X t e cx]
  by (auto simp: handle_envelope_def Let_def dest!: dispatch_frame split: prod.splits run.splits option.splits)

lemma handle_frame_ok:
  "handle_frame X W K t fr cx n = Done (l, cx', n') \<Longrightarrow> ok (n_sink n) \<Longrightarrow> ok (n_sink n')"
  by (auto simp: handle_frame_def dest: handle_envelope_ok split: frame.splits option.splits run.splits)

lemma conn_loop_ok:
  "conn_loop X W K fs cx n = Done (b, cx', n') \<Longrightarrow> ok (n_sink n) \<Longrightarrow> ok (n_sink n')"
proof (induction fs arbitrary: cx n)
  case (Cons f fs)
  obtain t fr where [simp]: "f = (t, fr)" by fastforce
  obtain l cx1 n1 where f: "handle_frame X W K t fr cx n = Done (l, cx1, n1)"
    using Cons.prems(1) by (auto split: run.splits)
  have "ok (n_sink n1)" by (rule handle_frame_ok[OF f Cons.prems(2)])
  then show ?case using Cons.IH[of cx1 n1] Cons.prems(1) f by (cases l) simp_all
qed simp

lemma handle_connection_ok:
  "handle_connection X W K c t0 fs t1 n = Done (b, n') \<Longrightarrow> ok (n_sink n) \<Longrightarrow> ok (n_sink n')"
  by (auto simp: handle_connection_def cleanup_def Let_def disconnect_ok dest!: conn_loop_ok
      split: run.splits prod.splits bool.splits option.splits)

end

section \<open>The registry over a connection\<close>

text \<open>The frames the loop processes, and the devices whose hello is among them.\<close>

definition live :: "tick \<times> frame \<Rightarrow> bool" where
  "live f \<longleftrightarrow> snd f \<noteq> FClose \<and> snd f \<noteq> FError"

definition hello_of :: "envelope ext \<Rightarrow> tick \<times> frame \<Rightarrow> uuid option" where
  "hello_of X f =
     (case snd f of
        FText s \<Rightarrow>
          (case envelope_from_text X s of
             None \<Rightarrow> None
           | Some e \<Rightarrow> if env_type e = MtDeviceHello then Some (env_device_id e) else None)
      | _ \<Rightarrow> None)"

definition hellos :: "envelope ext \<Rightarrow> (tick \<times> frame) list \<Rightarrow> uuid list" where
  "hellos X fs = List.map_filter (hello_of X) (takeWhile live fs)"

lemma handle_envelope_conn:
  "handle_envelope X W K t e cx n = Done (cx', n') \<Longrightarrow>
     cx_chan cx' = cx_chan cx \<and>
     (if env_type e = MtDeviceHello
      then cx_device cx' = Some (env_device_id e) \<and>
           n_registry n' = registry_register (env_device_id e) (cx_chan cx) (n_registry n)
      else cx_device cx' = cx_device cx \<and> n_registry n' = n_registry n)"
  by (cases "env_type e")
    (auto simp: handle_envelope_def side_effects_def Let_def dest!: dispatch_frame
      split: run.splits prod.splits option.splits)

lemma handle_frame_conn:
  "handle_frame X W K t fr cx n = Done (l, cx', n') \<Longrightarrow>
     cx_chan cx' = cx_chan cx \<and> (l = LcContinue \<longleftrightarrow> live (t, fr)) \<and> (l = LcError \<longleftrightarrow> fr = FError) \<and>
     (case hello_of X (t, fr) of
        Some d \<Rightarrow> cx_device cx' = Some d \<and> n_registry n' = registry_register d (cx_chan cx) (n_registry n)
      | None \<Rightarrow> cx_device cx' = cx_device cx \<and> n_registry n' = n_registry n)"
  by (auto simp: handle_frame_def live_def hello_of_def dest!: handle_envelope_conn
      split: frame.splits option.splits run.splits if_splits)

lemma hellos_simps:
  "hellos X [] = []"
  "hellos X (f # fs) = (if live f then (case hello_of X f of None \<Rightarrow> [] | Some d \<Rightarrow> [d]) @ hellos X fs else [])"
  by (simp_all add: hellos_def List.map_filter_simps split: option.split)

lemma conn_loop_registry:
  "conn_loop X W K fs cx n = Done (b, cx', n') \<Longrightarrow>
     cx_chan cx' = cx_chan cx \<and>
     (b \<longleftrightarrow> (case dropWhile live fs of [] \<Rightarrow> True | f # _ \<Rightarrow> snd f = FClose)) \<and>
     cx_device cx' = (if hellos X fs = [] then cx_device cx else Some (last (hellos X fs))) \<and>
     (\<forall>d. hm_get (n_registry n') d =
        (if d \<in> set (hellos X fs) then Some (cx_chan cx) else hm_get (n_registry n) d))"
proof (induction X W K fs cx n rule: conn_loop.induct)
  case (1 X W K cx n)
  then show ?case by (simp add: hellos_simps)
next
  case (2 X W K t fr fs cx n)
  obtain l cx1 n1 where f: "handle_frame X W K t fr cx n = Done (l, cx1, n1)"
    using 2(2) by (auto split: run.splits)
  note c = handle_frame_conn[OF f]
  show ?case
  proof (cases l)
    case LcContinue
    then have r: "conn_loop X W K fs cx1 n1 = Done (b, cx', n')" using 2(2) f by simp
    have "live (t, fr)" using c LcContinue by simp
    then show ?thesis using 2(1)[OF f refl LcContinue refl r] c
      by (auto simp: hellos_simps registry_register_def split: option.splits if_splits)
  next
    case LcBreak
    then have "cx' = cx1" "n' = n1" "b" "\<not> live (t, fr)" "snd (t, fr) = FClose"
      using 2(2) f c by (auto simp: live_def)
    then show ?thesis using c by (simp add: hellos_simps hello_of_def)
  next
    case LcError
    then have "cx' = cx1" "n' = n1" "\<not> b" "\<not> live (t, fr)" "fr = FError"
      using 2(2) f c by (auto simp: live_def)
    then show ?thesis using c by (simp add: hellos_simps hello_of_def)
  qed
qed

lemma handle_connection_registry:
  assumes "handle_connection X W K c t0 fs t1 n = Done (b, n')"
  shows "(b \<longleftrightarrow> (case dropWhile live fs of [] \<Rightarrow> True | f # _ \<Rightarrow> snd f = FClose)) \<and>
    hm_get (n_registry n') d =
      (if b \<and> hellos X fs \<noteq> [] \<and> d = last (hellos X fs) then None
       else if d \<in> set (hellos X fs) then Some c
       else hm_get (n_registry n) d)"
proof -
  let ?cx = "\<lparr>cx_chan = c, cx_device = None, cx_bus = bus_new 1024\<rparr>"
  obtain b' cx1 n1 where l: "conn_loop X W K fs ?cx (send_hello X W t0 ?cx n) = Done (b', cx1, n1)"
    using assms by (auto simp: handle_connection_def Let_def split: run.splits)
  have "b' = b" and n': "n' = (if b then cleanup K t1 cx1 n1 else n1)"
    using assms l by (auto simp: handle_connection_def Let_def split: bool.splits)
  then show ?thesis using conn_loop_registry[OF l]
    by (auto simp: cleanup_def registry_unregister_def split: option.splits)
qed

text \<open>
  C12: What a connection leaves in the registry, whatever frames arrive. Every device that said
  hello on it is registered to its channel; when the connection ends in order only the device
  of the last hello is taken out again, and when the transport fails nothing is, so those
  entries keep pointing at a channel nobody serves.
\<close>

theorem connection_registry:
  assumes "handle_connection X W K c t0 fs t1 n = Done (b, n')"
  shows "(b \<longleftrightarrow> (case dropWhile live fs of [] \<Rightarrow> True | f # _ \<Rightarrow> snd f = FClose)) \<and>
    hm_get (n_registry n') d =
      (if b \<and> hellos X fs \<noteq> [] \<and> d = last (hellos X fs) then None
       else if d \<in> set (hellos X fs) then Some c
       else hm_get (n_registry n) d)"
  by (rule handle_connection_registry[OF assms])

section \<open>The pairing sessions under the dispatcher\<close>

text \<open>
  The specification of the dispatcher: the session of one peer as a state machine over the
  messages that peer sends.
\<close>

definition completed :: "uuid \<Rightarrow> pairing_error + pairing_outcome \<Rightarrow> device_session option" where
  "completed peer r = (case r of Inl _ \<Rightarrow> None | Inr o' \<Rightarrow> Some (paired_as peer o'))"

definition session_after ::
  "envelope ext \<Rightarrow> tick \<Rightarrow> envelope \<Rightarrow> device_session option \<Rightarrow> device_session option" where
  "session_after X t e s =
     (let peer = env_device_id e in
      case env_type e of
        MtDeviceHello \<Rightarrow>
          (case s of
             Some s' \<Rightarrow> Some s'
           | None \<Rightarrow> (case responder_start X t peer of
                        Inl _ \<Rightarrow> None | Inr r \<Rightarrow> Some (Unpaired (USResponder r))))
      | MtDevicePairChallenge \<Rightarrow>
          (case s of
             Some (Unpaired (USInitiator i)) \<Rightarrow> Some (Unpaired (USInitiator
               (case initiator_on_challenge X t i e of Inl _ \<Rightarrow> i | Inr (i', _) \<Rightarrow> i')))
           | _ \<Rightarrow> s)
      | MtDevicePairConfirm \<Rightarrow>
          (case s of
             Some (Unpaired (USInitiator i)) \<Rightarrow>
               (if dec_pair_confirm (env_payload e) = Some \<lparr>pcf_accepted = True\<rparr> then s else None)
           | _ \<Rightarrow> s)
      | MtDevicePairComplete \<Rightarrow>
          (case s of
             Some (Unpaired (USInitiator i)) \<Rightarrow> completed peer (initiator_on_complete X i e)
           | Some (Unpaired (USResponder r)) \<Rightarrow> completed peer (responder_on_complete X r e)
           | _ \<Rightarrow> s)
      | _ \<Rightarrow> s)"

lemma take_initiator_cases:
  "take_unpaired_initiator d m = (taken, m') \<Longrightarrow>
     (case taken of
        Some i \<Rightarrow> hm_get m d = Some (Unpaired (USInitiator i)) \<and> m' = hm_remove d m
      | None \<Rightarrow> hm_get m' = hm_get m \<and> (\<forall>i. hm_get m d \<noteq> Some (Unpaired (USInitiator i))))"
  by (cases taken) (auto simp: take_initiator_Some dest: take_initiator_None,
    auto simp: take_unpaired_initiator_def)

lemma take_responder_cases:
  "take_unpaired_responder d m = (taken, m') \<Longrightarrow>
     (case taken of
        Some r \<Rightarrow> hm_get m d = Some (Unpaired (USResponder r)) \<and> m' = hm_remove d m
      | None \<Rightarrow> hm_get m' = hm_get m \<and> (\<forall>r. hm_get m d \<noteq> Some (Unpaired (USResponder r))))"
  by (cases taken) (auto simp: take_responder_Some dest: take_responder_None,
    auto simp: take_unpaired_responder_def)

lemma dispatch_hello_session:
  "dispatch_hello X t peer n = Done (r, n') \<Longrightarrow>
     hm_get (n_pairing n') = (hm_get (n_pairing n))(peer :=
       (case hm_get (n_pairing n) peer of
          Some s' \<Rightarrow> Some s'
        | None \<Rightarrow> (case responder_start X t peer of
                     Inl _ \<Rightarrow> None | Inr r \<Rightarrow> Some (Unpaired (USResponder r))))) \<and>
     n_pending n' = n_pending n"
  by (auto simp: dispatch_hello_def pairing_get_def pairing_insert_def fun_eq_iff
      split: option.splits run.splits sum.splits)

lemma dispatch_challenge_session:
  "dispatch_challenge X W t e n = (r, n') \<Longrightarrow> env_type e = MtDevicePairChallenge \<Longrightarrow>
     hm_get (n_pairing n') = (hm_get (n_pairing n))(env_device_id e :=
       session_after X t e (hm_get (n_pairing n) (env_device_id e))) \<and> n_pending n' = n_pending n"
  by (auto simp: dispatch_challenge_def session_after_def Let_def pairing_insert_def fun_eq_iff
      dest!: take_initiator_cases
      split: option.splits sum.splits prod.splits device_session.splits unpaired_session.splits)

lemma dispatch_confirm_session:
  "dispatch_confirm X W t e n = (r, n') \<Longrightarrow> env_type e = MtDevicePairConfirm \<Longrightarrow>
     hm_get (n_pairing n') = (hm_get (n_pairing n))(env_device_id e :=
       session_after X t e (hm_get (n_pairing n) (env_device_id e))) \<and> n_pending n' = n_pending n"
  by (cases "dec_pair_confirm (env_payload e)")
    (auto simp: dispatch_confirm_def session_after_def Let_def pairing_insert_def fun_eq_iff
      dest!: take_initiator_cases
      split: option.splits prod.splits if_splits device_session.splits unpaired_session.splits)

lemma dispatch_complete_session:
  "env_type e = MtDevicePairComplete \<Longrightarrow>
     hm_get (n_pairing (dispatch_complete X e n)) = (hm_get (n_pairing n))(env_device_id e :=
       session_after X t e (hm_get (n_pairing n) (env_device_id e))) \<and>
     n_pending (dispatch_complete X e n) = n_pending n"
  by (auto simp: dispatch_complete_def session_after_def completed_def Let_def pairing_insert_def fun_eq_iff
      dest!: take_initiator_cases take_responder_cases
      split: option.splits sum.splits prod.splits device_session.splits unpaired_session.splits)

lemma dispatch_session_entry:
  assumes "dispatch X W t e n = Done (r, n')"
  shows "hm_get (n_pairing n') = (hm_get (n_pairing n))(env_device_id e :=
      session_after X t e (hm_get (n_pairing n) (env_device_id e))) \<and>
    (\<forall>d. hm_get (n_pending n') d \<noteq> hm_get (n_pending n) d \<longrightarrow>
       env_type e = MtDevicePairRequest \<and> d = env_device_id e) \<and>
    n_registry n' = n_registry n \<and> n_sink n' = n_sink n \<and> n_hist n' = n_hist n"
proof -
  have "hm_get (n_pairing n') = (hm_get (n_pairing n))(env_device_id e :=
      session_after X t e (hm_get (n_pairing n) (env_device_id e))) \<and>
    (\<forall>d. hm_get (n_pending n') d \<noteq> hm_get (n_pending n) d \<longrightarrow>
       env_type e = MtDevicePairRequest \<and> d = env_device_id e)"
  proof (cases "env_type e")
    case MtDeviceHello
    then show ?thesis using assms dispatch_hello_session[of X t "env_device_id e" n r n']
      by (simp add: dispatch_def session_after_def)
  next
    case MtDevicePairChallenge
    then show ?thesis using assms dispatch_challenge_session[of X W t e n r n'] by (simp add: dispatch_def)
  next
    case MtDevicePairConfirm
    then show ?thesis using assms dispatch_confirm_session[of X W t e n r n'] by (simp add: dispatch_def)
  next
    case MtDevicePairComplete
    then show ?thesis using assms dispatch_complete_session[of e X n t] by (auto simp: dispatch_def)
  qed (use assms in \<open>auto simp: dispatch_def session_after_def dispatch_request_def Let_def pending_insert_def
      split: if_splits\<close>)
  then show ?thesis using dispatch_frame[OF assms] by simp
qed

text \<open>
  C4: The dispatcher implements the session machine: handling a message changes the pairing
  session of its sender as the machine says and no other session; a pair request is parked under
  its sender, and nothing else changes the pending requests, the registry, the sink or what was
  sent.
\<close>

theorem dispatch_refines_session:
  assumes "dispatch X W t e n = Done (r, n')"
  shows "hm_get (n_pairing n') = (hm_get (n_pairing n))(env_device_id e :=
      session_after X t e (hm_get (n_pairing n) (env_device_id e))) \<and>
    (\<forall>d. hm_get (n_pending n') d \<noteq> hm_get (n_pending n) d \<longrightarrow>
       env_type e = MtDevicePairRequest \<and> d = env_device_id e) \<and>
    n_registry n' = n_registry n \<and> n_sink n' = n_sink n \<and> n_hist n' = n_hist n"
  by (rule dispatch_session_entry[OF assms])

text \<open>
  Sessions are stored under their peer's id, responders never got a request or an answer of
  the user, pending requests are stored under their device, and a paired session carries a
  parsed fingerprint.
\<close>

definition session_ok :: "uuid \<Rightarrow> device_session \<Rightarrow> bool" where
  "session_ok d s \<longleftrightarrow>
     (case s of
        Unpaired (USInitiator i) \<Rightarrow> in_peer_device_id i = d
      | Unpaired (USResponder r) \<Rightarrow> rs_peer_device_id r = d \<and> rs_accepted r = None \<and> rs_code r = None
      | Paired p \<Rightarrow> ps_device_id p = d \<and> (\<exists>bs. parse_fingerprint (ps_cert_fingerprint p) = Inr bs))"

definition sessions_ok :: "pairing_map \<Rightarrow> bool" where
  "sessions_ok m \<longleftrightarrow> hm_wf m \<and> (\<forall>d s. hm_get m d = Some s \<longrightarrow> session_ok d s)"

lemma completed_Some:
  "completed d r = Some s \<longleftrightarrow> (\<exists>o'. r = Inr o' \<and> s = paired_as d o')"
  by (auto simp: completed_def split: sum.splits)

lemma responder_no_consent: "rs_accepted r = None \<Longrightarrow> responder_on_complete X r e = Inl (BadState ''user accepted'' (env_type e))"
  by (simp add: responder_on_complete_def)

lemma on_challenge_peer:
  "initiator_on_challenge X t i e = Inr (i', d) \<Longrightarrow> in_peer_device_id i' = in_peer_device_id i"
  by (auto simp: initiator_on_challenge_def split: if_splits sum.splits)

lemma session_after_ok:
  assumes "session_after X t e s = Some s'" "\<And>s0. s = Some s0 \<Longrightarrow> session_ok (env_device_id e) s0"
  shows "session_ok (env_device_id e) s'"
  using assms
  by (cases "env_type e")
    (auto simp: session_after_def session_ok_def completed_Some paired_as_def initiator_on_complete_def
      responder_start_def responder_no_consent Let_def dest!: accept_complete_Inr dest: on_challenge_peer
      split: option.splits device_session.splits unpaired_session.splits sum.splits if_splits)

lemma take_wf_eq:
  "take_unpaired_initiator d m = (x, m') \<Longrightarrow> hm_wf m \<Longrightarrow> hm_wf m'"
  "take_unpaired_responder d m = (y, m') \<Longrightarrow> hm_wf m \<Longrightarrow> hm_wf m'"
  using take_wf[of m d] by simp_all

lemma dispatch_wf:
  assumes "dispatch X W t e n = Done (r, n')"
  shows "hm_wf (n_pairing n) \<Longrightarrow> hm_wf (n_pairing n')" "hm_wf (n_pending n) \<Longrightarrow> hm_wf (n_pending n')"
  using assms
  by (auto simp: dispatch_def dispatch_hello_def dispatch_request_def dispatch_challenge_def
      dispatch_confirm_def dispatch_complete_def pairing_insert_def pending_insert_def Let_def
      dest!: take_wf_eq
      split: message_type.splits run.splits option.splits sum.splits prod.splits if_splits)

lemma dispatch_sessions_ok:
  assumes d: "dispatch X W t e n = Done (r, n')" and s: "sessions_ok (n_pairing n)"
  shows "sessions_ok (n_pairing n')"
  unfolding sessions_ok_def
proof (intro conjI allI impI)
  show "hm_wf (n_pairing n')" using dispatch_wf(1)[OF d] s by (simp add: sessions_ok_def)
  fix p q assume "hm_get (n_pairing n') p = Some q"
  then show "session_ok p q"
    using dispatch_session_entry[OF d] s session_after_ok[of X t e _ q]
    by (auto simp: sessions_ok_def split: if_splits)
qed

text \<open>A predicate on the sessions that every dispatch keeps is kept by whole connections.\<close>

lemma side_effects_pairing:
  "n_pairing (snd (side_effects X K t e cx n)) = n_pairing n"
  "n_pending (snd (side_effects X K t e cx n)) = n_pending n"
  by (cases "env_type e"; simp add: side_effects_def Let_def)+

lemma handle_envelope_pairing:
  fixes n n' :: "'s net"
  assumes "handle_envelope X W K t e cx n = Done (cx', n')"
  shows "\<exists>r (n1 :: 's net) n2. dispatch X W t e n1 = Done (r, n2) \<and> n_pairing n1 = n_pairing n \<and>
       n_pending n1 = n_pending n \<and> n_pairing n' = n_pairing n2 \<and> n_pending n' = n_pending n2"
proof -
  obtain cx1 n1 where s: "side_effects X K t e cx n = (cx1, n1)" by fastforce
  have p: "n_pairing n1 = n_pairing n" "n_pending n1 = n_pending n"
    using side_effects_pairing[of X K t e cx n] s by simp_all
  obtain r n2 where d: "dispatch X W t e n1 = Done (r, n2)"
    using assms s by (auto simp: handle_envelope_def split: run.splits)
  have "n' = (case r of None \<Rightarrow> n2 | Some m \<Rightarrow> send_out X (cx_chan cx1) m n2)"
    using assms s d by (simp add: handle_envelope_def)
  then have "n_pairing n' = n_pairing n2" "n_pending n' = n_pending n2"
    by (simp_all split: option.split)
  then show ?thesis using d p by blast
qed

lemma handle_connection_pairing:
  fixes n n' :: "'s net"
  assumes step: "\<And>t e (n :: 's net) r n'. dispatch X W t e n = Done (r, n') \<Longrightarrow> P (n_pairing n) \<Longrightarrow> P (n_pairing n')"
    and h: "handle_connection X W K c t0 fs t1 n = Done (b, n')" and i: "P (n_pairing n)"
  shows "P (n_pairing n')"
proof -
  have env: "handle_envelope X W K t e cx m = Done (cx', m') \<Longrightarrow> P (n_pairing m) \<Longrightarrow> P (n_pairing m')"
    for t e cx m cx' m' using handle_envelope_pairing step by metis
  have fr: "handle_frame X W K t f cx m = Done (l, cx', m') \<Longrightarrow> P (n_pairing m) \<Longrightarrow> P (n_pairing m')"
    for t f cx m l cx' m'
    by (auto simp: handle_frame_def dest: env split: frame.splits option.splits run.splits)
  have loop: "conn_loop X W K fs cx m = Done (r, cx', m') \<Longrightarrow> P (n_pairing m) \<Longrightarrow> P (n_pairing m')"
    for fs cx m r cx' m'
  proof (induction fs arbitrary: cx m)
    case (Cons f fs)
    obtain t g where [simp]: "f = (t, g)" by fastforce
    obtain l cx1 m1 where f: "handle_frame X W K t g cx m = Done (l, cx1, m1)"
      using Cons.prems(1) by (auto split: run.splits)
    have "P (n_pairing m1)" by (rule fr[OF f Cons.prems(2)])
    then show ?case using Cons.IH[of cx1 m1] Cons.prems(1) f by (cases l) simp_all
  qed simp
  show ?thesis using h i
    by (auto simp: handle_connection_def cleanup_def Let_def dest!: loop
        split: run.splits prod.splits bool.splits option.splits)
qed

text \<open>
  A connection changes a pairing session only through the messages of the session machine, so
  it keeps every session well formed; and a device for which the center started no pairing itself
  is never paired by anything it or another phone sends: the responder created by its hello has no
  answer of the user recorded, and refuses every \<open>pair.complete\<close>.
\<close>

lemma phone_initiated_never_pairs:
  fixes n n' :: "'s net"
  assumes "handle_connection X W K c t0 fs t1 n = Done (b, n')" and "sessions_ok (n_pairing n)"
    and "\<forall>i. hm_get (n_pairing n) d \<noteq> Some (Unpaired (USInitiator i))"
    and "\<forall>p. hm_get (n_pairing n) d \<noteq> Some (Paired p)"
  shows "sessions_ok (n_pairing n') \<and> (\<forall>p. hm_get (n_pairing n') d \<noteq> Some (Paired p))"
proof -
  let ?P = "\<lambda>m. sessions_ok m \<and> (\<forall>i. hm_get m d \<noteq> Some (Unpaired (USInitiator i))) \<and>
    (\<forall>p. hm_get m d \<noteq> Some (Paired p))"
  have "?P (n_pairing m')" if s: "dispatch X W t e m = Done (r, m')" and p: "?P (n_pairing m)" for t e r and m m' :: "'s net"
  proof (cases "env_device_id e = d")
    case True
    let ?s = "hm_get (n_pairing m) d"
    have "session_after X t e ?s \<noteq> Some (Unpaired (USInitiator i))"
      "session_after X t e ?s \<noteq> Some (Paired q)" for i q
      using p True
      by (cases "env_type e"; auto simp: session_after_def sessions_ok_def session_ok_def completed_def
          responder_no_consent Let_def
          split: option.splits device_session.splits unpaired_session.splits sum.splits)+
    then show ?thesis using dispatch_sessions_ok[OF s] dispatch_session_entry[OF s] p True by simp
  next
    case False
    then show ?thesis using dispatch_sessions_ok[OF s] dispatch_session_entry[OF s] p by simp
  qed
  then have "?P (n_pairing n')"
    by (rule handle_connection_pairing[of _ _ ?P, OF _ assms(1)]) (use assms in simp_all)
  then show ?thesis by simp
qed

text \<open>
  C36: A device is paired by the dispatcher only when it sends a \<open>pair.complete\<close> while
  the center's own initiator for it is in flight, with a fingerprint of 32 bytes; but that
  initiator need not have seen a challenge or a confirmation: a \<open>pair.complete\<close> sent
  right after the request pairs the device.
\<close>

theorem paired_only_by_complete:
  assumes "dispatch X W t e n = Done (r, n')" and "sessions_ok (n_pairing n)"
  shows "(hm_get (n_pairing n') d = Some (Paired p) \<and> hm_get (n_pairing n) d \<noteq> Some (Paired p) \<longrightarrow>
      env_type e = MtDevicePairComplete \<and> env_device_id e = d \<and>
      (\<exists>i. hm_get (n_pairing n) d = Some (Unpaired (USInitiator i))) \<and>
      (\<exists>bs. parse_fingerprint (ps_cert_fingerprint p) = Inr bs \<and> length bs = SHA256_LEN)) \<and>
    (env_type e = MtDevicePairComplete \<longrightarrow>
      hm_get (n_pairing n) (env_device_id e) = Some (Unpaired (USInitiator i)) \<longrightarrow>
      initiator_on_complete X i e = Inr out \<longrightarrow>
      hm_get (n_pairing n') (env_device_id e) = Some (paired_as (env_device_id e) out))"
proof (intro conjI impI)
  note ref = dispatch_session_entry[OF assms(1)]
  { assume h: "hm_get (n_pairing n') d = Some (Paired p) \<and> hm_get (n_pairing n) d \<noteq> Some (Paired p)"
    then have d: "env_device_id e = d" using ref by (auto split: if_splits)
    then have s: "session_after X t e (hm_get (n_pairing n) d) = Some (Paired p)" using h ref by simp
    have "env_type e = MtDevicePairComplete \<and>
      (\<exists>i. hm_get (n_pairing n) d = Some (Unpaired (USInitiator i)))"
      using s h assms(2)
      by (cases "env_type e")
        (auto simp: session_after_def sessions_ok_def session_ok_def completed_def Let_def
          responder_no_consent
          split: option.splits device_session.splits unpaired_session.splits sum.splits if_splits)
    moreover have "session_ok d (Paired p)"
      using dispatch_sessions_ok[OF assms] h by (simp add: sessions_ok_def)
    ultimately show "env_type e = MtDevicePairComplete" "env_device_id e = d"
      "\<exists>i. hm_get (n_pairing n) d = Some (Unpaired (USInitiator i))"
      "\<exists>bs. parse_fingerprint (ps_cert_fingerprint p) = Inr bs \<and> length bs = SHA256_LEN"
      using d by (auto simp: session_ok_def dest: parse_fingerprint_length) }
  assume "env_type e = MtDevicePairComplete"
    "hm_get (n_pairing n) (env_device_id e) = Some (Unpaired (USInitiator i))"
    "initiator_on_complete X i e = Inr out"
  then show "hm_get (n_pairing n') (env_device_id e) = Some (paired_as (env_device_id e) out)"
    using ref by (simp add: session_after_def completed_def)
qed

section \<open>Totality and the center\<close>

definition rcgen_ok :: "'e ext \<Rightarrow> bool" where
  "rcgen_ok X \<longleftrightarrow> (\<forall>cn seed. \<exists>v. rcgen_cert X cn seed = Inr v)"

lemma responder_start_total: "rcgen_ok X \<Longrightarrow> \<exists>r. responder_start X t peer = Inr r"
proof -
  assume r: "rcgen_ok X"
  obtain v where "rcgen_cert X ''phonebridge-android'' (t_seed t 0) = Inr v"
    using r unfolding rcgen_ok_def by blast
  then show ?thesis by (cases v) (auto simp: responder_start_def generate_self_signed_def)
qed

lemma pairing_get_total: "rcgen_ok X \<Longrightarrow> pairing_get X t d m \<noteq> Panic"
proof -
  assume r: "rcgen_ok X"
  have "clone_session X t s \<noteq> Panic" for s
    using responder_start_total[OF r, of t 0] by (cases s) auto
  then show ?thesis by (auto simp: pairing_get_def split: option.splits run.splits)
qed

lemma dispatch_total: "rcgen_ok X \<Longrightarrow> dispatch X W t e (n :: 's net) \<noteq> Panic"
  using pairing_get_total[of X t "env_device_id e" "n_pairing n"]
  by (cases "env_type e")
    (auto simp: dispatch_def dispatch_hello_def split: run.splits option.splits sum.splits)

lemma handle_frame_total: "rcgen_ok X \<Longrightarrow> handle_frame X W K t fr cx n \<noteq> Panic"
  by (auto simp: handle_frame_def handle_envelope_def Let_def dest: dispatch_total
      split: frame.splits option.splits run.splits prod.splits)

lemma conn_loop_total: "rcgen_ok X \<Longrightarrow> conn_loop X W K fs cx n \<noteq> Panic"
proof (induction fs arbitrary: cx n)
  case (Cons f fs)
  obtain t fr where [simp]: "f = (t, fr)" by fastforce
  obtain l cx1 n1 where "handle_frame X W K t fr cx n = Done (l, cx1, n1)"
    using handle_frame_total[OF Cons.prems, of W K t fr cx n] by (metis run.exhaust prod_cases3)
  then show ?case using Cons by (cases l) simp_all
qed simp

lemma handle_connection_total:
  "rcgen_ok X \<Longrightarrow> \<exists>b n'. handle_connection X W K c t0 fs t1 n = Done (b, n')"
proof -
  assume r: "rcgen_ok X"
  let ?cx = "\<lparr>cx_chan = c, cx_device = None, cx_bus = bus_new 1024\<rparr>"
  obtain b cx1 n1 where "conn_loop X W K fs ?cx (send_hello X W t0 ?cx n) = Done (b, cx1, n1)"
    using conn_loop_total[OF r] by (metis run.exhaust prod_cases3)
  then have "handle_connection X W K c t0 fs t1 n =
      Done (b, if b then cleanup K t1 cx1 n1 else n1)"
    by (cases b) (simp_all add: handle_connection_def)
  then show ?thesis by blast
qed

text \<open>
  Provided certificates can be generated, a connection handler returns whatever frames it
  is sent, in whatever order and however malformed, and it leaves the database with its
  constraints and hardware ids unique and both buses in order.
\<close>

lemma connection_keeps_center:
  assumes "rcgen_ok X" and "center_ok (n_sink n)"
  shows "\<exists>b n'. handle_connection X W (center_sink Y) c t0 fs t1 n = Done (b, n') \<and> center_ok (n_sink n')"
proof -
  obtain b n' where "handle_connection X W (center_sink Y) c t0 fs t1 n = Done (b, n')"
    using handle_connection_total[OF assms(1)] by blast
  then show ?thesis using center.handle_connection_ok assms(2) by blast
qed

lemma channel_held_iff: "channel_held c r \<longleftrightarrow> (\<exists>d. hm_get r d = Some c)"
  by (auto simp: channel_held_def list_ex_iff hm_keys_iff)


section \<open>Concrete connections\<close>

text \<open>The parameters with text frames that stand for a list of envelopes.\<close>

definition frames_ext :: "envelope list \<Rightarrow> envelope ext" where
  "frames_ext es = demo_ext\<lparr>json_parse := (\<lambda>s. if length s < length es
     then Some (enc_envelope demo_ext (es ! length s)) else None)\<rparr>"

definition text_frame :: "nat \<Rightarrow> tick \<times> frame" where
  "text_frame k = (demo_tick 1000, FText (replicate k (CHR ''x'')))"

definition demo_cfg :: ws_cfg where
  "demo_cfg = \<lparr>wc_device_id = 2, wc_name = ''desk'', wc_public_key = [], wc_port = Some 8443\<rparr>"

definition demo_net :: "'s \<Rightarrow> 's net" where
  "demo_net s = \<lparr>n_pairing = [], n_pending = [], n_registry = [], n_hist = [], n_sink = s\<rparr>"

definition demo_hello :: "uuid \<Rightarrow> envelope" where
  "demo_hello d = envelope_new MtDeviceHello d
     (enc_device_hello \<lparr>dh_name = ''phone'', dh_device_type = DtAndroid, dh_protocol_version = 1,
        dh_pubkey = [], dh_port = None, dh_manufacturer = None, dh_model = None,
        dh_hardware_id = Some ''hw''\<rparr>) 3 1000"

definition demo_finish :: "uuid \<Rightarrow> envelope" where
  "demo_finish d = envelope_new MtDevicePairComplete d
     (enc_pair_complete \<lparr>pcp_cert_pem = ''-----BEGIN CERTIFICATE-----'',
        pcp_cert_fingerprint = cert_fingerprint_der demo_ext [1]\<rparr>) 4 1000"

lemma frames_text:
  assumes "k < length es" "i64_range (env_ts (es ! k))"
  shows "envelope_from_text (frames_ext es) (replicate k (CHR ''x'')) = Some (es ! k)"
proof -
  have "uuid_ok (frames_ext es)" using demo_uuid_ok by (simp add: uuid_ok_def frames_ext_def)
  moreover have "enc_envelope demo_ext e = enc_envelope (frames_ext es) e" for e
    by (simp add: enc_envelope_def enc_uuid_def frames_ext_def)
  moreover have "json_parse (frames_ext es) (replicate k (CHR ''x'')) =
      Some (enc_envelope demo_ext (es ! k))"
    using assms(1) by (simp add: frames_ext_def)
  ultimately show ?thesis using rt_envelope[OF _ assms(2)] by (simp add: envelope_from_text_def)
qed

lemma frames_rcgen: "rcgen_ok (frames_ext es)" "rcgen_ok demo_ext"
  by (simp_all add: rcgen_ok_def frames_ext_def demo_ext_def)

lemma demo_ts: "i64_range (env_ts (demo_hello d))" "i64_range (env_ts (demo_finish d))"
  by (simp_all add: demo_hello_def demo_finish_def envelope_new_def i64_range_def)

lemma demo_hello_of:
  "k < length es \<Longrightarrow> es ! k = demo_hello d \<Longrightarrow> hello_of (frames_ext es) (text_frame k) = Some d"
  using frames_text[of k es] demo_ts(1)[of d]
  by (simp add: hello_of_def text_frame_def) (simp add: demo_hello_def envelope_new_def)

theorem connection_registry_witness:
  "\<exists>b n'. handle_connection (frames_ext [demo_hello 1, demo_hello 5]) demo_cfg noop_sink 9 (demo_tick 0)
      [text_frame 0, text_frame 1, (demo_tick 0, FError)] (demo_tick 0) (demo_net ()) = Done (b, n') \<and>
     \<not> b \<and> hm_get (n_registry n') 5 = Some 9"
proof -
  let ?X = "frames_ext [demo_hello 1, demo_hello 5]"
  let ?fs = "[text_frame 0, text_frame 1, (demo_tick 0, FError)]"
  obtain b n' where h: "handle_connection ?X demo_cfg noop_sink 9 (demo_tick 0) ?fs (demo_tick 0)
      (demo_net ()) = Done (b, n')"
    using handle_connection_total[OF frames_rcgen(1)] by blast
  have "live (text_frame k)" for k by (simp add: live_def text_frame_def)
  moreover have "\<not> live (demo_tick 0, FError)" by (simp add: live_def)
  moreover have "hello_of ?X (text_frame 0) = Some 1" "hello_of ?X (text_frame 1) = Some 5"
    by (simp_all add: demo_hello_of)
  ultimately have "hellos ?X ?fs = [1, 5]" "\<not> b"
    using connection_registry[OF h, of 5] by (simp_all add: hellos_simps)
  then show ?thesis using connection_registry[OF h, of 5] h by auto
qed


lemma connection_keeps_center_witness:
  "\<exists>b n'. handle_connection demo_ext demo_cfg (center_sink demo_ext) 9 (demo_tick 0) [text_frame 0]
      (demo_tick 0) (demo_net demo_center) = Done (b, n') \<and> center_ok (n_sink n')"
  by (rule connection_keeps_center) (simp_all add: frames_rcgen demo_net_def demo_center_ok)

theorem phone_initiated_never_pairs_witness:
  "\<exists>b n'. handle_connection (frames_ext [demo_hello 1, demo_finish 1]) demo_cfg noop_sink 9 (demo_tick 0)
      [text_frame 0, text_frame 1] (demo_tick 0) (demo_net ()) = Done (b, n') \<and>
     (\<forall>p. hm_get (n_pairing n') 1 \<noteq> Some (Paired p))"
proof -
  obtain b n' where h: "handle_connection (frames_ext [demo_hello 1, demo_finish 1]) demo_cfg noop_sink 9
      (demo_tick 0) [text_frame 0, text_frame 1] (demo_tick 0) (demo_net ()) = Done (b, n')"
    using handle_connection_total[OF frames_rcgen(1)] by blast
  then show ?thesis using phone_initiated_never_pairs[OF h, of 1]
    by (simp add: demo_net_def sessions_ok_def)
qed

definition demo_started :: "unit net" where
  "demo_started = (demo_net ())\<lparr>n_pairing := [(1, Unpaired (USInitiator demo_initiator))]\<rparr>"

theorem dispatch_refines_session_witness:
  "\<exists>r n'. dispatch demo_ext demo_cfg (demo_tick 0) (demo_hello 1) (demo_net ()) = Done (r, n') \<and>
     hm_get (n_pairing n') 1 =
       session_after demo_ext (demo_tick 0) (demo_hello 1) None \<and> hm_get (n_pairing n') 2 = None"
proof -
  obtain r n' where d: "dispatch demo_ext demo_cfg (demo_tick 0) (demo_hello 1) (demo_net ()) = Done (r, n')"
    using dispatch_total[OF frames_rcgen(2)] by (metis run.exhaust prod.exhaust)
  have "env_device_id (demo_hello 1) = 1" by (simp add: demo_hello_def envelope_new_def)
  then show ?thesis using dispatch_refines_session[OF d] d by (simp add: demo_net_def)
qed

theorem paired_only_by_complete_witness:
  "\<exists>r n'. dispatch demo_ext demo_cfg (demo_tick 0) (demo_finish 1) demo_started = Done (r, n') \<and>
     in_challenge_code demo_initiator = None \<and> (\<exists>p. hm_get (n_pairing n') 1 = Some (Paired p))"
proof -
  obtain r n' where d: "dispatch demo_ext demo_cfg (demo_tick 0) (demo_finish 1) demo_started = Done (r, n')"
    using dispatch_total[OF frames_rcgen(2)] by (metis run.exhaust prod.exhaust)
  have i: "in_challenge_code demo_initiator = None" "in_peer_device_id demo_initiator = 1"
    by (simp_all add: demo_initiator_def)
  have s: "sessions_ok (n_pairing demo_started)" "hm_get (n_pairing demo_started) 1 = Some (Unpaired (USInitiator demo_initiator))"
    using i by (auto simp: demo_started_def sessions_ok_def session_ok_def hm_wf_def hm_get_def)
  have e: "env_type (demo_finish 1) = MtDevicePairComplete" "env_device_id (demo_finish 1) = 1"
    by (simp_all add: demo_finish_def envelope_new_def)
  have "initiator_on_complete demo_ext demo_initiator (demo_finish 1) =
      Inr \<lparr>po_peer_device_id = 1, po_peer_fingerprint = cert_fingerprint_der demo_ext [1],
           po_peer_cert_pem = ''-----BEGIN CERTIFICATE-----''\<rparr>"
    using parse_format[of demo_ext "[1]"] i(2)
    by (simp add: initiator_on_complete_def accept_complete_def demo_finish_def envelope_new_def
        parse_payload_def rt_pair_complete)
  then show ?thesis using paired_only_by_complete[OF d s(1)] d s(2) e i by (auto simp: paired_as_def)
qed

end
