(* ===== verification/Rest.thy ===== *)
theory Rest
  imports WsHandler
begin

text \<open>
  The REST interface (message-center/src/rest.rs) over the shared application state
  (app_state.rs): one definition per handler, from the state and the request to the response,
  a status code with a body, and the new state. The bodies keep the response structs; the text
  sqlx gives a database error is not modelled, the error is kept instead.
\<close>

section \<open>State and responses\<close>

record app =
  a_net :: "center net"
  a_pins :: pin_store
  a_cfg :: ws_cfg
  a_fingerprint :: string

definition app_db :: "app \<Rightarrow> db" where
  "app_db s = cn_db (n_sink (a_net s))"

definition app_set_db :: "app \<Rightarrow> db \<Rightarrow> app" where
  "app_set_db s d = s\<lparr>a_net := (a_net s)\<lparr>n_sink := (n_sink (a_net s))\<lparr>cn_db := d\<rparr>\<rparr>\<rparr>"

definition app_set_hist :: "app \<Rightarrow> channel_log \<Rightarrow> app" where
  "app_set_hist s h = s\<lparr>a_net := (a_net s)\<lparr>n_hist := h\<rparr>\<rparr>"

definition app_set_pairing :: "app \<Rightarrow> pairing_map \<Rightarrow> app" where
  "app_set_pairing s m = s\<lparr>a_net := (a_net s)\<lparr>n_pairing := m\<rparr>\<rparr>"

definition app_set_pending :: "app \<Rightarrow> pending_map \<Rightarrow> app" where
  "app_set_pending s m = s\<lparr>a_net := (a_net s)\<lparr>n_pending := m\<rparr>\<rparr>"

record health_body =
  hl_status :: string
  hl_our_device_id :: uuid
  hl_our_fingerprint :: string
  hl_paired_devices :: int
  hl_online_devices :: int

record cert_body =
  cb_device_id :: uuid
  cb_name :: string
  cb_fingerprint :: string
  cb_public_key :: string

record notifications_stats_body =
  ns_total :: int
  ns_unread :: int
  ns_by_package :: "(string \<times> int) list"

record dashboard_body =
  db_paired_devices :: int
  db_online_devices :: int
  db_notif_total :: int
  db_notif_unread :: int
  db_sms_total :: int
  db_sms_conversations :: int
  db_call_total :: int
  db_call_missed :: int
  db_call_ringing :: int

datatype rest_body =
    RbText string
  | RbDbError db_error
  | RbJson json
  | RbHealth health_body
  | RbCert cert_body
  | RbDevices "device_row list"
  | RbDevice device_row
  | RbPairings "uuid list" "pairing_row list"
  | RbPending "(uuid \<times> string \<times> int) list"
  | RbNotifications "notification_row list"
  | RbStats notifications_stats_body
  | RbSms "sms_row list"
  | RbConversations "(string \<times> int \<times> int) list"
  | RbCalls "call_row list"
  | RbDashboard dashboard_body
  | RbDashboardError string db_error
  | RbAudit "audit_row list"

type_synonym response = "nat \<times> rest_body"

text \<open>\<open>i64::clamp\<close>, and a list query's answer.\<close>

definition clamp :: "int \<Rightarrow> int \<Rightarrow> int \<Rightarrow> int" where
  "clamp lo hi x = (if x < lo then lo else if x > hi then hi else x)"

definition limit_or :: "int \<Rightarrow> int \<Rightarrow> int option \<Rightarrow> int" where
  "limit_or dft hi l = clamp 1 hi (case l of None \<Rightarrow> dft | Some n \<Rightarrow> n)"

definition answer :: "('a \<Rightarrow> rest_body) \<Rightarrow> db_error + 'a \<Rightarrow> response" where
  "answer f r = (case r of Inl e \<Rightarrow> (500, RbDbError e) | Inr a \<Rightarrow> (200, f a))"

section \<open>Health and certificate\<close>

definition count_paired :: "db \<Rightarrow> db_error + int" where
  "count_paired d =
     (if \<not> db_up d then Inl DbUnavailable
      else Inr (int (length (filter dr_paired (t_devices d)))))"

definition rest_health :: "app \<Rightarrow> response" where
  "rest_health s =
     (200, RbHealth \<lparr>hl_status = ''ok'', hl_our_device_id = wc_device_id (a_cfg s),
        hl_our_fingerprint = a_fingerprint s,
        hl_paired_devices = (case count_paired (app_db s) of Inl _ \<Rightarrow> 0 | Inr n \<Rightarrow> n),
        hl_online_devices = int (connected_count (n_registry (a_net s)))\<rparr>)"

definition rest_get_cert :: "app \<Rightarrow> response" where
  "rest_get_cert s =
     (200, RbCert \<lparr>cb_device_id = wc_device_id (a_cfg s), cb_name = wc_name (a_cfg s),
        cb_fingerprint = a_fingerprint s, cb_public_key = wc_public_key (a_cfg s)\<rparr>)"

section \<open>Devices\<close>

definition rest_list_devices :: "app \<Rightarrow> response" where
  "rest_list_devices s = answer RbDevices (list_devices (app_db s))"

definition rest_get_device :: "app \<Rightarrow> uuid \<Rightarrow> response" where
  "rest_get_device s u =
     (case get_device (app_db s) u of
        Inr (Some d) \<Rightarrow> (200, RbDevice d)
      | Inr None \<Rightarrow> (404, RbText ''device not found'')
      | Inl e \<Rightarrow> (500, RbDbError e))"

definition rest_remove_device :: "tick \<Rightarrow> app \<Rightarrow> uuid \<Rightarrow> response \<times> app" where
  "rest_remove_device t s u =
     (let n = a_net s;
          c = center_audit (t_ms t 0) (Some u) ''device.unpair'' None (n_sink n);
          n1 = n\<lparr>n_pairing := snd (pairing_remove u (n_pairing n)),
                 n_registry := registry_unregister u (n_registry n), n_sink := c\<rparr>;
          s1 = s\<lparr>a_net := n1, a_pins := hm_remove u (a_pins s)\<rparr>
      in case remove_device (app_db s1) u of
           Inl e \<Rightarrow> ((500, RbDbError e), s1)
         | Inr d \<Rightarrow> ((204, RbText []), app_set_db s1 d))"

section \<open>Pairings\<close>

definition rest_list_pairings :: "app \<Rightarrow> response" where
  "rest_list_pairings s =
     (if \<not> db_up (app_db s) then (500, RbDbError DbUnavailable)
      else (200, RbPairings (map fst (list_paired (n_pairing (a_net s))))
                   (sort_desc pw_paired_at (t_pairings (app_db s)))))"

definition not_connected :: "envelope ext \<Rightarrow> app \<Rightarrow> uuid \<Rightarrow> json" where
  "not_connected X s u = JObj [(''error'', JStr ''device not connected''),
     (''device_id'', enc_uuid X u)]"

definition send_failed :: "envelope ext \<Rightarrow> downstream_error \<Rightarrow> uuid \<Rightarrow> json" where
  "send_failed X e u = JObj [(''error'', JStr (''send failed: '' @ downstream_error_str X e)),
     (''device_id'', enc_uuid X u)]"

definition status_body :: "envelope ext \<Rightarrow> string \<Rightarrow> uuid \<Rightarrow> json" where
  "status_body X st u = JObj [(''status'', JStr st), (''device_id'', enc_uuid X u)]"

definition app_try_send :: "envelope ext \<Rightarrow> app \<Rightarrow> uuid \<Rightarrow> envelope \<Rightarrow> downstream_error + app" where
  "app_try_send X s u e =
     (case registry_try_send X (n_registry (a_net s)) (n_hist (a_net s)) u e of
        Inl er \<Rightarrow> Inl er
      | Inr h \<Rightarrow> Inr (app_set_hist s h))"

definition app_connected :: "app \<Rightarrow> uuid \<Rightarrow> bool" where
  "app_connected s u \<longleftrightarrow> u \<in> set (connected_ids (n_registry (a_net s)))"

definition rest_pair_start :: "envelope ext \<Rightarrow> tick \<Rightarrow> app \<Rightarrow> uuid \<Rightarrow> response \<times> app" where
  "rest_pair_start X t s u =
     (if \<not> app_connected s u
      then ((409, RbJson (JObj [(''error'', JStr ''device not connected''),
              (''device_id'', enc_uuid X u),
              (''connected'', JArr (map (enc_uuid X) (connected_ids (n_registry (a_net s)))))])), s)
      else (case initiator_start X t u (wc_name (a_cfg s)) of
              Inl e \<Rightarrow> ((500, RbText (''initiator start: '' @ pairing_error_str e)), s)
            | Inr i \<Rightarrow>
               (case initiator_request X i (wc_device_id (a_cfg s)) (t_uuid t 0) (t_ms t 0) of
                  Inl e \<Rightarrow> ((500, RbText (''build request: '' @ pairing_error_str e)), s)
                | Inr env \<Rightarrow>
                   (case app_try_send X s u env of
                      Inl e \<Rightarrow> ((503, RbJson (send_failed X e u)), s)
                    | Inr s' \<Rightarrow>
                        ((200, RbJson (status_body X ''pair.request sent'' u)),
                         app_set_pairing s' (pairing_insert u (Unpaired (USInitiator i))
                           (n_pairing (a_net s'))))))))"

definition no_initiator :: "envelope ext \<Rightarrow> uuid \<Rightarrow> json" where
  "no_initiator X u = JObj [(''error'', JStr ''no in-flight initiator pairing for this device''),
     (''device_id'', enc_uuid X u)]"

definition rest_pair_accept ::
  "envelope ext \<Rightarrow> tick \<Rightarrow> app \<Rightarrow> uuid \<Rightarrow> string option \<Rightarrow> (response \<times> app) run" where
  "rest_pair_accept X t s u code =
     (case pairing_get X t u (n_pairing (a_net s)) of
        Panic \<Rightarrow> Panic
      | Done (Some (Unpaired (USInitiator i))) \<Rightarrow>
          (if (case code of None \<Rightarrow> False
                 | Some c \<Rightarrow> length c \<noteq> 4 \<or> \<not> list_all is_ascii_digit c)
           then Done ((400, RbJson (JObj [(''error'', JStr ''code must be 4 digits'')])), s)
           else (case initiator_accept i (wc_device_id (a_cfg s)) (t_uuid t 0) (t_ms t 0) of
                   Inl e \<Rightarrow> Done ((500, RbText (''build accept: '' @ pairing_error_str e)), s)
                 | Inr env \<Rightarrow>
                    (case app_try_send X s u env of
                       Inl e \<Rightarrow> Done ((503, RbJson (send_failed X e u)), s)
                     | Inr s' \<Rightarrow>
                         Done ((200, RbJson (status_body X ''pair.accept sent'' u)),
                           app_set_pairing s' (pairing_insert u (Unpaired (USInitiator i))
                             (n_pairing (a_net s')))))))
      | Done _ \<Rightarrow> Done ((409, RbJson (no_initiator X u)), s))"

definition rest_pair_reject ::
  "envelope ext \<Rightarrow> tick \<Rightarrow> app \<Rightarrow> uuid \<Rightarrow> string option \<Rightarrow> (response \<times> app) run" where
  "rest_pair_reject X t s u reason =
     (let rs = (case reason of None \<Rightarrow> ''rejected by user'' | Some r \<Rightarrow> r)
      in case pairing_get X t u (n_pairing (a_net s)) of
           Panic \<Rightarrow> Panic
         | Done (Some (Unpaired (USInitiator i))) \<Rightarrow>
             (case initiator_reject i (wc_device_id (a_cfg s)) rs (t_uuid t 0) (t_ms t 0) of
                Inl e \<Rightarrow> Done ((500, RbText (''build reject: '' @ pairing_error_str e)), s)
              | Inr env \<Rightarrow>
                 (case app_try_send X s u env of
                    Inl e \<Rightarrow> Done ((503, RbJson (send_failed X e u)), s)
                  | Inr s' \<Rightarrow>
                      Done ((200, RbJson (JObj [(''status'', JStr ''pair.reject sent''),
                               (''device_id'', enc_uuid X u), (''reason'', JStr rs)])),
                        app_set_pairing s' (snd (pairing_remove u (n_pairing (a_net s')))))))
         | Done _ \<Rightarrow> Done ((409, RbJson (no_initiator X u)), s))"

section \<open>Phone-initiated requests\<close>

definition rest_list_incoming :: "app \<Rightarrow> response" where
  "rest_list_incoming s =
     (200, RbPending (map (\<lambda>p. (pi_device_id p, pi_name p, pi_received_at p))
        (pending_list (n_pending (a_net s)))))"

definition no_pending :: "envelope ext \<Rightarrow> uuid \<Rightarrow> json" where
  "no_pending X u = JObj [(''error'', JStr ''no pending pair request for this device''),
     (''device_id'', enc_uuid X u)]"

definition confirm_env :: "tick \<Rightarrow> app \<Rightarrow> bool \<Rightarrow> envelope" where
  "confirm_env t s b = envelope_new MtDevicePairConfirm (wc_device_id (a_cfg s))
     (enc_pair_confirm \<lparr>pcf_accepted = b\<rparr>) (t_uuid t 0) (t_ms t 0)"

definition rest_incoming_accept :: "envelope ext \<Rightarrow> tick \<Rightarrow> app \<Rightarrow> uuid \<Rightarrow> response \<times> app" where
  "rest_incoming_accept X t s u =
     (let (pending, m) = pending_remove u (n_pending (a_net s)); s1 = app_set_pending s m
      in case pending of
           None \<Rightarrow> ((404, RbJson (no_pending X u)), s1)
         | Some _ \<Rightarrow>
             if \<not> app_connected s1 u then ((503, RbJson (not_connected X s1 u)), s1)
             else (case app_try_send X s1 u (confirm_env t s1 True) of
                     Inl e \<Rightarrow> ((503, RbJson (send_failed X e u)), s1)
                   | Inr s2 \<Rightarrow> ((200, RbJson (status_body X ''pair.confirm(true) sent'' u)), s2)))"

definition rest_incoming_reject :: "envelope ext \<Rightarrow> tick \<Rightarrow> app \<Rightarrow> uuid \<Rightarrow> response \<times> app" where
  "rest_incoming_reject X t s u =
     (let (pending, m) = pending_remove u (n_pending (a_net s)); s1 = app_set_pending s m
      in case pending of
           None \<Rightarrow> ((404, RbJson (no_pending X u)), s1)
         | Some _ \<Rightarrow>
             ((200, RbJson (status_body X ''pair.confirm(false) sent'' u)),
              if app_connected s1 u
              then (case app_try_send X s1 u (confirm_env t s1 False) of Inl _ \<Rightarrow> s1 | Inr s2 \<Rightarrow> s2)
              else s1))"

section \<open>Notifications\<close>

definition rest_list_notifications ::
  "app \<Rightarrow> uuid option \<Rightarrow> int option \<Rightarrow> string option \<Rightarrow> bool option \<Rightarrow> response" where
  "rest_list_notifications s dev lim pkg unread =
     answer RbNotifications (list_notifications (app_db s) dev (limit_or 50 500 lim)
       (case unread of None \<Rightarrow> False | Some b \<Rightarrow> b) pkg)"

definition rest_notifications_stats :: "app \<Rightarrow> uuid option \<Rightarrow> response" where
  "rest_notifications_stats s dev =
     (200, RbStats
       \<lparr>ns_total = (case list_notifications (app_db s) dev 10000 False None of
                     Inl _ \<Rightarrow> 0 | Inr l \<Rightarrow> int (length l)),
        ns_unread = (case count_unread_notifications (app_db s) dev of Inl _ \<Rightarrow> 0 | Inr n \<Rightarrow> n),
        ns_by_package = (case count_notifications_by_package (app_db s) dev of
                     Inl _ \<Rightarrow> [] | Inr l \<Rightarrow> l)\<rparr>)"

definition rest_mark_read :: "app \<Rightarrow> uuid \<Rightarrow> string \<Rightarrow> response \<times> app" where
  "rest_mark_read s u i =
     (case mark_notification_read (app_db s) u i of
        Inl e \<Rightarrow> ((500, RbDbError e), s)
      | Inr d \<Rightarrow> ((204, RbText []), app_set_db s d))"

definition rest_dismiss :: "envelope ext \<Rightarrow> tick \<Rightarrow> app \<Rightarrow> uuid \<Rightarrow> string \<Rightarrow> response \<times> app" where
  "rest_dismiss X t s u i =
     (case dismiss_notification (app_db s) u i of
        Inl e \<Rightarrow> ((500, RbDbError e), s)
      | Inr (d, None) \<Rightarrow>
          ((404, RbJson (JObj [(''error'', JStr ''notification not found''),
             (''device_id'', enc_uuid X u), (''id'', JStr i)])), app_set_db s d)
      | Inr (d, Some row) \<Rightarrow>
          (let s1 = app_set_db s d;
               env = envelope_new MtNotificationDismissed (wc_device_id (a_cfg s))
                 (enc_notification_dismissed \<lparr>nd_id = row\<rparr>) (t_uuid t 0) (t_ms t 0);
               (sent, s2) = (case app_try_send X s1 u env of
                               Inl _ \<Rightarrow> (False, s1) | Inr s' \<Rightarrow> (True, s'))
           in ((200, RbJson (JObj [(''status'', JStr ''dismissed''), (''device_id'', enc_uuid X u),
                  (''id'', JStr row), (''broadcast'', JBool sent)])), s2)))"

text \<open>The loop of mark-all-read; a failed update is ignored.\<close>

definition mark_rows_read :: "notification_row list \<Rightarrow> db \<Rightarrow> db" where
  "mark_rows_read rows d = fold (\<lambda>n d.
     case mark_notification_read d (nw_device_id n) (nw_id n) of Inl _ \<Rightarrow> d | Inr d' \<Rightarrow> d') rows d"

definition rest_mark_all_read :: "app \<Rightarrow> uuid option \<Rightarrow> response \<times> app" where
  "rest_mark_all_read s dev =
     (case list_notifications (app_db s) dev 100000 True None of
        Inl e \<Rightarrow> ((500, RbDbError e), s)
      | Inr rows \<Rightarrow> ((204, RbText []), app_set_db s (mark_rows_read rows (app_db s))))"

section \<open>SMS\<close>

definition rest_list_sms :: "app \<Rightarrow> uuid option \<Rightarrow> string option \<Rightarrow> int option \<Rightarrow> response" where
  "rest_list_sms s dev phone lim = answer RbSms (list_sms (app_db s) dev phone (limit_or 50 500 lim))"

definition rest_conversations :: "app \<Rightarrow> uuid option \<Rightarrow> response" where
  "rest_conversations s dev = answer RbConversations (list_sms_conversations (app_db s) dev)"

record send_sms_request =
  rq_device_id :: uuid
  rq_to :: string
  rq_body :: string
  rq_subscription_id :: "int option"

definition rest_send_sms :: "envelope ext \<Rightarrow> tick \<Rightarrow> app \<Rightarrow> send_sms_request \<Rightarrow> response \<times> app" where
  "rest_send_sms X t s q =
     (if \<not> app_connected s (rq_device_id q)
      then ((409, RbJson (JObj [(''error'', JStr ''device not connected'')])), s)
      else (let rid = t_uuid t 0;
                env = (envelope_new MtSmsSendRequest (wc_device_id (a_cfg s))
                  (enc_sms_send_request \<lparr>sq_to = rq_to q, sq_body = rq_body q,
                     sq_subscription_id = rq_subscription_id q\<rparr>) (t_uuid t 1) (t_ms t 0))
                  \<lparr>env_id := rid\<rparr>
            in case app_try_send X s (rq_device_id q) env of
                 Inl e \<Rightarrow> ((503, RbJson (JObj [(''error'',
                    JStr (''send: '' @ downstream_error_str X e))])), s)
               | Inr s1 \<Rightarrow>
                   (let row = \<lparr>sw_id = uuid_str X rid, sw_device_id = rq_device_id q,
                       sw_sim_slot = None, sw_phone_number = rq_to q, sw_body = rq_body q,
                       sw_direction = ''out'', sw_timestamp = t_ms t 1\<rparr>;
                      s2 = (case insert_sms (app_db s1) row of
                              Inl _ \<Rightarrow> s1 | Inr d \<Rightarrow> app_set_db s1 d)
                    in ((202, RbJson (JObj [(''status'', JStr ''queued''),
                           (''request_id'', enc_uuid X rid),
                           (''device_id'', enc_uuid X (rq_device_id q)),
                           (''to'', JStr (rq_to q))])), s2))))"

section \<open>Calls\<close>

definition rest_list_calls :: "app \<Rightarrow> uuid option \<Rightarrow> int option \<Rightarrow> response" where
  "rest_list_calls s dev lim = answer RbCalls (list_calls (app_db s) dev (limit_or 50 500 lim))"

definition rest_dial :: "envelope ext \<Rightarrow> tick \<Rightarrow> app \<Rightarrow> uuid \<Rightarrow> string \<Rightarrow> response \<times> app" where
  "rest_dial X t s u num =
     (if \<not> app_connected s u
      then ((409, RbJson (JObj [(''error'', JStr ''device not connected'')])), s)
      else (case app_try_send X s u (envelope_new MtCallDialRequest (wc_device_id (a_cfg s))
                   (enc_call_dial_request \<lparr>cdq_number = num\<rparr>) (t_uuid t 0) (t_ms t 0)) of
              Inl e \<Rightarrow> ((503, RbJson (JObj [(''error'',
                 JStr (''send: '' @ downstream_error_str X e))])), s)
            | Inr s1 \<Rightarrow>
                ((202, RbJson (JObj [(''status'', JStr ''dialing''), (''device_id'', enc_uuid X u),
                    (''number'', JStr num)])),
                 (case insert_audit_log (app_db s1) (t_ms t 1) (Some u) ''call.dial''
                         (Some (''number='' @ num)) of
                    Inl _ \<Rightarrow> s1 | Inr d \<Rightarrow> app_set_db s1 d))))"

section \<open>Dashboard and audit\<close>

text \<open>\<open>query.map_err(..)?\<close>: the first query that fails ends the handler, named.\<close>

definition dash_query :: "string \<Rightarrow> db_error + 'a \<Rightarrow> ('a \<Rightarrow> response) \<Rightarrow> response" where
  "dash_query name r k = (case r of Inl e \<Rightarrow> (500, RbDashboardError name e) | Inr a \<Rightarrow> k a)"

definition rest_dashboard :: "app \<Rightarrow> uuid option \<Rightarrow> response" where
  "rest_dashboard s dev =
     (let d = app_db s in
      dash_query ''count_paired'' (count_paired d) (\<lambda>paired.
      dash_query ''list_notifications'' (list_notifications d dev 100000 False None) (\<lambda>notifs.
      dash_query ''count_unread_notifications'' (count_unread_notifications d dev) (\<lambda>unread.
      dash_query ''list_sms'' (list_sms d dev None 100000) (\<lambda>sms.
      dash_query ''list_sms_conversations'' (list_sms_conversations d dev) (\<lambda>convos.
      dash_query ''list_calls'' (list_calls d dev 100000) (\<lambda>calls.
        (200, RbDashboard
          \<lparr>db_paired_devices = paired,
           db_online_devices = int (connected_count (n_registry (a_net s))),
           db_notif_total = int (length notifs), db_notif_unread = unread,
           db_sms_total = int (length sms), db_sms_conversations = int (length convos),
           db_call_total = int (length calls),
           db_call_missed = int (length (filter (\<lambda>c. cw_direction c = ''missed'') calls)),
           db_call_ringing = int (length (filter (\<lambda>c. cw_state c = ''ringing'') calls))\<rparr>))))))))"

definition rest_list_audit :: "app \<Rightarrow> int option \<Rightarrow> response" where
  "rest_list_audit s lim = answer RbAudit (list_audit_log (app_db s) (limit_or 100 1000 lim))"

section \<open>Requests\<close>

text \<open>The routes that change state, as one step.\<close>

datatype request =
    RqRemoveDevice uuid
  | RqPairStart uuid
  | RqPairAccept uuid "string option"
  | RqPairReject uuid "string option"
  | RqIncomingAccept uuid
  | RqIncomingReject uuid
  | RqMarkRead uuid string
  | RqDismiss uuid string
  | RqMarkAllRead "uuid option"
  | RqSendSms send_sms_request
  | RqDial uuid string

definition rest_step :: "envelope ext \<Rightarrow> tick \<Rightarrow> app \<Rightarrow> request \<Rightarrow> (response \<times> app) run" where
  "rest_step X t s q =
     (case q of
        RqRemoveDevice u \<Rightarrow> Done (rest_remove_device t s u)
      | RqPairStart u \<Rightarrow> Done (rest_pair_start X t s u)
      | RqPairAccept u c \<Rightarrow> rest_pair_accept X t s u c
      | RqPairReject u r \<Rightarrow> rest_pair_reject X t s u r
      | RqIncomingAccept u \<Rightarrow> Done (rest_incoming_accept X t s u)
      | RqIncomingReject u \<Rightarrow> Done (rest_incoming_reject X t s u)
      | RqMarkRead u i \<Rightarrow> Done (rest_mark_read s u i)
      | RqDismiss u i \<Rightarrow> Done (rest_dismiss X t s u i)
      | RqMarkAllRead d \<Rightarrow> Done (rest_mark_all_read s d)
      | RqSendSms r \<Rightarrow> Done (rest_send_sms X t s r)
      | RqDial u n \<Rightarrow> Done (rest_dial X t s u n))"

section \<open>What the handlers do\<close>

lemma app_sets [simp]:
  "app_db (app_set_db s d) = d" "a_cfg (app_set_db s d) = a_cfg s"
  "app_db (app_set_hist s h) = app_db s" "app_db (app_set_pairing s m) = app_db s"
  "app_db (app_set_pending s p) = app_db s"
  "n_pairing (a_net (app_set_db s d)) = n_pairing (a_net s)"
  "n_pairing (a_net (app_set_hist s h)) = n_pairing (a_net s)"
  "n_pairing (a_net (app_set_pairing s m)) = m"
  "n_pairing (a_net (app_set_pending s p)) = n_pairing (a_net s)"
  "n_pending (a_net (app_set_db s d)) = n_pending (a_net s)"
  "n_pending (a_net (app_set_hist s h)) = n_pending (a_net s)"
  "n_pending (a_net (app_set_pairing s m)) = n_pending (a_net s)"
  "n_pending (a_net (app_set_pending s p)) = p"
  "n_registry (a_net (app_set_db s d)) = n_registry (a_net s)"
  "n_registry (a_net (app_set_hist s h)) = n_registry (a_net s)"
  "n_registry (a_net (app_set_pairing s m)) = n_registry (a_net s)"
  "n_registry (a_net (app_set_pending s p)) = n_registry (a_net s)"
  "n_hist (a_net (app_set_db s d)) = n_hist (a_net s)"
  "n_hist (a_net (app_set_hist s h)) = h"
  "n_hist (a_net (app_set_pairing s m)) = n_hist (a_net s)"
  "n_hist (a_net (app_set_pending s p)) = n_hist (a_net s)"
  "a_pins (app_set_db s d) = a_pins s" "a_pins (app_set_hist s h) = a_pins s"
  "a_pins (app_set_pairing s m) = a_pins s" "a_pins (app_set_pending s p) = a_pins s"
  "a_cfg (app_set_hist s h) = a_cfg s" "a_cfg (app_set_pairing s m) = a_cfg s"
  "a_cfg (app_set_pending s p) = a_cfg s"
  by (simp_all add: app_db_def app_set_db_def app_set_hist_def app_set_pairing_def app_set_pending_def)

lemma app_try_send_Inr:
  "app_try_send X s u e = Inr s' \<longleftrightarrow>
     (\<exists>c. hm_get (n_registry (a_net s)) u = Some c \<and> chan_accepts X (n_hist (a_net s)) c \<and>
        s' = app_set_hist s (n_hist (a_net s) @ [(c, e)]))"
  by (auto simp: app_try_send_def registry_try_send_Inr_iff split: sum.splits)
    (metis Inl_Inr_False registry_try_send_Inr_iff)

lemma app_try_send_cases:
  "app_try_send X s u e =
     (case hm_get (n_registry (a_net s)) u of
        None \<Rightarrow> Inl (NotConnected u)
      | Some c \<Rightarrow> if chan_accepts X (n_hist (a_net s)) c
                  then Inr (app_set_hist s (n_hist (a_net s) @ [(c, e)])) else Inl (QueueFull u))"
  by (simp add: app_try_send_def registry_try_send_def chan_try_send_def split: option.split)

lemma app_connected_iff: "app_connected s u \<longleftrightarrow> hm_get (n_registry (a_net s)) u \<noteq> None"
  by (simp add: app_connected_def connected_ids_iff)

text \<open>
  C35: Accepting or rejecting an in-flight pairing from the console never works: whatever session
  is stored, both handlers answer 409 and change nothing, because the map hands out a fresh
  responder in place of an unpaired session.
\<close>

theorem pair_accept_reject_conflict:
  assumes "rcgen_ok X"
  shows "rest_pair_accept X t s u code = Done ((409, RbJson (no_initiator X u)), s) \<and>
    rest_pair_reject X t s u reason = Done ((409, RbJson (no_initiator X u)), s)"
proof -
  have p: "pairing_get X t u (n_pairing (a_net s)) \<noteq> Panic" by (rule pairing_get_total[OF assms])
  have i: "pairing_get X t u (n_pairing (a_net s)) \<noteq> Done (Some (Unpaired (USInitiator i)))" for i
    by (auto simp: pairing_get_def split: option.splits run.splits
      elim!: clone_session.elims split: sum.splits)
  show ?thesis
    using p i unfolding rest_pair_accept_def rest_pair_reject_def Let_def
    by (simp split: run.split option.split device_session.split unpaired_session.split)
qed

theorem pair_accept_reject_conflict_witness:
  "hm_get (n_pairing demo_started) 1 = Some (Unpaired (USInitiator demo_initiator)) \<and>
   rest_pair_accept demo_ext (demo_tick 0)
     \<lparr>a_net = \<lparr>n_pairing = n_pairing demo_started, n_pending = [], n_registry = [(1, 3)], n_hist = [],
        n_sink = demo_center\<rparr>, a_pins = [], a_cfg = demo_cfg, a_fingerprint = []\<rparr> 1 (Some ''1234'') =
     Done ((409, RbJson (no_initiator demo_ext 1)),
     \<lparr>a_net = \<lparr>n_pairing = n_pairing demo_started, n_pending = [], n_registry = [(1, 3)], n_hist = [],
        n_sink = demo_center\<rparr>, a_pins = [], a_cfg = demo_cfg, a_fingerprint = []\<rparr>)"
  using pair_accept_reject_conflict[OF frames_rcgen(2)] by (simp add: demo_started_def hm_get_def)

text \<open>
  Sending an SMS on every branch. A device that is not connected gives 409 and a full queue
  503, both without any effect; otherwise exactly one request leaves on the channel the device
  registered last, carrying the returned request id as its envelope id, and an outgoing row of
  that id is stored when the device is known.
\<close>

lemma send_sms_branches:
  "rest_send_sms X t s q =
    (case hm_get (n_registry (a_net s)) (rq_device_id q) of
       None \<Rightarrow> ((409, RbJson (JObj [(''error'', JStr ''device not connected'')])), s)
     | Some c \<Rightarrow>
        if \<not> chan_accepts X (n_hist (a_net s)) c
        then ((503, RbJson (JObj [(''error'', JStr (''send: '' @
               downstream_error_str X (QueueFull (rq_device_id q))))])), s)
        else ((202, RbJson (JObj [(''status'', JStr ''queued''), (''request_id'', enc_uuid X (t_uuid t 0)),
                (''device_id'', enc_uuid X (rq_device_id q)), (''to'', JStr (rq_to q))])),
              let s1 = app_set_hist s (n_hist (a_net s) @ [(c,
                    \<lparr>env_v = 1, env_id = t_uuid t 0, env_ts = t_ms t 0, env_type = MtSmsSendRequest,
                     env_device_id = wc_device_id (a_cfg s),
                     env_payload = enc_sms_send_request \<lparr>sq_to = rq_to q, sq_body = rq_body q,
                       sq_subscription_id = rq_subscription_id q\<rparr>\<rparr>)]);
                  row = \<lparr>sw_id = uuid_str X (t_uuid t 0), sw_device_id = rq_device_id q,
                       sw_sim_slot = None, sw_phone_number = rq_to q, sw_body = rq_body q,
                       sw_direction = sms_direction_str SdOut, sw_timestamp = t_ms t 1\<rparr>
              in if db_up (app_db s) \<and> has_device (app_db s) (rq_device_id q)
                 then app_set_db s1 (app_db s\<lparr>t_sms := filter (\<lambda>r. \<not> (sw_id r = sw_id row \<and>
                        sw_device_id r = sw_device_id row)) (t_sms (app_db s)) @ [row]\<rparr>)
                 else s1))"
  by (auto simp: rest_send_sms_def app_connected_iff app_try_send_cases insert_sms_def envelope_new_def
      Let_def split: option.split)

lemma limit_or_range: "1 \<le> hi \<Longrightarrow> 1 \<le> limit_or d hi l \<and> limit_or d hi l \<le> hi"
  by (simp add: limit_or_def clamp_def)

lemma limited: "1 \<le> hi \<Longrightarrow> length (limit_rows (limit_or d hi l) xs) \<le> nat hi"
  using limit_or_range[of hi d l] by (simp add: length_limit_rows min_le_iff_disj nat_mono)

lemma limited_rows:
  "length (limit_rows (limit_or 50 500 l) xs) \<le> 500"
  "length (limit_rows (limit_or 100 1000 l) xs) \<le> 1000"
  using limited[of 500 50 l xs] limited[of 1000 100 l xs] by simp_all

lemma answer_200: "answer f r = (200, b) \<longleftrightarrow> (\<exists>a. r = Inr a \<and> b = f a)"
  by (auto simp: answer_def split: sum.splits)

lemma list_rows:
  "list_notifications d dev lim ur pkg = Inr l \<Longrightarrow> \<exists>xs. l = limit_rows lim xs"
  "list_sms d dev phone lim = Inr m \<Longrightarrow> \<exists>xs. m = limit_rows lim xs"
  "list_calls d dev lim = Inr c \<Longrightarrow> \<exists>xs. c = limit_rows lim xs"
  "list_audit_log d lim = Inr a \<Longrightarrow> \<exists>xs. a = limit_rows lim xs"
  unfolding list_notifications_reference list_sms_reference list_calls_def list_audit_log_def
  by (metis Inl_Inr_False Inr_inject)+

text \<open>
  No list answer of the interface has more than 500 rows, and the audit log no more than 1000,
  whatever limit the client asks for, negative ones included.
\<close>

lemma lists_bounded:
  "(rest_list_notifications s dev lim pkg ur = (200, RbNotifications l) \<longrightarrow> length l \<le> 500) \<and>
   (rest_list_sms s dev phone lim = (200, RbSms m) \<longrightarrow> length m \<le> 500) \<and>
   (rest_list_calls s dev lim = (200, RbCalls c) \<longrightarrow> length c \<le> 500) \<and>
   (rest_list_audit s lim = (200, RbAudit a) \<longrightarrow> length a \<le> 1000)"
  by (auto simp: limited_rows rest_list_notifications_def rest_list_sms_def rest_list_calls_def
      rest_list_audit_def answer_200 dest!: list_rows)

theorem lists_bounded_witness:
  "let s = \<lparr>a_net = demo_net demo_center, a_pins = [], a_cfg = demo_cfg, a_fingerprint = []\<rparr> in
     rest_list_notifications s None (Some (- 1)) None None = (200, RbNotifications [demo_note]) \<and>
     length [demo_note] \<le> 500"
proof -
  let ?s = "\<lparr>a_net = demo_net demo_center, a_pins = [], a_cfg = demo_cfg, a_fingerprint = []\<rparr>"
  have d: "app_db ?s = demo_db" by (simp add: app_db_def demo_net_def demo_center_def)
  have r: "rest_list_notifications ?s None (Some (- 1)) None None = (200, RbNotifications [demo_note])"
    by (simp add: rest_list_notifications_def d list_notifications_def notif_stmt_def bind_param_def
        answer_def limit_or_def clamp_def demo_db_wf)
      (simp add: demo_db_def limit_rows_def sort_desc_def)
  then show ?thesis using lists_bounded[of ?s None "Some (- 1)" None None "[demo_note]"] by (simp add: Let_def)
qed

section \<open>Reading everything\<close>

lemma mark_one:
  "db_up d \<Longrightarrow> mark_notification_read d u i = Inr (d\<lparr>t_notifications := map (\<lambda>r.
     if nw_device_id r = u \<and> nw_id r = i then r\<lparr>nw_read := True\<rparr> else r) (t_notifications d)\<rparr>)"
  by (simp add: mark_notification_read_def)

text \<open>Marking one row more lowers the count of unread rows by one when it was unread.\<close>

definition unread_of :: "uuid option \<Rightarrow> notification_row list \<Rightarrow> notification_row list" where
  "unread_of dev ns = filter (\<lambda>r. \<not> nw_read r \<and> (case dev of None \<Rightarrow> True | Some d \<Rightarrow> nw_device_id r = d)) ns"

definition read_rows :: "notification_row list \<Rightarrow> notification_row list \<Rightarrow> notification_row list" where
  "read_rows rows ns = map (\<lambda>r. if (nw_id r, nw_device_id r) \<in> (\<lambda>q. (nw_id q, nw_device_id q)) ` set rows
     then r\<lparr>nw_read := True\<rparr> else r) ns"

lemma read_rows_step:
  "map (\<lambda>r. if nw_device_id r = nw_device_id n \<and> nw_id r = nw_id n then r\<lparr>nw_read := True\<rparr> else r)
     (read_rows rows ns) = read_rows (n # rows) ns"
  unfolding read_rows_def map_map by (rule map_cong) (auto simp: image_iff)

lemma mark_rows_read_eq:
  "db_up d \<Longrightarrow> mark_rows_read rows d = d\<lparr>t_notifications := read_rows rows (t_notifications d)\<rparr>"
proof -
  have "db_up d \<Longrightarrow> t_notifications d = read_rows prev ns \<Longrightarrow>
      mark_rows_read rows d = d\<lparr>t_notifications := read_rows (rev rows @ prev) ns\<rparr>" for prev ns
  proof (induction rows arbitrary: d prev)
    case (Cons n rows)
    then show ?case
      using Cons.IH[of "d\<lparr>t_notifications := read_rows (n # prev) ns\<rparr>" "n # prev"]
      by (simp add: mark_rows_read_def mark_one read_rows_step)
  qed (simp add: mark_rows_read_def)
  moreover have "read_rows [] ns = ns" for ns by (simp add: read_rows_def)
  moreover have "read_rows (rev rows) ns = read_rows rows ns" for ns by (simp add: read_rows_def)
  ultimately show "db_up d \<Longrightarrow> ?thesis" by (metis append_Nil2)
qed

lemma unread_read_rows:
  assumes "distinct (map (\<lambda>r. (nw_id r, nw_device_id r)) ns)" "set rows \<subseteq> set (unread_of dev ns)" "distinct rows"
  shows "length (unread_of dev (read_rows rows ns)) = length (unread_of dev ns) - length rows"
proof -
  let ?k = "\<lambda>r. (nw_id r, nw_device_id r)"
  have inj: "inj_on ?k (set ns)" and dn: "distinct ns" using assms(1) by (auto simp: distinct_map)
  have mem: "?k r \<in> ?k ` set rows \<longleftrightarrow> r \<in> set rows" if "r \<in> set ns" for r
    using that assms(2) inj by (auto simp: unread_of_def dest: inj_onD)
  have "unread_of dev (read_rows rows ns) = filter (\<lambda>r. r \<notin> set rows) (unread_of dev ns)"
  proof -
    have "unread_of dev (map (\<lambda>r. if r \<in> set rows then r\<lparr>nw_read := True\<rparr> else r) xs) =
        filter (\<lambda>r. r \<notin> set rows) (unread_of dev xs)" for xs
      by (induction xs) (simp_all add: unread_of_def)
    moreover have "read_rows rows ns = map (\<lambda>r. if r \<in> set rows then r\<lparr>nw_read := True\<rparr> else r) ns"
      unfolding read_rows_def by (rule map_cong) (simp_all add: mem)
    ultimately show ?thesis by simp
  qed
  moreover have "length (filter (\<lambda>r. r \<notin> set rows) xs) = length xs - length rows"
    if "distinct xs" "set rows \<subseteq> set xs" for xs :: "notification_row list"
  proof -
    have "length (filter (\<lambda>r. r \<notin> set rows) xs) = card (set xs - set rows)"
      using that(1) by (simp add: distinct_length_filter Int_def set_diff_eq)
        (metis (no_types, lifting) Collect_cong)
    then show ?thesis using that assms(3) by (simp add: card_Diff_subset distinct_card)
  qed
  moreover have "distinct (unread_of dev ns)" using dn by (simp add: unread_of_def)
  ultimately show ?thesis using assms(2) by (simp only:)
qed

text \<open>
  Mark-all-read answers 204 and leaves unread only what lies beyond its limit of 100000: all
  notifications of the asked device, or of every device, are read afterwards when there were at
  most that many, and exactly the excess stays unread otherwise.
\<close>

lemma mark_all_read_effect:
  assumes "db_up (app_db s)" "db_wf (app_db s)"
  shows "\<exists>s' n. rest_mark_all_read s dev = ((204, RbText []), s') \<and>
    count_unread_notifications (app_db s) dev = Inr n \<and>
    count_unread_notifications (app_db s') dev = Inr (max 0 (n - 100000))"
proof -
  let ?d = "app_db s"
  let ?rows = "limit_rows 100000 (sort_desc nw_posted_at (filter (notif_wanted dev True None) (t_notifications ?d)))"
  have w: "filter (notif_wanted dev True None) ns = unread_of dev ns" for ns
    unfolding unread_of_def by (rule filter_cong) (auto simp: notif_wanted_def split: option.splits)
  have l: "list_notifications ?d dev 100000 True None = Inr ?rows"
    using list_notifications_reference[of ?d dev 100000 True None] assms(1) by simp
  let ?s' = "app_set_db s (mark_rows_read ?rows ?d)"
  have r: "rest_mark_all_read s dev = ((204, RbText []), ?s')"
    unfolding rest_mark_all_read_def l by simp
  have c: "count_unread_notifications d dev = Inr (int (length (unread_of dev (t_notifications d))))"
    if "db_up d" for d using that by (simp add: count_unread_notifications_def unread_of_def)
  have dn: "distinct (map (\<lambda>r. (nw_id r, nw_device_id r)) (t_notifications ?d))"
    using assms(2) by (simp add: db_wf_def)
  then have "distinct (t_notifications ?d)" by (simp add: distinct_map)
  then have "distinct ?rows" by (simp add: limit_rows_def distinct_take sort_desc_def)
  moreover have "set ?rows \<subseteq> set (unread_of dev (t_notifications ?d))"
    using set_limit_rows unfolding w by fastforce
  ultimately have u: "length (unread_of dev (read_rows ?rows (t_notifications ?d))) =
      length (unread_of dev (t_notifications ?d)) - length ?rows"
    by (intro unread_read_rows[OF dn])
  have len: "length ?rows = min 100000 (length (unread_of dev (t_notifications ?d)))"
    unfolding w by (simp add: length_limit_rows)
  have "count_unread_notifications (app_db ?s') dev =
      Inr (max 0 (int (length (unread_of dev (t_notifications ?d))) - 100000))"
    using c[of "app_db ?s'"] u len assms(1) by (simp add: mark_rows_read_eq)
  then show ?thesis using r c[OF assms(1)] by blast
qed

theorem mark_all_read_effect_witness:
  "let s = \<lparr>a_net = demo_net demo_center, a_pins = [], a_cfg = demo_cfg, a_fingerprint = []\<rparr> in
     \<exists>s' n. rest_mark_all_read s None = ((204, RbText []), s') \<and>
       count_unread_notifications (app_db s) None = Inr n \<and>
       count_unread_notifications (app_db s') None = Inr (max 0 (n - 100000))"
  unfolding Let_def
  by (rule mark_all_read_effect) (simp_all add: app_db_def demo_net_def demo_center_def demo_db_wf)

section \<open>Dismissing and removing\<close>

text \<open>
  Dismissing a notification from the console: an unknown one gives 404 and changes nothing; a
  stored one gives 200, is read afterwards, and the answer says the dismissal was broadcast exactly
  when the device is connected with room in its queue, in which case the device was sent one
  dismissal naming that notification.
\<close>

lemma dismiss_branches:
  assumes "db_up (app_db s)"
  shows "if \<exists>r \<in> set (t_notifications (app_db s)). nw_device_id r = u \<and> nw_id r = i
    then \<exists>sent s'. rest_dismiss X t s u i = ((200, RbJson (JObj [(''status'', JStr ''dismissed''),
           (''device_id'', enc_uuid X u), (''id'', JStr i), (''broadcast'', JBool sent)])), s') \<and>
         list_all (\<lambda>r. nw_device_id r = u \<and> nw_id r = i \<longrightarrow> nw_read r) (t_notifications (app_db s')) \<and>
         (case hm_get (n_registry (a_net s)) u of
            Some c \<Rightarrow> if chan_accepts X (n_hist (a_net s)) c
              then sent \<and> n_hist (a_net s') = n_hist (a_net s) @ [(c, envelope_new
                MtNotificationDismissed (wc_device_id (a_cfg s)) (enc_notification_dismissed \<lparr>nd_id = i\<rparr>)
                (t_uuid t 0) (t_ms t 0))]
              else \<not> sent \<and> n_hist (a_net s') = n_hist (a_net s)
          | None \<Rightarrow> \<not> sent \<and> n_hist (a_net s') = n_hist (a_net s))
    else rest_dismiss X t s u i = ((404, RbJson (JObj [(''error'', JStr ''notification not found''),
             (''device_id'', enc_uuid X u), (''id'', JStr i)])), s)"
proof -
  let ?ns = "t_notifications (app_db s)"
  let ?m = "map (\<lambda>r. if nw_device_id r = u \<and> nw_id r = i then r\<lparr>nw_read := True\<rparr> else r) ?ns"
  let ?f = "find (\<lambda>r. nw_device_id r = u \<and> nw_id r = i) ?ns"
  have d: "dismiss_notification (app_db s) u i =
      Inr (app_db s\<lparr>t_notifications := ?m\<rparr>, map_option nw_id ?f)"
    using assms by (simp add: dismiss_notification_def)
  show ?thesis
  proof (cases ?f)
    case None
    then have n: "\<not> (\<exists>r \<in> set ?ns. nw_device_id r = u \<and> nw_id r = i)"
      by (auto simp: find_None_iff)
    then have "?m = ?ns" by (auto intro!: map_idI)
    then have "app_set_db s (app_db s\<lparr>t_notifications := ?m\<rparr>) = s"
      by (simp add: app_set_db_def app_db_def)
    then show ?thesis using n None by (simp add: rest_dismiss_def d)
  next
    case (Some r)
    then have e: "\<exists>r \<in> set ?ns. nw_device_id r = u \<and> nw_id r = i" and "nw_id r = i"
      using find_in_set[OF Some] by auto
    then show ?thesis using Some read_after_read[of u i ?ns]
      by (auto simp: rest_dismiss_def d app_try_send_cases Let_def split: option.split)
  qed
qed

theorem dismiss_branches_witness:
  "let s = \<lparr>a_net = demo_net demo_center, a_pins = [], a_cfg = demo_cfg, a_fingerprint = []\<rparr> in
     (\<exists>s'. rest_dismiss demo_ext (demo_tick 0) s 7 ''n'' = ((200, RbJson (JObj [(''status'', JStr ''dismissed''),
        (''device_id'', enc_uuid demo_ext 7), (''id'', JStr ''n''), (''broadcast'', JBool False)])), s'))"
proof -
  let ?s = "\<lparr>a_net = demo_net demo_center, a_pins = [], a_cfg = demo_cfg, a_fingerprint = []\<rparr>"
  have d: "app_db ?s = demo_db" by (simp add: app_db_def demo_net_def demo_center_def)
  have e: "\<exists>r \<in> set (t_notifications demo_db). nw_device_id r = 7 \<and> nw_id r = ''n''"
    by (simp add: demo_db_def demo_note_def)
  have "hm_get (n_registry (a_net ?s)) 7 = None" by (simp add: demo_net_def)
  then show ?thesis
    using dismiss_branches[of ?s 7 "''n''" demo_ext "demo_tick 0"] e unfolding d
    by (auto simp: demo_db_wf Let_def)
qed

text \<open>
  Removing a device from the console, when it answers 204: its stored row with everything that
  refers to it, its pairing session, its registration and its pin are gone, the sessions and
  registrations of other devices stay, and one audit row is appended.
\<close>

lemma remove_device_forgets:
  assumes "rest_remove_device t s u = ((204, b), s')"
  shows "\<not> has_device (app_db s') u \<and> \<not> referenced (app_db s') u \<and>
    hm_get (n_pairing (a_net s')) = (hm_get (n_pairing (a_net s)))(u := None) \<and>
    hm_get (n_registry (a_net s')) = (hm_get (n_registry (a_net s)))(u := None) \<and>
    hm_get (a_pins s') u = None \<and>
    (\<exists>a. t_audit (app_db s') = t_audit (app_db s) @ [a] \<and> aw_event a = ''device.unpair'' \<and> aw_device_id a = Some u)"
proof -
  let ?c = "center_audit (t_ms t 0) (Some u) ''device.unpair'' None (n_sink (a_net s))"
  obtain d where r: "remove_device (cn_db ?c) u = Inr d"
    and s': "app_db s' = d" "n_pairing (a_net s') = hm_remove u (n_pairing (a_net s))"
      "n_registry (a_net s') = hm_remove u (n_registry (a_net s))" "a_pins s' = hm_remove u (a_pins s)"
    using assms by (auto simp: rest_remove_device_def Let_def app_db_def app_set_db_def
      pairing_remove_def registry_unregister_def split: sum.splits)
  have "db_up (cn_db ?c)" using r by (auto simp: remove_device_def split: if_splits)
  then have up: "db_up (app_db s)"
    by (auto simp: center_audit_def insert_audit_log_def app_db_def split: sum.splits if_splits)
  then have "t_audit (cn_db ?c) = t_audit (app_db s) @
      [\<lparr>aw_id = seq_audit (app_db s) + 1, aw_timestamp = t_ms t 0, aw_device_id = Some u,
        aw_event = ''device.unpair'', aw_detail = None\<rparr>]"
    by (simp add: center_audit_def insert_audit_log_def app_db_def)
  moreover have "\<not> has_device d u \<and> \<not> referenced d u \<and> t_audit d = t_audit (cn_db ?c)"
    using r by (auto simp: remove_device_def has_device_iff referenced_iff split: if_splits)
  ultimately show ?thesis by (auto simp: s' fun_eq_iff)
qed

theorem remove_device_forgets_witness:
  "let s = \<lparr>a_net = demo_net demo_center, a_pins = [], a_cfg = demo_cfg, a_fingerprint = []\<rparr> in
     has_device (app_db s) 7 \<and>
     (\<exists>s'. rest_remove_device (demo_tick 0) s 7 = ((204, RbText []), s') \<and> \<not> has_device (app_db s') 7)"
proof -
  let ?s = "\<lparr>a_net = demo_net demo_center, a_pins = [], a_cfg = demo_cfg, a_fingerprint = []\<rparr>"
  have d: "app_db ?s = demo_db" by (simp add: app_db_def demo_net_def demo_center_def)
  have h: "has_device demo_db 7" by (simp add: has_device_def demo_db_def demo_phone_def)
  obtain s' where r: "rest_remove_device (demo_tick 0) ?s 7 = ((204, RbText []), s')"
    by (simp add: rest_remove_device_def Let_def app_db_def center_audit_def insert_audit_log_def
        remove_device_def demo_net_def demo_center_def demo_db_wf)
  show ?thesis using remove_device_forgets[OF r] r h d by (simp add: Let_def)
qed

end
