(* ===== verification/Feeds.thy ===== *)
theory Feeds
  imports Buses "HOL-Library.Sublist"
begin

text \<open>
  What a task reading from a bus gets, whatever is published meanwhile, and the socket of the web
  console (message-center/src/ws.rs), which forwards the console bus. The task that forwards the
  display bus is in DisplayWs and rests on the same lemmas.
\<close>

section \<open>Labelled runs\<close>

inductive lrun :: "('l \<Rightarrow> 's \<Rightarrow> 's \<Rightarrow> bool) \<Rightarrow> 'l list \<Rightarrow> 's \<Rightarrow> 's \<Rightarrow> bool" for R where
  lrun_refl: "lrun R [] s s"
| lrun_step: "lrun R ls s t \<Longrightarrow> R l t u \<Longrightarrow> lrun R (ls @ [l]) s u"

lemma lrun_append: "lrun R ms t u \<Longrightarrow> lrun R ls s t \<Longrightarrow> lrun R (ls @ ms) s u"
  by (induction rule: lrun.induct) (simp_all add: lrun_step flip: append_assoc)

lemma lrun_Cons:
  assumes "R l s t" "lrun R ls t u"
  shows "lrun R (l # ls) s u"
proof -
  have "lrun R ([] @ [l]) s t" by (rule lrun_step[where R = R, OF lrun_refl assms(1)])
  from lrun_append[OF assms(2) this] show ?thesis by simp
qed

lemma lrun_invariant:
  assumes "lrun R ls s t" "P [] s" "\<And>ls l t u. P ls t \<Longrightarrow> R l t u \<Longrightarrow> P (ls @ [l]) u"
  shows "P ls t"
  using assms by (induction rule: lrun.induct) auto

text \<open>A measure every step outside \<open>Q\<close> lowers bounds the runs that avoid it.\<close>

lemma lrun_bounded:
  assumes "lrun R ls s t" "\<And>l t u. R l t u \<Longrightarrow> I t \<Longrightarrow> \<not> Q l \<Longrightarrow> I u \<and> m u < (m t :: nat)"
    and "I s" "\<not> list_ex Q ls"
  shows "length ls + m t \<le> m s" "I t"
proof -
  have "length ls + m t \<le> m s \<and> I t" using assms(1,3,4)
  proof (induction rule: lrun.induct)
    case (lrun_step ls s t l u)
    then have "I u \<and> m u < m t" using assms(2) by simp
    then show ?case using lrun_step by simp
  qed simp
  then show "length ls + m t \<le> m s" "I t" by simp_all
qed

section \<open>One subscription\<close>

definition sub_of :: "nat \<Rightarrow> 'e bus \<Rightarrow> 'e bus_sub option" where
  "sub_of i b = find (\<lambda>s. sub_id s = i) (bus_subs b)"

lemma sub_of_send: "sub_of i (fst (bus_send e b)) = map_option (sub_push (bus_cap b) e) (sub_of i b)"
  by (simp add: sub_of_def bus_send_def find_map)

lemma sub_of_drop: "sub_of i (bus_drop i b) = None"
  by (simp add: sub_of_def bus_drop_def find_filter_ne)

lemma sub_of_update:
  "sub_id s' = i \<Longrightarrow> find (\<lambda>s. sub_id s = i) (map (\<lambda>q. if sub_id q = i then s' else q) xs) =
     (if find (\<lambda>s. sub_id s = i) xs = None then None else Some s')"
  by (induction xs) auto

lemma sub_of_member: "sub_of i b = Some s \<Longrightarrow> i \<in> sub_id ` set (bus_subs b)"
  by (auto simp: sub_of_def find_Some_iff)

lemma recv_cases:
  assumes "bus_recv i b = Some (b', r)"
  obtains s where "sub_of i b = Some s"
    "r = RvLagged \<Longrightarrow> sub_lagged s \<and> sub_of i b' = Some (s\<lparr>sub_lagged := False\<rparr>)"
    "\<And>e. r = RvEvent e \<Longrightarrow> \<not> sub_lagged s \<and> (\<exists>q. sub_queue s = e # q \<and> sub_of i b' = Some (s\<lparr>sub_queue := q\<rparr>))"
proof -
  obtain s where s: "sub_of i b = Some s" using assms by (auto simp: bus_recv_def sub_of_def split: option.splits)
  then have i: "sub_id s = i" by (auto simp: sub_of_def find_Some_iff)
  show thesis
    by (rule that[OF s])
      (use assms s i in \<open>auto simp: bus_recv_def sub_of_def Let_def sub_of_update split: if_splits list.splits\<close>)
qed

lemma recv_ready:
  assumes "sub_of i b = Some s" "sub_lagged s \<or> sub_queue s \<noteq> []"
  obtains b' where "bus_recv i b = Some (b', RvLagged)" | b' e where "bus_recv i b = Some (b', RvEvent e)"
  using assms by (cases "sub_lagged s"; cases "sub_queue s") (auto simp: bus_recv_def sub_of_def Let_def)

lemma bus_recv_wf:
  assumes "bus_wf b" "bus_recv i b = Some (b', r)"
  shows "bus_wf b'" "bus_count b' = bus_count b"
proof -
  obtain s where s: "find (\<lambda>s. sub_id s = i) (bus_subs b) = Some s"
    using assms(2) by (auto simp: bus_recv_def split: option.splits)
  then have i: "sub_id s = i" "s \<in> set (bus_subs b)" by (auto simp: find_Some_iff)
  have w: "sub_id s' = i \<Longrightarrow> length (sub_queue s') \<le> length (sub_queue s) \<Longrightarrow>
      bus_wf (b\<lparr>bus_subs := map (\<lambda>q. if sub_id q = i then s' else q) (bus_subs b)\<rparr>)" for s'
  proof -
    assume s': "sub_id s' = i" "length (sub_queue s') \<le> length (sub_queue s)"
    have "map sub_id (map (\<lambda>q. if sub_id q = i then s' else q) (bus_subs b)) = map sub_id (bus_subs b)"
      using s'(1) by simp
    moreover have "\<forall>q \<in> set (bus_subs b). sub_id q < bus_next b \<and> length (sub_queue q) \<le> bus_cap b"
      using assms(1) by (simp add: bus_wf_def)
    then have "\<forall>q \<in> set (map (\<lambda>q. if sub_id q = i then s' else q) (bus_subs b)).
        sub_id q < bus_next b \<and> length (sub_queue q) \<le> bus_cap b"
      using s' i by fastforce
    ultimately show ?thesis using assms(1) unfolding bus_wf_def by (simp del: map_map)
  qed
  have "b' = b \<or> (\<exists>s'. b' = b\<lparr>bus_subs := map (\<lambda>q. if sub_id q = i then s' else q) (bus_subs b)\<rparr> \<and>
      sub_id s' = i \<and> length (sub_queue s') \<le> length (sub_queue s))"
    using assms(2) s i(1) by (auto simp: bus_recv_def Let_def split: if_splits list.splits)
  then show "bus_wf b'" "bus_count b' = bus_count b" using w assms(1) by auto
qed

section \<open>The feed of a subscription\<close>

text \<open>
  What the reader has taken, followed by what is queued for it, is a subsequence of what was sent
  since it subscribed, and all of it as long as it has not lagged.
\<close>

definition feed :: "nat \<Rightarrow> 'e bus \<Rightarrow> 'e list \<Rightarrow> 'e list \<Rightarrow> bool \<Rightarrow> bool" where
  "feed i b taken sent lagged \<longleftrightarrow> bus_wf b \<and>
     (\<exists>s. sub_of i b = Some s \<and> subseq (taken @ sub_queue s) sent \<and>
        (\<not> sub_lagged s \<longrightarrow> \<not> lagged \<longrightarrow> taken @ sub_queue s = sent))"

lemma sub_push_cases:
  "(sub_queue (sub_push cap e s) = sub_queue s @ [e] \<and> sub_lagged (sub_push cap e s) = sub_lagged s) \<or>
   (subseq (sub_queue (sub_push cap e s)) (sub_queue s @ [e]) \<and> sub_lagged (sub_push cap e s))"
proof (cases "cap < length (sub_queue s @ [e])")
  case True
  have "subseq (drop k q) q" for k and q :: "'a list" by (rule suffix_imp_subseq[OF suffix_drop])
  then show ?thesis using True by (simp add: sub_push_def Let_def del: drop_append)
next
  case False
  then show ?thesis by (simp add: sub_push_def)
qed

lemma feed_start: "bus_wf b \<Longrightarrow> bus_subscribe b = (b', i) \<Longrightarrow> feed i b' [] [] False"
  using bus_subscribe_wf[of b] find_fresh[of b]
  by (auto simp: feed_def sub_of_def bus_subscribe_def find_append)

lemma feed_send:
  assumes "feed i b taken sent l"
  shows "feed i (fst (bus_send e b)) taken (sent @ [e]) l"
proof -
  obtain s where s: "sub_of i b = Some s" "bus_wf b" "subseq (taken @ sub_queue s) sent"
      "\<not> sub_lagged s \<longrightarrow> \<not> l \<longrightarrow> taken @ sub_queue s = sent"
    using assms by (auto simp: feed_def)
  let ?s = "sub_push (bus_cap b) e s"
  have "subseq (sub_queue ?s) (sub_queue s @ [e])" using sub_push_cases[of "bus_cap b" e s] by auto
  then have "subseq (taken @ sub_queue ?s) (taken @ sub_queue s @ [e])"
    by (intro list_emb_append_mono) auto
  moreover have "subseq ((taken @ sub_queue s) @ [e]) (sent @ [e])"
    using s(3) by (intro list_emb_append_mono) auto
  ultimately have "subseq (taken @ sub_queue ?s) (sent @ [e])"
    by (metis append_assoc subseq_order.order_trans)
  then show ?thesis using s sub_push_cases[of "bus_cap b" e s]
    by (auto simp: feed_def sub_of_send bus_send_wf)
qed

lemma feed_event:
  assumes "feed i b taken sent l" "bus_recv i b = Some (b', RvEvent e)"
  shows "feed i b' (taken @ [e]) sent l"
proof -
  obtain s where "sub_of i b = Some s" "\<not> sub_lagged s"
    "\<exists>q. sub_queue s = e # q \<and> sub_of i b' = Some (s\<lparr>sub_queue := q\<rparr>)"
    by (rule recv_cases[OF assms(2)]) blast
  then show ?thesis using assms(1) bus_recv_wf(1)[OF _ assms(2)] by (auto simp: feed_def)
qed

lemma feed_lagged:
  assumes "feed i b taken sent l" "bus_recv i b = Some (b', RvLagged)"
  shows "feed i b' taken sent True"
proof -
  obtain s where "sub_of i b = Some s" "sub_of i b' = Some (s\<lparr>sub_lagged := False\<rparr>)"
    by (rule recv_cases[OF assms(2)]) blast
  then show ?thesis using assms(1) bus_recv_wf(1)[OF _ assms(2)] by (auto simp: feed_def)
qed

lemma feed_subseq: "feed i b taken sent l \<Longrightarrow> subseq taken sent"
  unfolding feed_def by (meson prefixI prefix_imp_subseq subseq_order.order_trans)

text \<open>What is left to read, two for each event and one for a pending lag.\<close>

definition backlog :: "nat \<Rightarrow> 'e bus \<Rightarrow> nat" where
  "backlog i b = (case sub_of i b of
     None \<Rightarrow> 0 | Some s \<Rightarrow> 2 * length (sub_queue s) + (if sub_lagged s then 1 else 0))"

lemma backlog_event: "bus_recv i b = Some (b', RvEvent e) \<Longrightarrow> backlog i b = backlog i b' + 2"
  by (erule recv_cases) (auto simp: backlog_def)

lemma backlog_lagged: "bus_recv i b = Some (b', RvLagged) \<Longrightarrow> backlog i b = backlog i b' + 1"
  by (erule recv_cases) (auto simp: backlog_def)

lemma backlog_ready:
  assumes "backlog i b \<noteq> 0"
  obtains b' where "bus_recv i b = Some (b', RvLagged)" | b' e where "bus_recv i b = Some (b', RvEvent e)"
proof -
  obtain s where "sub_of i b = Some s" "sub_lagged s \<or> sub_queue s \<noteq> []"
    using assms by (auto simp: backlog_def split: option.splits if_splits)
  then show thesis using recv_ready that by metis
qed

lemma feed_done: "feed i b taken sent False \<Longrightarrow> backlog i b = 0 \<Longrightarrow> taken = sent"
  by (auto simp: feed_def backlog_def split: if_splits)

section \<open>The console socket\<close>

record console_conn =
  cc_bus :: console_bus
  cc_sent :: "json list"
  cc_open :: bool

definition console_hello :: "int \<Rightarrow> string \<Rightarrow> json" where
  "console_hello now version = JObj
     [(''kind'', JStr ''console.hello''),
      (''device_id'', JStr ''00000000-0000-0000-0000-000000000000''),
      (''envelope_id'', JStr ''00000000-0000-0000-0000-000000000000''),
      (''timestamp'', JInt now),
      (''summary'', JObj [(''server'', JStr ''message-center''), (''version'', JStr version)])]"

text \<open>\<open>ConsoleEvent\<close> derives its serialisation, which cannot fail.\<close>

definition enc_console_event :: "'e ext \<Rightarrow> console_event \<Rightarrow> json" where
  "enc_console_event X p = JObj
     [(''kind'', JStr (ce_kind p)),
      (''device_id'', enc_uuid X (ce_device_id p)),
      (''envelope_id'', enc_uuid X (ce_envelope_id p)),
      (''timestamp'', JInt (ce_timestamp p)),
      (''summary'', ce_summary p)]"

text \<open>A connection starts with a subscription; when the hello cannot be sent it is over.\<close>

definition console_start :: "bool \<Rightarrow> json \<Rightarrow> console_bus \<Rightarrow> nat \<times> console_conn" where
  "console_start hello_sent h b =
     (let (b', i) = bus_subscribe b
      in (i, if hello_sent then \<lparr>cc_bus = b', cc_sent = [h], cc_open = True\<rparr>
             else \<lparr>cc_bus = bus_drop i b', cc_sent = [], cc_open = False\<rparr>))"

definition console_close :: "nat \<Rightarrow> console_conn \<Rightarrow> console_conn" where
  "console_close i c = c\<lparr>cc_bus := bus_drop i (cc_bus c), cc_open := False\<rparr>"

datatype console_label = CnPublish envelope | CnEvent | CnSendFailed | CnLagged | CnFrame | CnLeft

inductive console_step :: "'e ext \<Rightarrow> nat \<Rightarrow> console_label \<Rightarrow> console_conn \<Rightarrow> console_conn \<Rightarrow> bool" for X i where
  cn_publish: "console_step X i (CnPublish e) c (c\<lparr>cc_bus := console_publish e (cc_bus c)\<rparr>)"
| cn_event: "cc_open c \<Longrightarrow> bus_recv i (cc_bus c) = Some (b, RvEvent e) \<Longrightarrow>
    console_step X i CnEvent c (c\<lparr>cc_bus := b, cc_sent := cc_sent c @ [enc_console_event X e]\<rparr>)"
| cn_failed: "cc_open c \<Longrightarrow> bus_recv i (cc_bus c) = Some (b, RvEvent e) \<Longrightarrow>
    console_step X i CnSendFailed c (console_close i (c\<lparr>cc_bus := b\<rparr>))"
| cn_lagged: "cc_open c \<Longrightarrow> bus_recv i (cc_bus c) = Some (b, RvLagged) \<Longrightarrow>
    console_step X i CnLagged c (c\<lparr>cc_bus := b\<rparr>)"
| cn_frame: "cc_open c \<Longrightarrow> console_step X i CnFrame c c"
| cn_left: "cc_open c \<Longrightarrow> console_step X i CnLeft c (console_close i c)"

fun console_published :: "console_label list \<Rightarrow> console_event list" where
  "console_published [] = []"
| "console_published (CnPublish e # ls) = console_event_from_envelope e # console_published ls"
| "console_published (_ # ls) = console_published ls"

lemma console_published_append:
  "console_published (ls @ ms) = console_published ls @ console_published ms"
  by (induction ls rule: console_published.induct) simp_all

text \<open>The frames of a connection are the hello and then events it took from its feed.\<close>

definition console_ok :: "'e ext \<Rightarrow> nat \<Rightarrow> json \<Rightarrow> nat \<Rightarrow> console_label list \<Rightarrow> console_conn \<Rightarrow> bool" where
  "console_ok X i h n ls c \<longleftrightarrow> bus_wf (cc_bus c) \<and>
     (\<exists>es. cc_sent c = h # map (enc_console_event X) es \<and>
        (if cc_open c
         then feed i (cc_bus c) es (console_published ls) (CnLagged \<in> set ls) \<and> bus_count (cc_bus c) = n + 1
         else subseq es (console_published ls) \<and> sub_of i (cc_bus c) = None \<and> bus_count (cc_bus c) = n))"

lemma console_close_ok:
  assumes "bus_wf b" "sub_of i b \<noteq> None" "bus_count b = n + 1"
  shows "bus_wf (bus_drop i b)" "sub_of i (bus_drop i b) = None" "bus_count (bus_drop i b) = n"
proof -
  have "i \<in> sub_id ` set (bus_subs b)" using assms(2) sub_of_member by fastforce
  then show "bus_wf (bus_drop i b)" by (rule bus_drop_wf[OF assms(1)])
qed (simp add: sub_of_drop, simp add: bus_drop_def assms(3))

lemma feed_sub: "feed i b taken sent l \<Longrightarrow> bus_wf b \<and> sub_of i b \<noteq> None"
  by (auto simp: feed_def)

lemma console_step_ok:
  assumes "console_ok X i h n ls c" "console_step X i l c d"
  shows "console_ok X i h n (ls @ [l]) d"
proof -
  obtain es where es: "cc_sent c = h # map (enc_console_event X) es" "bus_wf (cc_bus c)"
    "cc_open c \<Longrightarrow> feed i (cc_bus c) es (console_published ls) (CnLagged \<in> set ls) \<and>
       bus_count (cc_bus c) = n + 1"
    "\<not> cc_open c \<Longrightarrow> subseq es (console_published ls) \<and> sub_of i (cc_bus c) = None \<and>
       bus_count (cc_bus c) = n"
    using assms(1) by (auto simp: console_ok_def split: if_splits)
  note defs = console_ok_def console_published_append
  from assms(2) show ?thesis
  proof cases
    case (cn_publish e)
    have "subseq es (console_published ls) \<Longrightarrow>
        subseq es (console_published ls @ [console_event_from_envelope e])"
      by (metis prefixI prefix_imp_subseq subseq_order.order_trans)
    then show ?thesis using cn_publish es feed_send[of i "cc_bus c" es]
      by (auto simp: defs console_publish_def bus_send_wf sub_of_send) (auto simp: bus_send_def)
  next
    case (cn_event b e)
    then show ?thesis using es(1,2) es(3)[OF cn_event(3)] feed_event[OF _ cn_event(4)] bus_recv_wf[OF es(2) cn_event(4)]
      by (auto simp: defs intro!: exI[of _ "es @ [e]"])
  next
    case (cn_failed b e)
    have f: "feed i b (es @ [e]) (console_published ls) (CnLagged \<in> set ls)"
      using es(3)[OF cn_failed(3)] feed_event[OF _ cn_failed(4)] by blast
    have "subseq es (console_published ls)" using es(3)[OF cn_failed(3)] feed_subseq by blast
    then show ?thesis
      using cn_failed(1,2) es(1) es(3)[OF cn_failed(3)] bus_recv_wf[OF es(2) cn_failed(4)] feed_sub[OF f]
        console_close_ok[of b i n]
      by (auto simp: defs console_close_def intro!: exI[of _ es])
  next
    case (cn_lagged b)
    then show ?thesis using es(1,2) es(3)[OF cn_lagged(3)] feed_lagged[OF _ cn_lagged(4)] bus_recv_wf[OF es(2) cn_lagged(4)]
      by (auto simp: defs)
  next
    case cn_frame
    then show ?thesis using es by (auto simp: defs)
  next
    case cn_left
    then show ?thesis using es(1) es(3)[OF cn_left(3)] feed_sub feed_subseq console_close_ok[of "cc_bus c" i n]
      by (fastforce simp: defs console_close_def)
  qed
qed

text \<open>
  The loop as it runs. An input is a turn of its \<open>select!\<close>: the bus branch with whether the
  socket took the frame, a frame of the browser, its error or its end; or an envelope that another
  task publishes. The bus branch is not taken while nothing is queued, and nothing is read after
  the loop has ended. The step it makes is the first result, none when there is no turn.
\<close>

datatype console_input = CiPublish envelope | CiBus bool | CiFrame | CiError | CiEnd

definition console_turn ::
  "'e ext \<Rightarrow> nat \<Rightarrow> console_input \<Rightarrow> console_conn \<Rightarrow> console_label option \<times> console_conn" where
  "console_turn X i inp c =
     (case inp of
        CiPublish e \<Rightarrow> (Some (CnPublish e), c\<lparr>cc_bus := console_publish e (cc_bus c)\<rparr>)
      | CiBus sent \<Rightarrow>
          if \<not> cc_open c then (None, c)
          else (case bus_recv i (cc_bus c) of
                  Some (b, RvEvent e) \<Rightarrow>
                    if sent then (Some CnEvent, c\<lparr>cc_bus := b, cc_sent := cc_sent c @ [enc_console_event X e]\<rparr>)
                    else (Some CnSendFailed, console_close i (c\<lparr>cc_bus := b\<rparr>))
                | Some (b, RvLagged) \<Rightarrow> (Some CnLagged, c\<lparr>cc_bus := b\<rparr>)
                | _ \<Rightarrow> (None, c))
      | CiFrame \<Rightarrow> if cc_open c then (Some CnFrame, c) else (None, c)
      | _ \<Rightarrow> if cc_open c then (Some CnLeft, console_close i c) else (None, c))"

fun console_loop :: "'e ext \<Rightarrow> nat \<Rightarrow> console_input list \<Rightarrow> console_conn \<Rightarrow> console_label list \<times> console_conn" where
  "console_loop X i [] c = ([], c)"
| "console_loop X i (inp # ins) c =
     (let (l, c') = console_turn X i inp c; (ls, d) = console_loop X i ins c'
      in ((case l of None \<Rightarrow> ls | Some l \<Rightarrow> l # ls), d))"

definition run_console_axum ::
  "'e ext \<Rightarrow> bool \<Rightarrow> json \<Rightarrow> console_input list \<Rightarrow> console_bus \<Rightarrow> console_label list \<times> console_conn" where
  "run_console_axum X hello_sent h ins b =
     (let (i, c) = console_start hello_sent h b in console_loop X i ins c)"

text \<open>The same on a raw stream, after its handshake.\<close>

definition run_console_ws ::
  "'e ext \<Rightarrow> bool \<Rightarrow> bool \<Rightarrow> json \<Rightarrow> console_input list \<Rightarrow> console_bus \<Rightarrow> console_label list \<times> console_conn" where
  "run_console_ws X accepted hello_sent h ins b =
     (if accepted then run_console_axum X hello_sent h ins b
      else console_loop X (bus_next b) ins \<lparr>cc_bus = b, cc_sent = [], cc_open = False\<rparr>)"

text \<open>The loop makes exactly the runs of the steps.\<close>

lemma console_turn_step:
  "console_turn X i inp c = (Some l, d) \<Longrightarrow> console_step X i l c d"
  "console_turn X i inp c = (None, d) \<Longrightarrow> d = c"
  by (auto simp: console_turn_def intro: console_step.intros
      split: console_input.splits if_splits option.splits prod.splits recv.splits)

lemma console_step_turn:
  "console_step X i l c d \<Longrightarrow> \<exists>inp. console_turn X i inp c = (Some l, d)"
proof (induction rule: console_step.induct)
  case (cn_publish e c)
  then show ?case by (intro exI[of _ "CiPublish e"]) (simp add: console_turn_def)
next
  case (cn_failed c b e)
  then show ?case by (intro exI[of _ "CiBus False"]) (simp add: console_turn_def)
next
  case (cn_frame c)
  then show ?case by (intro exI[of _ CiFrame]) (simp add: console_turn_def)
next
  case (cn_left c)
  then show ?case by (intro exI[of _ CiEnd]) (simp add: console_turn_def)
qed (auto intro!: exI[of _ "CiBus True"] simp: console_turn_def)

lemma console_loop_run: "console_loop X i ins c = (ls, d) \<Longrightarrow> lrun (console_step X i) ls c d"
proof (induction ins arbitrary: c ls)
  case (Cons inp ins)
  obtain l c' ls' where l: "console_turn X i inp c = (l, c')" "console_loop X i ins c' = (ls', d)"
    and ls: "ls = (case l of None \<Rightarrow> ls' | Some l \<Rightarrow> l # ls')"
    using Cons.prems by (auto simp: Let_def split: prod.splits)
  show ?case
  proof (cases l)
    case None
    then show ?thesis using Cons.IH[OF l(2)] console_turn_step(2) l(1) ls by fastforce
  next
    case (Some k)
    then have "console_step X i k c c'" using console_turn_step(1) l(1) by fastforce
    from lrun_Cons[where R = "console_step X i", OF this Cons.IH[OF l(2)]] show ?thesis using ls Some by simp
  qed
qed (simp add: lrun_refl)

lemma console_loop_append:
  "console_loop X i (ins @ jns) c =
     (let (ls, d) = console_loop X i ins c; (ms, e) = console_loop X i jns d in (ls @ ms, e))"
  by (induction ins arbitrary: c) (auto simp: Let_def split: prod.splits option.splits)

lemma console_loop_iff:
  "lrun (console_step X i) ls c d \<longleftrightarrow> (\<exists>ins. console_loop X i ins c = (ls, d))"
proof
  assume "lrun (console_step X i) ls c d"
  then show "\<exists>ins. console_loop X i ins c = (ls, d)"
  proof (induction rule: lrun.induct)
    case (lrun_refl s)
    then show ?case by (intro exI[of _ "[]"]) simp
  next
    case (lrun_step ls s t l u)
    then obtain ins inp where "console_loop X i ins s = (ls, t)" "console_turn X i inp t = (Some l, u)"
      using console_step_turn by blast
    then show ?case by (intro exI[of _ "ins @ [inp]"]) (simp add: console_loop_append)
  qed
qed (auto intro: console_loop_run)

text \<open>What other tasks publish while a connection runs.\<close>

definition meanwhile :: "console_input list \<Rightarrow> console_event list" where
  "meanwhile ins = map console_event_from_envelope
     (List.map_filter (\<lambda>inp. case inp of CiPublish e \<Rightarrow> Some e | _ \<Rightarrow> None) ins)"

lemma meanwhile_Cons: "meanwhile (inp # ins) = meanwhile [inp] @ meanwhile ins"
  by (cases inp) (simp_all add: meanwhile_def map_filter_simps)

lemma turn_meanwhile:
  "console_turn X i inp c = (l, c') \<Longrightarrow>
     console_published (case l of None \<Rightarrow> [] | Some k \<Rightarrow> [k]) = meanwhile [inp]"
  by (cases inp) (auto simp: console_turn_def meanwhile_def map_filter_simps
      split: if_splits option.splits prod.splits recv.splits)

lemma loop_meanwhile: "console_loop X i ins c = (ls, d) \<Longrightarrow> console_published ls = meanwhile ins"
proof (induction ins arbitrary: c ls)
  case (Cons inp ins)
  obtain l c' ls' where l: "console_turn X i inp c = (l, c')" "console_loop X i ins c' = (ls', d)"
    and ls: "ls = (case l of None \<Rightarrow> [] | Some k \<Rightarrow> [k]) @ ls'"
    using Cons.prems by (auto simp: Let_def split: prod.splits option.splits)
  show ?case
    unfolding ls console_published_append turn_meanwhile[OF l(1)] Cons.IH[OF l(2)]
    by (rule meanwhile_Cons[symmetric])
qed (simp add: meanwhile_def map_filter_simps)

lemma console_loop_closed:
  "\<not> cc_open c \<Longrightarrow> bus_wf (cc_bus c) \<Longrightarrow> bus_wf (cc_bus (snd (console_loop X i ins c))) \<and>
     cc_sent (snd (console_loop X i ins c)) = cc_sent c \<and>
     bus_count (cc_bus (snd (console_loop X i ins c))) = bus_count (cc_bus c)"
proof (induction ins arbitrary: c)
  case (Cons inp ins)
  then show ?case
    by (cases inp) (simp_all add: console_turn_def Let_def split_beta console_publish_def bus_send_wf,
      simp add: bus_send_def)
qed simp

lemma run_console_ok:
  assumes "bus_wf b" "run_console_axum X True h ins b = (ls, d)"
  shows "console_ok X (bus_next b) h (bus_count b) ls d" "console_published ls = meanwhile ins"
proof -
  let ?i = "bus_next b" and ?c = "snd (console_start True h b)"
  have l: "console_loop X ?i ins ?c = (ls, d)"
    using assms(2) by (simp add: run_console_axum_def console_start_def bus_subscribe_def)
  have "console_ok X ?i h (bus_count b) [] ?c"
    using feed_start[OF assms(1)] bus_subscribe_wf[OF assms(1)]
    by (auto simp: console_ok_def console_start_def bus_subscribe_def)
  then show "console_ok X ?i h (bus_count b) ls d"
    by (rule lrun_invariant[OF console_loop_run[OF l]]) (rule console_step_ok)
  show "console_published ls = meanwhile ins" by (rule loop_meanwhile[OF l])
qed

lemma run_console_unheard:
  assumes "bus_wf b"
  shows "bus_wf (cc_bus (snd (run_console_axum X False h ins b)))"
    "cc_sent (snd (run_console_axum X False h ins b)) = []"
    "bus_count (cc_bus (snd (run_console_axum X False h ins b))) = bus_count b"
proof -
  let ?c = "snd (console_start False h b)"
  have "bus_wf (cc_bus ?c)" "bus_count (cc_bus ?c) = bus_count b"
    using console_close_ok[OF bus_subscribe_wf[OF assms], of "bus_next b" "bus_count b"] find_fresh[OF assms]
    by (simp_all add: console_start_def bus_subscribe_def sub_of_def find_append)
  then show "bus_wf (cc_bus (snd (run_console_axum X False h ins b)))"
    "cc_sent (snd (run_console_axum X False h ins b)) = []"
    "bus_count (cc_bus (snd (run_console_axum X False h ins b))) = bus_count b"
    using console_loop_closed[of ?c X "bus_next b" ins]
    by (simp_all add: run_console_axum_def split_beta) (simp_all add: console_start_def bus_subscribe_def)
qed

lemma run_console_wf: "bus_wf b \<Longrightarrow> bus_wf (cc_bus (snd (run_console_axum X sent h ins b)))"
  using run_console_ok(1)[of b X h ins] run_console_unheard(1)[of b X h ins]
  by (cases sent; cases "run_console_axum X True h ins b") (auto simp: console_ok_def)

text \<open>
  A web console's socket, in any interleaving of publishing with its task: it sends its hello
  first and then, in order and without repetition, a subsequence of the summaries of the envelopes
  published since it subscribed. While it is open and has not lagged nothing is missing: what was
  sent and what is queued are exactly those summaries. Once it has left, or a send has failed, the
  subscription is gone and the subscriber count is back to what it was before, as it is when not
  even the hello could be sent, or the handshake of a raw stream failed.
\<close>

lemma console_delivery:
  assumes "bus_wf b" "run_console_axum X True h ins b = (ls, d)"
  shows "(\<exists>es. cc_sent d = h # map (enc_console_event X) es \<and> subseq es (meanwhile ins) \<and>
      (if cc_open d
       then \<exists>s. sub_of (bus_next b) (cc_bus d) = Some s \<and>
         (sub_lagged s \<or> CnLagged \<in> set ls \<or> es @ sub_queue s = meanwhile ins)
       else sub_of (bus_next b) (cc_bus d) = None \<and> bus_count (cc_bus d) = bus_count b)) \<and>
    (\<forall>d' \<in> {snd (run_console_axum X False h ins b), snd (run_console_ws X False True h ins b)}.
       cc_sent d' = [] \<and> bus_count (cc_bus d') = bus_count b)"
proof (rule conjI)
  let ?i = "bus_next b"
  obtain es where es: "cc_sent d = h # map (enc_console_event X) es"
    "if cc_open d
     then feed ?i (cc_bus d) es (meanwhile ins) (CnLagged \<in> set ls)
     else subseq es (meanwhile ins) \<and> sub_of ?i (cc_bus d) = None \<and> bus_count (cc_bus d) = bus_count b"
    using run_console_ok(1)[OF assms] unfolding run_console_ok(2)[OF assms] console_ok_def by (auto split: if_splits)
  show "\<exists>es. cc_sent d = h # map (enc_console_event X) es \<and> subseq es (meanwhile ins) \<and>
      (if cc_open d
       then \<exists>s. sub_of ?i (cc_bus d) = Some s \<and>
         (sub_lagged s \<or> CnLagged \<in> set ls \<or> es @ sub_queue s = meanwhile ins)
       else sub_of ?i (cc_bus d) = None \<and> bus_count (cc_bus d) = bus_count b)"
  proof (cases "cc_open d")
    case True
    then have f: "feed ?i (cc_bus d) es (meanwhile ins) (CnLagged \<in> set ls)" using es(2) by simp
    then show ?thesis using es(1) True feed_subseq[OF f] by (auto simp: feed_def)
  qed (use es in auto)
  show "\<forall>d' \<in> {snd (run_console_axum X False h ins b), snd (run_console_ws X False True h ins b)}.
      cc_sent d' = [] \<and> bus_count (cc_bus d') = bus_count b"
    using run_console_unheard(2,3)[OF assms(1), of X h ins] assms(1)
      console_loop_closed[of "\<lparr>cc_bus = b, cc_sent = [], cc_open = False\<rparr>" X ?i ins]
    by (simp add: run_console_ws_def)
qed

definition demo_greeting :: envelope where
  "demo_greeting = envelope_new MtDeviceHello 7 (JObj []) 3 5"

theorem console_delivery_witness:
  "\<exists>d. snd (run_console_axum demo_ext True JNull [CiPublish demo_greeting, CiFrame, CiBus True, CiEnd]
       console_bus_new) = d \<and>
     cc_sent d = [JNull, enc_console_event demo_ext (console_event_from_envelope demo_greeting)] \<and>
     bus_count (cc_bus d) = 0"
proof -
  let ?ins = "[CiPublish demo_greeting, CiFrame, CiBus True, CiEnd]"
  obtain ls d where r: "run_console_axum demo_ext True JNull ?ins console_bus_new = (ls, d)" by fastforce
  have w: "bus_wf console_bus_new" by (simp add: console_bus_new_def bus_new_wf)
  have "\<not> cc_open d \<and> cc_sent d = [JNull, enc_console_event demo_ext (console_event_from_envelope demo_greeting)]"
    using r by (auto simp: run_console_axum_def console_start_def console_bus_new_def bus_new_def
        bus_subscribe_def console_turn_def console_publish_def bus_send_def sub_push_def bus_recv_def
        console_close_def Let_def)
  then show ?thesis using conjunct1[OF console_delivery[OF w r]] r
    by (intro exI[of _ d]) (auto simp: console_bus_new_def bus_new_def)
qed

end
