(* ===== verification/DisplayWs.thy ===== *)
theory DisplayWs
  imports Rest Feeds
begin

text \<open>
  The display endpoint (message-center/src/display_ws.rs): the actions a display sends, the
  results published on the display bus, the reader of a connection, and the two tasks that carry
  bus events to the display. \<open>D\<close> gives the text of a database error, which is sqlx's.
\<close>

section \<open>Published events\<close>

definition app_publish_display :: "display_event \<Rightarrow> app \<Rightarrow> app" where
  "app_publish_display e s = s\<lparr>a_net := (a_net s)\<lparr>n_sink := (n_sink (a_net s))
     \<lparr>cn_display := fst (display_publish e (cn_display (n_sink (a_net s))))\<rparr>\<rparr>\<rparr>"

definition action_result :: "display_action \<Rightarrow> bool \<Rightarrow> string option \<Rightarrow> int \<Rightarrow> action_result_event" where
  "action_result a ok msg now =
     \<lparr>ar_kind = ''action.result'', ar_request_envelope_id = da_envelope_id a,
      ar_device_id = da_device_id a, ar_action_kind = da_kind a, ar_ok = ok, ar_message = msg,
      ar_timestamp = now\<rparr>"

fun merged_message :: "string option \<Rightarrow> string option \<Rightarrow> string option" where
  "merged_message (Some c) (Some m) = Some (c @ '': '' @ m)"
| "merged_message (Some c) None = Some c"
| "merged_message None m = m"

definition publish_action_result ::
  "envelope ext \<Rightarrow> tick \<Rightarrow> app \<Rightarrow> display_action \<Rightarrow> bool \<Rightarrow> string option \<Rightarrow> string option \<Rightarrow> app" where
  "publish_action_result X t s a ok code msg =
     (let r = action_result a ok (merged_message code msg) (t_ms t 21)
      in app_publish_display
           \<lparr>de_kind = ''action.result'', de_device_id = da_device_id a,
            de_envelope_id = da_envelope_id a, de_timestamp = ar_timestamp r,
            de_payload = enc_action_result_event X r, de_summary = JNull\<rparr> s)"

definition publish_phone_offline :: "envelope ext \<Rightarrow> tick \<Rightarrow> app \<Rightarrow> display_action \<Rightarrow> app" where
  "publish_phone_offline X t s a =
     publish_action_result X t
       (app_publish_display (build_display_event ''phone.offline'' (da_device_id a) (da_envelope_id a)
          (JObj [(''action_kind'', JStr (da_kind a)),
                 (''message'', JStr ''phone offline; action not delivered'')]) (t_ms t 20)) s)
       a False (Some ''phone_offline'')
       (Some (''device '' @ uuid_str X (da_device_id a) @ '' is not currently connected''))"

section \<open>The actions\<close>

text \<open>Sending to the phone, which four of the actions share; \<open>f\<close> is what follows a success.\<close>

definition send_action ::
  "envelope ext \<Rightarrow> tick \<Rightarrow> app \<Rightarrow> display_action \<Rightarrow> message_type \<Rightarrow> json \<Rightarrow> (app \<Rightarrow> app) \<Rightarrow> app" where
  "send_action X t s a kind p f =
     (case app_try_send X s (da_device_id a)
             (envelope_new kind (wc_device_id (a_cfg s)) p (t_uuid t 20) (t_ms t 22)) of
        Inl e \<Rightarrow> publish_action_result X t s a False (Some ''phone_error'')
                   (Some (''send: '' @ downstream_error_str X e))
      | Inr s' \<Rightarrow> publish_action_result X t (f s') a True None None)"

definition present :: "string option \<Rightarrow> string option" where
  "present v = (case v of Some s \<Rightarrow> if s \<noteq> [] then Some s else None | None \<Rightarrow> None)"

definition do_sms_reply :: "envelope ext \<Rightarrow> tick \<Rightarrow> app \<Rightarrow> display_action \<Rightarrow> app" where
  "do_sms_reply X t s a =
     (case present (da_to a) of
        None \<Rightarrow> publish_action_result X t s a False (Some ''bad_request'') (Some ''sms.reply requires `to`'')
      | Some to \<Rightarrow>
          (case present (da_body a) of
             None \<Rightarrow> publish_action_result X t s a False (Some ''bad_request'')
                       (Some ''sms.reply requires `body`'')
           | Some body \<Rightarrow>
               send_action X t s a MtSmsSendRequest
                 (enc_sms_send_request \<lparr>sq_to = to, sq_body = body, sq_subscription_id = None\<rparr>)
                 (\<lambda>s'. case insert_audit_log (app_db s') (t_ms t 23) (Some (da_device_id a))
                               ''display.sms_reply'' None of
                          Inl _ \<Rightarrow> s' | Inr d \<Rightarrow> app_set_db s' d)))"

definition do_notification_read ::
  "envelope ext \<Rightarrow> (db_error \<Rightarrow> string) \<Rightarrow> tick \<Rightarrow> app \<Rightarrow> display_action \<Rightarrow> app" where
  "do_notification_read X D t s a =
     (case mark_notification_read (app_db s) (da_device_id a) (uuid_str X (da_envelope_id a)) of
        Inl e \<Rightarrow> publish_action_result X t s a False (Some ''internal_error'') (Some (''db: '' @ D e))
      | Inr d \<Rightarrow> publish_action_result X t (app_set_db s d) a True None None)"

definition do_notification_dismiss :: "envelope ext \<Rightarrow> tick \<Rightarrow> app \<Rightarrow> display_action \<Rightarrow> app" where
  "do_notification_dismiss X t s a =
     send_action X t s a MtNotificationDismissed
       (enc_notification_dismissed \<lparr>nd_id = uuid_str X (da_envelope_id a)\<rparr>)
       (\<lambda>s'. case dismiss_notification (app_db s') (da_device_id a) (uuid_str X (da_envelope_id a)) of
                Inl _ \<Rightarrow> s' | Inr (d, _) \<Rightarrow> app_set_db s' d)"

definition do_call_answer :: "envelope ext \<Rightarrow> tick \<Rightarrow> app \<Rightarrow> display_action \<Rightarrow> app" where
  "do_call_answer X t s a = send_action X t s a MtCallAnswerRequest (JObj []) (\<lambda>s'. s')"

definition do_call_end :: "envelope ext \<Rightarrow> tick \<Rightarrow> app \<Rightarrow> display_action \<Rightarrow> app" where
  "do_call_end X t s a = send_action X t s a MtCallEndRequest (JObj []) (\<lambda>s'. s')"

text \<open>Kept in the source for a later action; nothing calls it.\<close>

definition do_call_dial :: "envelope ext \<Rightarrow> tick \<Rightarrow> app \<Rightarrow> display_action \<Rightarrow> string \<Rightarrow> app" where
  "do_call_dial X t s a number =
     send_action X t s a MtCallDialRequest (enc_call_dial_request \<lparr>cdq_number = number\<rparr>) (\<lambda>s'. s')"

definition handle_display_action ::
  "envelope ext \<Rightarrow> (db_error \<Rightarrow> string) \<Rightarrow> tick \<Rightarrow> app \<Rightarrow> display_action \<Rightarrow> app" where
  "handle_display_action X D t s a =
     (if \<not> app_connected s (da_device_id a) then publish_phone_offline X t s a
      else if da_kind a = ''sms.reply'' then do_sms_reply X t s a
      else if da_kind a = ''notification.read'' then do_notification_read X D t s a
      else if da_kind a = ''notification.dismiss'' then do_notification_dismiss X t s a
      else if da_kind a = ''call.answer'' then do_call_answer X t s a
      else if da_kind a = ''call.end'' then do_call_end X t s a
      else publish_action_result X t s a False (Some ''bad_request'')
             (Some (''unknown action kind: '' @ da_kind a)))"

section \<open>The reader of a connection\<close>

datatype display_frame = DfText string | DfBinary | DfClose | DfOther | DfError

definition handle_line ::
  "envelope ext \<Rightarrow> (db_error \<Rightarrow> string) \<Rightarrow> tick \<Rightarrow> string \<Rightarrow> app \<Rightarrow> app" where
  "handle_line X D t line s =
     (let l = trim line
      in if l = [] then s
         else (case Option.bind (json_parse X l) (dec_display_action X) of
                 None \<Rightarrow> s
               | Some a \<Rightarrow> handle_display_action X D t s a))"

text \<open>The readings of the \<open>k\<close>-th line of a frame are \<open>ts k\<close>.\<close>

fun handle_lines ::
  "envelope ext \<Rightarrow> (db_error \<Rightarrow> string) \<Rightarrow> (nat \<Rightarrow> tick) \<Rightarrow> nat \<Rightarrow> string list \<Rightarrow> app \<Rightarrow> app" where
  "handle_lines X D ts k [] s = s"
| "handle_lines X D ts k (l # ls) s = handle_lines X D ts (Suc k) ls (handle_line X D (ts k) l s)"

fun display_reader ::
  "envelope ext \<Rightarrow> (db_error \<Rightarrow> string) \<Rightarrow> ((nat \<Rightarrow> tick) \<times> display_frame) list \<Rightarrow> app \<Rightarrow> app" where
  "display_reader X D [] s = s"
| "display_reader X D ((ts, fr) # fs) s =
     (case fr of
        DfError \<Rightarrow> s
      | DfClose \<Rightarrow> s
      | DfBinary \<Rightarrow> display_reader X D fs s
      | DfOther \<Rightarrow> display_reader X D fs s
      | DfText text \<Rightarrow> display_reader X D fs (handle_lines X D ts 0 (str_lines text) s))"

section \<open>From the bus to the display\<close>

text \<open>
  The bus-bridge task moves an event from its subscription to the bounded channel, the writer task
  from the channel to the socket, each in its own time; other tasks publish meanwhile. A writer
  whose send fails ends and drops the channel's receiver; the bridge notices when it has the next
  event to pass on, ends and drops the subscription. When the reader ends, both are aborted.
\<close>

definition WRITER_CAPACITY :: nat where
  "WRITER_CAPACITY = 64"

record pipe =
  pp_bus :: display_bus
  pp_chan :: "display_event list"
  pp_written :: "display_event list"
  pp_writer :: bool
  pp_bridge :: bool

datatype pipe_label =
    PlPublish display_event | PlForward | PlLagged | PlWrite | PlFailed | PlGone | PlClose

definition bridge_end :: "nat \<Rightarrow> pipe \<Rightarrow> pipe" where
  "bridge_end i p = (if pp_bridge p then p\<lparr>pp_bus := bus_drop i (pp_bus p), pp_bridge := False\<rparr> else p)"

inductive pipe_step :: "nat \<Rightarrow> pipe_label \<Rightarrow> pipe \<Rightarrow> pipe \<Rightarrow> bool" for i where
  publish: "pipe_step i (PlPublish e) p (p\<lparr>pp_bus := fst (display_publish e (pp_bus p))\<rparr>)"
| forward: "pp_bridge p \<Longrightarrow> pp_writer p \<Longrightarrow> bus_recv i (pp_bus p) = Some (b, RvEvent e) \<Longrightarrow>
    length (pp_chan p) < WRITER_CAPACITY \<Longrightarrow>
    pipe_step i PlForward p (p\<lparr>pp_bus := b, pp_chan := pp_chan p @ [e]\<rparr>)"
| lagged: "pp_bridge p \<Longrightarrow> bus_recv i (pp_bus p) = Some (b, RvLagged) \<Longrightarrow>
    pipe_step i PlLagged p (p\<lparr>pp_bus := b\<rparr>)"
| flush: "pp_writer p \<Longrightarrow> pp_chan p = e # es \<Longrightarrow>
    pipe_step i PlWrite p (p\<lparr>pp_chan := es, pp_written := pp_written p @ [e]\<rparr>)"
| failed: "pp_writer p \<Longrightarrow> pp_chan p = e # es \<Longrightarrow>
    pipe_step i PlFailed p (p\<lparr>pp_chan := [], pp_writer := False\<rparr>)"
| gone: "pp_bridge p \<Longrightarrow> \<not> pp_writer p \<Longrightarrow> bus_recv i (pp_bus p) = Some (b, RvEvent e) \<Longrightarrow>
    pipe_step i PlGone p (bridge_end i (p\<lparr>pp_bus := b\<rparr>))"
| closed: "pipe_step i PlClose p (bridge_end i (p\<lparr>pp_chan := [], pp_writer := False\<rparr>))"

inductive_cases pipe_stepE: "pipe_step i l p q"

fun published :: "pipe_label list \<Rightarrow> display_event list" where
  "published [] = []"
| "published (PlPublish e # ls) = e # published ls"
| "published (_ # ls) = published ls"

definition pipe_start :: "display_bus \<Rightarrow> nat \<times> pipe" where
  "pipe_start b = (let (b', i) = bus_subscribe b in (i, \<lparr>pp_bus = b', pp_chan = [], pp_written = [], pp_writer = True, pp_bridge = True\<rparr>))"

section \<open>What an action does\<close>

text \<open>The specification: the message an action stands for, and when the action succeeds.\<close>

definition action_request :: "envelope ext \<Rightarrow> display_action \<Rightarrow> (message_type \<times> json) option" where
  "action_request X a =
     (if da_kind a = ''sms.reply''
      then (case (da_to a, da_body a) of
              (Some (c # to), Some (d # body)) \<Rightarrow> Some (MtSmsSendRequest, enc_sms_send_request
                \<lparr>sq_to = c # to, sq_body = d # body, sq_subscription_id = None\<rparr>)
            | _ \<Rightarrow> None)
      else if da_kind a = ''notification.dismiss''
      then Some (MtNotificationDismissed,
                 enc_notification_dismissed \<lparr>nd_id = uuid_str X (da_envelope_id a)\<rparr>)
      else if da_kind a = ''call.answer'' then Some (MtCallAnswerRequest, JObj [])
      else if da_kind a = ''call.end'' then Some (MtCallEndRequest, JObj [])
      else None)"

definition action_ok :: "envelope ext \<Rightarrow> app \<Rightarrow> display_action \<Rightarrow> bool" where
  "action_ok X s a =
     (case hm_get (n_registry (a_net s)) (da_device_id a) of
        None \<Rightarrow> False
      | Some c \<Rightarrow>
          (case action_request X a of
             Some _ \<Rightarrow> chan_accepts X (n_hist (a_net s)) c
           | None \<Rightarrow> da_kind a = ''notification.read'' \<and> db_up (app_db s)))"

definition result_event :: "envelope ext \<Rightarrow> display_action \<Rightarrow> bool \<Rightarrow> string option \<Rightarrow> int \<Rightarrow> display_event" where
  "result_event X a ok msg now =
     \<lparr>de_kind = ''action.result'', de_device_id = da_device_id a, de_envelope_id = da_envelope_id a,
      de_timestamp = now, de_payload = enc_action_result_event X (action_result a ok msg now),
      de_summary = JNull\<rparr>"

definition app_display_bus :: "app \<Rightarrow> display_bus" where
  "app_display_bus s = cn_display (n_sink (a_net s))"

definition publish_all :: "display_event list \<Rightarrow> display_bus \<Rightarrow> display_bus" where
  "publish_all = fold (\<lambda>e b. fst (display_publish e b))"

lemma publish_all_simps [simp]:
  "publish_all [] b = b" "publish_all (e # es) b = publish_all es (fst (display_publish e b))"
  by (simp_all add: publish_all_def)

lemma publish_display_frame [simp]:
  "app_db (app_publish_display e s) = app_db s" "a_cfg (app_publish_display e s) = a_cfg s"
  "a_pins (app_publish_display e s) = a_pins s"
  "n_pairing (a_net (app_publish_display e s)) = n_pairing (a_net s)"
  "n_registry (a_net (app_publish_display e s)) = n_registry (a_net s)"
  "n_hist (a_net (app_publish_display e s)) = n_hist (a_net s)"
  "cn_console (n_sink (a_net (app_publish_display e s))) = cn_console (n_sink (a_net s))"
  "app_display_bus (app_publish_display e s) = fst (display_publish e (app_display_bus s))"
  by (simp_all add: app_publish_display_def app_db_def app_display_bus_def)

lemma app_display_bus_sets [simp]:
  "app_display_bus (app_set_db s d) = app_display_bus s"
  "app_display_bus (app_set_hist s h) = app_display_bus s"
  by (simp_all add: app_display_bus_def app_set_db_def app_set_hist_def)

lemma publish_result:
  "publish_action_result X t s a ok code msg =
     app_publish_display (result_event X a ok (merged_message code msg) (t_ms t 21)) s"
  by (simp add: publish_action_result_def result_event_def action_result_def Let_def)

lemma failed_result [simp]:
  "\<exists>msg. (\<exists>y. msg = Some y) \<and> fst (display_publish (result_event X a False (Some w) now) b) =
     fst (display_publish (result_event X a False msg now) b)"
  by blast

lemma send_action_outcome:
  assumes "hm_get (n_registry (a_net s)) (da_device_id a) = Some c"
    and f: "\<And>s. app_display_bus (f s) = app_display_bus s \<and> n_hist (a_net (f s)) = n_hist (a_net s)"
  shows "let s' = send_action X t s a kind p f; ok = chan_accepts X (n_hist (a_net s)) c in
    (\<exists>msg. (msg = None) = ok \<and>
       app_display_bus s' = publish_all [result_event X a ok msg (t_ms t 21)] (app_display_bus s)) \<and>
    n_hist (a_net s') = n_hist (a_net s) @
      (if ok then [(c, envelope_new kind (wc_device_id (a_cfg s)) p (t_uuid t 20) (t_ms t 22))] else [])"
proof (cases "app_try_send X s (da_device_id a)
    (envelope_new kind (wc_device_id (a_cfg s)) p (t_uuid t 20) (t_ms t 22))")
  case (Inl e)
  then have "\<not> chan_accepts X (n_hist (a_net s)) c"
    using assms(1) by (metis Inl_Inr_False app_try_send_Inr)
  then show ?thesis using Inl by (simp add: send_action_def publish_result Let_def)
next
  case (Inr s1)
  then have "chan_accepts X (n_hist (a_net s)) c" "s1 = app_set_hist s (n_hist (a_net s) @
      [(c, envelope_new kind (wc_device_id (a_cfg s)) p (t_uuid t 20) (t_ms t 22))])"
    using assms(1) by (auto simp: app_try_send_Inr)
  then show ?thesis using Inr f by (simp add: send_action_def publish_result Let_def)
qed

lemma present_cases: "present v = Some s \<longleftrightarrow> (\<exists>c cs. v = Some (c # cs) \<and> s = c # cs)"
  by (cases v; cases s) (auto simp: present_def)

lemma present_None: "present v = None \<longleftrightarrow> v = None \<or> v = Some []"
  by (cases v) (auto simp: present_def)

lemma sms_reply_request:
  assumes "da_kind a = ''sms.reply''"
  shows "action_request X a =
    (case present (da_to a) of
       None \<Rightarrow> None
     | Some to \<Rightarrow>
         (case present (da_body a) of
            None \<Rightarrow> None
          | Some body \<Rightarrow> Some (MtSmsSendRequest,
              enc_sms_send_request \<lparr>sq_to = to, sq_body = body, sq_subscription_id = None\<rparr>)))"
  using assms by (auto simp: action_request_def present_def split: option.split list.split)

text \<open>
  What a connected phone's action comes to: one result, and the message \<open>q\<close> when it
  succeeds. The kinds of action are the cases of the dispatcher.
\<close>

definition answered ::
  "envelope ext \<Rightarrow> tick \<Rightarrow> app \<Rightarrow> display_action \<Rightarrow> nat \<Rightarrow> app \<Rightarrow> bool" where
  "answered X t s a c s' \<longleftrightarrow>
     (\<exists>msg. (msg = None) = action_ok X s a \<and>
        app_display_bus s' = publish_all [result_event X a (action_ok X s a) msg (t_ms t 21)] (app_display_bus s)) \<and>
     n_hist (a_net s') = n_hist (a_net s) @
       (if action_ok X s a then (case action_request X a of
                                   None \<Rightarrow> []
                                 | Some (kind, p) \<Rightarrow>
                                     [(c, envelope_new kind (wc_device_id (a_cfg s)) p (t_uuid t 20) (t_ms t 22))])
        else [])"

lemma answered_send:
  assumes "hm_get (n_registry (a_net s)) (da_device_id a) = Some c" "action_request X a = Some (kind, p)"
    and "\<And>s. app_display_bus (f s) = app_display_bus s \<and> n_hist (a_net (f s)) = n_hist (a_net s)"
  shows "answered X t s a c (send_action X t s a kind p f)"
  using send_action_outcome[where X = X and t = t, OF assms(1,3)] assms(1,2)
  by (simp add: answered_def action_ok_def Let_def)

lemma answered_sms_reply:
  assumes h: "hm_get (n_registry (a_net s)) (da_device_id a) = Some c" and k: "da_kind a = ''sms.reply''"
  shows "answered X t s a c (do_sms_reply X t s a)"
proof (cases "action_request X a")
  case None
  then show ?thesis using k h sms_reply_request[OF k, of X]
    by (simp add: do_sms_reply_def answered_def action_ok_def publish_result split: option.splits)
next
  case (Some r)
  then obtain to body where p: "present (da_to a) = Some to" "present (da_body a) = Some body"
    and q: "action_request X a = Some (MtSmsSendRequest,
      enc_sms_send_request \<lparr>sq_to = to, sq_body = body, sq_subscription_id = None\<rparr>)"
    using sms_reply_request[OF k, of X] by (auto split: option.splits)
  show ?thesis unfolding do_sms_reply_def p option.case
    by (rule answered_send[OF h q]) (simp split: sum.split)
qed

lemma answered_dismiss:
  assumes "hm_get (n_registry (a_net s)) (da_device_id a) = Some c" "da_kind a = ''notification.dismiss''"
  shows "answered X t s a c (do_notification_dismiss X t s a)"
  unfolding do_notification_dismiss_def
  by (rule answered_send[OF assms(1)])
    (simp_all add: action_request_def assms(2) split: sum.split prod.split)

lemma answered_call:
  assumes "hm_get (n_registry (a_net s)) (da_device_id a) = Some c"
  shows "da_kind a = ''call.answer'' \<Longrightarrow> answered X t s a c (do_call_answer X t s a)"
    "da_kind a = ''call.end'' \<Longrightarrow> answered X t s a c (do_call_end X t s a)"
  unfolding do_call_answer_def do_call_end_def
  by (rule answered_send[OF assms]; simp add: action_request_def)+

lemma handle_connected:
  assumes "hm_get (n_registry (a_net s)) (da_device_id a) = Some c"
  shows "answered X t s a c (handle_display_action X D t s a)"
proof -
  have c: "app_connected s (da_device_id a)" using assms by (simp add: app_connected_iff)
  have rest: "answered X t s a c (handle_display_action X D t s a)"
    if "da_kind a \<notin> {''sms.reply'', ''notification.dismiss'', ''call.answer'', ''call.end''}"
    using that assms c
    by (simp add: handle_display_action_def do_notification_read_def mark_notification_read_def
        answered_def action_request_def action_ok_def publish_result)
  show ?thesis
    using rest answered_sms_reply[OF assms] answered_dismiss[OF assms] answered_call[OF assms] c
    by (auto simp: handle_display_action_def)
qed

lemma action_answer:
  "let s' = handle_display_action X D t s a; ok = action_ok X s a in
    (\<exists>msg. (msg = None) = ok \<and>
       app_display_bus s' = publish_all
         ((if app_connected s (da_device_id a) then []
           else [build_display_event ''phone.offline'' (da_device_id a) (da_envelope_id a)
                  (JObj [(''action_kind'', JStr (da_kind a)),
                     (''message'', JStr ''phone offline; action not delivered'')]) (t_ms t 20)]) @
          [result_event X a ok msg (t_ms t 21)]) (app_display_bus s)) \<and>
    n_hist (a_net s') = n_hist (a_net s) @
      (if ok then (case action_request X a of
                     None \<Rightarrow> []
                   | Some (kind, p) \<Rightarrow> [(the (hm_get (n_registry (a_net s)) (da_device_id a)),
                        envelope_new kind (wc_device_id (a_cfg s)) p (t_uuid t 20) (t_ms t 22))])
       else [])"
proof (cases "hm_get (n_registry (a_net s)) (da_device_id a)")
  case None
  then show ?thesis
    by (simp add: handle_display_action_def app_connected_iff action_ok_def publish_phone_offline_def
        publish_result Let_def)
next
  case (Some c)
  then have "app_connected s (da_device_id a)" by (simp add: app_connected_iff)
  then show ?thesis using handle_connected[OF Some, of X t D] Some
    by (auto simp: answered_def Let_def split: option.split)
qed


text \<open>
  C39: The read mark a display sends names the notification by the id of the envelope it came in.
  The stored row is keyed by the phone's own id of the notification, so unless the two happen to
  coincide the row stays unread, and the display is told that the action succeeded.
\<close>

theorem display_read_misses:
  assumes "n_sink (a_net s) = on_notification t0 eid u n c" "db_up (cn_db c)" "has_device (cn_db c) u"
    and "app_connected s u" "nr_id n \<noteq> uuid_str X eid"
    and "da_kind a = ''notification.read''" "da_envelope_id a = eid" "da_device_id a = u"
  shows "(\<exists>r. filter (\<lambda>r. nw_id r = nr_id n \<and> nw_device_id r = u)
        (t_notifications (app_db (handle_display_action X D t s a))) = [r] \<and> \<not> nw_read r) \<and>
    app_display_bus (handle_display_action X D t s a) =
      publish_all [result_event X a True None (t_ms t 21)] (app_display_bus s)"
proof -
  define row where "row = \<lparr>nw_id = nr_id n, nw_device_id = u, nw_package_name = nr_package n,
     nw_app_name = nr_app_name n, nw_title = nr_title n, nw_content = nr_content n,
     nw_posted_at = nr_posted_at n, nw_is_sensitive = nr_is_sensitive n,
     nw_category = nr_category n, nw_read = False\<rparr>"
  have row: "\<not> nw_read row" "nw_id row = nr_id n" "nw_device_id row = u" by (simp_all add: row_def)
  have d: "app_db s = (cn_db c)\<lparr>t_notifications :=
      filter (\<lambda>r. \<not> (nw_id r = nr_id n \<and> nw_device_id r = u)) (t_notifications (cn_db c)) @ [row]\<rparr>"
    using assms(1-3) by (simp add: app_db_def on_notification_def insert_notification_def row_def)
  have h: "handle_display_action X D t s a = app_publish_display (result_event X a True None (t_ms t 21))
      (app_set_db s (app_db s\<lparr>t_notifications := map (\<lambda>r.
         if nw_device_id r = u \<and> nw_id r = uuid_str X eid then r\<lparr>nw_read := True\<rparr> else r)
         (t_notifications (app_db s))\<rparr>))"
    using assms(2,4,6-8) d
    by (simp add: handle_display_action_def do_notification_read_def mark_notification_read_def publish_result)
  have "filter (\<lambda>r. nw_id r = nr_id n \<and> nw_device_id r = u) (map (\<lambda>r.
         if nw_device_id r = u \<and> nw_id r = uuid_str X eid then r\<lparr>nw_read := True\<rparr> else r)
         (t_notifications (app_db s))) = [row]"
    unfolding d using row assms(5) by (auto simp: filter_map comp_def filter_empty_conv)
  then show ?thesis unfolding h using row(1) by simp
qed

lemma filter_single: "filter P xs = [r] \<Longrightarrow> r \<in> set xs \<and> P r"
  by (auto simp: filter_eq_Cons_iff)

theorem display_read_misses_witness:
  "\<exists>s a. app_connected s 7 \<and> da_kind a = ''notification.read'' \<and>
     (\<exists>r \<in> set (t_notifications (app_db (handle_display_action demo_ext (\<lambda>_. []) (demo_tick 0) s a))).
        nw_id r = ''k'' \<and> \<not> nw_read r)"
proof -
  let ?c = "on_notification (demo_tick 0) 3 7 (demo_message ''p'') demo_center"
  let ?s = "\<lparr>a_net = (demo_net ?c)\<lparr>n_registry := [(7, 9)]\<rparr>, a_pins = [], a_cfg = demo_cfg, a_fingerprint = []\<rparr>"
  let ?a = "\<lparr>da_kind = ''notification.read'', da_envelope_id = 3, da_device_id = 7, da_to = None,
     da_body = None, da_call_id = None\<rparr>"
  have d: "db_up (cn_db demo_center)" "has_device (cn_db demo_center) 7"
    by (simp_all add: demo_center_def demo_db_wf) (simp add: has_device_def demo_db_def demo_phone_def)
  have k: "nr_id (demo_message ''p'') = ''k''" by (simp add: demo_message_def)
  have c: "app_connected ?s 7" by (simp add: app_connected_iff hm_get_def)
  have e: "nr_id (demo_message ''p'') \<noteq> uuid_str demo_ext 3" unfolding k by (auto simp: demo_ext_def dest!: arg_cong[where f = length])
  have n: "n_sink (a_net ?s) = ?c" by (simp add: demo_net_def)
  obtain r where "filter (\<lambda>r. nw_id r = ''k'' \<and> nw_device_id r = 7)
      (t_notifications (app_db (handle_display_action demo_ext (\<lambda>_. []) (demo_tick 0) ?s ?a))) = [r]" "\<not> nw_read r"
    using display_read_misses[OF n d c e, of ?a "\<lambda>_. []" "demo_tick 0"] unfolding k by auto
  then show ?thesis using c filter_single by (intro exI[of _ ?s] exI[of _ ?a]) fastforce
qed

section \<open>Delivery\<close>

text \<open>
  The invariant: while both tasks live, what is written, waiting in the channel and queued on the
  subscription, in this order, is the feed of the subscription; once the writer has ended, what
  was written and what is queued is part of what was published; and once the bridge has, the
  subscription is gone. \<open>n\<close> is the number of the other subscribers.
\<close>

definition pipe_ok :: "nat \<Rightarrow> nat \<Rightarrow> pipe_label list \<Rightarrow> pipe \<Rightarrow> bool" where
  "pipe_ok i n ls p \<longleftrightarrow> length (pp_chan p) \<le> WRITER_CAPACITY \<and> bus_wf (pp_bus p) \<and>
     subseq (pp_written p) (published ls) \<and> (\<not> pp_writer p \<longrightarrow> pp_chan p = []) \<and>
     (if pp_bridge p
      then bus_count (pp_bus p) = n + 1 \<and> sub_of i (pp_bus p) \<noteq> None \<and>
        (pp_writer p \<longrightarrow> feed i (pp_bus p) (pp_written p @ pp_chan p) (published ls) (PlLagged \<in> set ls))
      else \<not> pp_writer p \<and> bus_count (pp_bus p) = n \<and> sub_of i (pp_bus p) = None)"

lemma published_append: "published (ls @ ms) = published ls @ published ms"
  by (induction ls rule: published.induct) simp_all

lemma recv_sub: "bus_recv i b = Some (b', r) \<Longrightarrow> r \<noteq> RvWait \<Longrightarrow> sub_of i b' \<noteq> None"
  by (erule recv_cases) (cases r; auto)

lemma send_sub: "bus_wf b \<Longrightarrow> bus_count (fst (bus_send e b)) = bus_count b \<and>
    (sub_of i (fst (bus_send e b)) = None \<longleftrightarrow> sub_of i b = None)"
  by (simp add: bus_send_def sub_of_def find_map)

lemma bridge_end_ok:
  assumes "bus_wf (pp_bus p)" "if pp_bridge p then bus_count (pp_bus p) = n + 1 \<and> sub_of i (pp_bus p) \<noteq> None
      else bus_count (pp_bus p) = n \<and> sub_of i (pp_bus p) = None"
    and "subseq (pp_written p) (published ls)" "pp_chan p = []" "\<not> pp_writer p"
  shows "pipe_ok i n ls (bridge_end i p)"
  using assms console_close_ok[of "pp_bus p" i n] by (auto simp: pipe_ok_def bridge_end_def split: if_splits)

lemma subseq_snoc: "subseq xs ys \<Longrightarrow> subseq xs (ys @ zs)"
  by (metis prefixI prefix_imp_subseq subseq_order.order_trans)

lemma pipe_step_ok:
  assumes ok: "pipe_ok i n ls p" and "pipe_step i l p q"
  shows "pipe_ok i n (ls @ [l]) q"
proof -
  have wf: "bus_wf (pp_bus p)" and w: "subseq (pp_written p) (published ls)"
    and f: "pp_bridge p \<Longrightarrow> pp_writer p \<Longrightarrow>
      feed i (pp_bus p) (pp_written p @ pp_chan p) (published ls) (PlLagged \<in> set ls)"
    using ok by (auto simp: pipe_ok_def split: if_splits)
  note defs = pipe_ok_def published_append
  from assms(2) show ?thesis
  proof cases
    case (publish e)
    then show ?thesis using ok wf feed_send[OF f] send_sub[OF wf, of e] bus_send_wf[OF wf, of e]
      by (auto simp: defs display_publish_send subseq_snoc split: if_splits)
  next
    case (forward b e)
    then show ?thesis
      using ok feed_event[OF f forward(5)] bus_recv_wf[OF wf forward(5)] recv_sub[OF forward(5)] by (simp add: defs)
  next
    case (lagged b)
    then show ?thesis
      using ok feed_lagged[OF f lagged(4)] bus_recv_wf[OF wf lagged(4)] recv_sub[OF lagged(4)] by (simp add: defs)
  next
    case (flush e es)
    have b: "pp_bridge p" using ok flush(3) by (auto simp: pipe_ok_def split: if_splits)
    have "subseq (pp_written p @ e # es) (published ls)" using feed_subseq[OF f[OF b flush(3)]] flush(4) by simp
    then have "subseq (pp_written p @ [e]) (published ls)"
      by (metis append.assoc append_Cons append_Nil prefixI prefix_imp_subseq subseq_order.order_trans)
    then show ?thesis using ok flush b by (simp add: defs)
  next
    case (failed e es)
    then show ?thesis using ok by (simp add: defs split: if_splits)
  next
    case (gone b e)
    have "pipe_ok i n (ls @ [l]) (bridge_end i (p\<lparr>pp_bus := b\<rparr>))"
      using gone ok w bus_recv_wf[OF wf gone(5)] recv_sub[OF gone(5)]
      by (intro bridge_end_ok) (auto simp: defs)
    then show ?thesis using gone by simp
  next
    case closed
    have "pipe_ok i n (ls @ [l]) (bridge_end i (p\<lparr>pp_chan := [], pp_writer := False\<rparr>))"
      using closed ok w by (intro bridge_end_ok) (auto simp: defs split: if_splits)
    then show ?thesis using closed by simp
  qed
qed

lemma pipe_start_ok: "bus_wf b \<Longrightarrow> pipe_start b = (i, p) \<Longrightarrow> pipe_ok i (bus_count b) [] p"
  using bus_subscribe_wf[of b]
  by (auto simp: pipe_start_def pipe_ok_def feed_start split: prod.splits dest: feed_start[THEN feed_sub])
    (auto simp: bus_subscribe_def)

lemma pipe_run_ok:
  "bus_wf b \<Longrightarrow> pipe_start b = (i, p) \<Longrightarrow> lrun (pipe_step i) ls p q \<Longrightarrow> pipe_ok i (bus_count b) ls q"
  using lrun_invariant[of "pipe_step i" ls p q "pipe_ok i (bus_count b)"] pipe_start_ok pipe_step_ok by blast

text \<open>
  Delivery to a display, in any interleaving of publishing with the bridge, the writer, failing
  sends and the end of the connection: at every moment the events written to the socket are, in
  order and without repetition, a subsequence of those published since the display connected, and
  the channel does not exceed its capacity. While both tasks live and the subscription never
  lagged, the written events, the channel and the subscription's queue together are exactly the
  published events. Once the bridge has ended, which it has as soon as the connection is closed,
  its subscription is gone and the bus counts as many subscribers as before.
\<close>

lemma display_delivery:
  assumes "bus_wf b" "pipe_start b = (i, p)" "lrun (pipe_step i) ls p q"
  shows "subseq (pp_written q) (published ls) \<and> length (pp_chan q) \<le> WRITER_CAPACITY \<and>
    (pp_writer q \<longrightarrow> (\<exists>s. sub_of i (pp_bus q) = Some s \<and>
       (sub_lagged s \<or> PlLagged \<in> set ls \<or> pp_written q @ pp_chan q @ sub_queue s = published ls))) \<and>
    (\<not> pp_bridge q \<longrightarrow> sub_of i (pp_bus q) = None \<and> bus_count (pp_bus q) = bus_count b) \<and>
    (\<forall>r. pipe_step i PlClose q r \<longrightarrow> \<not> pp_bridge r)"
proof -
  have ok: "pipe_ok i (bus_count b) ls q" by (rule pipe_run_ok[OF assms])
  then have "pp_writer q \<longrightarrow> feed i (pp_bus q) (pp_written q @ pp_chan q) (published ls) (PlLagged \<in> set ls)"
    by (auto simp: pipe_ok_def split: if_splits)
  then show ?thesis using ok
    by (auto simp: pipe_ok_def feed_def bridge_end_def split: if_splits elim!: pipe_stepE)
qed

text \<open>A display that is sent one event.\<close>

lemma demo_pipe:
  obtains i p q r where "pipe_start display_bus_new = (i, p)"
    "lrun (pipe_step i) [PlPublish (demo_event ''p'')] p q" "lrun (pipe_step i) [PlForward, PlWrite] q r"
    "pp_written r = [demo_event ''p'']" "pp_writer q"
proof -
  let ?e = "demo_event ''p''"
  obtain i p where p: "pipe_start display_bus_new = (i, p)" by fastforce
  let ?b = "fst (display_publish ?e (pp_bus p))"
  have i: "i = 0" "pp_chan p = []" "pp_written p = []" "pp_writer p" "pp_bridge p"
    using p by (auto simp: pipe_start_def display_bus_new_def bus_subscribe_def bus_new_def)
  obtain b' where r: "bus_recv i ?b = Some (b', RvEvent ?e)"
    using p by (auto simp: pipe_start_def display_bus_new_def bus_subscribe_def bus_new_def bus_recv_def
        display_publish_def bus_send_def sub_push_def Let_def)
  let ?q = "p\<lparr>pp_bus := ?b\<rparr>" and ?m = "p\<lparr>pp_bus := b', pp_chan := [?e]\<rparr>"
    and ?r = "p\<lparr>pp_bus := b', pp_chan := [], pp_written := [?e]\<rparr>"
  have 1: "pipe_step i (PlPublish ?e) p ?q" by (rule pipe_step.publish)
  have 2: "pipe_step i PlForward ?q ?m"
    using pipe_step.forward[of ?q i b' ?e] r i by (simp add: WRITER_CAPACITY_def)
  have 3: "pipe_step i PlWrite ?m ?r" using pipe_step.flush[of ?m ?e "[]" i] i by simp
  have "lrun (pipe_step i) [PlPublish ?e] p ?q" by (rule lrun_Cons, rule 1, rule lrun_refl)
  moreover have "lrun (pipe_step i) [PlForward, PlWrite] ?q ?r"
    by (rule lrun_Cons, rule 2, rule lrun_Cons, rule 3, rule lrun_refl)
  ultimately show thesis using p that i(4) by simp
qed

lemma display_bus_new_wf: "bus_wf display_bus_new"
  by (simp add: display_bus_new_def bus_new_wf)

theorem display_delivery_witness:
  "\<exists>i p q. pipe_start display_bus_new = (i, p) \<and>
     lrun (pipe_step i) [PlPublish (demo_event ''p''), PlForward, PlWrite] p q \<and>
     subseq (pp_written q) [demo_event ''p''] \<and> pp_written q = [demo_event ''p'']"
proof -
  obtain i p q r where d: "pipe_start display_bus_new = (i, p)"
    "lrun (pipe_step i) [PlPublish (demo_event ''p'')] p q" "lrun (pipe_step i) [PlForward, PlWrite] q r"
    "pp_written r = [demo_event ''p'']" by (rule demo_pipe)
  have run: "lrun (pipe_step i) [PlPublish (demo_event ''p''), PlForward, PlWrite] p r"
    using lrun_append[OF d(3,2)] by simp
  show ?thesis using display_delivery[OF display_bus_new_wf d(1) run] d(1,4) run by auto
qed

section \<open>Nothing stays behind\<close>

text \<open>The steps of the two tasks of a connection that lives.\<close>

fun is_task :: "pipe_label \<Rightarrow> bool" where
  "is_task PlForward = True"
| "is_task PlLagged = True"
| "is_task PlWrite = True"
| "is_task _ = False"

definition pipe_work :: "nat \<Rightarrow> pipe \<Rightarrow> nat" where
  "pipe_work i p = backlog i (pp_bus p) + length (pp_chan p)"

lemma published_none: "list_all is_task ls \<Longrightarrow> published ls = []"
  by (induction ls rule: published.induct) simp_all

lemma pipe_step_work:
  "pipe_step i l p q \<Longrightarrow> is_task l \<Longrightarrow>
     pp_writer q = pp_writer p \<and> pp_bridge q = pp_bridge p \<and> pipe_work i q < pipe_work i p"
  by (erule pipe_stepE) (auto simp: pipe_work_def dest: backlog_event backlog_lagged)

lemma pipe_step_ready:
  assumes "pp_writer p" "pp_bridge p" "pipe_work i p \<noteq> 0"
  shows "\<exists>l q. is_task l \<and> pipe_step i l p q"
proof (cases "pp_chan p")
  case (Cons e es)
  then show ?thesis using pipe_step.flush[OF assms(1)] is_task.simps(3) by blast
next
  case Nil
  then have "backlog i (pp_bus p) \<noteq> 0" using assms(3) by (simp add: pipe_work_def)
  then show ?thesis
  proof (cases rule: backlog_ready)
    case (1 b)
    then show ?thesis using pipe_step.lagged[OF assms(2)] is_task.simps(2) by blast
  next
    case (2 b e)
    then have "pipe_step i PlForward p (p\<lparr>pp_bus := b, pp_chan := pp_chan p @ [e]\<rparr>)"
      using Nil assms(1,2) by (intro pipe_step.forward) (simp_all add: WRITER_CAPACITY_def)
    then show ?thesis using is_task.simps(1) by blast
  qed
qed

text \<open>
  C16: Nothing stays behind: while a display is connected and publishing pauses, its two tasks can
  take only boundedly many steps, at most two for each queued event, one for a pending lag and one
  for each event in the channel; as long as anything is queued or waiting one of them can move;
  and when neither can, everything has been written, which is exactly what was published unless
  the subscription lagged.
\<close>

theorem display_drains:
  assumes "bus_wf b" "pipe_start b = (i, p)" "lrun (pipe_step i) ls p q"
    and "pp_writer q" "lrun (pipe_step i) ms q r" "list_all is_task ms"
  shows "length ms \<le> pipe_work i q \<and>
    ((\<exists>l r'. is_task l \<and> pipe_step i l r r') \<or>
     pp_chan r = [] \<and> backlog i (pp_bus r) = 0 \<and>
       (PlLagged \<in> set (ls @ ms) \<or> pp_written r = published ls))"
proof -
  have "pipe_ok i (bus_count b) ls q" by (rule pipe_run_ok[OF assms(1-3)])
  then have alive: "pp_writer q \<and> pp_bridge q" using assms(4) by (simp add: pipe_ok_def split: if_splits)
  have bounded: "length ms + pipe_work i r \<le> pipe_work i q" "pp_writer r \<and> pp_bridge r"
    using lrun_bounded[where Q = "\<lambda>l. \<not> is_task l" and I = "\<lambda>p. pp_writer p \<and> pp_bridge p"
        and m = "pipe_work i", OF assms(5) _ alive] pipe_step_work assms(6)
    by (auto simp: list_all_iff list_ex_iff)
  have "pp_chan r = [] \<and> backlog i (pp_bus r) = 0 \<and>
      (PlLagged \<in> set (ls @ ms) \<or> pp_written r = published ls)" if "pipe_work i r = 0"
  proof -
    have "pipe_ok i (bus_count b) (ls @ ms) r"
      by (rule pipe_run_ok[OF assms(1,2) lrun_append[OF assms(5,3)]])
    then show ?thesis using that feed_done[of i "pp_bus r"] assms(6) bounded(2)
      by (cases "PlLagged \<in> set (ls @ ms)")
        (auto simp: pipe_ok_def pipe_work_def published_append published_none)
  qed
  then show ?thesis using bounded pipe_step_ready by fastforce
qed

theorem display_drains_witness:
  "\<exists>i p q r. pipe_start display_bus_new = (i, p) \<and>
     lrun (pipe_step i) [PlPublish (demo_event ''p'')] p q \<and> lrun (pipe_step i) [PlForward, PlWrite] q r \<and>
     2 \<le> pipe_work i q"
proof -
  obtain i p q r where d: "pipe_start display_bus_new = (i, p)"
    "lrun (pipe_step i) [PlPublish (demo_event ''p'')] p q" "lrun (pipe_step i) [PlForward, PlWrite] q r"
    "pp_writer q" by (rule demo_pipe)
  have "list_all is_task [PlForward, PlWrite]" by simp
  from display_drains[OF display_bus_new_wf d(1,2,4,3) this] d show ?thesis by auto
qed

end
