(* ===== verification/DisplayAuth.thy ===== *)
theory DisplayAuth
  imports Text
begin

text \<open>
  The token of the display endpoint (message-center/src/display_auth.rs): its generation, its
  file and the states a write takes it through, the comparison, rotation, and the test for a
  peer on the same host. Random bytes, the faults of the file system and the list of interfaces
  are arguments.
\<close>

section \<open>Hexadecimal tokens\<close>

definition TOKEN_BYTES :: nat where
  "TOKEN_BYTES = 32"

fun hex_encode :: "u8 list \<Rightarrow> string" where
  "hex_encode [] = []"
| "hex_encode (b # bs) =
     digit_lower (unat (drop_bit 4 b)) # digit_lower (unat (and b 15)) # hex_encode bs"

definition is_valid_hex :: "string \<Rightarrow> bool" where
  "is_valid_hex s \<longleftrightarrow> length s = TOKEN_BYTES * 2 \<and> list_all is_ascii_hexdigit s"

definition generate_token_string :: "u8 list \<Rightarrow> string" where
  "generate_token_string random = hex_encode random"

section \<open>The token file\<close>

text \<open>The token file and the temporary file beside it.\<close>

record token_fs =
  tk_file :: "string option"
  tk_tmp :: "string option"

text \<open>
  Where a write can fail: creating the directory, after some bytes of the temporary file, setting
  its mode, renaming it.
\<close>

datatype write_fault = WfMkdir | WfWrite nat | WfChmod | WfRename

definition write_token_file :: "write_fault option \<Rightarrow> string \<Rightarrow> token_fs \<Rightarrow> (write_fault + unit) \<times> token_fs" where
  "write_token_file fault content fs =
     (case fault of
        Some WfMkdir \<Rightarrow> (Inl WfMkdir, fs)
      | Some (WfWrite n) \<Rightarrow> (Inl (WfWrite n), fs\<lparr>tk_tmp := Some (take n content)\<rparr>)
      | Some WfChmod \<Rightarrow> (Inl WfChmod, fs\<lparr>tk_tmp := Some content\<rparr>)
      | Some WfRename \<Rightarrow> (Inl WfRename, fs\<lparr>tk_tmp := Some content\<rparr>)
      | None \<Rightarrow> (Inr (), fs\<lparr>tk_file := Some content, tk_tmp := None\<rparr>))"

text \<open>The states a complete write goes through, in order; a crash leaves one of them.\<close>

definition write_states :: "string \<Rightarrow> token_fs \<Rightarrow> token_fs list" where
  "write_states content fs =
     fs # map (\<lambda>n. fs\<lparr>tk_tmp := Some (take n content)\<rparr>) [0..<length content + 1] @
     [snd (write_token_file None content fs)]"

section \<open>The authenticator\<close>

record display_auth =
  au_fs :: token_fs
  au_current :: string

datatype auth_error = AeEmpty | AeNotHex | AeWrite write_fault | AeRead

text \<open>\<open>unreadable\<close>: reading the file fails with an error other than its absence.\<close>

definition load_or_generate ::
  "bool \<Rightarrow> write_fault option \<Rightarrow> u8 list \<Rightarrow> token_fs \<Rightarrow> (auth_error + display_auth) \<times> token_fs" where
  "load_or_generate unreadable fault random fs =
     (if unreadable then (Inl AeRead, fs)
      else (case tk_file fs of
              Some raw \<Rightarrow>
                (let s = trim raw
                 in if s = [] then (Inl AeEmpty, fs)
                    else if \<not> is_valid_hex s then (Inl AeNotHex, fs)
                    else (Inr \<lparr>au_fs = fs, au_current = s\<rparr>, fs))
            | None \<Rightarrow>
                (let s = generate_token_string random
                 in (case write_token_file fault s fs of
                       (Inl e, fs') \<Rightarrow> (Inl (AeWrite e), fs')
                     | (Inr _, fs') \<Rightarrow> (Inr \<lparr>au_fs = fs', au_current = s\<rparr>, fs')))))"

definition str_bytes :: "string \<Rightarrow> u8 list" where
  "str_bytes s = map (\<lambda>c. of_nat (of_char c)) s"

text \<open>The loop accumulates the bitwise differences of all bytes.\<close>

fun xor_fold :: "u8 \<Rightarrow> (u8 \<times> u8) list \<Rightarrow> u8" where
  "xor_fold diff [] = diff"
| "xor_fold diff ((a, b) # ps) = xor_fold (or diff (xor a b)) ps"

definition verify :: "display_auth \<Rightarrow> string \<Rightarrow> bool" where
  "verify au candidate =
     (let cur = str_bytes (au_current au); cand = str_bytes candidate
      in if length cand \<noteq> length cur then False
         else xor_fold 0 (zip cur cand) = 0)"

definition rotate_token ::
  "write_fault option \<Rightarrow> u8 list \<Rightarrow> display_auth \<Rightarrow> (write_fault + string) \<times> display_auth" where
  "rotate_token fault random au =
     (let s = generate_token_string random
      in case write_token_file fault s (au_fs au) of
           (Inl e, fs') \<Rightarrow> (Inl e, au\<lparr>au_fs := fs'\<rparr>)
         | (Inr _, fs') \<Rightarrow> (Inr s, au\<lparr>au_fs := fs', au_current := s\<rparr>))"

definition revoke_token ::
  "write_fault option \<Rightarrow> u8 list \<Rightarrow> display_auth \<Rightarrow> (write_fault + string) \<times> display_auth" where
  "revoke_token = rotate_token"

section \<open>Peers on the same host\<close>

datatype ip_addr = Ipv4 u32 | Ipv6 "128 word"

fun is_loopback :: "ip_addr \<Rightarrow> bool" where
  "is_loopback (Ipv4 a) = (drop_bit 24 a = 127)"
| "is_loopback (Ipv6 a) = (a = 1)"

text \<open>An interface: whether it is up, whether it is a loopback, its address if it is IPv4 or IPv6.\<close>

record iface =
  if_up :: bool
  if_loopback :: bool
  if_address :: "ip_addr option"

definition get_local_addrs :: "iface list option \<Rightarrow> ip_addr list option" where
  "get_local_addrs = map_option (\<lambda>is.
     List.map_filter (\<lambda>i. if \<not> if_up i \<or> if_loopback i then None else if_address i) is)"

definition is_same_host :: "iface list option \<Rightarrow> ip_addr \<Rightarrow> bool" where
  "is_same_host ifs ip =
     (if is_loopback ip then True
      else (case get_local_addrs ifs of None \<Rightarrow> False | Some addrs \<Rightarrow> ip \<in> set addrs))"

text \<open>The upgrade of \<open>/ws/display\<close> (display_ws.rs): accepted, or refused with 401.\<close>

datatype upgrade = Upgraded | Refused nat string

definition ws_display_upgrade :: "display_auth \<Rightarrow> iface list option \<Rightarrow> ip_addr \<Rightarrow> string \<Rightarrow> upgrade" where
  "ws_display_upgrade au ifs peer token =
     (if is_same_host ifs peer then Upgraded
      else if \<not> verify au token then Refused 401 ''bad display token''
      else Upgraded)"

section \<open>Lemmas\<close>

lemma str_bytes_inj: "str_bytes s = str_bytes t \<longleftrightarrow> s = t"
proof -
  have "inj (\<lambda>c :: char. of_nat (of_char c) :: u8)"
  proof (rule injI)
    fix c d :: char
    assume "(of_nat (of_char c) :: u8) = of_nat (of_char d)"
    then have "(of_char c :: nat) mod 2 ^ 8 = of_char d mod 2 ^ 8"
      by (simp add: word_of_nat_eq_iff take_bit_eq_mod)
    moreover have "(of_char e :: nat) < 2 ^ 8" for e :: char by simp
    ultimately have "(of_char c :: nat) = of_char d" by simp
    then show "c = d" by simp
  qed
  then show ?thesis unfolding str_bytes_def by (rule inj_map_eq_map)
qed

lemma or_zero_iff: "or (a :: u8) b = 0 \<longleftrightarrow> a = 0 \<and> b = 0"
  by (auto simp: bit_eq_iff bit_or_iff)

lemma xor_zero_iff: "xor (a :: u8) b = 0 \<longleftrightarrow> a = b"
  by (auto simp: bit_eq_iff bit_xor_iff)

lemma xor_fold_zero: "xor_fold d ps = 0 \<longleftrightarrow> d = 0 \<and> (\<forall>(a, b) \<in> set ps. a = b)"
  by (induction d ps rule: xor_fold.induct) (auto simp: or_zero_iff xor_zero_iff)

lemma zip_all_equal: "length xs = length ys \<Longrightarrow> (\<forall>(a, b) \<in> set (zip xs ys). a = b) \<longleftrightarrow> xs = ys"
  by (induction xs ys rule: list_induct2) auto

lemma verify_eq: "verify au c \<longleftrightarrow> c = au_current au"
proof (cases "length c = length (au_current au)")
  case True
  then have "length (str_bytes (au_current au)) = length (str_bytes c)" by (simp add: str_bytes_def)
  then show ?thesis
    by (auto simp: verify_def Let_def xor_fold_zero zip_all_equal str_bytes_inj)
next
  case False
  then show ?thesis by (auto simp: verify_def str_bytes_def)
qed

lemma nibbles: "unat (drop_bit 4 b) < 16" "unat (and b 15) < 16" for b :: u8
proof -
  show "unat (drop_bit 4 b) < 16"
    using unat_u8_div[of b] unfolding unat_drop_bit_eq by (simp add: drop_bit_eq_div)
  have "and b 15 = take_bit 4 b" by (simp add: take_bit_eq_mask mask_eq_exp_minus_1)
  then show "unat (and b 15) < 16" by (simp only: unsigned_take_bit_eq) (simp add: take_bit_eq_mod)
qed

lemma nibbles_inj: "drop_bit 4 a = drop_bit 4 b \<Longrightarrow> and a 15 = and b 15 \<Longrightarrow> a = (b :: u8)"
proof -
  assume h: "drop_bit 4 a = drop_bit 4 b" and l: "and a 15 = and b 15"
  have "and x 15 = take_bit 4 x" for x :: u8 by (simp add: take_bit_eq_mask mask_eq_exp_minus_1)
  then have "push_bit 4 (drop_bit 4 a) + take_bit 4 a = push_bit 4 (drop_bit 4 b) + take_bit 4 b"
    using h l by simp
  then show "a = b" by (simp only: bits_ident)
qed

lemma digit_lower_inj: "m < 16 \<Longrightarrow> n < 16 \<Longrightarrow> digit_lower m = digit_lower n \<longleftrightarrow> m = n"
  using hex_digit_props(2) by (metis option.inject)

lemma hex_encode_length: "length (hex_encode bs) = 2 * length bs"
  by (induction bs rule: hex_encode.induct) simp_all

lemma hex_encode_digits: "list_all is_ascii_hexdigit (hex_encode bs)"
  by (induction bs rule: hex_encode.induct)
    (simp_all add: is_ascii_hexdigit_def hex_digit_props(2) nibbles)

lemma hex_encode_inj: "hex_encode as = hex_encode bs \<longleftrightarrow> as = bs"
proof
  show "hex_encode as = hex_encode bs \<Longrightarrow> as = bs"
  proof (induction as arbitrary: bs)
    case Nil
    then show ?case by (cases bs) simp_all
  next
    case (Cons a as)
    then obtain b bs' where b: "bs = b # bs'" by (cases bs) simp_all
    then have "drop_bit 4 a = drop_bit 4 b" "and a 15 = and b 15"
      using Cons.prems by (simp_all add: digit_lower_inj nibbles word_unat_eq_iff)
    then have "a = b" by (rule nibbles_inj)
    then show ?case using Cons b by simp
  qed
qed simp

lemma token_valid: "length r = TOKEN_BYTES \<Longrightarrow> is_valid_hex (generate_token_string r)"
  by (simp add: is_valid_hex_def generate_token_string_def hex_encode_length hex_encode_digits)

lemma hexdigit_not_space: "is_ascii_hexdigit c \<Longrightarrow> \<not> is_space c"
proof -
  have "\<forall>c \<in> {CHR '' '', CHR 0x09, CHR 0x0A, CHR 0x0B, CHR 0x0C, CHR 0x0D}. \<not> is_ascii_hexdigit c"
    by code_simp
  then show "is_ascii_hexdigit c \<Longrightarrow> \<not> is_space c" unfolding is_space_def by blast
qed

lemma dropWhile_none: "(\<And>x. x \<in> set xs \<Longrightarrow> \<not> P x) \<Longrightarrow> dropWhile P xs = xs"
  by (cases xs) simp_all

lemma trim_valid: "is_valid_hex s \<Longrightarrow> trim s = s"
proof -
  assume "is_valid_hex s"
  then have "c \<in> set s \<Longrightarrow> \<not> is_space c" for c
    by (auto simp: is_valid_hex_def list_all_iff hexdigit_not_space)
  then have "dropWhile is_space s = s" "dropWhile is_space (rev s) = rev s"
    by (auto intro: dropWhile_none)
  then show "trim s = s" by (simp add: trim_def)
qed


text \<open>
  C25: Rotating the token. When it succeeds the new token, 64 hexadecimal digits, is the only one
  accepted, the old one is refused unless the random bytes repeat it, and a restart loads exactly
  the new one from the file; when the write fails at any stage the old token stays the accepted
  one and the token file is unchanged. In every state the file system passes through during the
  write the token file holds the old content or the whole new token.
\<close>

theorem token_rotation:
  assumes "length random = TOKEN_BYTES"
  shows "(case rotate_token fault random au of
      (Inr s, au') \<Rightarrow>
        fault = None \<and> is_valid_hex s \<and> (\<forall>c. verify au' c \<longleftrightarrow> c = s) \<and>
        (\<forall>old. au_current au = hex_encode old \<longrightarrow> old \<noteq> random \<longrightarrow> \<not> verify au' (au_current au)) \<and>
        load_or_generate False f r (au_fs au') = (Inr au', au_fs au')
    | (Inl e, au') \<Rightarrow>
        fault = Some e \<and> au_current au' = au_current au \<and> tk_file (au_fs au') = tk_file (au_fs au)) \<and>
    (\<forall>fs \<in> set (write_states (generate_token_string random) (au_fs au)).
        tk_file fs = tk_file (au_fs au) \<or> tk_file fs = Some (generate_token_string random))"
proof
  let ?s = "generate_token_string random"
  have v: "is_valid_hex ?s" by (rule token_valid[OF assms])
  have s: "trim ?s = ?s" "?s \<noteq> []"
    using trim_valid[OF v] v by (auto simp: is_valid_hex_def TOKEN_BYTES_def)
  have n: "hex_encode old = ?s \<longleftrightarrow> old = random" for old
    by (simp add: generate_token_string_def hex_encode_inj)
  show "case rotate_token fault random au of
      (Inr s, au') \<Rightarrow>
        fault = None \<and> is_valid_hex s \<and> (\<forall>c. verify au' c \<longleftrightarrow> c = s) \<and>
        (\<forall>old. au_current au = hex_encode old \<longrightarrow> old \<noteq> random \<longrightarrow> \<not> verify au' (au_current au)) \<and>
        load_or_generate False f r (au_fs au') = (Inr au', au_fs au')
    | (Inl e, au') \<Rightarrow>
        fault = Some e \<and> au_current au' = au_current au \<and> tk_file (au_fs au') = tk_file (au_fs au)"
    using v s n
    by (cases fault; cases "the fault")
      (auto simp: rotate_token_def Let_def write_token_file_def verify_eq load_or_generate_def)
  show "\<forall>fs \<in> set (write_states ?s (au_fs au)).
      tk_file fs = tk_file (au_fs au) \<or> tk_file fs = Some ?s"
    by (auto simp: write_states_def write_token_file_def)
qed

theorem token_rotation_witness:
  "\<exists>au'. rotate_token None (replicate 32 171) \<lparr>au_fs = \<lparr>tk_file = Some (hex_encode (replicate 32 7)), tk_tmp = None\<rparr>,
       au_current = hex_encode (replicate 32 7)\<rparr> = (Inr (hex_encode (replicate 32 171)), au') \<and>
     \<not> verify au' (hex_encode (replicate 32 7))"
proof -
  let ?r = "replicate 32 171 :: u8 list" and ?o = "replicate 32 7 :: u8 list"
  let ?au = "\<lparr>au_fs = \<lparr>tk_file = Some (hex_encode ?o), tk_tmp = None\<rparr>, au_current = hex_encode ?o\<rparr>"
  have l: "length ?r = TOKEN_BYTES" by (simp add: TOKEN_BYTES_def)
  obtain au' where a: "rotate_token None ?r ?au = (Inr (hex_encode ?r), au')"
    by (simp add: rotate_token_def generate_token_string_def write_token_file_def Let_def)
  have "?o \<noteq> ?r" by (simp only: replicate_eq_replicate) simp
  then have "\<not> verify au' (hex_encode ?o)"
    using token_rotation[OF l, of None ?au "None" "[]"] unfolding a by (auto simp: hex_encode_inj)
  then show ?thesis using a by blast
qed

end
