(* ===== verification/System.thy ===== *)
theory System
  imports DisplayWs DisplayAuth
begin

text \<open>
  The message-center as a whole: the connections of phones, the console's requests, the actions
  of displays and the subscribers of the buses as steps on the shared state, in any interleaving,
  and what holds in every state they reach.
\<close>

datatype label =
    LRequest request
  | LMessage envelope
  | LAction display_action
  | LAccepted
  | LClosed
  | LConsoleJoin
  | LConsoleLeave nat
  | LConsoleRead nat
  | LDisplayJoin
  | LDisplayLeave nat
  | LDisplayRead nat

definition app_init :: "ws_cfg \<Rightarrow> string \<Rightarrow> app" where
  "app_init W fp = \<lparr>a_net = \<lparr>n_pairing = [], n_pending = [], n_registry = [], n_hist = [],
     n_sink = \<lparr>cn_db = db_empty, cn_console = console_bus_new, cn_display = display_bus_new\<rparr>\<rparr>,
     a_pins = [], a_cfg = W, a_fingerprint = fp\<rparr>"

definition app_console :: "(console_bus \<Rightarrow> console_bus) \<Rightarrow> app \<Rightarrow> app" where
  "app_console f s = s\<lparr>a_net := (a_net s)\<lparr>n_sink := (n_sink (a_net s))
     \<lparr>cn_console := f (cn_console (n_sink (a_net s)))\<rparr>\<rparr>\<rparr>"

definition app_display :: "(display_bus \<Rightarrow> display_bus) \<Rightarrow> app \<Rightarrow> app" where
  "app_display f s = s\<lparr>a_net := (a_net s)\<lparr>n_sink := (n_sink (a_net s))
     \<lparr>cn_display := f (cn_display (n_sink (a_net s)))\<rparr>\<rparr>\<rparr>"

text \<open>
  One step: a request of the console is answered, a message of a phone is handled on some
  connection, a connection is accepted or cleaned up after, a subscriber joins, takes what is queued
  for it, or leaves.
\<close>

inductive sys_step :: "envelope ext \<Rightarrow> label \<Rightarrow> app \<Rightarrow> app \<Rightarrow> bool" for X where
  request: "rest_step X t s q = Done (r, s') \<Longrightarrow> sys_step X (LRequest q) s s'"
| message: "handle_envelope X (a_cfg s) (center_sink X) t e cx (a_net s) = Done (cx', n') \<Longrightarrow>
    sys_step X (LMessage e) s (s\<lparr>a_net := n'\<rparr>)"
| action: "sys_step X (LAction a) s (handle_display_action X D t s a)"
| accepted: "sys_step X LAccepted s (s\<lparr>a_net := send_hello X (a_cfg s) t cx (a_net s)\<rparr>)"
| closed: "sys_step X LClosed s (s\<lparr>a_net := cleanup (center_sink X) t cx (a_net s)\<rparr>)"
| console_join: "sys_step X LConsoleJoin s (app_console (\<lambda>b. fst (bus_subscribe b)) s)"
| console_leave: "i \<in> sub_id ` set (bus_subs (cn_console (n_sink (a_net s)))) \<Longrightarrow>
    sys_step X (LConsoleLeave i) s (app_console (bus_drop i) s)"
| display_join: "sys_step X LDisplayJoin s (app_display (\<lambda>b. fst (bus_subscribe b)) s)"
| display_leave: "i \<in> sub_id ` set (bus_subs (cn_display (n_sink (a_net s)))) \<Longrightarrow>
    sys_step X (LDisplayLeave i) s (app_display (bus_drop i) s)"
| console_read: "bus_recv i (cn_console (n_sink (a_net s))) = Some (b, r) \<Longrightarrow>
    sys_step X (LConsoleRead i) s (app_console (\<lambda>_. b) s)"
| display_read: "bus_recv i (cn_display (n_sink (a_net s))) = Some (b', r') \<Longrightarrow>
    sys_step X (LDisplayRead i) s (app_display (\<lambda>_. b') s)"

inductive sys_run :: "envelope ext \<Rightarrow> label list \<Rightarrow> app \<Rightarrow> app \<Rightarrow> bool" for X where
  refl: "sys_run X [] s s"
| step: "sys_run X ls s s' \<Longrightarrow> sys_step X l s' s'' \<Longrightarrow> sys_run X (ls @ [l]) s s''"

inductive_cases sys_stepE: "sys_step X l s s'"

section \<open>The database of an unpaired center\<close>

definition db_unpaired :: "db \<Rightarrow> bool" where
  "db_unpaired d \<longleftrightarrow> t_pairings d = [] \<and> (\<forall>r \<in> set (t_devices d). \<not> dr_paired r)"

lemma upsert_unpaired:
  "upsert_device d r = Inr d' \<Longrightarrow> \<not> dr_paired r \<Longrightarrow> db_unpaired d \<Longrightarrow> db_unpaired d'"
  by (auto simp: upsert_device_def insert_device_def update_device_def db_unpaired_def
      split: if_splits option.splits)

lemma other_unpaired:
  "remove_device d u = Inr d' \<Longrightarrow> db_unpaired d \<Longrightarrow> db_unpaired d'"
  "touch_device d u seen = Inr d' \<Longrightarrow> db_unpaired d \<Longrightarrow> db_unpaired d'"
  "insert_notification d n = Inr d' \<Longrightarrow> db_unpaired d \<Longrightarrow> db_unpaired d'"
  "mark_notification_read d u i = Inr d' \<Longrightarrow> db_unpaired d \<Longrightarrow> db_unpaired d'"
  "insert_sms d m = Inr d' \<Longrightarrow> db_unpaired d \<Longrightarrow> db_unpaired d'"
  "insert_call d c = Inr (d', k) \<Longrightarrow> db_unpaired d \<Longrightarrow> db_unpaired d'"
  "insert_audit_log d ts dev ev det = Inr d' \<Longrightarrow> db_unpaired d \<Longrightarrow> db_unpaired d'"
  by (auto simp: remove_device_def touch_device_def insert_notification_def
      mark_notification_read_def insert_sms_def insert_call_def insert_audit_log_def
      db_unpaired_def split: if_splits)

lemma dismiss_unpaired:
  "dismiss_notification d u i = Inr (d', r) \<Longrightarrow> db_unpaired d \<Longrightarrow> db_unpaired d'"
  by (auto simp: dismiss_notification_def db_unpaired_def split: if_splits)

lemma db_apply_unpaired:
  "db_unpaired (cn_db c) \<Longrightarrow> (\<And>d d'. f d = Inr d' \<Longrightarrow> db_unpaired d \<Longrightarrow> db_unpaired d') \<Longrightarrow>
     db_unpaired (cn_db (db_apply f c))"
  "db_unpaired (cn_db c) \<Longrightarrow> (\<And>d d' k. g d = Inr (d', k) \<Longrightarrow> db_unpaired d \<Longrightarrow> db_unpaired d') \<Longrightarrow>
     db_unpaired (cn_db (db_apply_id g c))"
  by (auto split: sum.split prod.split)

lemma audit_unpaired: "db_unpaired (cn_db c) \<Longrightarrow> db_unpaired (cn_db (center_audit now d ev det c))"
  unfolding center_audit_def by (rule db_apply_unpaired(1)) (assumption, erule (1) other_unpaired)

lemma touch_unpaired: "db_unpaired (cn_db c) \<Longrightarrow> db_unpaired (cn_db (center_touch now d c))"
  unfolding center_touch_def by (rule db_apply_unpaired(1)) (assumption, erule (1) other_unpaired)

lemma hello_unpaired: "db_unpaired (cn_db c) \<Longrightarrow> db_unpaired (cn_db (on_hello t e d h c))"
  unfolding on_hello_def publish_db
  by (intro audit_unpaired touch_unpaired db_apply_unpaired(1)) (assumption, erule upsert_unpaired, simp_all)

lemma history_unpaired: "db_unpaired (cn_db c) \<Longrightarrow> db_unpaired (cn_db (on_call_history t e d h c))"
  unfolding on_call_history_def
  by (rule fold_ok[where ok = "\<lambda>c. db_unpaired (cn_db c)"])
    (rule db_apply_unpaired(2), assumption, erule (1) other_unpaired)

lemma sms_list_unpaired: "db_unpaired (cn_db c) \<Longrightarrow> db_unpaired (cn_db (on_sms_list_result t e d r c))"
  unfolding on_sms_list_result_def publish_db
  by (rule fold_ok[where ok = "\<lambda>c. db_unpaired (cn_db c)"])
    (rule db_apply_unpaired(1), assumption, erule (1) other_unpaired)

lemma single_unpaired:
  "db_unpaired (cn_db c) \<Longrightarrow> db_unpaired (cn_db (on_notification t e d n c))"
  "db_unpaired (cn_db c) \<Longrightarrow> db_unpaired (cn_db (on_notification_dismissed t e d nd c))"
  "db_unpaired (cn_db c) \<Longrightarrow> db_unpaired (cn_db (on_sms_received t e d m c))"
  unfolding on_notification_def on_notification_dismissed_def on_sms_received_def publish_db
  by (rule db_apply_unpaired(1), assumption, erule (1) other_unpaired)+

lemma call_unpaired:
  "db_unpaired (cn_db c) \<Longrightarrow> db_unpaired (cn_db (on_call_state t e d cs c))"
  "db_unpaired (cn_db c) \<Longrightarrow> db_unpaired (cn_db (on_call_incoming t e d ci c))"
  unfolding on_call_state_def on_call_incoming_def publish_db
  by (rule db_apply_unpaired(2), assumption, erule (1) other_unpaired)+

lemma end_unpaired:
  "db_unpaired (cn_db c) \<Longrightarrow> db_unpaired (cn_db (on_unpair t e d u c))"
  "db_unpaired (cn_db c) \<Longrightarrow> db_unpaired (cn_db (on_disconnect t d c))"
  unfolding on_unpair_def on_disconnect_def
  by (rule db_apply_unpaired(1), erule audit_unpaired, erule (1) other_unpaired)
    (intro audit_unpaired touch_unpaired)

interpretation unpaired: ws_sink "center_sink X" "\<lambda>c. db_unpaired (cn_db c)" for X
  by unfold_locales (simp_all add: center_sink_def hello_unpaired history_unpaired sms_list_unpaired
    single_unpaired call_unpaired end_unpaired on_sms_send_result_def)

section \<open>The invariant of the system\<close>

definition app_ok :: "app \<Rightarrow> bool" where
  "app_ok s \<longleftrightarrow> center_ok (n_sink (a_net s)) \<and> db_unpaired (app_db s) \<and>
     sessions_ok (n_pairing (a_net s)) \<and> hm_wf (n_registry (a_net s)) \<and> a_pins s = []"

lemma app_init_ok: "app_ok (app_init W fp)"
  by (simp add: app_ok_def app_init_def center_ok_def db_empty_wf console_bus_new_def
      display_bus_new_def bus_new_wf app_db_def sessions_ok_def)
    (simp add: db_unpaired_def db_empty_def)

lemma set_db_ok:
  "app_ok s \<Longrightarrow> db_wf d \<Longrightarrow> hw_unique d \<Longrightarrow> db_unpaired d \<Longrightarrow> app_ok (app_set_db s d)"
  by (simp add: app_ok_def center_ok_def) (simp add: app_set_db_def)

lemma set_net_ok [simp]:
  "app_ok (app_set_hist s h) = app_ok s" "app_ok (app_set_pending s p) = app_ok s"
  by (simp_all add: app_ok_def) (simp_all add: app_set_hist_def app_set_pending_def)

lemma set_pairing_ok: "app_ok s \<Longrightarrow> sessions_ok m \<Longrightarrow> app_ok (app_set_pairing s m)"
  by (simp add: app_ok_def) (simp add: app_set_pairing_def)

lemma app_ok_db: "app_ok s \<Longrightarrow> db_wf (app_db s) \<and> hw_unique (app_db s) \<and> db_unpaired (app_db s)"
  by (simp add: app_ok_def center_ok_def app_db_def)

lemma write_ok:
  "app_ok s \<Longrightarrow> db_write (app_db s) d \<Longrightarrow> db_unpaired d \<Longrightarrow> app_ok (app_set_db s d)"
  using db_write_inv app_ok_db by (blast intro: set_db_ok)

lemma sessions_insert: "sessions_ok m \<Longrightarrow> session_ok d x \<Longrightarrow> sessions_ok (pairing_insert d x m)"
  by (auto simp: sessions_ok_def pairing_insert_def)

lemma sessions_remove: "sessions_ok m \<Longrightarrow> sessions_ok (hm_remove d m)"
  by (auto simp: sessions_ok_def)

lemma send_ok: "app_try_send X s u e = Inr s' \<Longrightarrow> app_ok s \<Longrightarrow> app_ok s'"
  by (auto simp: app_try_send_Inr)

lemma send_pairing: "app_try_send X s u e = Inr s' \<Longrightarrow> n_pairing (a_net s') = n_pairing (a_net s)"
  by (auto simp: app_try_send_Inr)

text \<open>Every request of the console keeps the invariant.\<close>

lemma remove_keeps:
  assumes r: "rest_remove_device t s u = (resp, s')" and s: "app_ok s"
  shows "app_ok s'"
proof -
  let ?n = "a_net s"
  let ?c = "center_audit (t_ms t 0) (Some u) ''device.unpair'' None (n_sink ?n)"
  let ?s1 = "s\<lparr>a_net := ?n\<lparr>n_pairing := hm_remove u (n_pairing ?n),
     n_registry := hm_remove u (n_registry ?n), n_sink := ?c\<rparr>, a_pins := hm_remove u (a_pins s)\<rparr>"
  have [simp]: "hm_remove u [] = []" by (simp add: hm_remove_def)
  have ok: "app_ok ?s1"
    using s center_audit_ok audit_unpaired by (simp add: app_ok_def app_db_def sessions_remove)
  have r': "rest_remove_device t s u = (case remove_device (app_db ?s1) u of
      Inl e \<Rightarrow> ((500, RbDbError e), ?s1) | Inr d \<Rightarrow> ((204, RbText []), app_set_db ?s1 d))"
    by (simp only: rest_remove_device_def Let_def pairing_remove_def registry_unregister_def snd_conv)
  show ?thesis
  proof (cases "remove_device (app_db ?s1) u")
    case (Inl e)
    have "s' = ?s1" using r unfolding r' Inl sum.case by (rule Pair_inject) (rule sym)
    then show ?thesis using ok by (simp only:)
  next
    case (Inr d)
    have s': "s' = app_set_db ?s1 d" using r unfolding r' Inr sum.case by (rule Pair_inject) (rule sym)
    have "db_unpaired d" using other_unpaired(1)[OF Inr] app_ok_db[OF ok] by simp
    then show ?thesis unfolding s' by (rule write_ok[OF ok w_remove[OF Inr]])
  qed
qed

lemma pair_start_keeps: "rest_pair_start X t s u = (r, s') \<Longrightarrow> app_ok s \<Longrightarrow> app_ok s'"
proof -
  assume r: "rest_pair_start X t s u = (r, s')" and s: "app_ok s"
  have peer: "initiator_start X t u n = Inr i \<Longrightarrow> session_ok u (Unpaired (USInitiator i))" for n i
    by (auto simp: initiator_start_def session_ok_def split: sum.splits)
  have "sessions_ok (n_pairing (a_net s))" using s by (simp add: app_ok_def)
  then show ?thesis using r s
    by (auto simp: rest_pair_start_def send_pairing dest: send_ok
        split: if_splits sum.splits intro!: set_pairing_ok sessions_insert peer)
qed

lemma pair_answer_keeps:
  "rest_pair_accept X t s u c = Done (r, s') \<Longrightarrow> s' = s"
  "rest_pair_reject X t s u rs = Done (r, s') \<Longrightarrow> s' = s"
proof -
  have i: "pairing_get X t u (n_pairing (a_net s)) \<noteq> Done (Some (Unpaired (USInitiator i)))" for i
    by (auto simp: pairing_get_def split: option.splits run.splits
      elim!: clone_session.elims split: sum.splits)
  show "rest_pair_accept X t s u c = Done (r, s') \<Longrightarrow> s' = s"
    using i unfolding rest_pair_accept_def
    by (auto split: run.splits option.splits device_session.splits unpaired_session.splits)
  show "rest_pair_reject X t s u rs = Done (r, s') \<Longrightarrow> s' = s"
    using i unfolding rest_pair_reject_def Let_def
    by (auto split: run.splits option.splits device_session.splits unpaired_session.splits)
qed

lemma incoming_keeps:
  "rest_incoming_accept X t s u = (r, s') \<Longrightarrow> app_ok s \<Longrightarrow>
     app_ok s' \<and> n_pairing (a_net s') = n_pairing (a_net s)"
  "rest_incoming_reject X t s u = (r, s') \<Longrightarrow> app_ok s \<Longrightarrow>
     app_ok s' \<and> n_pairing (a_net s') = n_pairing (a_net s)"
  by (auto simp: rest_incoming_accept_def rest_incoming_reject_def app_try_send_Inr Let_def
      split: prod.splits option.splits if_splits sum.splits)

lemma mark_rows_keeps:
  "db_wf d \<and> hw_unique d \<and> db_unpaired d \<Longrightarrow>
     db_wf (mark_rows_read rows d) \<and> hw_unique (mark_rows_read rows d) \<and> db_unpaired (mark_rows_read rows d)"
  unfolding mark_rows_read_def
  by (rule fold_ok[where ok = "\<lambda>d. db_wf d \<and> hw_unique d \<and> db_unpaired d"])
    (use db_write_inv[OF w_read] other_unpaired(4) in \<open>force split: sum.split\<close>)

lemma notification_keeps:
  "rest_mark_read s u i = (r, s') \<Longrightarrow> app_ok s \<Longrightarrow> app_ok s' \<and> n_pairing (a_net s') = n_pairing (a_net s)"
  "rest_mark_all_read s dev = (r, s') \<Longrightarrow> app_ok s \<Longrightarrow> app_ok s' \<and> n_pairing (a_net s') = n_pairing (a_net s)"
  "rest_dismiss X t s u i = (r, s') \<Longrightarrow> app_ok s \<Longrightarrow> app_ok s' \<and> n_pairing (a_net s') = n_pairing (a_net s)"
proof -
  show "rest_mark_read s u i = (r, s') \<Longrightarrow> app_ok s \<Longrightarrow> app_ok s' \<and> n_pairing (a_net s') = n_pairing (a_net s)"
    using app_ok_db other_unpaired(4)
    by (auto simp: rest_mark_read_def split: sum.splits intro!: write_ok intro: w_read)
  show "rest_mark_all_read s dev = (r, s') \<Longrightarrow> app_ok s \<Longrightarrow> app_ok s' \<and> n_pairing (a_net s') = n_pairing (a_net s)"
    using mark_rows_keeps app_ok_db by (auto simp: rest_mark_all_read_def split: sum.splits intro!: set_db_ok)
  show "rest_dismiss X t s u i = (r, s') \<Longrightarrow> app_ok s \<Longrightarrow> app_ok s' \<and> n_pairing (a_net s') = n_pairing (a_net s)"
  proof -
    assume r: "rest_dismiss X t s u i = (r, s')" and s: "app_ok s"
    show ?thesis
    proof (cases "dismiss_notification (app_db s) u i")
      case (Inl e)
      then show ?thesis using r s by (simp add: rest_dismiss_def)
    next
      case (Inr p)
      obtain d row where p: "p = (d, row)" by fastforce
      have "app_ok (app_set_db s d)"
        using s Inr p app_ok_db dismiss_unpaired by (blast intro: write_ok w_dismiss)
      then show ?thesis using r Inr p
        by (cases row) (auto simp: rest_dismiss_def Let_def app_try_send_Inr split: sum.splits)
    qed
  qed
qed

lemma send_sms_keeps:
  "rest_send_sms X t s q = (r, s') \<Longrightarrow> app_ok s \<Longrightarrow> app_ok s' \<and> n_pairing (a_net s') = n_pairing (a_net s)"
proof -
  assume r: "rest_send_sms X t s q = (r, s')" and s: "app_ok s"
  have "app_ok (app_set_hist s h)" for h using s by simp
  moreover have "insert_sms (app_db (app_set_hist s h)) row = Inr d \<Longrightarrow> app_ok (app_set_db (app_set_hist s h) d)"
    for h row d
    using s app_ok_db[OF s] other_unpaired(5) w_sms by (intro write_ok) auto
  ultimately show ?thesis using r s
    by (auto simp: rest_send_sms_def app_try_send_Inr Let_def split: if_splits sum.splits)
qed

lemma dial_keeps:
  "rest_dial X t s u num = (r, s') \<Longrightarrow> app_ok s \<Longrightarrow> app_ok s' \<and> n_pairing (a_net s') = n_pairing (a_net s)"
proof -
  assume r: "rest_dial X t s u num = (r, s')" and s: "app_ok s"
  have "app_ok (app_set_hist s h)" for h using s by simp
  moreover have "insert_audit_log (app_db (app_set_hist s h)) ts dev ev det = Inr d \<Longrightarrow>
      app_ok (app_set_db (app_set_hist s h) d)" for h ts dev ev det d
    using s app_ok_db[OF s] other_unpaired(7) w_audit by (intro write_ok) auto
  ultimately show ?thesis using r s
    by (auto simp: rest_dial_def app_try_send_Inr split: if_splits sum.splits)
qed

lemma rest_step_ok: "rest_step X t s q = Done (r, s') \<Longrightarrow> app_ok s \<Longrightarrow> app_ok s'"
  by (cases q)
    (auto simp: rest_step_def dest: remove_keeps pair_start_keeps pair_answer_keeps incoming_keeps
      notification_keeps send_sms_keeps dial_keeps)

text \<open>Every action of a display keeps it.\<close>

definition kept :: "app \<Rightarrow> app \<Rightarrow> bool" where
  "kept s s' \<longleftrightarrow> (app_ok s \<longrightarrow> app_ok s') \<and> n_pairing (a_net s') = n_pairing (a_net s)"

lemma kept_trans: "kept s s' \<Longrightarrow> kept s' s'' \<Longrightarrow> kept s s''"
  by (simp add: kept_def)

lemma kept_publish: "kept s (app_publish_display e s)"
  by (simp add: kept_def app_ok_def center_ok_def app_publish_display_def app_db_def display_channel.publish_ok)

lemma kept_result: "kept s (publish_action_result X t s a ok code msg)"
  by (simp add: publish_result kept_publish)

lemma kept_write: "(\<And>d. r = Inr d \<Longrightarrow> db_write (app_db s) d \<and> (db_unpaired (app_db s) \<longrightarrow> db_unpaired d)) \<Longrightarrow>
    kept s (case r of Inl _ \<Rightarrow> s | Inr d \<Rightarrow> app_set_db s d)"
  using write_ok app_ok_db by (auto simp: kept_def split: sum.split)

lemma kept_send: "(\<And>s. kept s (f s)) \<Longrightarrow> kept s (send_action X t s a kind p f)"
proof -
  assume f: "\<And>s. kept s (f s)"
  have "kept s (app_set_hist s h)" for h by (simp add: kept_def)
  then have "kept s (publish_action_result X t (f (app_set_hist s h)) a True None None)" for h
    using f kept_trans kept_result by blast
  then show ?thesis by (auto simp: send_action_def app_try_send_Inr kept_result split: sum.split)
qed

lemma kept_dismiss:
  "kept s (case dismiss_notification (app_db s) u i of Inl _ \<Rightarrow> s | Inr (d, _) \<Rightarrow> app_set_db s d)"
  using write_ok[OF _ w_dismiss] app_ok_db dismiss_unpaired
  by (auto simp: kept_def split: sum.split prod.split)

lemma display_action_keeps: "kept s (handle_display_action X D t s a)"
proof -
  have "kept s (do_sms_reply X t s a)" unfolding do_sms_reply_def
    by (auto split: option.split intro!: kept_result kept_send kept_write w_audit dest: other_unpaired(7))
  moreover have "kept s (do_notification_read X D t s a)"
  proof (cases "mark_notification_read (app_db s) (da_device_id a) (uuid_str X (da_envelope_id a))")
    case (Inr d)
    then have "kept s (app_set_db s d)"
      using kept_write[of "Inr d" s] w_read other_unpaired(4) by auto
    then show ?thesis using Inr kept_trans kept_result by (auto simp: do_notification_read_def)
  qed (simp add: do_notification_read_def kept_result)
  moreover have "kept s (do_notification_dismiss X t s a)"
    unfolding do_notification_dismiss_def by (intro kept_send kept_dismiss)
  moreover have "kept s (do_call_answer X t s a)" "kept s (do_call_end X t s a)"
    unfolding do_call_answer_def do_call_end_def by (intro kept_send, simp add: kept_def)+
  moreover have "kept s (publish_phone_offline X t s a)"
    unfolding publish_phone_offline_def using kept_trans kept_publish kept_result by blast
  ultimately show ?thesis by (auto simp: handle_display_action_def kept_result)
qed

text \<open>Which step can bring an initiator, or a paired session, for a device into the map.\<close>

definition not_ours :: "uuid \<Rightarrow> pairing_map \<Rightarrow> bool" where
  "not_ours d m \<longleftrightarrow> (\<forall>i. hm_get m d \<noteq> Some (Unpaired (USInitiator i))) \<and> (\<forall>p. hm_get m d \<noteq> Some (Paired p))"

lemma dispatch_not_ours:
  assumes d: "dispatch X W t e n = Done (r, n')" and s: "sessions_ok (n_pairing n)" and p: "not_ours d (n_pairing n)"
  shows "not_ours d (n_pairing n')"
proof (cases "env_device_id e = d")
  case True
  let ?s = "hm_get (n_pairing n) d"
  have "session_after X t e ?s \<noteq> Some (Unpaired (USInitiator i))"
    "session_after X t e ?s \<noteq> Some (Paired q)" for i q
    using p s True
    by (cases "env_type e"; auto simp: session_after_def not_ours_def sessions_ok_def session_ok_def
        completed_def responder_no_consent Let_def
        split: option.splits device_session.splits unpaired_session.splits sum.splits)+
  then show ?thesis using dispatch_session_entry[OF d] True by (simp add: not_ours_def)
next
  case False
  then show ?thesis using dispatch_session_entry[OF d] p by (simp add: not_ours_def)
qed

lemma not_ours_other: "not_ours d m \<Longrightarrow> u \<noteq> d \<Longrightarrow> not_ours d (pairing_insert u x m)"
  "not_ours d m \<Longrightarrow> not_ours d (hm_remove u m)"
  by (simp_all add: not_ours_def pairing_insert_def)

lemma rest_step_not_ours:
  assumes r: "rest_step X t s q = Done (resp, s')" and ok: "app_ok s" and p: "not_ours d (n_pairing (a_net s))"
    and q: "q \<noteq> RqPairStart d"
  shows "not_ours d (n_pairing (a_net s'))"
proof (cases q)
  case (RqRemoveDevice u)
  then show ?thesis using r p
    by (auto simp: rest_step_def rest_remove_device_def pairing_remove_def Let_def not_ours_other
        split: sum.splits)
next
  case (RqPairStart u)
  then have "u \<noteq> d" using q by blast
  then show ?thesis using r p RqPairStart
    by (auto simp: rest_step_def rest_pair_start_def send_pairing not_ours_other
        split: if_splits sum.splits)
next
  case (RqPairAccept u c)
  then show ?thesis using r p pair_answer_keeps(1) by (fastforce simp: rest_step_def)
next
  case (RqPairReject u c)
  then show ?thesis using r p pair_answer_keeps(2) by (fastforce simp: rest_step_def)
qed (use r p ok in \<open>auto simp: rest_step_def dest: incoming_keeps notification_keeps send_sms_keeps dial_keeps\<close>)

lemma message_step:
  assumes "handle_envelope X (a_cfg s) (center_sink X) t e cx (a_net s) = Done (cx', n')" and "app_ok s"
  shows "app_ok (s\<lparr>a_net := n'\<rparr>)" "not_ours d (n_pairing (a_net s)) \<Longrightarrow> not_ours d (n_pairing n')"
proof -
  obtain r and n1 n2 :: "center net" where d: "dispatch X (a_cfg s) t e n1 = Done (r, n2)" "n_pairing n1 = n_pairing (a_net s)"
      "n_pairing n' = n_pairing n2"
    using handle_envelope_pairing[OF assms(1)] by blast
  have s: "sessions_ok (n_pairing n1)" using assms(2) d(2) by (simp add: app_ok_def)
  then have "sessions_ok (n_pairing n')" using dispatch_sessions_ok[OF d(1)] d(3) by simp
  moreover have "center_ok (n_sink n')" "db_unpaired (cn_db (n_sink n'))"
    using center.handle_envelope_ok[OF assms(1)] unpaired.handle_envelope_ok[OF assms(1)] assms(2)
    by (simp_all add: app_ok_def app_db_def)
  moreover have "hm_wf (n_registry n')"
    using handle_envelope_conn[OF assms(1)] assms(2)
    by (simp add: app_ok_def registry_register_def split: if_splits)
  ultimately show "app_ok (s\<lparr>a_net := n'\<rparr>)" using assms(2) by (simp add: app_ok_def app_db_def)
  show "not_ours d (n_pairing (a_net s)) \<Longrightarrow> not_ours d (n_pairing n')"
    using dispatch_not_ours[OF d(1) s] d by simp
qed

lemma bus_step_ok:
  "app_ok s \<Longrightarrow> bus_wf (f (cn_console (n_sink (a_net s)))) \<Longrightarrow> app_ok (app_console f s)"
  "app_ok s \<Longrightarrow> bus_wf (g (cn_display (n_sink (a_net s)))) \<Longrightarrow> app_ok (app_display g s)"
  by (simp_all add: app_ok_def app_console_def app_display_def center_ok_def app_db_def)

lemma app_ok_bus:
  "app_ok s \<Longrightarrow> bus_wf (cn_console (n_sink (a_net s)))" "app_ok s \<Longrightarrow> bus_wf (cn_display (n_sink (a_net s)))"
  by (simp_all add: app_ok_def center_ok_def)

lemma bus_step_pairing [simp]:
  "n_pairing (a_net (app_console f s)) = n_pairing (a_net s)"
  "n_pairing (a_net (app_display g s)) = n_pairing (a_net s)"
  by (simp_all add: app_console_def app_display_def)

lemma cleanup_ok: "app_ok s \<Longrightarrow> app_ok (s\<lparr>a_net := cleanup (center_sink X) t cx (a_net s)\<rparr>)"
  using center.disconnect_ok unpaired.disconnect_ok
  by (auto simp: cleanup_def app_ok_def app_db_def registry_unregister_def split: option.split)

lemma sys_step_ok: "sys_step X l s s' \<Longrightarrow> app_ok s \<Longrightarrow> app_ok s'"
proof (induction rule: sys_step.induct)
  case (request t s q r s')
  then show ?case by (rule rest_step_ok)
next
  case (message s t e cx cx' n')
  then show ?case by (rule message_step(1))
next
  case (accepted s t cx)
  then show ?case by (simp add: app_ok_def app_db_def)
next
  case (action a s D t)
  then show ?case using display_action_keeps[of s X D t a] by (simp add: kept_def)
qed (simp_all add: cleanup_ok bus_step_ok bus_subscribe_wf bus_drop_wf app_ok_bus
    bus_recv_wf(1)[OF app_ok_bus(1)] bus_recv_wf(1)[OF app_ok_bus(2)])

lemma sys_step_not_ours:
  "sys_step X l s s' \<Longrightarrow> app_ok s \<Longrightarrow> l \<noteq> LRequest (RqPairStart d) \<Longrightarrow>
     not_ours d (n_pairing (a_net s)) \<Longrightarrow> not_ours d (n_pairing (a_net s'))"
proof (induction rule: sys_step.induct)
  case (request t s q r s')
  then show ?case using rest_step_not_ours[of X t s q r s' d] by simp
next
  case (message s t e cx cx' n')
  then show ?case using message_step(2)[of X s t e cx cx' n' d] by simp
next
  case (action a s D t)
  then show ?case using display_action_keeps[of s X D t a] by (simp add: kept_def)
qed (simp_all add: cleanup_def split: option.split)

lemma sys_run_ok: "sys_run X ls s s' \<Longrightarrow> app_ok s \<Longrightarrow> app_ok s'"
  by (induction rule: sys_run.induct) (auto intro: sys_step_ok)


text \<open>
  C3: A phone that asks for the pairing itself is never paired: in a run without a pair-start for
  a device, no accept of its request on the console, and nothing any phone sends, makes its
  session a paired one.
\<close>

theorem phone_flow_never_pairs:
  assumes "sys_run X ls (app_init W fp) s" and "LRequest (RqPairStart d) \<notin> set ls"
  shows "hm_get (n_pairing (a_net s)) d \<noteq> Some (Paired p)"
proof -
  have "sys_run X ls s0 s \<Longrightarrow> app_ok s0 \<Longrightarrow> LRequest (RqPairStart d) \<notin> set ls \<Longrightarrow>
      not_ours d (n_pairing (a_net s0)) \<Longrightarrow> not_ours d (n_pairing (a_net s))" for s0
    by (induction rule: sys_run.induct) (auto intro: sys_step_not_ours sys_run_ok)
  moreover have "not_ours d (n_pairing (a_net (app_init W fp)))"
    by (simp add: not_ours_def app_init_def)
  ultimately show ?thesis using assms app_init_ok by (auto simp: not_ours_def)
qed

section \<open>A run\<close>

text \<open>A phone says hello, the console accepts it, the phone completes.\<close>

lemma message_enabled: "\<exists>s'. sys_step demo_ext (LMessage e) s s'"
proof -
  let ?h = "handle_envelope demo_ext (a_cfg s) (center_sink demo_ext) (demo_tick 0) e
      \<lparr>cx_chan = 9, cx_device = None, cx_bus = bus_new 64\<rparr> (a_net s)"
  have "?h \<noteq> Panic"
    using dispatch_total[OF frames_rcgen(2), where n = n and W = "a_cfg s" and t = "demo_tick 0" and e = e for n]
    by (auto simp: handle_envelope_def Let_def split: run.split prod.split)
  then obtain cx' n' where "?h = Done (cx', n')" by (metis run.exhaust prod.exhaust)
  then show ?thesis using sys_step.message by blast
qed

lemma accept_enabled: "\<exists>s'. sys_step X (LRequest (RqIncomingAccept u)) s s'"
  using sys_step.request[of X "demo_tick 0" s "RqIncomingAccept u"]
  by (cases "rest_incoming_accept X (demo_tick 0) s u") (auto simp: rest_step_def)

lemma demo_run:
  "\<exists>s. sys_run demo_ext [LMessage (demo_hello 1), LRequest (RqIncomingAccept 1), LMessage (demo_finish 1)]
     (app_init demo_cfg []) s"
proof -
  obtain s1 where 1: "sys_step demo_ext (LMessage (demo_hello 1)) (app_init demo_cfg []) s1"
    using message_enabled by blast
  obtain s2 where 2: "sys_step demo_ext (LRequest (RqIncomingAccept 1)) s1 s2"
    using accept_enabled by blast
  obtain s3 where 3: "sys_step demo_ext (LMessage (demo_finish 1)) s2 s3"
    using message_enabled by blast
  show ?thesis
    using sys_run.step[OF sys_run.step[OF sys_run.step[OF sys_run.refl 1] 2] 3] by auto
qed


theorem phone_flow_never_pairs_witness:
  "\<exists>s. sys_run demo_ext [LMessage (demo_hello 1), LRequest (RqIncomingAccept 1), LMessage (demo_finish 1)]
     (app_init demo_cfg []) s \<and> (\<forall>p. hm_get (n_pairing (a_net s)) 1 \<noteq> Some (Paired p))"
proof -
  obtain s where s: "sys_run demo_ext [LMessage (demo_hello 1), LRequest (RqIncomingAccept 1),
      LMessage (demo_finish 1)] (app_init demo_cfg []) s"
    using demo_run by blast
  show ?thesis using phone_flow_never_pairs[OF s, of 1] s by auto
qed

end
