(* ===== verification/Identity.thy ===== *)
theory Identity
  imports Crypto Demo
begin

text \<open>
  The message-center's identity on disk (message-center/src/identity.rs), the certificate of its
  TLS listener (cert_loader.rs), and the part of main.rs that loads both. Files are a map from
  paths to contents; which reads and writes fail, the host's names, the fresh id and the seeds of
  rcgen are the environment. The standard base64 decoder is the parameter \<open>B\<close>.
\<close>

section \<open>Files\<close>

type_synonym files = "string \<Rightarrow> string option"

record id_env =
  ie_readable :: "string \<Rightarrow> bool"
  ie_writable :: "string \<Rightarrow> bool"
  ie_mkdir :: bool
  ie_chmod :: bool
  ie_hostname :: "string option"
  ie_etc_hostname :: "string option"
  ie_uuid :: uuid
  ie_seed :: nat

datatype id_error = IeIo string | IeUuid | IeCert string | IeNoBlock string | IeBase64 string | IeNoKey

definition read_file :: "id_env \<Rightarrow> string \<Rightarrow> files \<Rightarrow> string option" where
  "read_file E p F = (if ie_readable E p then F p else None)"

definition write_file :: "id_env \<Rightarrow> string \<Rightarrow> string \<Rightarrow> files \<Rightarrow> (id_error + unit) \<times> files" where
  "write_file E p s F = (if ie_writable E p then (Inr (), F(p \<mapsto> s)) else (Inl (IeIo p), F))"

text \<open>\<open>?\<close> on a step that changes the files.\<close>

definition and_then :: "('e + 'a) \<times> 's \<Rightarrow> ('a \<Rightarrow> 's \<Rightarrow> ('e + 'b) \<times> 's) \<Rightarrow> ('e + 'b) \<times> 's" where
  "and_then r f = (case r of (Inl e, s) \<Rightarrow> (Inl e, s) | (Inr a, s) \<Rightarrow> f a s)"

lemma and_then_simps [simp]: "and_then (Inl e, s) f = (Inl e, s)" "and_then (Inr a, s) f = f a s"
  by (simp_all add: and_then_def)

lemma and_then_Inr:
  "and_then r f = (Inr b, s') \<longleftrightarrow> (\<exists>a s. r = (Inr a, s) \<and> f a s = (Inr b, s'))"
  by (auto simp: and_then_def split: prod.split sum.split)

definition DEVICE_ID_FILE :: string where "DEVICE_ID_FILE = ''device_id''"
definition DEVICE_NAME_FILE :: string where "DEVICE_NAME_FILE = ''device_name''"
definition DEVICE_KEY_FILE :: string where "DEVICE_KEY_FILE = ''device_key.pem''"
definition DEVICE_CERT_FILE :: string where "DEVICE_CERT_FILE = ''device_cert.pem''"

definition cert_file :: "string \<Rightarrow> string" where "cert_file dir = path_join dir ''daemon.cert.pem''"
definition key_file :: "string \<Rightarrow> string" where "key_file dir = path_join dir ''daemon.key.pem''"

lemmas file_names = DEVICE_ID_FILE_def DEVICE_NAME_FILE_def DEVICE_KEY_FILE_def DEVICE_CERT_FILE_def
  cert_file_def key_file_def

section \<open>PEM\<close>

fun pem_collect :: "string \<Rightarrow> string \<Rightarrow> bool \<Rightarrow> string list \<Rightarrow> string" where
  "pem_collect b e inside [] = []"
| "pem_collect b e inside (l # ls) =
     (if trim l = b then pem_collect b e True ls
      else if trim l = e then []
      else (if inside then trim l else []) @ pem_collect b e inside ls)"

definition pem_body :: "(string \<Rightarrow> u8 list option) \<Rightarrow> string \<Rightarrow> string \<Rightarrow> id_error + u8 list" where
  "pem_body B pem label =
     (let b64 = pem_collect (''-----BEGIN '' @ label @ ''-----'') (''-----END '' @ label @ ''-----'')
                  False (str_lines pem)
      in if b64 = [] then Inl (IeNoBlock label)
         else case B b64 of None \<Rightarrow> Inl (IeBase64 label) | Some der \<Rightarrow> Inr der)"

text \<open>The loader of the TLS certificate has its own reader.\<close>

fun cert_collect :: "bool \<Rightarrow> string list \<Rightarrow> string" where
  "cert_collect inside [] = []"
| "cert_collect inside (l # ls) =
     (if contains (trim l) ''BEGIN CERTIFICATE'' then cert_collect True ls
      else if contains (trim l) ''END CERTIFICATE'' then []
      else (if inside then trim l else []) @ cert_collect inside ls)"

definition pem_to_der :: "(string \<Rightarrow> u8 list option) \<Rightarrow> string \<Rightarrow> id_error + u8 list" where
  "pem_to_der B pem =
     (let b64 = cert_collect False (str_lines pem)
      in if b64 = [] then Inl (IeNoBlock ''CERTIFICATE'')
         else case B b64 of None \<Rightarrow> Inl (IeBase64 ''cert body'') | Some der \<Rightarrow> Inr der)"

definition fingerprint_from_pem :: "'e ext \<Rightarrow> (string \<Rightarrow> u8 list option) \<Rightarrow> string \<Rightarrow> id_error + string" where
  "fingerprint_from_pem X B pem =
     (case pem_body B pem ''CERTIFICATE'' of
        Inl e \<Rightarrow> Inl e | Inr der \<Rightarrow> Inr (cert_fingerprint_der X der))"

text \<open>A place where the scan for the uncompressed point stops.\<close>

definition point_at :: "u8 list \<Rightarrow> nat \<Rightarrow> bool" where
  "point_at der i \<longleftrightarrow> der ! i = 4 \<and> der ! (i + 1) \<noteq> 0 \<and> list_ex (\<lambda>b. b \<noteq> 0) (take 65 (drop i der))"

definition pubkey_from_pem :: "'e ext \<Rightarrow> (string \<Rightarrow> u8 list option) \<Rightarrow> string \<Rightarrow> id_error + string" where
  "pubkey_from_pem X B pem =
     (case pem_body B pem ''CERTIFICATE'' of
        Inl e \<Rightarrow> Inl e
      | Inr der \<Rightarrow>
          (case find (point_at der) [0..<length der - 65] of
             None \<Rightarrow> Inl IeNoKey
           | Some i \<Rightarrow> Inr (b64_enc X (take 65 (drop i der)))))"

section \<open>Loading or creating\<close>

record center_identity =
  ci_device_id :: uuid
  ci_name :: string
  ci_cert_pem :: string
  ci_fingerprint :: string
  ci_public_key_b64 :: string

definition load_device_id ::
  "'e ext \<Rightarrow> id_env \<Rightarrow> string \<Rightarrow> uuid option \<Rightarrow> files \<Rightarrow> (id_error + uuid) \<times> files" where
  "load_device_id X E dir given F =
     (let p = path_join dir DEVICE_ID_FILE;
          save = (\<lambda>u. and_then (write_file E p (uuid_str X u) F) (\<lambda>_ F'. (Inr u, F')))
      in case given of
           Some u \<Rightarrow> save u
         | None \<Rightarrow>
             (case read_file E p F of
                Some s \<Rightarrow> (case uuid_parse X (trim s) of None \<Rightarrow> (Inl IeUuid, F) | Some u \<Rightarrow> (Inr u, F))
              | None \<Rightarrow> save (ie_uuid E)))"

definition host_name :: "id_env \<Rightarrow> string" where
  "host_name E =
     (case ie_hostname E of
        Some h \<Rightarrow> h
      | None \<Rightarrow> (case ie_etc_hostname E of Some s \<Rightarrow> trim s | None \<Rightarrow> ''phonebridge''))"

definition load_name ::
  "id_env \<Rightarrow> string \<Rightarrow> string option \<Rightarrow> files \<Rightarrow> (id_error + string) \<times> files" where
  "load_name E dir given F =
     (let p = path_join dir DEVICE_NAME_FILE;
          save = (\<lambda>n. and_then (write_file E p n F) (\<lambda>_ F'. (Inr n, F')))
      in case given of
           Some n \<Rightarrow> save n
         | None \<Rightarrow> (case read_file E p F of Some s \<Rightarrow> (Inr (trim s), F) | None \<Rightarrow> save (host_name E)))"

text \<open>The shared tail of both loaders: write a fresh certificate and its key, and protect the key.\<close>

definition save_fresh ::
  "'e ext \<Rightarrow> id_env \<Rightarrow> nat \<Rightarrow> string \<Rightarrow> string \<Rightarrow> files \<Rightarrow> (id_error + identity) \<times> files" where
  "save_fresh X E seed cp kp F =
     (case generate_self_signed X ''message-center'' seed of
        Inl (CertGenerate m) \<Rightarrow> (Inl (IeCert m), F)
      | Inr i \<Rightarrow>
          and_then (write_file E cp (id_cert_pem i) F) (\<lambda>_ F1.
          and_then (write_file E kp (id_key_pem i) F1) (\<lambda>_ F2.
            if ie_chmod E then (Inr i, F2) else (Inl (IeIo kp), F2))))"

definition exists_file :: "string \<Rightarrow> files \<Rightarrow> bool" where
  "exists_file p F \<longleftrightarrow> F p \<noteq> None"

definition load_cert ::
  "'e ext \<Rightarrow> (string \<Rightarrow> u8 list option) \<Rightarrow> id_env \<Rightarrow> string \<Rightarrow> uuid \<Rightarrow> string \<Rightarrow> files \<Rightarrow>
     (id_error + center_identity) \<times> files" where
  "load_cert X B E dir u name F =
     (let cp = path_join dir DEVICE_CERT_FILE; kp = path_join dir DEVICE_KEY_FILE
      in if exists_file cp F \<and> exists_file kp F
         then (case read_file E cp F of
                 None \<Rightarrow> (Inl (IeIo cp), F)
               | Some pem \<Rightarrow>
                   (case fingerprint_from_pem X B pem of
                      Inl e \<Rightarrow> (Inl e, F)
                    | Inr fp \<Rightarrow>
                        (case pubkey_from_pem X B pem of
                           Inl e \<Rightarrow> (Inl e, F)
                         | Inr k \<Rightarrow> (Inr \<lparr>ci_device_id = u, ci_name = name, ci_cert_pem = pem,
                             ci_fingerprint = fp, ci_public_key_b64 = k\<rparr>, F))))
         else and_then (save_fresh X E (ie_seed E) cp kp F) (\<lambda>i F'.
                (case pubkey_from_pem X B (id_cert_pem i) of
                   Inl e \<Rightarrow> (Inl e, F')
                 | Inr k \<Rightarrow> (Inr \<lparr>ci_device_id = u, ci_name = name, ci_cert_pem = id_cert_pem i,
                     ci_fingerprint = id_fingerprint i, ci_public_key_b64 = k\<rparr>, F'))))"

definition load_or_create ::
  "'e ext \<Rightarrow> (string \<Rightarrow> u8 list option) \<Rightarrow> id_env \<Rightarrow> string \<Rightarrow> uuid option \<Rightarrow> string option \<Rightarrow> files \<Rightarrow>
     (id_error + center_identity) \<times> files" where
  "load_or_create X B E dir given_id given_name F =
     and_then (load_device_id X E dir given_id F) (\<lambda>u F1.
     and_then (load_name E dir given_name F1) (\<lambda>n F2. load_cert X B E dir u n F2))"

section \<open>The certificate of the listener\<close>

definition tls_load_or_generate ::
  "'e ext \<Rightarrow> (string \<Rightarrow> u8 list option) \<Rightarrow> id_env \<Rightarrow> nat \<Rightarrow> string \<Rightarrow> string \<Rightarrow> files \<Rightarrow>
     (id_error + identity) \<times> files" where
  "tls_load_or_generate X B E seed cp kp F =
     (if exists_file cp F \<and> exists_file kp F
      then (case read_file E cp F of
              None \<Rightarrow> (Inl (IeIo cp), F)
            | Some cert \<Rightarrow>
                (case read_file E kp F of
                   None \<Rightarrow> (Inl (IeIo kp), F)
                 | Some key \<Rightarrow>
                     (case pem_to_der B cert of
                        Inl e \<Rightarrow> (Inl e, F)
                      | Inr der \<Rightarrow> (Inr \<lparr>id_cert_pem = cert, id_key_pem = key,
                          id_fingerprint = cert_fingerprint_der X der\<rparr>, F))))
      else if ie_mkdir E then save_fresh X E seed cp kp F
      else (Inl (IeIo cp), F))"

text \<open>What main loads: the identity it announces and the certificate it listens with.\<close>

record loaded =
  ld_center :: center_identity
  ld_tls :: "identity option"

definition main_load ::
  "'e ext \<Rightarrow> (string \<Rightarrow> u8 list option) \<Rightarrow> id_env \<Rightarrow> string \<Rightarrow> uuid option \<Rightarrow> string option \<Rightarrow> bool \<Rightarrow>
     string \<Rightarrow> string \<Rightarrow> nat \<Rightarrow> files \<Rightarrow> (id_error + loaded) \<times> files" where
  "main_load X B E dir given_id given_name no_tls cfg_cert cfg_key seed F =
     (let cp = (if cfg_cert = [] then cert_file dir else cfg_cert);
          kp = (if cfg_key = [] then key_file dir else cfg_key)
      in and_then (load_or_create X B E dir given_id given_name F) (\<lambda>c F1.
           if no_tls then (Inr \<lparr>ld_center = c, ld_tls = None\<rparr>, F1)
           else and_then (tls_load_or_generate X B E seed cp kp F1) (\<lambda>i F2.
                  (Inr \<lparr>ld_center = c, ld_tls = Some i\<rparr>, F2))))"

section \<open>Well-formed certificates\<close>

text \<open>
  What the PEM encoder of rcgen documents: a begin line, lines of base64 characters and an end
  line, each terminated; the body decodes to the certificate.
\<close>

definition b64_char :: "char \<Rightarrow> bool" where
  "b64_char c \<longleftrightarrow> c \<in> set ''ABCDEFGHIJKLMNOPQRSTUVWXYZabcdefghijklmnopqrstuvwxyz0123456789+/=''"

definition BEGIN_CERT :: string where "BEGIN_CERT = ''-----BEGIN CERTIFICATE-----''"
definition END_CERT :: string where "END_CERT = ''-----END CERTIFICATE-----''"

definition cert_pem_of :: "string list \<Rightarrow> string" where
  "cert_pem_of ls = concat (map (\<lambda>l. l @ [CHR 0x0A]) (BEGIN_CERT # ls @ [END_CERT]))"

definition pem_wf :: "(string \<Rightarrow> u8 list option) \<Rightarrow> string \<Rightarrow> u8 list \<Rightarrow> bool" where
  "pem_wf B pem der \<longleftrightarrow> (\<exists>ls. pem = cert_pem_of ls \<and> ls \<noteq> [] \<and>
     (\<forall>l \<in> set ls. l \<noteq> [] \<and> list_all b64_char l) \<and> B (concat ls) = Some der)"

lemma b64_char_plain: "b64_char c \<Longrightarrow> \<not> is_space c \<and> c \<noteq> CHR ''-'' \<and> c \<noteq> CHR '' '' \<and> c \<noteq> CHR 0x0A"
  by (auto simp: b64_char_def is_space_def)

lemma drop_plain: "\<forall>c \<in> set l. \<not> is_space c \<Longrightarrow> dropWhile is_space l = l"
  by (cases l) simp_all

lemma trim_plain: "\<forall>c \<in> set l. \<not> is_space c \<Longrightarrow> trim l = l"
  by (simp add: trim_def drop_plain)

lemma contains_char: "contains l pat \<Longrightarrow> c \<in> set pat \<Longrightarrow> c \<in> set l"
proof (induction l)
  case (Cons a l)
  then show ?case using set_mono_prefix[of pat "a # l"] by auto
qed simp

lemma b64_line:
  assumes "list_all b64_char l"
  shows "trim l = l" "l \<noteq> BEGIN_CERT" "l \<noteq> END_CERT" "\<not> contains l ''BEGIN CERTIFICATE''"
    "\<not> contains l ''END CERTIFICATE''" "CHR 0x0A \<notin> set l"
proof -
  have p: "c \<in> set l \<Longrightarrow> \<not> is_space c \<and> c \<noteq> CHR ''-'' \<and> c \<noteq> CHR '' '' \<and> c \<noteq> CHR 0x0A" for c
    using assms b64_char_plain by (simp add: list_all_iff)
  then show "trim l = l" by (intro trim_plain) blast
  have "CHR ''-'' \<in> set BEGIN_CERT" "CHR ''-'' \<in> set END_CERT"
    by (simp_all add: BEGIN_CERT_def END_CERT_def)
  then show "l \<noteq> BEGIN_CERT" "l \<noteq> END_CERT" using p by blast+
  have "CHR '' '' \<in> set ''BEGIN CERTIFICATE''" "CHR '' '' \<in> set ''END CERTIFICATE''" by simp_all
  then show "\<not> contains l ''BEGIN CERTIFICATE''" "\<not> contains l ''END CERTIFICATE''"
    using contains_char p by blast+
  show "CHR 0x0A \<notin> set l" using p by blast
qed

lemma cert_lines:
  assumes "\<forall>l \<in> set ls. l \<noteq> [] \<and> list_all b64_char l"
  shows "str_lines (cert_pem_of ls) = BEGIN_CERT # ls @ [END_CERT]"
  unfolding cert_pem_of_def
  by (rule str_lines_terminated) (use assms b64_line(6) in \<open>auto simp: BEGIN_CERT_def END_CERT_def\<close>)

lemma trim_marks: "trim BEGIN_CERT = BEGIN_CERT" "trim END_CERT = END_CERT"
  by (simp_all add: trim_def BEGIN_CERT_def END_CERT_def is_space_def)

lemma marks: "BEGIN_CERT \<noteq> END_CERT" "contains BEGIN_CERT ''BEGIN CERTIFICATE''"
  "contains END_CERT ''END CERTIFICATE''" "\<not> contains END_CERT ''BEGIN CERTIFICATE''"
  by (simp_all add: BEGIN_CERT_def END_CERT_def)

lemma collect_body:
  assumes "\<forall>l \<in> set ls. l \<noteq> [] \<and> list_all b64_char l"
  shows "pem_collect BEGIN_CERT END_CERT True (ls @ [END_CERT]) = concat ls"
    "cert_collect True (ls @ [END_CERT]) = concat ls"
  using assms by (induction ls) (simp_all add: trim_marks marks b64_line marks(1)[symmetric])

lemma begin_end: "''-----BEGIN '' @ ''CERTIFICATE'' @ ''-----'' = BEGIN_CERT"
  "''-----END '' @ ''CERTIFICATE'' @ ''-----'' = END_CERT"
  by (simp_all add: BEGIN_CERT_def END_CERT_def)

text \<open>On a well-formed certificate both readers find the encoded bytes.\<close>

lemma pem_readers:
  assumes "pem_wf B pem der"
  shows "pem_body B pem ''CERTIFICATE'' = Inr der" "pem_to_der B pem = Inr der"
proof -
  obtain ls where l: "pem = cert_pem_of ls" "ls \<noteq> []" "\<forall>l \<in> set ls. l \<noteq> [] \<and> list_all b64_char l"
    "B (concat ls) = Some der" using assms by (auto simp: pem_wf_def)
  have "concat ls \<noteq> []" using l(2,3) by (cases ls) auto
  then show "pem_body B pem ''CERTIFICATE'' = Inr der" "pem_to_der B pem = Inr der"
    using collect_body[OF l(3)] l(4)
    unfolding pem_body_def pem_to_der_def begin_end l(1) cert_lines[OF l(3)]
    by (simp_all add: trim_marks marks Let_def)
qed

section \<open>Starting again\<close>

definition certs_wf :: "'e ext \<Rightarrow> (string \<Rightarrow> u8 list option) \<Rightarrow> bool" where
  "certs_wf X B \<longleftrightarrow> (\<forall>cn seed pem key der.
     rcgen_cert X cn seed = Inr (pem, key, der) \<longrightarrow> pem_wf B pem der)"

definition uuids_plain :: "'e ext \<Rightarrow> bool" where
  "uuids_plain X \<longleftrightarrow> uuid_ok X \<and> (\<forall>u. trim (uuid_str X u) = uuid_str X u)"

lemma dropWhile_idem: "dropWhile P (dropWhile P s) = dropWhile P s"
  by (induction s) simp_all

lemma drop_prefix: "dropWhile P (q @ z) = q @ z \<Longrightarrow> dropWhile P q = q"
  by (cases q) (auto simp: dropWhile_eq_self_iff simp del: dropWhile.simps)

lemma drop_rev:
  assumes "dropWhile P s = s"
  shows "dropWhile P (rev (dropWhile P (rev s))) = rev (dropWhile P (rev s))"
proof (rule drop_prefix)
  have "rev (dropWhile P (rev s)) @ rev (takeWhile P (rev s)) = s"
    by (metis rev_append rev_rev_ident takeWhile_dropWhile_id)
  then show "dropWhile P (rev (dropWhile P (rev s)) @ rev (takeWhile P (rev s))) =
      rev (dropWhile P (rev s)) @ rev (takeWhile P (rev s))" using assms by simp
qed

lemma trim_idem [simp]: "trim (trim s) = trim s"
proof -
  let ?d = "dropWhile is_space s"
  have "dropWhile is_space (rev (dropWhile is_space (rev ?d))) = rev (dropWhile is_space (rev ?d))"
    by (rule drop_rev) (rule dropWhile_idem)
  then show ?thesis by (simp add: trim_def dropWhile_idem)
qed

lemma write_file_Inr: "write_file E p s F = (Inr u, F') \<longleftrightarrow> ie_writable E p \<and> F' = F(p \<mapsto> s)"
  by (auto simp: write_file_def)

lemma save_fresh_Inr:
  assumes "save_fresh X E seed cp kp F = (Inr i, F')"
  obtains der where "rcgen_cert X ''message-center'' seed = Inr (id_cert_pem i, id_key_pem i, der)"
    "id_fingerprint i = cert_fingerprint_der X der" "F' = F(cp \<mapsto> id_cert_pem i, kp \<mapsto> id_key_pem i)"
  using assms
  by (auto simp: save_fresh_def generate_self_signed_def and_then_Inr write_file_Inr
      split: sum.splits cert_error.splits if_splits)

text \<open>What each loader leaves on disk is enough to find the same again.\<close>

lemma load_device_id_leaves:
  assumes "load_device_id X E dir g F = (Inr u, F')" "uuids_plain X"
  shows "(\<exists>s. F' (path_join dir DEVICE_ID_FILE) = Some s \<and> uuid_parse X (trim s) = Some u) \<and>
    (\<forall>p. p \<noteq> path_join dir DEVICE_ID_FILE \<longrightarrow> F' p = F p)"
  using assms
  by (auto simp: load_device_id_def Let_def and_then_Inr write_file_Inr uuids_plain_def uuid_ok_def
      read_file_def split: option.splits if_splits)

lemma load_name_leaves:
  assumes "load_name E dir g F = (Inr n, F')"
  shows "(\<exists>s. F' (path_join dir DEVICE_NAME_FILE) = Some s \<and> trim s = trim n) \<and>
    (\<forall>p. p \<noteq> path_join dir DEVICE_NAME_FILE \<longrightarrow> F' p = F p)"
  using assms
  by (auto simp: load_name_def Let_def and_then_Inr write_file_Inr read_file_def split: option.splits if_splits)

lemma load_cert_fresh:
  assumes "load_cert X B E dir u n F = (Inr c, F')"
    "\<not> (exists_file (path_join dir DEVICE_CERT_FILE) F \<and> exists_file (path_join dir DEVICE_KEY_FILE) F)"
  obtains i k where "save_fresh X E (ie_seed E) (path_join dir DEVICE_CERT_FILE)
      (path_join dir DEVICE_KEY_FILE) F = (Inr i, F')" "pubkey_from_pem X B (id_cert_pem i) = Inr k"
    "c = \<lparr>ci_device_id = u, ci_name = n, ci_cert_pem = id_cert_pem i,
       ci_fingerprint = id_fingerprint i, ci_public_key_b64 = k\<rparr>"
proof -
  obtain i F1 where i: "save_fresh X E (ie_seed E) (path_join dir DEVICE_CERT_FILE)
      (path_join dir DEVICE_KEY_FILE) F = (Inr i, F1)"
    using assms by (auto simp: load_cert_def Let_def and_then_Inr)
  then show thesis using that[of i] assms
    by (auto simp: load_cert_def Let_def split: sum.splits)
qed

lemma load_cert_leaves:
  assumes "load_cert X B E dir u n F = (Inr c, F')" "certs_wf X B"
  shows "F' (path_join dir DEVICE_CERT_FILE) = Some (ci_cert_pem c) \<and>
    exists_file (path_join dir DEVICE_KEY_FILE) F' \<and>
    fingerprint_from_pem X B (ci_cert_pem c) = Inr (ci_fingerprint c) \<and>
    pubkey_from_pem X B (ci_cert_pem c) = Inr (ci_public_key_b64 c) \<and> ci_device_id c = u \<and> ci_name c = n \<and>
    (\<forall>p. p \<noteq> path_join dir DEVICE_CERT_FILE \<longrightarrow> p \<noteq> path_join dir DEVICE_KEY_FILE \<longrightarrow> F' p = F p)"
proof (cases "exists_file (path_join dir DEVICE_CERT_FILE) F \<and> exists_file (path_join dir DEVICE_KEY_FILE) F")
  case True
  then show ?thesis using assms(1)
    by (auto simp: load_cert_def Let_def read_file_def split: option.splits sum.splits if_splits)
next
  case False
  obtain i k where i: "save_fresh X E (ie_seed E) (path_join dir DEVICE_CERT_FILE)
      (path_join dir DEVICE_KEY_FILE) F = (Inr i, F')" "pubkey_from_pem X B (id_cert_pem i) = Inr k"
    and c: "c = \<lparr>ci_device_id = u, ci_name = n, ci_cert_pem = id_cert_pem i,
       ci_fingerprint = id_fingerprint i, ci_public_key_b64 = k\<rparr>"
    by (rule load_cert_fresh[OF assms(1) False])
  obtain der where d: "rcgen_cert X ''message-center'' (ie_seed E) = Inr (id_cert_pem i, id_key_pem i, der)"
    "id_fingerprint i = cert_fingerprint_der X der" "F' = F(path_join dir DEVICE_CERT_FILE \<mapsto> id_cert_pem i,
       path_join dir DEVICE_KEY_FILE \<mapsto> id_key_pem i)"
    by (rule save_fresh_Inr[OF i(1)])
  have "fingerprint_from_pem X B (id_cert_pem i) = Inr (id_fingerprint i)"
    using pem_readers(1) assms(2) d(1,2) by (force simp: certs_wf_def fingerprint_from_pem_def)
  then show ?thesis using c d(3) i(2) by (simp add: exists_file_def file_names)
qed

lemma load_cert_again:
  assumes "F (path_join dir DEVICE_CERT_FILE) = Some (ci_cert_pem c)"
    "exists_file (path_join dir DEVICE_KEY_FILE) F"
    "fingerprint_from_pem X B (ci_cert_pem c) = Inr (ci_fingerprint c)"
    "pubkey_from_pem X B (ci_cert_pem c) = Inr (ci_public_key_b64 c)" "\<forall>p. ie_readable E p"
  shows "load_cert X B E dir (ci_device_id c) n F = (Inr (c\<lparr>ci_name := n\<rparr>), F)"
  using assms by (simp add: load_cert_def exists_file_def read_file_def Let_def)

lemma tls_leaves:
  assumes "tls_load_or_generate X B E seed cp kp F = (Inr i, F')" "certs_wf X B" "cp \<noteq> kp"
  shows "F' cp = Some (id_cert_pem i) \<and> F' kp = Some (id_key_pem i) \<and>
    (\<exists>der. pem_to_der B (id_cert_pem i) = Inr der \<and> id_fingerprint i = cert_fingerprint_der X der) \<and>
    (\<forall>p. p \<noteq> cp \<longrightarrow> p \<noteq> kp \<longrightarrow> F' p = F p)"
proof (cases "exists_file cp F \<and> exists_file kp F")
  case True
  then show ?thesis using assms(1)
    by (auto simp: tls_load_or_generate_def read_file_def split: option.splits sum.splits if_splits)
next
  case False
  then have "save_fresh X E seed cp kp F = (Inr i, F')"
    using assms(1) by (auto simp: tls_load_or_generate_def split: if_splits)
  then obtain der where d: "rcgen_cert X ''message-center'' seed = Inr (id_cert_pem i, id_key_pem i, der)"
    "id_fingerprint i = cert_fingerprint_der X der" "F' = F(cp \<mapsto> id_cert_pem i, kp \<mapsto> id_key_pem i)"
    by (rule save_fresh_Inr)
  then show ?thesis using pem_readers(2) assms(2,3) by (fastforce simp: certs_wf_def)
qed

lemma tls_again:
  assumes "F cp = Some (id_cert_pem i)" "F kp = Some (id_key_pem i)"
    "pem_to_der B (id_cert_pem i) = Inr der" "id_fingerprint i = cert_fingerprint_der X der" "\<forall>p. ie_readable E p"
  shows "tls_load_or_generate X B E seed cp kp F = (Inr i, F)"
  using assms by (simp add: tls_load_or_generate_def exists_file_def read_file_def)

lemma path_names [simp]:
  "cert_file dir \<noteq> key_file dir" "path_join dir DEVICE_ID_FILE \<noteq> cert_file dir"
  "path_join dir DEVICE_NAME_FILE \<noteq> cert_file dir" "path_join dir DEVICE_CERT_FILE \<noteq> cert_file dir"
  "path_join dir DEVICE_KEY_FILE \<noteq> cert_file dir" "path_join dir DEVICE_ID_FILE \<noteq> key_file dir"
  "path_join dir DEVICE_NAME_FILE \<noteq> key_file dir" "path_join dir DEVICE_CERT_FILE \<noteq> key_file dir"
  "path_join dir DEVICE_KEY_FILE \<noteq> key_file dir" "DEVICE_ID_FILE \<noteq> DEVICE_NAME_FILE"
  "DEVICE_ID_FILE \<noteq> DEVICE_CERT_FILE" "DEVICE_ID_FILE \<noteq> DEVICE_KEY_FILE"
  "DEVICE_NAME_FILE \<noteq> DEVICE_CERT_FILE" "DEVICE_NAME_FILE \<noteq> DEVICE_KEY_FILE"
  "DEVICE_CERT_FILE \<noteq> DEVICE_KEY_FILE"
  by (simp_all add: file_names)

lemmas path_names_sym [simp] = path_names[symmetric]

section \<open>A small world\<close>

definition demo_der :: "nat \<Rightarrow> u8 list" where
  "demo_der n = 4 # replicate 65 1 @ [of_nat n]"

definition demo_pem :: "nat \<Rightarrow> string" where
  "demo_pem n = cert_pem_of [replicate (Suc n) (CHR ''A'')]"

definition demo_std :: "string \<Rightarrow> u8 list option" where
  "demo_std s = Some (demo_der (length s - 1))"

definition demo_id_ext :: "envelope ext" where
  "demo_id_ext = demo_ext\<lparr>rcgen_cert := \<lambda>cn seed. Inr (demo_pem seed, ''key'', demo_der seed),
     sha256 := \<lambda>d. replicate 31 0 @ [last d]\<rparr>"

definition demo_id_env :: id_env where
  "demo_id_env = \<lparr>ie_readable = \<lambda>_. True, ie_writable = \<lambda>_. True, ie_mkdir = True, ie_chmod = True,
     ie_hostname = Some ''desk '', ie_etc_hostname = None, ie_uuid = 5, ie_seed = 1\<rparr>"

lemma demo_pem_wf: "pem_wf demo_std (demo_pem n) (demo_der n)"
  unfolding pem_wf_def demo_pem_def demo_std_def
  by (intro exI[of _ "[replicate (Suc n) (CHR ''A'')]"]) (simp add: list_all_iff b64_char_def del: replicate_Suc)

lemma demo_certs_wf: "certs_wf demo_id_ext demo_std"
  by (simp add: certs_wf_def demo_id_ext_def demo_pem_wf)

lemma demo_uuids_plain: "uuids_plain demo_id_ext"
proof -
  have "uuid_ok demo_id_ext" using demo_uuid_ok by (simp add: uuid_ok_def demo_id_ext_def)
  moreover have "trim (uuid_str demo_id_ext u) = uuid_str demo_id_ext u" for u
    by (rule trim_plain) (simp add: demo_id_ext_def demo_ext_def is_space_def)
  ultimately show ?thesis by (simp add: uuids_plain_def)
qed

lemma demo_point: "find (point_at (demo_der n)) [0..<length (demo_der n) - 65] = Some 0"
  by (simp add: upt_conv_Cons point_at_def demo_der_def numeral_eq_Suc)

lemma demo_pubkey: "\<exists>k. pubkey_from_pem demo_id_ext demo_std (demo_pem n) = Inr k"
  by (simp add: pubkey_from_pem_def pem_readers(1)[OF demo_pem_wf] demo_point)

lemma demo_start:
  obtains l F' where "main_load demo_id_ext demo_std demo_id_env ''d'' None None False [] [] 2 Map.empty = (Inr l, F')"
    "ci_name (ld_center l) = ''desk ''"
proof -
  obtain k where k: "pubkey_from_pem demo_id_ext demo_std (demo_pem (Suc 0)) = Inr k" using demo_pubkey by blast
  have e: "ie_readable demo_id_env p" "ie_writable demo_id_env p" "ie_mkdir demo_id_env" "ie_chmod demo_id_env"
    "ie_seed demo_id_env = Suc 0" "host_name demo_id_env = ''desk ''" for p
    by (simp_all add: demo_id_env_def host_name_def)
  have r: "rcgen_cert demo_id_ext cn n = Inr (demo_pem n, ''key'', demo_der n)" for cn n
    by (simp add: demo_id_ext_def)
  have g: "save_fresh demo_id_ext demo_id_env n cp kp F = (Inr \<lparr>id_cert_pem = demo_pem n, id_key_pem = ''key'',
      id_fingerprint = cert_fingerprint_der demo_id_ext (demo_der n)\<rparr>, F(cp \<mapsto> demo_pem n, kp \<mapsto> ''key''))" for n cp kp F
    by (simp add: save_fresh_def generate_self_signed_def write_file_def e r)
  have "\<exists>l F'. main_load demo_id_ext demo_std demo_id_env ''d'' None None False [] [] 2 Map.empty = (Inr l, F') \<and>
      ci_name (ld_center l) = ''desk ''"
    by (simp add: main_load_def load_or_create_def load_device_id_def load_name_def load_cert_def
        tls_load_or_generate_def read_file_def write_file_def exists_file_def Let_def e g k)
  then show thesis using that by blast
qed


lemma main_load_Inr:
  "main_load X B E dir gid gname no_tls [] [] seed F = (Inr l, F') \<longleftrightarrow>
     (\<exists>c F3. load_or_create X B E dir gid gname F = (Inr c, F3) \<and>
        (if no_tls then l = \<lparr>ld_center = c, ld_tls = None\<rparr> \<and> F' = F3
         else \<exists>t. tls_load_or_generate X B E seed (cert_file dir) (key_file dir) F3 = (Inr t, F') \<and>
           l = \<lparr>ld_center = c, ld_tls = Some t\<rparr>))"
  by (auto simp: main_load_def Let_def and_then_Inr)

lemma load_or_create_Inr:
  "load_or_create X B E dir gid gname F = (Inr c, F3) \<longleftrightarrow>
     (\<exists>u F1 n F2. load_device_id X E dir gid F = (Inr u, F1) \<and> load_name E dir gname F1 = (Inr n, F2) \<and>
        load_cert X B E dir u n F2 = (Inr c, F3))"
  by (auto simp: load_or_create_def and_then_Inr)

text \<open>
  The message-center keeps its identity: after any successful start, on an empty or a populated
  directory and with or without an id and a name on the command line, a later start without them
  that can read the files changes no file and finds the same id, certificate, fingerprint and key
  and the same certificate for its listener; only the name may lose surrounding white space.
\<close>

lemma main_load_again:
  assumes "certs_wf X B" "uuids_plain X"
    and "main_load X B E dir gid gname no_tls [] [] seed F = (Inr l, F')" "\<forall>p. ie_readable E' p"
  shows "main_load X B E' dir None None no_tls [] [] seed' F' =
    (Inr (l\<lparr>ld_center := (ld_center l)\<lparr>ci_name := trim (ci_name (ld_center l))\<rparr>\<rparr>), F')"
proof -
  obtain c F3 where c: "load_or_create X B E dir gid gname F = (Inr c, F3)"
    and l: "if no_tls then l = \<lparr>ld_center = c, ld_tls = None\<rparr> \<and> F' = F3
      else \<exists>t. tls_load_or_generate X B E seed (cert_file dir) (key_file dir) F3 = (Inr t, F') \<and>
        l = \<lparr>ld_center = c, ld_tls = Some t\<rparr>"
    using assms(3) main_load_Inr by metis
  obtain u F1 n F2 where
    u: "load_device_id X E dir gid F = (Inr u, F1)" and n: "load_name E dir gname F1 = (Inr n, F2)"
    and i: "load_cert X B E dir u n F2 = (Inr c, F3)"
    using c load_or_create_Inr by metis
  note lu = load_device_id_leaves[OF u assms(2)] and ln = load_name_leaves[OF n]
    and lc = load_cert_leaves[OF i assms(1)]
  obtain s1 s2 where s: "F3 (path_join dir DEVICE_ID_FILE) = Some s1" "uuid_parse X (trim s1) = Some u"
    "F3 (path_join dir DEVICE_NAME_FILE) = Some s2" "trim s2 = trim n"
    using lu ln lc by auto
  have again: "load_or_create X B E' dir None None G = (Inr (c\<lparr>ci_name := trim (ci_name c)\<rparr>), G)"
    if G: "\<forall>p. p \<noteq> cert_file dir \<longrightarrow> p \<noteq> key_file dir \<longrightarrow> G p = F3 p" for G
  proof -
    have "load_device_id X E' dir None G = (Inr u, G)" "load_name E' dir None G = (Inr (trim n), G)"
      using s G assms(4) by (simp_all add: load_device_id_def load_name_def read_file_def Let_def)
    moreover have "load_cert X B E' dir (ci_device_id c) (trim n) G = (Inr (c\<lparr>ci_name := trim n\<rparr>), G)"
      by (rule load_cert_again) (use lc G assms(4) in \<open>auto simp: exists_file_def\<close>)
    ultimately show ?thesis using lc by (simp add: load_or_create_def)
  qed
  show ?thesis
  proof (cases no_tls)
    case True
    then show ?thesis using again[of F3] l by (simp add: main_load_def Let_def)
  next
    case False
    then obtain t where t: "tls_load_or_generate X B E seed (cert_file dir) (key_file dir) F3 = (Inr t, F')"
      "l = \<lparr>ld_center = c, ld_tls = Some t\<rparr>"
      using l by auto
    note lt = tls_leaves[OF t(1) assms(1) path_names(1)]
    have "tls_load_or_generate X B E' seed' (cert_file dir) (key_file dir) F' = (Inr t, F')"
      using lt assms(4) by (auto intro: tls_again)
    moreover have "load_or_create X B E' dir None None F' = (Inr (c\<lparr>ci_name := trim (ci_name c)\<rparr>), F')"
      using again lt by blast
    ultimately show ?thesis using t(2) False by (simp add: main_load_def Let_def)
  qed
qed

text \<open>
  C30: On a first start the fingerprint the message-center announces is not that of the certificate
  its listener presents: the two come from two certificates generated one after the other. A peer
  that pins the announced fingerprint therefore refuses the presented certificate, unless their
  digests coincide.
\<close>

theorem announced_not_served:
  assumes "certs_wf X B" "\<forall>d. length (sha256 X d) = SHA256_LEN"
    and "F (path_join dir DEVICE_CERT_FILE) = None" "F (cert_file dir) = None"
    and "main_load X B E dir gid gname False [] [] seed F = (Inr l, F')"
  shows "\<exists>pem key der pem' key' der' t.
    rcgen_cert X ''message-center'' (ie_seed E) = Inr (pem, key, der) \<and>
    rcgen_cert X ''message-center'' seed = Inr (pem', key', der') \<and>
    ld_tls l = Some t \<and> id_cert_pem t = pem' \<and> pem_to_der B pem' = Inr der' \<and>
    ci_fingerprint (ld_center l) = cert_fingerprint_der X der \<and>
    (verify_pin X [(u, ci_fingerprint (ld_center l))] u [der'] = Inr () \<longleftrightarrow> sha256 X der = sha256 X der')"
proof -
  obtain c F3 t where c: "load_or_create X B E dir gid gname F = (Inr c, F3)"
    and t: "tls_load_or_generate X B E seed (cert_file dir) (key_file dir) F3 = (Inr t, F')"
      "l = \<lparr>ld_center = c, ld_tls = Some t\<rparr>"
    using assms(5) main_load_Inr[of X B E dir gid gname False] by auto
  obtain v F1 n F2 where
    v: "load_device_id X E dir gid F = (Inr v, F1)" and n: "load_name E dir gname F1 = (Inr n, F2)"
    and i: "load_cert X B E dir v n F2 = (Inr c, F3)"
    using c load_or_create_Inr by metis
  have "F1 p = F p" if "p \<noteq> path_join dir DEVICE_ID_FILE" for p
    using v that by (auto simp: load_device_id_def Let_def and_then_Inr write_file_Inr split: option.splits if_splits)
  then have F2: "F2 (path_join dir DEVICE_CERT_FILE) = None" "F2 (cert_file dir) = None"
    using load_name_leaves[OF n] assms(3,4) by simp_all
  then have "\<not> (exists_file (path_join dir DEVICE_CERT_FILE) F2 \<and> exists_file (path_join dir DEVICE_KEY_FILE) F2)"
    by (simp add: exists_file_def)
  from load_cert_fresh[OF i this] obtain j where
    j: "save_fresh X E (ie_seed E) (path_join dir DEVICE_CERT_FILE) (path_join dir DEVICE_KEY_FILE) F2 = (Inr j, F3)"
      "ci_fingerprint c = id_fingerprint j" by force
  obtain der where d: "rcgen_cert X ''message-center'' (ie_seed E) = Inr (id_cert_pem j, id_key_pem j, der)"
    "id_fingerprint j = cert_fingerprint_der X der" "F3 = F2(path_join dir DEVICE_CERT_FILE \<mapsto> id_cert_pem j,
       path_join dir DEVICE_KEY_FILE \<mapsto> id_key_pem j)"
    by (rule save_fresh_Inr[OF j(1)])
  have "F3 (cert_file dir) = None" using d(3) F2(2) path_names(4,5) by (metis fun_upd_other)
  then have "save_fresh X E seed (cert_file dir) (key_file dir) F3 = (Inr t, F')"
    using t(1) by (auto simp: tls_load_or_generate_def exists_file_def split: if_splits)
  then obtain der' where d': "rcgen_cert X ''message-center'' seed = Inr (id_cert_pem t, id_key_pem t, der')"
    by (rule save_fresh_Inr)
  have p: "pem_to_der B (id_cert_pem t) = Inr der'"
    using pem_readers(2) assms(1) d' by (auto simp: certs_wf_def)
  have f: "cert_fingerprint_der X der = cert_fingerprint_der X der' \<longleftrightarrow> sha256 X der = sha256 X der'"
  proof
    assume "cert_fingerprint_der X der = cert_fingerprint_der X der'"
    then show "sha256 X der = sha256 X der'"
      using parse_format[of X der] parse_format[of X der'] assms(2) by simp
  qed (simp add: cert_fingerprint_der_def)
  have "verify_pin X [(u, cert_fingerprint_der X der)] u [der'] = Inr () \<longleftrightarrow> sha256 X der = sha256 X der'"
    unfolding f[symmetric] by (simp add: verify_pin_Inr_iff hm_get_def)
  then show ?thesis using d(1,2) d' t(2) j(2) p
    by (intro exI[of _ "id_cert_pem j"] exI[of _ "id_key_pem j"] exI[of _ der] exI[of _ "id_cert_pem t"]
        exI[of _ "id_key_pem t"] exI[of _ der'] exI[of _ t]) simp
qed

theorem announced_not_served_witness:
  "\<exists>l F' der der'. main_load demo_id_ext demo_std demo_id_env ''d'' None None False [] [] 2 Map.empty = (Inr l, F') \<and>
     ci_fingerprint (ld_center l) = cert_fingerprint_der demo_id_ext der \<and>
     (verify_pin demo_id_ext [(7, ci_fingerprint (ld_center l))] 7 [der'] = Inr () \<longleftrightarrow>
        sha256 demo_id_ext der = sha256 demo_id_ext der')"
proof -
  obtain l F' where l: "main_load demo_id_ext demo_std demo_id_env ''d'' None None False [] [] 2 Map.empty = (Inr l, F')"
    by (rule demo_start)
  have h: "\<forall>d. length (sha256 demo_id_ext d) = SHA256_LEN"
    by (simp add: demo_id_ext_def SHA256_LEN_def)
  show ?thesis
    using announced_not_served[OF demo_certs_wf h _ _ l, of 7] l by fastforce
qed

text \<open>
  The public key is the sixty-five bytes at the first offset before the last possible one that
  holds a four followed by a byte other than zero, and the search fails exactly when there is none:
  a serial number with such bytes is taken for the key, and a key at the very end is not found.
\<close>

lemma pubkey_scan:
  assumes "pem_body B pem ''CERTIFICATE'' = Inr der"
  shows "(pubkey_from_pem X B pem = Inr k \<longleftrightarrow>
      (\<exists>i. i + 65 < length der \<and> der ! i = 4 \<and> der ! (i + 1) \<noteq> 0 \<and>
         (\<forall>j < i. \<not> (der ! j = 4 \<and> der ! (j + 1) \<noteq> 0)) \<and> k = b64_enc X (take 65 (drop i der)))) \<and>
    (pubkey_from_pem X B pem = Inl e \<longleftrightarrow>
      e = IeNoKey \<and> (\<forall>i. i + 65 < length der \<longrightarrow> \<not> (der ! i = 4 \<and> der ! (i + 1) \<noteq> 0)))"
proof -
  have at: "point_at der i \<longleftrightarrow> der ! i = 4 \<and> der ! (i + 1) \<noteq> 0" if "i + 65 < length der" for i
  proof -
    have "der ! (i + 1) = take 65 (drop i der) ! 1" "1 < length (take 65 (drop i der))" using that by simp_all
    then have "der ! (i + 1) \<in> set (take 65 (drop i der))" by (metis nth_mem)
    then show ?thesis by (auto simp: point_at_def list_ex_iff)
  qed
  define Q where "Q i \<longleftrightarrow> der ! i = 4 \<and> der ! (i + 1) \<noteq> 0" for i
  have at: "i + 65 < length der \<Longrightarrow> point_at der i = Q i" for i using at by (simp add: Q_def)
  let ?r = "find (point_at der) [0..<length der - 65]"
  have "(pubkey_from_pem X B pem = Inr k \<longleftrightarrow>
      (\<exists>i. i + 65 < length der \<and> Q i \<and> (\<forall>j < i. \<not> Q j) \<and> k = b64_enc X (take 65 (drop i der)))) \<and>
    (pubkey_from_pem X B pem = Inl e \<longleftrightarrow> e = IeNoKey \<and> (\<forall>i. i + 65 < length der \<longrightarrow> \<not> Q i))"
  proof (cases ?r)
    case None
    then have n: "\<forall>i. i + 65 < length der \<longrightarrow> \<not> Q i" using at by (auto simp: find_None_iff)
    moreover have "pubkey_from_pem X B pem = Inl IeNoKey"
      using None assms by (simp add: pubkey_from_pem_def)
    ultimately show ?thesis by auto
  next
    case (Some i)
    then have i: "i + 65 < length der" "Q i" "\<forall>j < i. \<not> Q j"
      using at by (auto simp: find_Some_iff)
    moreover have "pubkey_from_pem X B pem = Inr (b64_enc X (take 65 (drop i der)))"
      using Some assms by (simp add: pubkey_from_pem_def)
    moreover have "m = i" if "Q m" "\<forall>j < m. \<not> Q j" for m
      using that i(2,3) by (meson linorder_neqE_nat)
    ultimately show ?thesis by (metis Inl_Inr_False Inr_inject)
  qed
  then show ?thesis by (simp add: Q_def)
qed

theorem pubkey_scan_witness:
  "pubkey_from_pem demo_id_ext demo_std (demo_pem 3) = Inr (b64_enc demo_id_ext (4 # replicate 64 1))"
proof -
  have "pem_body demo_std (demo_pem 3) ''CERTIFICATE'' = Inr (demo_der 3)"
    by (rule pem_readers(1)[OF demo_pem_wf])
  note scan = conjunct1[OF pubkey_scan[OF this, of demo_id_ext "b64_enc demo_id_ext (4 # replicate 64 1)"]]
  show ?thesis unfolding scan by (intro exI[of _ 0]) (simp add: demo_der_def nth_append)
qed

end
