(* ===== verification/Config.thy ===== *)
theory Config
  imports Json Text
begin

text \<open>
  The message-center's configuration (phonebridge-core/src/config.rs), its directories (paths.rs)
  and the settings main.rs derives from both and from the command line. The TOML reader and
  printer are the parameters \<open>T\<close> and \<open>P\<close>, over the same trees as JSON; the
  environment's variables and the platform's directories are arguments.
\<close>

section \<open>Sections\<close>

record server_config =
  sv_bind :: string
  sv_cert_path :: string
  sv_key_path :: string
  sv_advertise_host :: string

record discovery_config =
  dv_service_type :: string
  dv_enabled :: bool
  dv_interface :: "string option"

record storage_config =
  st_db_path :: string

record logging_config =
  lg_level :: string
  lg_file :: string
  lg_max_log_size_mb :: u32
  lg_max_log_files :: u32

record config =
  cf_server :: server_config
  cf_discovery :: discovery_config
  cf_storage :: storage_config
  cf_logging :: logging_config

definition default_bind :: string where "default_bind = ''0.0.0.0:8443''"
definition default_service_type :: string where "default_service_type = ''_phonebridge._tcp''"
definition default_log_level :: string where "default_log_level = ''info''"
definition default_log_size :: u32 where "default_log_size = 10"
definition default_log_files :: u32 where "default_log_files = 5"

definition server_default :: server_config where
  "server_default = \<lparr>sv_bind = default_bind, sv_cert_path = [], sv_key_path = [], sv_advertise_host = []\<rparr>"

definition discovery_default :: discovery_config where
  "discovery_default = \<lparr>dv_service_type = default_service_type, dv_enabled = True, dv_interface = None\<rparr>"

definition storage_default :: storage_config where
  "storage_default = \<lparr>st_db_path = []\<rparr>"

definition logging_default :: logging_config where
  "logging_default = \<lparr>lg_level = default_log_level, lg_file = [], lg_max_log_size_mb = default_log_size,
     lg_max_log_files = default_log_files\<rparr>"

definition config_default :: config where
  "config_default = \<lparr>cf_server = server_default, cf_discovery = discovery_default,
     cf_storage = storage_default, cf_logging = logging_default\<rparr>"

section \<open>Reading and writing\<close>

definition dec_server :: "json \<Rightarrow> server_config option" where
  "dec_server j = do {
     f \<leftarrow> struct_fields 4 j;
     x0 \<leftarrow> dflt dec_str default_bind (f 0 ''bind'');
     x1 \<leftarrow> dflt dec_str [] (f 1 ''cert_path'');
     x2 \<leftarrow> dflt dec_str [] (f 2 ''key_path'');
     x3 \<leftarrow> dflt dec_str [] (f 3 ''advertise_host'');
     Some \<lparr>sv_bind = x0, sv_cert_path = x1, sv_key_path = x2, sv_advertise_host = x3\<rparr>
   }"

definition enc_server :: "server_config \<Rightarrow> json" where
  "enc_server c = JObj [(''bind'', JStr (sv_bind c)), (''cert_path'', JStr (sv_cert_path c)),
     (''key_path'', JStr (sv_key_path c)), (''advertise_host'', JStr (sv_advertise_host c))]"

definition dec_discovery :: "json \<Rightarrow> discovery_config option" where
  "dec_discovery j = do {
     f \<leftarrow> struct_fields 3 j;
     x0 \<leftarrow> dflt dec_str default_service_type (f 0 ''service_type'');
     x1 \<leftarrow> dflt dec_bool True (f 1 ''enabled'');
     x2 \<leftarrow> opt dec_str (f 2 ''interface'');
     Some \<lparr>dv_service_type = x0, dv_enabled = x1, dv_interface = x2\<rparr>
   }"

definition enc_discovery :: "discovery_config \<Rightarrow> json" where
  "enc_discovery c = JObj ([(''service_type'', JStr (dv_service_type c)), (''enabled'', JBool (dv_enabled c))] @
     opt_f ''interface'' JStr (dv_interface c))"

definition dec_storage :: "json \<Rightarrow> storage_config option" where
  "dec_storage j = do {
     f \<leftarrow> struct_fields 1 j;
     x0 \<leftarrow> dflt dec_str [] (f 0 ''db_path'');
     Some \<lparr>st_db_path = x0\<rparr>
   }"

definition enc_storage :: "storage_config \<Rightarrow> json" where
  "enc_storage c = JObj [(''db_path'', JStr (st_db_path c))]"

definition dec_logging :: "json \<Rightarrow> logging_config option" where
  "dec_logging j = do {
     f \<leftarrow> struct_fields 4 j;
     x0 \<leftarrow> dflt dec_str default_log_level (f 0 ''level'');
     x1 \<leftarrow> dflt dec_str [] (f 1 ''file'');
     x2 \<leftarrow> dflt dec_word default_log_size (f 2 ''max_log_size_mb'');
     x3 \<leftarrow> dflt dec_word default_log_files (f 3 ''max_log_files'');
     Some \<lparr>lg_level = x0, lg_file = x1, lg_max_log_size_mb = x2, lg_max_log_files = x3\<rparr>
   }"

definition enc_logging :: "logging_config \<Rightarrow> json" where
  "enc_logging c = JObj [(''level'', JStr (lg_level c)), (''file'', JStr (lg_file c)),
     (''max_log_size_mb'', enc_word (lg_max_log_size_mb c)), (''max_log_files'', enc_word (lg_max_log_files c))]"

definition dec_config :: "json \<Rightarrow> config option" where
  "dec_config j = do {
     f \<leftarrow> struct_fields 4 j;
     x0 \<leftarrow> dflt dec_server server_default (f 0 ''server'');
     x1 \<leftarrow> dflt dec_discovery discovery_default (f 1 ''discovery'');
     x2 \<leftarrow> dflt dec_storage storage_default (f 2 ''storage'');
     x3 \<leftarrow> dflt dec_logging logging_default (f 3 ''logging'');
     Some \<lparr>cf_server = x0, cf_discovery = x1, cf_storage = x2, cf_logging = x3\<rparr>
   }"

definition enc_config :: "config \<Rightarrow> json" where
  "enc_config c = JObj [(''server'', enc_server (cf_server c)), (''discovery'', enc_discovery (cf_discovery c)),
     (''storage'', enc_storage (cf_storage c)), (''logging'', enc_logging (cf_logging c))]"

datatype config_error = CeIo string | CeToml | CeTomlSer

text \<open>
  A file is absent, unreadable or has a text. \<open>load_from_str\<close> reads a text; a tree that
  is not a configuration is the reader's error too.
\<close>

datatype stored = Absent | Unreadable string | Stored string

definition load_from_str :: "(string \<Rightarrow> json option) \<Rightarrow> string \<Rightarrow> config_error + config" where
  "load_from_str T s = (case Option.bind (T s) dec_config of None \<Rightarrow> Inl CeToml | Some c \<Rightarrow> Inr c)"

definition load_from_file :: "(string \<Rightarrow> json option) \<Rightarrow> stored \<Rightarrow> config_error + config" where
  "load_from_file T f =
     (case f of
        Absent \<Rightarrow> Inr config_default
      | Unreadable e \<Rightarrow> Inl (CeIo e)
      | Stored s \<Rightarrow> load_from_str T s)"

text \<open>Saving: the directories, then the text, then the file.\<close>

definition save_to_file ::
  "(json \<Rightarrow> string option) \<Rightarrow> string option \<Rightarrow> string option \<Rightarrow> config \<Rightarrow> stored \<Rightarrow> (config_error + unit) \<times> stored" where
  "save_to_file P mkdir_error write_error c f =
     (case mkdir_error of
        Some e \<Rightarrow> (Inl (CeIo e), f)
      | None \<Rightarrow>
          (case P (enc_config c) of
             None \<Rightarrow> (Inl CeTomlSer, f)
           | Some s \<Rightarrow> (case write_error of Some e \<Rightarrow> (Inl (CeIo e), f) | None \<Rightarrow> (Inr (), Stored s))))"

section \<open>Directories\<close>

text \<open>\<open>Path::join\<close>: an absolute second path replaces the first.\<close>

definition path_push :: "string \<Rightarrow> string \<Rightarrow> string" where
  "path_push dir name = (if take 1 name = ''/'' then name else path_join dir name)"

definition expand_tilde :: "string option \<Rightarrow> string \<Rightarrow> string" where
  "expand_tilde home input =
     (if take 2 input = ''~/''
      then (case home of Some h \<Rightarrow> path_push h (drop 2 input) | None \<Rightarrow> input)
      else if input = ''~'' then (case home of Some h \<Rightarrow> h | None \<Rightarrow> input)
      else input)"

record app_paths =
  ap_config_dir :: string
  ap_data_dir :: string
  ap_log_dir :: string

datatype path_error = NoConfigDir | NoDataDir

definition paths_resolve ::
  "(string \<Rightarrow> string option) \<Rightarrow> (string \<times> string) option \<Rightarrow> path_error + app_paths" where
  "paths_resolve env project_dirs =
     (let dir = (\<lambda>var std. case env var of
                    Some s \<Rightarrow> Some (expand_tilde (env ''HOME'') s)
                  | None \<Rightarrow> map_option std project_dirs)
      in case dir ''PHONEBRIDGE_CONFIG_DIR'' fst of
           None \<Rightarrow> Inl NoConfigDir
         | Some c \<Rightarrow>
             (case dir ''PHONEBRIDGE_DATA_DIR'' snd of
                None \<Rightarrow> Inl NoDataDir
              | Some d \<Rightarrow> Inr \<lparr>ap_config_dir = c, ap_data_dir = d, ap_log_dir = d\<rparr>))"

definition paths_config_file :: "app_paths \<Rightarrow> string" where
  "paths_config_file p = path_join (ap_config_dir p) ''config.toml''"

definition paths_db_file :: "app_paths \<Rightarrow> string" where
  "paths_db_file p = path_join (ap_data_dir p) ''phonebridge.db''"

section \<open>What main makes of it\<close>

record args =
  ag_bind :: "string option"
  ag_no_tls :: bool

text \<open>The bind address: the argument, or the configured one, moved off the port of HTTPS.\<close>

definition main_bind :: "args \<Rightarrow> config \<Rightarrow> string" where
  "main_bind a c =
     (let bind = (case ag_bind a of Some b \<Rightarrow> b | None \<Rightarrow> sv_bind (cf_server c))
      in if ag_no_tls a \<and> ag_bind a = None
         then (if bind = ''0.0.0.0:8443'' then ''0.0.0.0:8080'' else bind)
         else bind)"

definition main_db_path :: "app_paths \<Rightarrow> config \<Rightarrow> string" where
  "main_db_path p c = (if st_db_path (cf_storage c) = [] then paths_db_file p else st_db_path (cf_storage c))"

section \<open>Saving and loading\<close>

lemma rt_server: "dec_server (enc_server c) = Some c"
  by (cases c) (simp add: enc_server_def dec_server_def wire_simps)

lemma rt_discovery: "dec_discovery (enc_discovery c) = Some c"
  by (cases c) (simp add: enc_discovery_def dec_discovery_def wire_simps)

lemma rt_storage: "dec_storage (enc_storage c) = Some c"
  by (cases c) (simp add: enc_storage_def dec_storage_def wire_simps)

lemma rt_logging: "dec_logging (enc_logging c) = Some c"
  by (cases c) (simp add: enc_logging_def dec_logging_def wire_simps)

lemma rt_config: "dec_config (enc_config c) = Some c"
  by (cases c) (simp add: enc_config_def dec_config_def wire_simps rt_server rt_discovery rt_storage rt_logging)

definition sections :: "config \<Rightarrow> (string \<times> json) list" where
  "sections c = [(''server'', enc_server (cf_server c)), (''discovery'', enc_discovery (cf_discovery c)),
     (''storage'', enc_storage (cf_storage c)), (''logging'', enc_logging (cf_logging c))]"

text \<open>
  What is saved is what is loaded: with a printer whose texts the reader reads back, loading
  the file a configuration was saved to gives that configuration, and loading a text in which some
  of its sections are left out gives it with those sections at their defaults; a file that does not
  exist is all defaults.
\<close>

lemma config_roundtrip:
  assumes "\<forall>j s. P j = Some s \<longrightarrow> T s = Some j" "P (enc_config c) = Some s"
    and "T s' = Some (JObj (filter (\<lambda>x. keep (fst x)) (sections c)))"
  shows "load_from_file T (snd (save_to_file P None None c f)) = Inr c \<and>
    load_from_file T (Stored s') = Inr
      \<lparr>cf_server = if keep ''server'' then cf_server c else cf_server config_default,
       cf_discovery = if keep ''discovery'' then cf_discovery c else cf_discovery config_default,
       cf_storage = if keep ''storage'' then cf_storage c else cf_storage config_default,
       cf_logging = if keep ''logging'' then cf_logging c else cf_logging config_default\<rparr> \<and>
    load_from_file T Absent = Inr config_default"
proof -
  have "T s = Some (enc_config c)" using assms(1,2) by blast
  then have "load_from_file T (snd (save_to_file P None None c f)) = Inr c"
    by (simp add: save_to_file_def assms(2) load_from_file_def load_from_str_def rt_config)
  then show ?thesis
    by (simp add: load_from_file_def load_from_str_def assms(3) dec_config_def sections_def wire_simps
        rt_server rt_discovery rt_storage rt_logging config_default_def)
qed

definition demo_config :: config where
  "demo_config = config_default\<lparr>cf_server := server_default\<lparr>sv_bind := ''[::1]:9''\<rparr>\<rparr>"

theorem config_roundtrip_witness:
  "\<exists>P T. load_from_file T (snd (save_to_file P None None demo_config Absent)) = Inr demo_config \<and>
     load_from_file T (Stored ''b'') = Inr config_default"
proof -
  let ?P = "\<lambda>j. if j = enc_config demo_config then Some ''a'' else None"
  let ?T = "\<lambda>s. if s = ''a'' then Some (enc_config demo_config) else if s = ''b'' then Some (JObj []) else None"
  have p: "\<forall>j s. ?P j = Some s \<longrightarrow> ?T s = Some j" "?P (enc_config demo_config) = Some ''a''" by simp_all
  have t: "?T ''b'' = Some (JObj (filter (\<lambda>x. (\<lambda>_. False) (fst x)) (sections demo_config)))" by simp
  show ?thesis using config_roundtrip[OF p t, of Absent]
    by (intro exI[of _ ?P] exI[of _ ?T]) (simp add: config_default_def)
qed

lemma main_bind_explicit: "ag_bind a = Some b \<Longrightarrow> main_bind a c = b"
  by (simp add: main_bind_def)

end
