(* ===== verification/Listener.thy ===== *)
theory Listener
  imports Identity Config
begin

text \<open>
  What the start of the message-center sets up before and after its own logic: the log
  (phonebridge-core/src/logging.rs), the directories (paths.rs), the opening of the database
  (phonebridge-storage/src/pool.rs) and the TLS server (message-center/src/tls.rs). Which system
  calls succeed, the PEM parser, rustls and sqlx are arguments.
\<close>

section \<open>Logging\<close>

text \<open>
  \<open>le_rust_log\<close> is the filter in RUST_LOG, when it is set and valid. Directories and files are
  named by the path they are for.
\<close>

record log_env =
  le_rust_log :: "string option"
  le_parents :: "string \<Rightarrow> bool"
  le_opens :: "string \<Rightarrow> bool"

datatype log_error = LogIo string

text \<open>
  The subscriber that is installed: its filter, the file it also writes to, and whether the guard
  that keeps the file's writer running is still held.
\<close>

record subscriber =
  su_filter :: string
  su_file :: "string option"
  su_guard :: bool

definition open_log_file :: "log_env \<Rightarrow> string \<Rightarrow> log_error + string" where
  "open_log_file E p = (if \<not> le_parents E p \<or> \<not> le_opens E p then Inl (LogIo p) else Inr p)"

text \<open>The block that binds the guard ends with it, so the guard is dropped there.\<close>

definition logging_init :: "log_env \<Rightarrow> logging_config \<Rightarrow> log_error + subscriber" where
  "logging_init E c =
     (let env_filter = (case le_rust_log E of Some f \<Rightarrow> f | None \<Rightarrow> lg_level c)
      in if lg_file c = [] then Inr \<lparr>su_filter = env_filter, su_file = None, su_guard = False\<rparr>
         else (case open_log_file E (lg_file c) of
                 Inl e \<Rightarrow> Inl e
               | Inr file \<Rightarrow>
                   (let installed = \<lparr>su_filter = env_filter, su_file = Some file, su_guard = True\<rparr>
                    in Inr (installed\<lparr>su_guard := False\<rparr>))))"

text \<open>
  The settings that bound the log's size and number of files are not read, and no file's writer
  outlives the set-up.
\<close>

lemma logging_ignores:
  "logging_init E (c\<lparr>lg_max_log_size_mb := n, lg_max_log_files := k\<rparr>) = logging_init E c"
  by (cases "le_rust_log E") (simp_all add: logging_init_def Let_def)

lemma log_guard_dropped: "logging_init E c = Inr s \<Longrightarrow> \<not> su_guard s"
  by (auto simp: logging_init_def Let_def split: if_splits sum.splits)

section \<open>Directories and the database\<close>

definition paths_ensure :: "(string \<Rightarrow> bool) \<Rightarrow> app_paths \<Rightarrow> bool" where
  "paths_ensure mkdir p \<longleftrightarrow> mkdir (ap_config_dir p) \<and> mkdir (ap_data_dir p) \<and> mkdir (ap_log_dir p)"

record db_env =
  dn_parents :: "string \<Rightarrow> bool"
  dn_url :: "string \<Rightarrow> string option"
  dn_connect :: "string \<Rightarrow> string option"
  dn_migrate :: "string \<Rightarrow> string option"

datatype journal = JmWal | JmMemory

record db_options =
  do_url :: string
  do_create :: bool
  do_journal :: journal
  do_foreign_keys :: bool
  do_connections :: nat

datatype open_error = OeIo string | OeSqlx string | OeMigrate string

definition db_open :: "db_env \<Rightarrow> string \<Rightarrow> open_error + db_options" where
  "db_open E path =
     (if \<not> dn_parents E path then Inl (OeIo path)
      else (let url = ''sqlite://'' @ path @ ''?mode=rwc''
            in case dn_url E url of
                 Some e \<Rightarrow> Inl (OeSqlx e)
               | None \<Rightarrow>
                   (case dn_connect E url of
                      Some e \<Rightarrow> Inl (OeSqlx e)
                    | None \<Rightarrow> Inr \<lparr>do_url = url, do_create = True, do_journal = JmWal,
                        do_foreign_keys = True, do_connections = 4\<rparr>)))"

definition db_open_memory :: "db_env \<Rightarrow> open_error + db_options" where
  "db_open_memory E =
     (let url = ''sqlite::memory:''
      in case dn_url E url of
           Some e \<Rightarrow> Inl (OeSqlx e)
         | None \<Rightarrow>
             (case dn_connect E url of
                Some e \<Rightarrow> Inl (OeSqlx e)
              | None \<Rightarrow> Inr \<lparr>do_url = url, do_create = False, do_journal = JmMemory,
                  do_foreign_keys = True, do_connections = 4\<rparr>))"

definition db_migrate :: "db_env \<Rightarrow> db_options \<Rightarrow> open_error + db_options" where
  "db_migrate E opts = (case dn_migrate E (do_url opts) of Some e \<Rightarrow> Inl (OeMigrate e) | None \<Rightarrow> Inr opts)"

text \<open>What main opens: the database at a path, migrated.\<close>

definition db_ready :: "db_env \<Rightarrow> string \<Rightarrow> open_error + db_options" where
  "db_ready E path = (case db_open E path of Inl e \<Rightarrow> Inl e | Inr opts \<Rightarrow> db_migrate E opts)"

text \<open>Foreign keys, which the model of the tables relies on, are on in every database that is opened.\<close>

lemma db_ready_options:
  "db_ready E path = Inr opts \<Longrightarrow> do_foreign_keys opts \<and> do_url opts = ''sqlite://'' @ path @ ''?mode=rwc''"
  by (auto simp: db_ready_def db_open_def db_migrate_def Let_def split: if_splits option.splits)

section \<open>The TLS server\<close>

text \<open>
  rustls-pemfile reads the certificates of a text one by one and the first private key; rustls may
  refuse a chain with a key.
\<close>

record tls_env =
  tl_certs :: "string \<Rightarrow> (string + u8 list) list"
  tl_key :: "string \<Rightarrow> string + u8 list option"
  tl_config :: "u8 list list \<Rightarrow> u8 list \<Rightarrow> string option"

datatype serve_error =
    SvCerts string | SvNoCerts | SvKey string | SvNoKey | SvConfig string | SvBind

text \<open>\<open>collect::<Result<Vec<_>, _>>()\<close>: the first error, or everything.\<close>

fun collect_results :: "('e + 'a) list \<Rightarrow> 'e + 'a list" where
  "collect_results [] = Inr []"
| "collect_results (Inl e # rs) = Inl e"
| "collect_results (Inr a # rs) = (case collect_results rs of Inl e \<Rightarrow> Inl e | Inr as \<Rightarrow> Inr (a # as))"

lemma collect_results_map [simp]: "collect_results (map Inr as) = Inr as"
  by (induction as) simp_all

lemma collect_results_Inr: "collect_results rs = Inr as \<longleftrightarrow> rs = map Inr as"
proof
  show "collect_results rs = Inr as \<Longrightarrow> rs = map Inr as"
    by (induction rs arbitrary: as rule: collect_results.induct) (auto split: sum.splits)
qed simp

text \<open>The chain and the key the server is given.\<close>

definition tls_config :: "tls_env \<Rightarrow> identity \<Rightarrow> serve_error + u8 list list \<times> u8 list" where
  "tls_config T i =
     (case collect_results (tl_certs T (id_cert_pem i)) of
        Inl e \<Rightarrow> Inl (SvCerts e)
      | Inr certs \<Rightarrow>
          if certs = [] then Inl SvNoCerts
          else (case tl_key T (id_key_pem i) of
                  Inl e \<Rightarrow> Inl (SvKey e)
                | Inr None \<Rightarrow> Inl SvNoKey
                | Inr (Some key) \<Rightarrow>
                    (case tl_config T certs key of
                       Some e \<Rightarrow> Inl (SvConfig e)
                     | None \<Rightarrow> Inr (certs, key))))"

text \<open>\<open>bound\<close> is whether the address can be bound; the server then runs until it is stopped.\<close>

definition serve_https :: "tls_env \<Rightarrow> bool \<Rightarrow> identity \<Rightarrow> serve_error + u8 list list \<times> u8 list" where
  "serve_https T bound i =
     (case tls_config T i of Inl e \<Rightarrow> Inl e | Inr c \<Rightarrow> if bound then Inr c else Inl SvBind)"

text \<open>The last step of main: over TLS with an identity, in plain HTTP without.\<close>

definition listen :: "tls_env \<Rightarrow> bool \<Rightarrow> identity option \<Rightarrow> serve_error + (u8 list list \<times> u8 list) option" where
  "listen T bound t =
     (case t of
        Some i \<Rightarrow> map_sum id Some (serve_https T bound i)
      | None \<Rightarrow> if bound then Inr None else Inl SvBind)"

text \<open>A TLS listener presents a chain that was read, with a key that was read, and rustls took both.\<close>

lemma tls_config_Inr:
  "tls_config T i = Inr (certs, key) \<longleftrightarrow>
     tl_certs T (id_cert_pem i) = map Inr certs \<and> certs \<noteq> [] \<and> tl_key T (id_key_pem i) = Inr (Some key) \<and>
     tl_config T certs key = None"
  by (auto simp: tls_config_def collect_results_Inr[symmetric] split: sum.splits option.splits if_splits)

lemma listen_Inr:
  "listen T bound t = Inr w \<longleftrightarrow>
     bound \<and> (case t of None \<Rightarrow> w = None | Some i \<Rightarrow> \<exists>certs key. w = Some (certs, key) \<and> tls_config T i = Inr (certs, key))"
  by (auto simp: listen_def serve_https_def split: option.splits sum.splits)

end
