(* ===== verification/Discovery.thy ===== *)
theory Discovery
  imports DisplayAuth
begin

text \<open>
  Discovery on the local network: the TXT record the message-center announces, what it makes of a
  service it finds (phonebridge-net/src/mdns.rs), and how the service is started and kept
  (message-center/src/mdns_service.rs, main.rs). The mDNS daemon is a library: which of its calls
  fail, and what it resolves, are arguments.
\<close>

section \<open>TXT records\<close>

definition TXT_KEY_DEVICE_ID :: string where "TXT_KEY_DEVICE_ID = ''id''"
definition TXT_KEY_NAME :: string where "TXT_KEY_NAME = ''name''"
definition TXT_KEY_PORT :: string where "TXT_KEY_PORT = ''port''"
definition TXT_KEY_FINGERPRINT :: string where "TXT_KEY_FINGERPRINT = ''fingerprint''"

lemmas txt_keys = TXT_KEY_DEVICE_ID_def TXT_KEY_NAME_def TXT_KEY_PORT_def TXT_KEY_FINGERPRINT_def

type_synonym txt_record = "(string, string) hmap"

definition daemon_txt :: "string \<Rightarrow> string \<Rightarrow> u16 \<Rightarrow> string \<Rightarrow> txt_record" where
  "daemon_txt device_id name port fingerprint =
     hm_insert TXT_KEY_FINGERPRINT fingerprint (hm_insert TXT_KEY_PORT (nat_dec (unat port))
       (hm_insert TXT_KEY_NAME name (hm_insert TXT_KEY_DEVICE_ID device_id [])))"

text \<open>\<open>str::parse\<close> to an unsigned sixteen-bit integer: digits after an optional plus sign.\<close>

fun read_value :: "nat \<Rightarrow> string \<Rightarrow> nat option" where
  "read_value n [] = Some n"
| "read_value n (c # s) =
     (if is_ascii_digit c then read_value (n * 10 + (of_char c - 48)) s else None)"

definition parse_u16 :: "string \<Rightarrow> u16 option" where
  "parse_u16 s =
     (let ds = (if s \<noteq> [] \<and> hd s = CHR ''+'' then tl s else s)
      in if ds = [] then None
         else case read_value 0 ds of
                None \<Rightarrow> None
              | Some n \<Rightarrow> if n < 2 ^ 16 then Some (of_nat n) else None)"

text \<open>What is read back of the properties of a service the library holds.\<close>

definition collect_txt :: "(string \<times> string) list \<Rightarrow> txt_record" where
  "collect_txt ps = fold (\<lambda>(k, v). hm_insert k v) ps []"

text \<open>
  A resolved service as the library presents it: the value of a property, and all properties in
  the order they are iterated.
\<close>

record service_info =
  si_addresses_v4 :: "u32 list"
  si_port :: u16
  si_val_str :: "string \<Rightarrow> string option"
  si_properties :: "(string \<times> string) list"
  si_fullname :: string

record mdns_device =
  md_device_id :: string
  md_name :: string
  md_address :: u32
  md_port :: u16
  md_fingerprint :: "string option"
  md_txt :: txt_record

definition strip_nul :: "string \<Rightarrow> string" where
  "strip_nul v = (if v \<noteq> [] \<and> last v = CHR 0x00 then butlast v else v)"

definition parse_resolved :: "service_info \<Rightarrow> mdns_device option" where
  "parse_resolved info =
     (case si_addresses_v4 info of
        [] \<Rightarrow> None
      | address # _ \<Rightarrow>
          (let port = (case Option.bind (si_val_str info TXT_KEY_PORT) parse_u16 of
                         Some p \<Rightarrow> p | None \<Rightarrow> si_port info);
               device_id = (case si_val_str info TXT_KEY_DEVICE_ID of Some v \<Rightarrow> v | None \<Rightarrow> [])
           in if device_id = [] then None
              else Some \<lparr>md_device_id = device_id,
                md_name = (case si_val_str info TXT_KEY_NAME of Some v \<Rightarrow> v | None \<Rightarrow> []),
                md_address = address, md_port = port,
                md_fingerprint = si_val_str info TXT_KEY_FINGERPRINT,
                md_txt = fold (\<lambda>(k, v). hm_insert k (strip_nul v)) (si_properties info) []\<rparr>))"

datatype mdns_event = MvDiscovered mdns_device | MvRemoved string

datatype service_event = SvResolved service_info | SvRemoved string | SvSearch

text \<open>The browsing thread turns service events into ours, in order.\<close>

definition browse_event :: "service_event \<Rightarrow> mdns_event option" where
  "browse_event e =
     (case e of
        SvResolved info \<Rightarrow> map_option MvDiscovered (parse_resolved info)
      | SvRemoved fullname \<Rightarrow> Some (MvRemoved fullname)
      | SvSearch \<Rightarrow> None)"

record mdns_entry =
  mn_device_id :: string
  mn_name :: string
  mn_address :: u32
  mn_port :: u16
  mn_fingerprint :: "string option"

text \<open>The two tasks of the service: forward what was discovered, keep the latest of each id.\<close>

definition forward_event :: "mdns_event \<Rightarrow> mdns_entry option" where
  "forward_event e =
     (case e of
        MvDiscovered d \<Rightarrow> Some \<lparr>mn_device_id = md_device_id d, mn_name = md_name d,
          mn_address = md_address d, mn_port = md_port d, mn_fingerprint = md_fingerprint d\<rparr>
      | MvRemoved _ \<Rightarrow> None)"

definition drain_entry :: "mdns_entry \<Rightarrow> (string, mdns_entry) hmap \<Rightarrow> (string, mdns_entry) hmap" where
  "drain_entry e m = hm_insert (mn_device_id e) e m"

section \<open>Names\<close>

definition normalize_service_type :: "string \<Rightarrow> string" where
  "normalize_service_type t =
     (if ends_with t ''.local.'' \<or> ends_with t ''.local'' then t
      else if ends_with t ''._tcp'' \<or> ends_with t ''._udp'' then t @ ''.local.''
      else t @ ''._tcp.local.'')"

definition normalize_hostname :: "string \<Rightarrow> string" where
  "normalize_hostname h =
     (if ends_with h ''.local.'' then h
      else if ends_with h ''.local'' then h @ ''.''
      else h @ ''.local.'')"

section \<open>Starting the service\<close>

text \<open>
  The daemons of the host that still run: what they announce and what they browse for. An
  announcement without an address leaves the addresses to the library.
\<close>

record announcement =
  an_service_type :: string
  an_instance :: string
  an_host :: string
  an_address :: "u32 option"
  an_port :: u16
  an_txt :: txt_record

record mdns_host =
  mh_next :: nat
  mh_ads :: "(nat \<times> announcement) list"
  mh_browses :: "(nat \<times> string) list"

datatype mdns_error = MeDaemon string | MeOp string

text \<open>
  The host and what the library answers: the variable and the file that name the host, the
  properties it reads back from a record, the local address of a socket that could be connected,
  and an error of each call, or \<open>None\<close>.
\<close>

record mdns_env =
  me_hostname :: "string option"
  me_etc_hostname :: "string option"
  me_daemon :: "nat \<Rightarrow> string option"
  me_info :: "string option"
  me_addresses_empty :: bool
  me_properties :: "txt_record \<Rightarrow> (string \<times> string) list"
  me_local_addr :: "ip_addr option"
  me_info_again :: "string option"
  me_register :: "string option"
  me_browse :: "string option"
  me_thread :: "string option"

definition detect_local_ipv4 :: "ip_addr option \<Rightarrow> u32 option" where
  "detect_local_ipv4 local =
     (case local of
        Some (Ipv4 a) \<Rightarrow> if is_loopback (Ipv4 a) then None else Some a
      | _ \<Rightarrow> None)"

text \<open>Shutting a daemon down ends what it announces and browses for.\<close>

definition daemon_shutdown :: "nat \<Rightarrow> mdns_host \<Rightarrow> mdns_host" where
  "daemon_shutdown d H = H\<lparr>mh_ads := filter (\<lambda>a. fst a \<noteq> d) (mh_ads H),
     mh_browses := filter (\<lambda>b. fst b \<noteq> d) (mh_browses H)\<rparr>"

text \<open>
  The service is built for automatic addresses; when it has none yet and a local one is known, it is
  built again with that one, from the properties read back.
\<close>

definition service_built ::
  "mdns_env \<Rightarrow> string \<Rightarrow> string \<Rightarrow> string \<Rightarrow> u16 \<Rightarrow> txt_record \<Rightarrow> mdns_error + announcement" where
  "service_built E service_type inst host port txt =
     (let info = \<lparr>an_service_type = service_type, an_instance = inst, an_host = host,
            an_address = None, an_port = port, an_txt = txt\<rparr>
      in case me_info E of
           Some e \<Rightarrow> Inl (MeOp e)
         | None \<Rightarrow>
             if me_addresses_empty E
             then (case detect_local_ipv4 (me_local_addr E) of
                     None \<Rightarrow> Inr info
                   | Some ip \<Rightarrow>
                       (case me_info_again E of
                          Some e \<Rightarrow> Inl (MeOp e)
                        | None \<Rightarrow> Inr (info\<lparr>an_address := Some ip, an_txt := collect_txt (me_properties E txt)\<rparr>)))
             else Inr info)"

definition advertise ::
  "mdns_env \<Rightarrow> string \<Rightarrow> string \<Rightarrow> string \<Rightarrow> u16 \<Rightarrow> txt_record \<Rightarrow> mdns_host \<Rightarrow> (mdns_error + nat) \<times> mdns_host" where
  "advertise E service_type inst host port txt H =
     (let d = mh_next H; H1 = H\<lparr>mh_next := d + 1\<rparr>
      in case me_daemon E 0 of
           Some e \<Rightarrow> (Inl (MeDaemon e), H)
         | None \<Rightarrow>
             (case service_built E service_type inst host port txt of
                Inl e \<Rightarrow> (Inl e, H1)
              | Inr info \<Rightarrow>
                  (case me_register E of
                     Some e \<Rightarrow> (Inl (MeOp e), H1)
                   | None \<Rightarrow> (Inr d, H1\<lparr>mh_ads := (d, info) # mh_ads H1\<rparr>))))"

definition browse :: "mdns_env \<Rightarrow> string \<Rightarrow> mdns_host \<Rightarrow> (mdns_error + nat) \<times> mdns_host" where
  "browse E service_type H =
     (let d = mh_next H; H1 = H\<lparr>mh_next := d + 1\<rparr>;
          H2 = H1\<lparr>mh_browses := (d, service_type) # mh_browses H1\<rparr>
      in case me_daemon E 1 of
           Some e \<Rightarrow> (Inl (MeDaemon e), H)
         | None \<Rightarrow>
             (case me_browse E of
                Some e \<Rightarrow> (Inl (MeOp e), H1)
              | None \<Rightarrow> (case me_thread E of Some e \<Rightarrow> (Inl (MeOp e), H2) | None \<Rightarrow> (Inr d, H2))))"

record mdns_service =
  ms_advertiser :: nat
  ms_browser :: nat

text \<open>The port of the bind address, after its last colon.\<close>

definition bind_port :: "string \<Rightarrow> u16" where
  "bind_port bind = (case parse_u16 (last (split_char (CHR '':'') bind)) of Some p \<Rightarrow> p | None \<Rightarrow> 8443)"

text \<open>The name of the host: the variable, else the file, else a fixed one.\<close>

definition hostname :: "mdns_env \<Rightarrow> string" where
  "hostname E =
     (case me_hostname E of
        Some h \<Rightarrow> h
      | None \<Rightarrow> (case me_etc_hostname E of Some s \<Rightarrow> trim s | None \<Rightarrow> ''phonebridge''))"

text \<open>When browsing fails the advertiser goes out of scope, which shuts its daemon down.\<close>

definition mdns_start ::
  "mdns_env \<Rightarrow> string \<Rightarrow> string \<Rightarrow> string \<Rightarrow> string \<Rightarrow> string \<Rightarrow> mdns_host \<Rightarrow>
     (mdns_error + mdns_service) \<times> mdns_host" where
  "mdns_start E bind service device_id name fp H =
     (let instance_name = ''phonebridge-'' @ hostname E;
          host_name = normalize_hostname (hostname E);
          port = bind_port bind;
          st = normalize_service_type service
      in case advertise E st instance_name host_name port (daemon_txt device_id name port fp) H of
           (Inl e, H1) \<Rightarrow> (Inl e, H1)
         | (Inr a, H1) \<Rightarrow>
             (case browse E st H1 of
                (Inl e, H2) \<Rightarrow> (Inl e, daemon_shutdown a H2)
              | (Inr b, H2) \<Rightarrow> (Inr \<lparr>ms_advertiser = a, ms_browser = b\<rparr>, H2)))"

definition drop_service :: "mdns_service \<Rightarrow> mdns_host \<Rightarrow> mdns_host" where
  "drop_service m H = daemon_shutdown (ms_browser m) (daemon_shutdown (ms_advertiser m) H)"

text \<open>What main does with it: the service is bound in the arm of a match, and dropped at its end.\<close>

definition main_mdns ::
  "mdns_env \<Rightarrow> bool \<Rightarrow> string \<Rightarrow> string \<Rightarrow> string \<Rightarrow> string \<Rightarrow> string \<Rightarrow> mdns_host \<Rightarrow> mdns_host" where
  "main_mdns E enabled bind service device_id name fp H =
     (if enabled
      then (case mdns_start E bind service device_id name fp H of
              (Inl _, H') \<Rightarrow> H' | (Inr m, H') \<Rightarrow> drop_service m H')
      else H)"

section \<open>What is announced is understood\<close>

lemma digit_value: "n < 10 \<Longrightarrow> of_char (digit_lower n) - 48 = (n :: nat)"
proof -
  assume "n < 10"
  then have "n \<in> set [0..<10]" by simp
  then show ?thesis by (auto simp: upt_rec digit_lower_def)
qed

lemma dec_value_append:
  "read_value n (s @ t) = Option.bind (read_value n s) (\<lambda>m. read_value m t)"
  by (induction n s rule: read_value.induct) simp_all

lemma read_value_nat_dec: "read_value 0 (nat_dec n) = Some n"
proof (induction n rule: less_induct)
  case (less n)
  show ?case
  proof (cases "n < 10")
    case True
    then show ?thesis by (simp add: nat_dec_small digit_lower_digit digit_value)
  next
    case False
    then have "read_value 0 (nat_dec (n div 10)) = Some (n div 10)" using less by simp
    then show ?thesis using False
      by (simp add: nat_dec_big dec_value_append digit_lower_digit digit_value)
  qed
qed

lemma nat_dec_start: "nat_dec n \<noteq> [] \<and> hd (nat_dec n) \<noteq> CHR ''+''"
proof -
  have "nat_dec n \<noteq> []" by (cases "n < 10") (simp_all add: nat_dec_small nat_dec_big)
  moreover from this have "is_ascii_digit (hd (nat_dec n))"
    using nat_dec_digits[of n] by (simp add: list_all_iff)
  ultimately show ?thesis by (auto simp: is_ascii_digit_def)
qed

lemma parse_u16_dec: "parse_u16 (nat_dec (unat p)) = Some p"
  using nat_dec_start[of "unat p"] unsigned_less[of p]
  by (simp add: parse_u16_def read_value_nat_dec)

text \<open>
  What the message-center announces is understood where it is found: a resolved service that
  carries the announced record and has an address is taken for a device of exactly that id, name,
  fingerprint and WebSocket port, whatever port the service itself was registered under; only an
  announcement with an empty id, or a service without an IPv4 address, is passed over.
\<close>

lemma discovery_roundtrip:
  assumes "\<And>k. si_val_str info k = hm_get (daemon_txt device_id name port fp) k"
  shows "(parse_resolved info = None \<longleftrightarrow> si_addresses_v4 info = [] \<or> device_id = []) \<and>
    (\<forall>d. parse_resolved info = Some d \<longrightarrow>
       md_device_id d = device_id \<and> md_name d = name \<and> md_port d = port \<and> md_fingerprint d = Some fp \<and>
       md_address d = hd (si_addresses_v4 info) \<and>
       browse_event (SvResolved info) = Some (MvDiscovered d) \<and>
       (\<exists>e. forward_event (MvDiscovered d) = Some e \<and> hm_get (drain_entry e m) device_id = Some e))"
proof -
  have v: "si_val_str info TXT_KEY_DEVICE_ID = Some device_id" "si_val_str info TXT_KEY_NAME = Some name"
    "si_val_str info TXT_KEY_PORT = Some (nat_dec (unat port))" "si_val_str info TXT_KEY_FINGERPRINT = Some fp"
    by (simp_all add: assms daemon_txt_def txt_keys)
  show ?thesis
    by (cases "si_addresses_v4 info")
      (auto simp: parse_resolved_def v parse_u16_dec browse_event_def forward_event_def drain_entry_def)
qed

theorem discovery_roundtrip_witness:
  "\<exists>info d. parse_resolved info = Some d \<and> md_port d = 8443 \<and> md_device_id d = ''a'' \<and> si_port info = 1"
proof -
  let ?i = "\<lparr>si_addresses_v4 = [5], si_port = 1, si_val_str = hm_get (daemon_txt ''a'' ''n'' 8443 ''F''),
    si_properties = [], si_fullname = ''x''\<rparr>"
  have "\<And>k. si_val_str ?i k = hm_get (daemon_txt ''a'' ''n'' 8443 ''F'') k" by simp
  note r = discovery_roundtrip[OF this, of "[]"]
  then obtain d where d: "parse_resolved ?i = Some d" by fastforce
  then show ?thesis using r by (intro exI[of _ ?i] exI[of _ d]) simp
qed

section \<open>What stays announced\<close>

lemma ends_with_append [simp]: "ends_with (s @ t) t"
  by (simp add: ends_with_def)

lemma normalize_hostname_ends: "ends_with (normalize_hostname h) ''.local.''"
proof (cases "ends_with h ''.local''")
  case True
  then obtain zs where "rev h = rev ''.local'' @ zs" by (auto simp: ends_with_def prefix_def)
  then have "h @ ''.'' = rev zs @ ''.local.''"
    by (metis (no_types) append.assoc rev_append rev_rev_ident append_Cons append_Nil)
  then show ?thesis by (simp add: normalize_hostname_def True ends_with_def)
next
  case False
  then show ?thesis using ends_with_append[of h "''.local.''"] by (simp add: normalize_hostname_def)
qed

text \<open>Daemons are numbered as they are started, and none runs under a number not yet given.\<close>

definition mh_wf :: "mdns_host \<Rightarrow> bool" where
  "mh_wf H \<longleftrightarrow> (\<forall>a \<in> set (mh_ads H). fst a < mh_next H) \<and> (\<forall>b \<in> set (mh_browses H). fst b < mh_next H)"

lemma filter_old: "\<forall>a \<in> set xs. fst a < (n :: nat) \<Longrightarrow> filter (\<lambda>a. fst a \<noteq> n) xs = xs"
  by (induction xs) auto

text \<open>
  The library reads the properties of a record back in some order, each once. The record they are
  collected into is the one that was given.
\<close>

definition properties_ok :: "mdns_env \<Rightarrow> bool" where
  "properties_ok E \<longleftrightarrow> (\<forall>t. distinct (map fst (me_properties E t)) \<and>
     (\<forall>k v. (k, v) \<in> set (me_properties E t) \<longleftrightarrow> hm_get t k = Some v))"

lemma collect_txt_back: "properties_ok E \<Longrightarrow> hm_get (collect_txt (me_properties E t)) k = hm_get t k"
proof -
  assume "properties_ok E"
  then have p: "distinct (map fst (me_properties E t))"
    "\<And>v. (k, v) \<in> set (me_properties E t) \<longleftrightarrow> hm_get t k = Some v"
    by (auto simp: properties_ok_def)
  have "map_of (rev (me_properties E t)) k = Some v \<longleftrightarrow> hm_get t k = Some v" for v
    using map_of_eq_Some_iff[of "rev (me_properties E t)"] p by (simp flip: rev_map)
  then have "map_of (rev (me_properties E t)) k = hm_get t k" by (metis not_Some_eq)
  then show ?thesis by (simp add: collect_txt_def fold_insert_get split: option.split)
qed

text \<open>An announcement of this center: under its host's name, with its own record.\<close>

definition announces :: "mdns_env \<Rightarrow> string \<Rightarrow> u16 \<Rightarrow> txt_record \<Rightarrow> announcement \<Rightarrow> bool" where
  "announces E service_type port txt a \<longleftrightarrow>
     an_service_type a = service_type \<and> an_instance a = ''phonebridge-'' @ hostname E \<and>
     ends_with (an_host a) ''.local.'' \<and> an_port a = port \<and>
     (\<forall>ip. an_address a = Some ip \<longrightarrow> \<not> is_loopback (Ipv4 ip)) \<and>
     (\<forall>k. hm_get (an_txt a) k = hm_get txt k)"

lemma service_built_announces:
  assumes "properties_ok E"
    "service_built E st (''phonebridge-'' @ hostname E) (normalize_hostname (hostname E)) port t = Inr a"
  shows "announces E st port t a"
  using assms collect_txt_back[OF assms(1)] normalize_hostname_ends
  by (auto simp: service_built_def announces_def Let_def detect_local_ipv4_def
      split: option.splits ip_addr.splits if_splits)

lemma advertise_cases:
  assumes "advertise E st i h p t H = (r, H')"
  shows "mh_browses H' = mh_browses H \<and> mh_next H \<le> mh_next H' \<and>
    (case r of
       Inl _ \<Rightarrow> mh_ads H' = mh_ads H
     | Inr d \<Rightarrow> d = mh_next H \<and> mh_next H' = d + 1 \<and>
         (\<exists>a. service_built E st i h p t = Inr a \<and> mh_ads H' = (d, a) # mh_ads H))"
  using assms by (auto simp: advertise_def Let_def split: option.splits sum.splits)

lemma browse_cases:
  assumes "browse E st H = (r, H')"
  shows "mh_ads H' = mh_ads H \<and>
    (case r of Inl _ \<Rightarrow> True | Inr d \<Rightarrow> d = mh_next H \<and> mh_browses H' = (d, st) # mh_browses H)"
  using assms by (auto simp: browse_def Let_def split: option.splits)


definition demo_mdns :: mdns_env where
  "demo_mdns = \<lparr>me_hostname = Some ''h'', me_etc_hostname = None, me_daemon = \<lambda>_. None, me_info = None,
     me_addresses_empty = False, me_properties = (\<lambda>t. map (\<lambda>k. (k, the (hm_get t k))) (remdups (hm_keys t))),
     me_local_addr = None, me_info_again = None, me_register = None, me_browse = None, me_thread = None\<rparr>"

lemma demo_mdns_ok: "properties_ok demo_mdns"
  by (auto simp: properties_ok_def demo_mdns_def comp_def hm_keys_iff)


end
