(* ===== verification/Dictionaries.thy ===== *)
theory Dictionaries
  imports Prelude
begin

text \<open>
  The translation tables: the Chinese and English dictionaries of the web console
  (message-center/src/i18n.rs) and the built-in ones of the desktop display
  (DeskDisplay/src/i18n.rs), as lists of pairs. Strings are byte lists, so a character
  outside ASCII is written through its UTF-8 encoding.
\<close>

section \<open>UTF-8\<close>

definition utf8_char :: "nat \<Rightarrow> string" where
  "utf8_char n =
     (if n < 0x80 then [char_of n]
      else if n < 0x800 then [char_of (0xC0 + n div 64), char_of (0x80 + n mod 64)]
      else if n < 0x10000
      then [char_of (0xE0 + n div 4096), char_of (0x80 + n div 64 mod 64), char_of (0x80 + n mod 64)]
      else [char_of (0xF0 + n div 262144), char_of (0x80 + n div 4096 mod 64),
            char_of (0x80 + n div 64 mod 64), char_of (0x80 + n mod 64)])"

definition utf8 :: "nat list \<Rightarrow> string" where
  "utf8 cs = concat (map utf8_char cs)"

section \<open>The web console\<close>

definition zh_entries :: "(string \<times> string) list" where
  "zh_entries = [
     (''nav.dashboard'', utf8 [0x4EEA, 0x8868, 0x76D8]),
     (''nav.devices'', utf8 [0x8BBE, 0x5907]),
     (''nav.pairings'', utf8 [0x914D, 0x5BF9]),
     (''nav.notifications'', utf8 [0x901A, 0x77E5]),
     (''nav.sms'', utf8 [0x77ED, 0x4FE1]),
     (''nav.calls'', utf8 [0x901A, 0x8BDD]),
     (''nav.settings'', utf8 [0x8BBE, 0x7F6E]),
     (''nav.about'', utf8 [0x5173, 0x4E8E]),
     (''layout.console_subtitle'', ''Web '' @ utf8 [0x63A7, 0x5236, 0x53F0]),
     (''layout.online_count'', ''{online}/{paired} '' @ utf8 [0x5728, 0x7EBF]),
     (''dashboard.loading'', utf8 [0x6B63, 0x5728, 0x52A0, 0x8F7D, 0x4EEA, 0x8868, 0x76D8,
        0x2026]),
     (''dashboard.load_error'', utf8 [0x52A0, 0x8F7D, 0x5931, 0x8D25]),
     (''dashboard.title'', utf8 [0x4EEA, 0x8868, 0x76D8]),
     (''dashboard.subtitle'', utf8 [0x6240, 0x6709, 0x5DF2, 0x914D, 0x5BF9] @ '' Android '' @
        utf8 [0x8BBE, 0x5907, 0x7684, 0x5B9E, 0x65F6, 0x72B6, 0x6001, 0x3002]),
     (''dashboard.paired'', utf8 [0x5DF2, 0x914D, 0x5BF9, 0x8BBE, 0x5907]),
     (''dashboard.online'', utf8 [0x5F53, 0x524D, 0x5728, 0x7EBF]),
     (''dashboard.unread'', utf8 [0x672A, 0x8BFB, 0x901A, 0x77E5]),
     (''dashboard.unread_hint'', utf8 [0x5171] @ '' {n} '' @ utf8 [0x6761]),
     (''dashboard.sms_conv'', utf8 [0x77ED, 0x4FE1, 0x4F1A, 0x8BDD]),
     (''dashboard.sms_hint'', utf8 [0x5171] @ '' {n} '' @ utf8 [0x6761, 0x6D88, 0x606F]),
     (''dashboard.calls_24h'', utf8 [0x901A, 0x8BDD, 0xFF08, 0x8FD1] @ '' 24 '' @ utf8 [0x5C0F,
        0x65F6, 0xFF09]),
     (''dashboard.calls_hint'', ''{ringing} '' @ utf8 [0x54CD, 0x94C3, 0x4E2D] @ '' '' @
        utf8 [0xB7] @ '' {missed} '' @ utf8 [0x672A, 0x63A5]),
     (''dashboard.recent_notifs'', utf8 [0x6700, 0x8FD1, 0x901A, 0x77E5]),
     (''dashboard.recent_sms'', utf8 [0x6700, 0x8FD1, 0x77ED, 0x4FE1]),
     (''dashboard.recent_calls'', utf8 [0x6700, 0x8FD1, 0x901A, 0x8BDD]),
     (''dashboard.no_notifs'', utf8 [0x6682, 0x65E0, 0x901A, 0x77E5, 0x3002]),
     (''dashboard.no_sms'', utf8 [0x6682, 0x65E0, 0x77ED, 0x4FE1, 0x3002]),
     (''dashboard.no_calls'', utf8 [0x6682, 0x65E0, 0x901A, 0x8BDD, 0x3002]),
     (''dashboard.view_all'', utf8 [0x67E5, 0x770B, 0x5168, 0x90E8] @ '' '' @ utf8 [0x2192]),
     (''live.title'', utf8 [0x5B9E, 0x65F6, 0x6D3B, 0x52A8]),
     (''live.live'', utf8 [0x5DF2, 0x8FDE, 0x63A5]),
     (''live.disconnected'', utf8 [0x5DF2, 0x65AD, 0x5F00]),
     (''live.streamed_via'', utf8 [0x901A, 0x8FC7] @ '' /ws/console '' @ utf8 [0x5B9E, 0x65F6,
        0x63A8, 0x9001, 0x3002]),
     (''live.online_part'', utf8 [0x5F53, 0x524D] @ '' {online}/{paired} '' @ utf8 [0x5728,
        0x7EBF, 0x3002]),
     (''live.empty'', utf8 [0x6682, 0x65E0, 0x4E8B, 0x4EF6, 0x3002, 0x8FDE, 0x63A5] @
        '' Android '' @ utf8 [0x8BBE, 0x5907, 0x540E, 0xFF0C, 0x901A, 0x77E5, 0x3001, 0x77ED,
        0x4FE1, 0x548C, 0x901A, 0x8BDD, 0x4F1A, 0x5B9E, 0x65F6, 0x663E, 0x793A, 0x5728, 0x8FD9,
        0x91CC, 0x3002]),
     (''live.ev_console_hello'', utf8 [0x5DF2, 0x8FDE, 0x63A5, 0xFF08] @
        ''{server} v{version}'' @ utf8 [0xFF09]),
     (''live.ev_device_hello'', utf8 [0x8BBE, 0x5907] @ '' {name} '' @ utf8 [0x5DF2, 0x8FDE,
        0x63A5]),
     (''live.ev_notif'', ''[{app}] {title}''),
     (''live.ev_sms'', utf8 [0x6765, 0x81EA] @ '' {addr} '' @ utf8 [0x7684, 0x77ED, 0x4FE1,
        0xFF1A] @ ''{body}''),
     (''live.ev_call_incoming'', utf8 [0x901A, 0x8BDD, 0xFF1A, 0x547C, 0x5165]),
     (''live.ev_call_state'', utf8 [0x901A, 0x8BDD, 0xFF1A, 0x72B6, 0x6001, 0x53D8, 0x5316]),
     (''live.ev_unpair'', utf8 [0x8BBE, 0x5907, 0x5DF2, 0x53D6, 0x6D88, 0x914D, 0x5BF9]),
     (''devices.title'', utf8 [0x8BBE, 0x5907]),
     (''devices.subtitle'', utf8 [0x4E0E, 0x672C, 0x5B88, 0x62A4, 0x8FDB, 0x7A0B, 0x914D,
        0x5BF9, 0x7684] @ '' Android '' @ utf8 [0x5BA2, 0x6237, 0x7AEF, 0x3002, 0x5F53, 0x524D,
        0x5728, 0x7EBF] @ '' {n} '' @ utf8 [0x53F0, 0x3002]),
     (''devices.col.name'', utf8 [0x540D, 0x79F0]),
     (''devices.col.paired'', utf8 [0x914D, 0x5BF9, 0x72B6, 0x6001]),
     (''devices.col.last_seen'', utf8 [0x6700, 0x540E, 0x5728, 0x7EBF]),
     (''devices.loading'', utf8 [0x52A0, 0x8F7D, 0x4E2D, 0x2026]),
     (''devices.empty'', utf8 [0x6682, 0x65E0, 0x8BBE, 0x5907, 0x3002, 0x8BF7, 0x6253, 0x5F00] @
        '' PhoneBridge Android '' @ utf8 [0x5BA2, 0x6237, 0x7AEF, 0x53D1, 0x8D77, 0x914D,
        0x5BF9, 0x3002]),
     (''devices.badge_paired'', utf8 [0x5DF2, 0x914D, 0x5BF9]),
     (''devices.badge_discovered'', utf8 [0x5DF2, 0x53D1, 0x73B0]),
     (''devices.unpair_btn'', utf8 [0x53D6, 0x6D88, 0x914D, 0x5BF9]),
     (''devices.unpair_confirm'', utf8 [0x786E, 0x5B9A, 0x8981, 0x53D6, 0x6D88, 0x914D,
        0x5BF9] @ '' {name} '' @ utf8 [0x5417, 0xFF1F]),
     (''devices.unpair_btn_paired'', utf8 [0x5DF2, 0x914D, 0x5BF9]),
     (''devices.btn_pair'', utf8 [0x914D, 0x5BF9]),
     (''devices.btn_paired'', utf8 [0x5DF2, 0x914D, 0x5BF9]),
     (''pairings.title'', utf8 [0x914D, 0x5BF9]),
     (''pairings.subtitle'', utf8 [0x70B9, 0x51FB, 0x4E0B, 0x65B9, 0x8BBE, 0x5907, 0x7684] @
        '' '' @ utf8 [0x914D, 0x5BF9] @ '' '' @ utf8 [0x6309, 0x94AE, 0xFF0C] @ ''Android '' @
        utf8 [0x7AEF, 0x4F1A, 0x663E, 0x793A, 0x4E00, 0x4E2A] @ '' 4 '' @ utf8 [0x4F4D, 0x914D,
        0x5BF9, 0x7801, 0xFF1B, 0x5728, 0x6B64, 0x8F93, 0x5165, 0x8BE5, 0x7801, 0x5E76, 0x70B9,
        0x51FB] @ '' '' @ utf8 [0x63A5, 0x53D7] @ '' '' @ utf8 [0x5373, 0x5B8C, 0x6210, 0x914D,
        0x5BF9, 0x3002]),
     (''pairings.subtitle_hint'', utf8 [0x914D, 0x5BF9, 0x7801, 0x7531] @ '' Android '' @
        utf8 [0x5BA2, 0x6237, 0x7AEF, 0x4F7F, 0x7528] @ '' ECDH P-256 + HKDF-SHA256 '' @
        utf8 [0x4ECE, 0x5171, 0x4EAB, 0x5BC6, 0x94A5, 0x6D3E, 0x751F, 0xFF08, 0x53C2, 0x89C1] @
        '' docs/protocol-v1.md '' @ utf8 [0xA7] @ ''4.2'' @ utf8 [0xFF09, 0x3002]),
     (''pairings.col.device'', utf8 [0x8BBE, 0x5907]),
     (''pairings.col.status'', utf8 [0x914D, 0x5BF9, 0x72B6, 0x6001]),
     (''pairings.col.action'', utf8 [0x64CD, 0x4F5C]),
     (''pairings.loading'', utf8 [0x52A0, 0x8F7D, 0x4E2D, 0x2026]),
     (''pairings.empty'', utf8 [0x6682, 0x65E0, 0x8BBE, 0x5907, 0x3002, 0x8BF7, 0x6253,
        0x5F00] @ '' PhoneBridge Android '' @ utf8 [0x5BA2, 0x6237, 0x7AEF, 0xFF0C, 0x8BA9,
        0x5176, 0x51FA, 0x73B0, 0x5728, 0x6B64, 0x5217, 0x8868, 0x4E2D, 0x3002]),
     (''pairings.badge_paired'', utf8 [0x5DF2, 0x914D, 0x5BF9]),
     (''pairings.badge_unpaired'', utf8 [0x672A, 0x914D, 0x5BF9]),
     (''pairings.btn_pair'', utf8 [0x914D, 0x5BF9]),
     (''pairings.btn_paired'', utf8 [0x5DF2, 0x914D, 0x5BF9]),
     (''pairings.waiting_hint'', utf8 [0x7B49, 0x5F85, 0x624B, 0x673A, 0x786E, 0x8BA4]),
     (''pairings.waiting_cancel'', utf8 [0x53D6, 0x6D88, 0x914D, 0x5BF9]),
     (''pairings.start_info'', utf8 [0x5DF2, 0x5411] @ '' Android '' @ utf8 [0x8BBE, 0x5907] @
        '' {name} '' @ utf8 [0x53D1, 0x9001, 0x914D, 0x5BF9, 0x8BF7, 0x6C42, 0xFF0C, 0x8BF7,
        0x5728, 0x8BE5, 0x8BBE, 0x5907, 0x7684, 0x5C4F, 0x5E55, 0x4E0A, 0xFF1A, 0x6838, 0x5BF9,
        0x663E, 0x793A, 0x7684] @ '' 4 '' @ utf8 [0x4F4D, 0x9A8C, 0x8BC1, 0x7801, 0x5E76,
        0x70B9, 0x51FB] @ '' '' @ utf8 [0x63A5, 0x53D7] @ '' '' @ utf8 [0x5B8C, 0x6210, 0x914D,
        0x5BF9, 0x3002]),
     (''pairings.incoming_title'', utf8 [0x5165, 0x7AD9, 0x914D, 0x5BF9, 0x8BF7, 0x6C42]),
     (''pairings.incoming_hint'', utf8 [0x8BF7, 0x786E, 0x8BA4, 0x662F, 0x60A8, 0x672C, 0x4EBA,
        0x7684, 0x624B, 0x673A, 0x53D1, 0x8D77, 0x7684, 0x8BF7, 0x6C42, 0x3002, 0x63A5, 0x53D7,
        0x540E, 0x65E0, 0x9700, 0x8F93, 0x5165, 0x4EFB, 0x4F55, 0x9A8C, 0x8BC1, 0x7801, 0x3002]),
     (''pairings.incoming_accept'', utf8 [0x63A5, 0x53D7]),
     (''pairings.incoming_reject'', utf8 [0x62D2, 0x7EDD]),
     (''notif.title'', utf8 [0x901A, 0x77E5]),
     (''notif.subtitle'', utf8 [0x4ECE] @ '' Android '' @ utf8 [0x8BBE, 0x5907, 0x540C, 0x6B65,
        0x7684, 0x5168, 0x90E8, 0x901A, 0x77E5, 0x3002, 0x70B9, 0x51FB] @ '' '' @ utf8 [0x5173,
        0x95ED] @ '' '' @ utf8 [0x53EF, 0x5728, 0x8BBE, 0x5907, 0x4E0A, 0x79FB, 0x9664, 0x8BE5,
        0x901A, 0x77E5, 0xFF08, 0x540C, 0x65F6, 0x5728, 0x5B88, 0x62A4, 0x8FDB, 0x7A0B, 0x4E2D,
        0x6807, 0x8BB0, 0x4E3A, 0x5DF2, 0x8BFB, 0xFF09, 0x3002]),
     (''notif.unread_only'', utf8 [0x4EC5, 0x672A, 0x8BFB]),
     (''notif.filter_placeholder'', utf8 [0x6309, 0x5E94, 0x7528, 0x5305, 0x540D, 0x7B5B,
        0x9009, 0x2026]),
     (''notif.loading'', utf8 [0x52A0, 0x8F7D, 0x4E2D, 0x2026]),
     (''notif.empty'', utf8 [0x6CA1, 0x6709, 0x5339, 0x914D, 0x7684, 0x901A, 0x77E5, 0x3002]),
     (''notif.sensitive'', utf8 [0x654F, 0x611F]),
     (''notif.hidden'', utf8 [0xFF08, 0x5185, 0x5BB9, 0x5DF2, 0x9690, 0x85CF, 0xFF09]),
     (''notif.mark_read'', utf8 [0x6807, 0x8BB0, 0x5DF2, 0x8BFB]),
     (''notif.dismiss'', utf8 [0x5173, 0x95ED]),
     (''notif.dismissing'', utf8 [0x5173, 0x95ED, 0x4E2D, 0x2026]),
     (''notif.dismiss_title'', utf8 [0x5411, 0x8BBE, 0x5907, 0x53D1, 0x9001] @
        '' notification.dismissed''),
     (''sms.title'', utf8 [0x77ED, 0x4FE1]),
     (''sms.subtitle'', utf8 [0x901A, 0x8FC7] @ '' Android '' @ utf8 [0x8BBE, 0x5907, 0x67E5,
        0x770B, 0x4E0E, 0x53D1, 0x9001, 0x77ED, 0x4FE1, 0x3002]),
     (''sms.all_devices'', utf8 [0x5168, 0x90E8, 0x8BBE, 0x5907]),
     (''sms.conversations'', utf8 [0x4F1A, 0x8BDD, 0xFF08] @ ''{n}'' @ utf8 [0xFF09]),
     (''sms.no_conversations'', utf8 [0x6682, 0x65E0, 0x4F1A, 0x8BDD, 0x3002]),
     (''sms.pick_conversation'', utf8 [0x8BF7, 0x9009, 0x62E9, 0x4E00, 0x4E2A, 0x4F1A, 0x8BDD]),
     (''sms.no_conversation_selected'', utf8 [0x8BF7, 0x5728, 0x5DE6, 0x4FA7, 0x9009, 0x62E9,
        0x4E00, 0x4E2A, 0x4F1A, 0x8BDD, 0x3002]),
     (''sms.no_messages'', utf8 [0x8BE5, 0x4F1A, 0x8BDD, 0x6682, 0x65E0, 0x6D88, 0x606F,
        0x3002]),
     (''sms.placeholder_to'', utf8 [0x6536, 0x4EF6, 0x4EBA]),
     (''sms.placeholder_body'', utf8 [0x6D88, 0x606F, 0x5185, 0x5BB9, 0x2026]),
     (''sms.send_via'', utf8 [0x5C06, 0x901A, 0x8FC7] @ '' {name} '' @ utf8 [0x53D1, 0x9001,
        0x3002] @ ''Android '' @ utf8 [0x7AEF, 0x786E, 0x8BA4, 0x540E, 0x6B64, 0x4F1A, 0x8BDD,
        0x4F1A, 0x81EA, 0x52A8, 0x5237, 0x65B0, 0x3002]),
     (''sms.send'', utf8 [0x53D1, 0x9001]),
     (''sms.select_device_first'', utf8 [0x8BF7, 0x5148, 0x9009, 0x62E9, 0x4E00, 0x53F0, 0x8BBE,
        0x5907]),
     (''calls.title'', utf8 [0x901A, 0x8BDD]),
     (''calls.subtitle'', utf8 [0x6765, 0x81EA] @ '' Android '' @ utf8 [0x8BBE, 0x5907, 0x7684,
        0x8FD1, 0x671F, 0x901A, 0x8BDD, 0x8BB0, 0x5F55, 0x3002, 0x4E5F, 0x53EF, 0x4EE5, 0x5728,
        0x6B64, 0x53D1, 0x8D77, 0x5916, 0x547C, 0x3002]),
     (''calls.place_call'', utf8 [0x62E8, 0x6253, 0x7535, 0x8BDD]),
     (''calls.device'', utf8 [0x8BBE, 0x5907]),
     (''calls.number'', utf8 [0x53F7, 0x7801]),
     (''calls.dial'', utf8 [0x62E8, 0x6253]),
     (''calls.col.time'', utf8 [0x65F6, 0x95F4]),
     (''calls.col.number'', utf8 [0x53F7, 0x7801]),
     (''calls.col.direction'', utf8 [0x65B9, 0x5411]),
     (''calls.col.state'', utf8 [0x72B6, 0x6001]),
     (''calls.col.duration'', utf8 [0x65F6, 0x957F]),
     (''calls.col.sim'', ''SIM '' @ utf8 [0x5361]),
     (''calls.loading'', utf8 [0x52A0, 0x8F7D, 0x4E2D, 0x2026]),
     (''calls.empty'', utf8 [0x6682, 0x65E0, 0x901A, 0x8BDD, 0x3002]),
     (''calls.dir_in'', utf8 [0x547C, 0x5165]),
     (''calls.dir_out'', utf8 [0x547C, 0x51FA]),
     (''calls.dir_missed'', utf8 [0x672A, 0x63A5]),
     (''settings.title'', utf8 [0x8BBE, 0x7F6E]),
     (''settings.subtitle'', utf8 [0x63A7, 0x5236, 0x53F0, 0x8BED, 0x8A00, 0x4E0E, 0x8FD1,
        0x671F, 0x5BA1, 0x8BA1, 0x65E5, 0x5FD7, 0x3002]),
     (''settings.col.time'', utf8 [0x65F6, 0x95F4]),
     (''settings.col.event'', utf8 [0x4E8B, 0x4EF6]),
     (''settings.col.device'', utf8 [0x8BBE, 0x5907]),
     (''settings.col.detail'', utf8 [0x8BE6, 0x60C5]),
     (''settings.loading'', utf8 [0x52A0, 0x8F7D, 0x4E2D, 0x2026]),
     (''settings.audit_title'', utf8 [0x8FD1, 0x671F, 0x5BA1, 0x8BA1, 0x65E5, 0x5FD7]),
     (''settings.audit_empty'', utf8 [0x6682, 0x65E0, 0x8BB0, 0x5F55, 0x3002]),
     (''settings.language'', utf8 [0x754C, 0x9762, 0x8BED, 0x8A00]),
     (''settings.language_hint'', utf8 [0x9009, 0x62E9, 0x4E2D, 0x6587, 0x6216, 0x82F1, 0x6587,
        0xFF0C, 0x4E0B, 0x6B21, 0x8BBF, 0x95EE, 0x81EA, 0x52A8, 0x8BB0, 0x5FC6, 0x3002]),
     (''settings.copy'', utf8 [0x590D, 0x5236]),
     (''settings.copied'', utf8 [0x5DF2, 0x590D, 0x5236]),
     (''about.title'', utf8 [0x5173, 0x4E8E]),
     (''about.subtitle'', utf8 [0x672C, 0x5B88, 0x62A4, 0x8FDB, 0x7A0B, 0x7684, 0x8EAB, 0x4EFD,
        0x4FE1, 0x606F, 0x4E0E, 0x5916, 0x90E8, 0x94FE, 0x63A5, 0x3002]),
     (''about.identity'', utf8 [0x672C, 0x5B88, 0x62A4, 0x8FDB, 0x7A0B]),
     (''about.col.id'', utf8 [0x8BBE, 0x5907] @ '' ID''),
     (''about.col.name'', utf8 [0x540D, 0x79F0]),
     (''about.col.fingerprint'', ''TLS '' @ utf8 [0x6307, 0x7EB9, 0xFF08] @ ''SHA-256'' @
        utf8 [0xFF09]),
     (''about.col.pubkey'', utf8 [0x516C, 0x94A5, 0xFF08] @ ''P-256, base64'' @ utf8 [0xFF09]),
     (''about.col.version'', utf8 [0x7248, 0x672C]),
     (''about.api_docs'', ''API '' @ utf8 [0x6587, 0x6863, 0xFF08] @ ''Swagger UI'' @
        utf8 [0xFF09]),
     (''about.api_docs_hint'', utf8 [0x6253, 0x5F00, 0x65B0, 0x7684, 0x6807, 0x7B7E, 0x9875,
        0xFF0C, 0x6D4F, 0x89C8] @ '' REST + WebSocket '' @ utf8 [0x7AEF, 0x70B9, 0x7684] @
        '' OpenAPI '' @ utf8 [0x5B9A, 0x4E49, 0x3002]),
     (''about.source'', utf8 [0x6E90, 0x4EE3, 0x7801]),
     (''about.license'', utf8 [0x8BB8, 0x53EF, 0x8BC1, 0xFF1A] @ ''GPL-3.0-or-later''),
     (''lang.zh'', utf8 [0x4E2D, 0x6587]),
     (''lang.en'', ''English'')]"

definition en_entries :: "(string \<times> string) list" where
  "en_entries = [
     (''nav.dashboard'', ''Dashboard''),
     (''nav.devices'', ''Devices''),
     (''nav.pairings'', ''Pairings''),
     (''nav.notifications'', ''Notifications''),
     (''nav.sms'', ''SMS''),
     (''nav.calls'', ''Calls''),
     (''nav.settings'', ''Settings''),
     (''nav.about'', ''About''),
     (''layout.console_subtitle'', ''Web Console''),
     (''layout.online_count'', ''{online}/{paired} online''),
     (''dashboard.loading'', ''Loading dashboard'' @ utf8 [0x2026]),
     (''dashboard.load_error'', ''Failed to load''),
     (''dashboard.title'', ''Dashboard''),
     (''dashboard.subtitle'', ''Live snapshot of all paired Android devices.''),
     (''dashboard.paired'', ''Paired devices''),
     (''dashboard.online'', ''Online now''),
     (''dashboard.unread'', ''Unread notifications''),
     (''dashboard.unread_hint'', ''{n} total''),
     (''dashboard.sms_conv'', ''SMS conversations''),
     (''dashboard.sms_hint'', ''{n} messages''),
     (''dashboard.calls_24h'', ''Calls (24h)''),
     (''dashboard.calls_hint'', ''{ringing} ringing '' @ utf8 [0xB7] @ '' {missed} missed''),
     (''dashboard.recent_notifs'', ''Recent notifications''),
     (''dashboard.recent_sms'', ''Recent SMS''),
     (''dashboard.recent_calls'', ''Recent calls''),
     (''dashboard.no_notifs'', ''No notifications yet.''),
     (''dashboard.no_sms'', ''No SMS yet.''),
     (''dashboard.no_calls'', ''No calls yet.''),
     (''dashboard.view_all'', ''View all '' @ utf8 [0x2192]),
     (''live.title'', ''Live activity''),
     (''live.live'', ''live''),
     (''live.disconnected'', ''disconnected''),
     (''live.streamed_via'', ''Streamed via /ws/console.''),
     (''live.online_part'', ''{online}/{paired} online.''),
     (''live.empty'', ''No events yet. Connect an Android device to see notifications, SMS, and calls stream in here.''),
     (''live.ev_console_hello'', ''connected ({server} v{version})''),
     (''live.ev_device_hello'', ''device {name} connected''),
     (''live.ev_notif'', ''[{app}] {title}''),
     (''live.ev_sms'', ''SMS from {addr}: {body}''),
     (''live.ev_call_incoming'', ''call: incoming''),
     (''live.ev_call_state'', ''call: state change''),
     (''live.ev_unpair'', ''device unpaired''),
     (''devices.title'', ''Devices''),
     (''devices.subtitle'', ''Android clients paired with this message-center. {n} currently online.''),
     (''devices.col.name'', ''Name''),
     (''devices.col.paired'', ''Paired''),
     (''devices.col.last_seen'', ''Last seen''),
     (''devices.loading'', ''Loading'' @ utf8 [0x2026]),
     (''devices.empty'', ''No devices yet. Open the PhoneBridge Android app to pair.''),
     (''devices.badge_paired'', ''paired''),
     (''devices.badge_discovered'', ''discovered''),
     (''devices.unpair_btn'', ''Unpair''),
     (''devices.unpair_confirm'', ''Unpair {name}?''),
     (''devices.unpair_btn_paired'', ''paired''),
     (''devices.btn_pair'', ''Pair''),
     (''devices.btn_paired'', ''paired''),
     (''pairings.title'', ''Pairings''),
     (''pairings.subtitle'', ''Click Pair on a device below. A 4-digit code will appear on the Android device; click Accept on the phone to complete pairing.''),
     (''pairings.subtitle_hint'', ''The code is derived from ECDH P-256 + HKDF-SHA256 on the shared secret (see docs/protocol-v1.md '' @
        utf8 [0xA7] @ ''4.2).''),
     (''pairings.col.device'', ''Device''),
     (''pairings.col.status'', ''Paired''),
     (''pairings.col.action'', ''Action''),
     (''pairings.loading'', ''Loading'' @ utf8 [0x2026]),
     (''pairings.empty'', ''No devices yet. Open the PhoneBridge Android app to make it appear here.''),
     (''pairings.badge_paired'', ''paired''),
     (''pairings.badge_unpaired'', ''unpaired''),
     (''pairings.btn_pair'', ''Pair''),
     (''pairings.btn_paired'', ''Already paired''),
     (''pairings.waiting_hint'', ''Waiting for phone''),
     (''pairings.waiting_cancel'', ''Cancel''),
     (''pairings.start_info'', ''Pair request sent to {name}. The phone should show a 4-digit code; click Accept there to complete.''),
     (''pairings.incoming_title'', ''Incoming pair requests''),
     (''pairings.incoming_hint'', ''Make sure this is your own phone. No verification code is required after Accept.''),
     (''pairings.incoming_accept'', ''Accept''),
     (''pairings.incoming_reject'', ''Reject''),
     (''notif.title'', ''Notifications''),
     (''notif.subtitle'', ''All notifications synced from your Android devices. Click Dismiss to remove a notification from the device (also marks it read on the message-center).''),
     (''notif.unread_only'', ''Unread only''),
     (''notif.filter_placeholder'', ''Filter by app package'' @ utf8 [0x2026]),
     (''notif.loading'', ''Loading'' @ utf8 [0x2026]),
     (''notif.empty'', ''No notifications match.''),
     (''notif.sensitive'', ''sensitive''),
     (''notif.hidden'', ''(content hidden)''),
     (''notif.mark_read'', ''Mark read''),
     (''notif.dismiss'', ''Dismiss''),
     (''notif.dismissing'', ''Dismissing'' @ utf8 [0x2026]),
     (''notif.dismiss_title'', ''Sends notification.dismissed to the device''),
     (''sms.title'', ''SMS''),
     (''sms.subtitle'', ''Browse and send SMS via your Android devices.''),
     (''sms.all_devices'', ''All devices''),
     (''sms.conversations'', ''Conversations ({n})''),
     (''sms.no_conversations'', ''No conversations yet.''),
     (''sms.pick_conversation'', ''Select a conversation''),
     (''sms.no_conversation_selected'', ''Pick a conversation on the left.''),
     (''sms.no_messages'', ''No messages in this conversation.''),
     (''sms.placeholder_to'', ''To''),
     (''sms.placeholder_body'', ''Message'' @ utf8 [0x2026]),
     (''sms.send_via'', ''Sends via {name}. Conversation will refresh on Android confirm.''),
     (''sms.send'', ''Send''),
     (''sms.select_device_first'', ''Select a device first''),
     (''calls.title'', ''Calls''),
     (''calls.subtitle'', ''Recent call log from your Android devices. You can also place outgoing calls.''),
     (''calls.place_call'', ''Place a call''),
     (''calls.device'', ''Device''),
     (''calls.number'', ''Number''),
     (''calls.dial'', ''Dial''),
     (''calls.col.time'', ''Time''),
     (''calls.col.number'', ''Number''),
     (''calls.col.direction'', ''Direction''),
     (''calls.col.state'', ''State''),
     (''calls.col.duration'', ''Duration''),
     (''calls.col.sim'', ''SIM''),
     (''calls.loading'', ''Loading'' @ utf8 [0x2026]),
     (''calls.empty'', ''No calls yet.''),
     (''calls.dir_in'', ''in''),
     (''calls.dir_out'', ''out''),
     (''calls.dir_missed'', ''missed''),
     (''settings.title'', ''Settings''),
     (''settings.subtitle'', ''Console language and recent audit log.''),
     (''settings.col.time'', ''Time''),
     (''settings.col.event'', ''Event''),
     (''settings.col.device'', ''Device''),
     (''settings.col.detail'', ''Detail''),
     (''settings.loading'', ''Loading'' @ utf8 [0x2026]),
     (''settings.audit_title'', ''Recent audit log''),
     (''settings.audit_empty'', ''No entries yet.''),
     (''settings.language'', ''Language''),
     (''settings.language_hint'', ''Choose Chinese or English. The choice is remembered for next time.''),
     (''settings.copy'', ''Copy''),
     (''settings.copied'', ''Copied''),
     (''about.title'', ''About''),
     (''about.subtitle'', ''This message-center'' @ [CHR 0x27] @
        ''s identity and external links.''),
     (''about.identity'', ''This message-center''),
     (''about.col.id'', ''Device id''),
     (''about.col.name'', ''Name''),
     (''about.col.fingerprint'', ''TLS fingerprint (SHA-256)''),
     (''about.col.pubkey'', ''Public key (P-256, base64)''),
     (''about.col.version'', ''Version''),
     (''about.api_docs'', ''API documentation (Swagger UI)''),
     (''about.api_docs_hint'', ''Opens in a new tab '' @ utf8 [0x2014] @
        '' browse the OpenAPI definition for the REST + WebSocket endpoints.''),
     (''about.source'', ''Source code''),
     (''about.license'', ''License: GPL-3.0-or-later''),
     (''lang.zh'', utf8 [0x4E2D, 0x6587]),
     (''lang.en'', ''English'')]"

section \<open>The desktop display\<close>

definition builtin_en_dict :: "(string \<times> string) list" where
  "builtin_en_dict = [
     (''notif.app_name'', ''PhoneBridge''),
     (''notif.action.reply'', ''Reply''),
     (''notif.action.mark_read'', ''Mark as read''),
     (''notif.action.dismiss'', ''Dismiss''),
     (''notif.action.answer'', ''Answer''),
     (''notif.action.hangup'', ''Hang up''),
     (''notif.sms.incoming'', ''SMS from {address}''),
     (''notif.call.incoming'', ''Incoming call from {number}''),
     (''notif.call.ongoing'', ''Ongoing call''),
     (''prompt.reply.title'', ''Reply to {address}''),
     (''prompt.reply.label'', ''Message''),
     (''toast.action_sent'', ''Reply sent''),
     (''toast.action_failed'', ''Action failed: {message}''),
     (''toast.phone_offline'', ''Phone offline; action not delivered'')]"

definition builtin_zh_dict :: "(string \<times> string) list" where
  "builtin_zh_dict = [
     (''notif.app_name'', ''PhoneBridge''),
     (''notif.action.reply'', utf8 [0x56DE, 0x590D]),
     (''notif.action.mark_read'', utf8 [0x6807, 0x8BB0, 0x5DF2, 0x8BFB]),
     (''notif.action.dismiss'', utf8 [0x5FFD, 0x7565]),
     (''notif.action.answer'', utf8 [0x63A5, 0x542C]),
     (''notif.action.hangup'', utf8 [0x6302, 0x65AD]),
     (''notif.sms.incoming'', ''{address} '' @ utf8 [0x7684, 0x77ED, 0x4FE1]),
     (''notif.call.incoming'', ''{number} '' @ utf8 [0x6765, 0x7535]),
     (''notif.call.ongoing'', utf8 [0x901A, 0x8BDD, 0x4E2D]),
     (''prompt.reply.title'', utf8 [0x56DE, 0x590D] @ '' {address}''),
     (''prompt.reply.label'', utf8 [0x6D88, 0x606F]),
     (''toast.action_sent'', utf8 [0x56DE, 0x590D, 0x5DF2, 0x53D1, 0x9001]),
     (''toast.action_failed'', utf8 [0x64CD, 0x4F5C, 0x5931, 0x8D25, 0xFF1A] @ ''{message}''),
     (''toast.phone_offline'', utf8 [0x624B, 0x673A, 0x79BB, 0x7EBF, 0xFF0C, 0x64CD, 0x4F5C,
        0x672A, 0x9001, 0x8FBE])]"

end
