(* ===== verification/I18n.thy ===== *)
theory I18n
  imports Dictionaries Json Text "HOL-Library.Char_ord" "HOL-Library.List_Lexorder"
begin

text \<open>
  Translation: the dictionary endpoint and the locale detection of the message-center
  (message-center/src/i18n.rs), and the dictionary the desktop display fetches from it, its
  fallbacks and its template rendering (DeskDisplay/src/i18n.rs). Environment variables are a
  function from their names; the answer to the display's HTTP request is an argument.
\<close>

section \<open>The dictionary endpoint\<close>

text \<open>Insertion into a \<open>BTreeMap\<close>, a list in the order of its keys.\<close>

fun bt_insert :: "string \<times> string \<Rightarrow> (string \<times> string) list \<Rightarrow> (string \<times> string) list" where
  "bt_insert (k, v) [] = [(k, v)]"
| "bt_insert (k, v) ((k', v') # m) =
     (if k < k' then (k, v) # (k', v') # m
      else if k = k' then (k, v) # m
      else (k', v') # bt_insert (k, v) m)"

definition dict :: "(string \<times> string) list \<Rightarrow> (string \<times> string) list" where
  "dict entries = foldl (\<lambda>m e. bt_insert e m) [] entries"

definition LOCALES :: "string list" where
  "LOCALES = [''zh'', ''en'']"

definition ascii_lower :: "string \<Rightarrow> string" where
  "ascii_lower s = map (\<lambda>c. if CHR ''A'' \<le> c \<and> c \<le> CHR ''Z'' then char_of (of_char c + (32 :: nat)) else c) s"

definition env_first :: "string list \<Rightarrow> (string \<Rightarrow> string option) \<Rightarrow> string" where
  "env_first ks env =
     (case find (\<lambda>k. env k \<noteq> None) ks of None \<Rightarrow> [] | Some k \<Rightarrow> the (env k))"

definition detect_inner :: "(string \<Rightarrow> string option) \<Rightarrow> string" where
  "detect_inner env =
     (let raw = env_first [''LC_ALL'', ''LC_MESSAGES'', ''LANG''] env;
          lang = ascii_lower (takeWhile (\<lambda>c. c \<notin> set ''_.@'') raw)
      in if lang = ''zh'' \<or> lang = ''chinese'' then ''zh''
         else if lang = ''en'' \<or> lang = ''english'' then ''en'' else ''en'')"

text \<open>
  The locale is detected once and kept: main asks for it as it starts, so what requests are
  answered with is what the environment was then.
\<close>

definition system_locale_detect :: "(string \<Rightarrow> string option) \<Rightarrow> string option \<Rightarrow> string \<times> string option" where
  "system_locale_detect env cache =
     (case cache of
        Some l \<Rightarrow> (l, cache)
      | None \<Rightarrow> (let l = detect_inner env in (l, Some l)))"

lemma system_locale_fixed:
  "system_locale_detect later (snd (system_locale_detect env None)) =
     (detect_inner env, snd (system_locale_detect env None))"
  by (simp add: system_locale_detect_def Let_def)

record i18n_response =
  ir_locale :: string
  ir_strings :: "(string \<times> string) list"
  ir_available :: "string list"
  ir_default_locale :: string

definition get_i18n :: "(string \<Rightarrow> string option) \<Rightarrow> string option \<Rightarrow> i18n_response" where
  "get_i18n env q =
     (let dft = fst (system_locale_detect env None);
          requested = (case q of None \<Rightarrow> dft | Some l \<Rightarrow> l);
          (locale, d) = (if requested = ''zh'' then (''zh'', dict zh_entries) else (''en'', dict en_entries))
      in \<lparr>ir_locale = locale, ir_strings = d, ir_available = LOCALES, ir_default_locale = dft\<rparr>)"

definition enc_i18n_response :: "i18n_response \<Rightarrow> json" where
  "enc_i18n_response r = JObj
     [(''locale'', JStr (ir_locale r)),
      (''strings'', JObj (map (\<lambda>(k, v). (k, JStr v)) (ir_strings r))),
      (''available'', JArr (map JStr (ir_available r))),
      (''default_locale'', JStr (ir_default_locale r))]"

section \<open>The display's dictionary\<close>

type_synonym display_i18n = "(string, string) hmap"

record display_i18n_response =
  dr_default_locale :: "string option"
  dr_dictionary :: display_i18n

fun dec_string_map :: "json \<Rightarrow> display_i18n option" where
  "dec_string_map (JObj o') =
     map_option (fold (\<lambda>(k, v). hm_insert k v)) (those (map (\<lambda>(k, j). map_option (Pair k) (dec_str j)) o'))
       \<bind> (\<lambda>f. Some (f []))"
| "dec_string_map _ = None"

definition dec_i18n_response :: "json \<Rightarrow> display_i18n_response option" where
  "dec_i18n_response j = do {
     f \<leftarrow> struct_fields 2 j;
     x0 \<leftarrow> opt dec_str (f 0 ''default_locale'');
     x1 \<leftarrow> dflt dec_string_map [] (f 1 ''dictionary'');
     Some \<lparr>dr_default_locale = x0, dr_dictionary = x1\<rparr>
   }"

definition hash_of :: "(string \<times> string) list \<Rightarrow> display_i18n" where
  "hash_of es = fold (\<lambda>(k, v). hm_insert k v) es []"

definition builtin_en :: display_i18n where
  "builtin_en = hash_of builtin_en_dict"

definition builtin_zh :: display_i18n where
  "builtin_zh = hash_of builtin_zh_dict"

text \<open>
  \<open>answer\<close> is the body of the daemon's answer as JSON, if the request succeeds and the
  body is JSON; the merge keeps an entry that is already there.
\<close>

definition i18n_load :: "bool \<Rightarrow> json option \<Rightarrow> display_i18n" where
  "i18n_load url_ok answer =
     (if \<not> url_ok then builtin_en
      else (case Option.bind answer dec_i18n_response of
              None \<Rightarrow> builtin_en
            | Some r \<Rightarrow>
                fold (\<lambda>(k, v) m. if hm_get m k = None then hm_insert k v m else m) builtin_en (dr_dictionary r)))"

definition detect_from_env :: "(string \<Rightarrow> string option) \<Rightarrow> display_i18n" where
  "detect_from_env env =
     (if starts_with (ascii_lower (env_first [''LC_ALL'', ''LC_MESSAGES'', ''LANG''] env)) ''zh''
      then builtin_zh else builtin_en)"

definition i18n_t :: "display_i18n \<Rightarrow> string \<Rightarrow> string" where
  "i18n_t d key = (case hm_get d key of None \<Rightarrow> key | Some s \<Rightarrow> s)"

section \<open>Rendering\<close>

text \<open>\<open>out.push(b as char)\<close>: the byte becomes the character with its number.\<close>

definition push_byte :: "char \<Rightarrow> string" where
  "push_byte c = utf8_char (of_char c)"

text \<open>The text before the first closing brace, and the text after it.\<close>

fun split_close :: "string \<Rightarrow> (string \<times> string) option" where
  "split_close [] = None"
| "split_close (c # cs) =
     (if c = CHR 0x7D then Some ([], cs) else map_option (\<lambda>(k, r). (c # k, r)) (split_close cs))"

lemma split_close_length: "split_close s = Some (k, r) \<Longrightarrow> length r < length s"
  by (induction s arbitrary: k) (auto split: if_splits simp: less_Suc_eq)

function render :: "(string \<times> string) list \<Rightarrow> string \<Rightarrow> string" where
  "render vars [] = []"
| "render vars (c # cs) =
     (if c = CHR 0x7B
      then (case split_close cs of
              Some (key, r) \<Rightarrow>
                (case map_of vars key of Some v \<Rightarrow> v | None \<Rightarrow> [CHR 0x7B] @ key @ [CHR 0x7D]) @ render vars r
            | None \<Rightarrow> push_byte c @ render vars cs)
      else push_byte c @ render vars cs)"
  by pat_completeness auto
termination
  by (relation "measure (\<lambda>(_, s). length s)") (auto dest: split_close_length)

section \<open>The dictionaries agree\<close>

text \<open>The placeholders of a template.\<close>

fun placeholders_in :: "bool \<Rightarrow> string \<Rightarrow> string \<Rightarrow> string list" where
  "placeholders_in _ _ [] = []"
| "placeholders_in False _ (c # cs) = placeholders_in (c = CHR 0x7B) [] cs"
| "placeholders_in True acc (c # cs) =
     (if c = CHR 0x7D then rev acc # placeholders_in False [] cs else placeholders_in True (c # acc) cs)"

definition placeholders :: "string \<Rightarrow> string set" where
  "placeholders s = set (placeholders_in False [] s)"

definition same_entry :: "string \<times> string \<Rightarrow> string \<times> string \<Rightarrow> bool" where
  "same_entry e f \<longleftrightarrow> fst e = fst f \<and> placeholders (snd e) = placeholders (snd f)"

lemma bt_insert_same:
  "list_all2 same_entry m n \<Longrightarrow> same_entry e f \<Longrightarrow> list_all2 same_entry (bt_insert e m) (bt_insert f n)"
proof (induction rule: list_all2_induct)
  case Nil
  then show ?case by (cases e; cases f) (simp add: same_entry_def)
next
  case (Cons x m y n)
  then show ?case by (cases e; cases f; cases x; cases y) (auto simp: same_entry_def)
qed

lemma dict_same: "list_all2 same_entry es fs \<Longrightarrow> list_all2 same_entry (dict es) (dict fs)"
proof -
  have "list_all2 same_entry es fs \<Longrightarrow> list_all2 same_entry m n \<Longrightarrow>
      list_all2 same_entry (foldl (\<lambda>m e. bt_insert e m) m es) (foldl (\<lambda>m e. bt_insert e m) n fs)" for m n
    by (induction es fs arbitrary: m n rule: list_all2_induct) (simp_all add: bt_insert_same)
  then show "list_all2 same_entry es fs \<Longrightarrow> ?thesis" by (simp add: dict_def)
qed

lemma high_byte: "128 \<le> b \<Longrightarrow> b < 256 \<Longrightarrow> char_of (b :: nat) \<noteq> CHR 0x7B"
proof
  assume b: "128 \<le> b" "b < 256" and "char_of b = CHR 0x7B"
  then have "of_char (char_of b) = (of_char (CHR 0x7B) :: nat)" by simp
  then show False using b by (simp add: of_char_of)
qed

lemma utf8_char_high: "128 \<le> n \<Longrightarrow> n < 0x110000 \<Longrightarrow> list_all (\<lambda>c. c \<noteq> CHR 0x7B) (utf8_char n)"
proof -
  assume n: "128 \<le> n" "n < 0x110000"
  have m: "char_of (0x80 + k mod 64) \<noteq> CHR 0x7B" for k :: nat
    using mod_less_divisor[of 64 k] by (intro high_byte) simp_all
  have "n < 0x800 \<Longrightarrow> char_of (0xC0 + n div 64) \<noteq> CHR 0x7B"
    "n < 0x10000 \<Longrightarrow> char_of (0xE0 + n div 4096) \<noteq> CHR 0x7B"
    "char_of (0xF0 + n div 262144) \<noteq> CHR 0x7B"
    using n by (intro high_byte; simp add: less_mult_imp_div_less div_less_iff_less_mult; fail)+
  then show ?thesis using n m by (simp add: utf8_char_def)
qed

lemma placeholders_plain:
  "list_all (\<lambda>c. c \<noteq> CHR 0x7B) s \<Longrightarrow> placeholders_in False [] (s @ t) = placeholders_in False [] t"
  by (induction s) auto

lemma placeholders_utf8 [simp]:
  "list_all (\<lambda>n. 128 \<le> n \<and> n < 0x110000) cs \<Longrightarrow>
     placeholders_in False [] (utf8 cs @ t) = placeholders_in False [] t"
  "list_all (\<lambda>n. 128 \<le> n \<and> n < 0x110000) cs \<Longrightarrow> placeholders_in False [] (utf8 cs) = []"
proof -
  show c: "list_all (\<lambda>n. 128 \<le> n \<and> n < 0x110000) cs \<Longrightarrow>
      placeholders_in False [] (utf8 cs @ t) = placeholders_in False [] t" for t
    by (induction cs) (simp_all add: utf8_def placeholders_plain utf8_char_high)
  show "list_all (\<lambda>n. 128 \<le> n \<and> n < 0x110000) cs \<Longrightarrow> placeholders_in False [] (utf8 cs) = []"
    using c[of "[]"] by simp
qed

lemma entries_same: "list_all2 same_entry zh_entries en_entries"
  by (simp add: zh_entries_def en_entries_def same_entry_def placeholders_def)

text \<open>
  Whatever locale is asked for or detected, the endpoint answers with the Chinese or the
  English dictionary, named as such and among the available ones; any two answers hold the same
  keys in the same order, and the two translations of a key use the same placeholders.
\<close>

lemma dictionaries_agree:
  "list_all2 same_entry (ir_strings (get_i18n env q)) (ir_strings (get_i18n env' q')) \<and>
   ir_locale (get_i18n env q) \<in> set (ir_available (get_i18n env q)) \<and>
   ir_default_locale (get_i18n env q) \<in> set (ir_available (get_i18n env q)) \<and>
   ir_strings (get_i18n env q) =
     dict (if ir_locale (get_i18n env q) = ''zh'' then zh_entries else en_entries)"
proof -
  have "same_entry = same_entry\<inverse>\<inverse>" by (auto simp: same_entry_def fun_eq_iff)
  then have r: "list_all2 same_entry en_entries zh_entries"
    using entries_same by (metis list_all2_conv_all_nth conversep_iff list.rel_conversep)
  have s: "list_all2 same_entry es es" for es by (simp add: list_all2_same same_entry_def)
  show ?thesis
    using dict_same[OF entries_same] dict_same[OF r] dict_same[OF s]
    by (auto simp: get_i18n_def LOCALES_def system_locale_detect_def detect_inner_def Let_def)
qed

section \<open>The display's dictionary is always English\<close>

lemma fold_missing_get:
  "distinct (map fst es) \<Longrightarrow> hm_get (fold (\<lambda>(k, v) m. if hm_get m k = None then hm_insert k v m else m) es m) k =
     (case hm_get m k of None \<Rightarrow> map_of es k | Some v \<Rightarrow> Some v)"
proof (induction es arbitrary: m)
  case (Cons e es)
  obtain j v where e: "e = (j, v)" by fastforce
  then have "map_of es j = None" using Cons.prems by (simp add: map_of_eq_None_iff)
  then show ?case using Cons e by (auto split: option.split)
qed (simp split: option.split)

lemma hash_of_wf: "hm_wf (hash_of es)"
proof -
  have "hm_wf m \<Longrightarrow> hm_wf (fold (\<lambda>(k, v). hm_insert k v) es m)" for m :: display_i18n
    by (induction es arbitrary: m) auto
  then show ?thesis by (simp add: hash_of_def)
qed

lemma i18n_answer_dictionary: "dec_i18n_response (enc_i18n_response r) =
    Some \<lparr>dr_default_locale = Some (ir_default_locale r), dr_dictionary = []\<rparr>"
  by (simp add: dec_i18n_response_def enc_i18n_response_def)

text \<open>
  The endpoint sends its dictionary under the key \<open>strings\<close> while the display reads
  \<open>dictionary\<close>. So whatever the message-center's locale is, whatever the display asks for,
  and whether or not the request succeeds, the display looks every text up in its built-in English
  dictionary.
\<close>

lemma loaded_english:
  "hm_get (i18n_load url_ok (Some (enc_i18n_response (get_i18n env q)))) = hm_get builtin_en"
  "hm_get (i18n_load url_ok None) = hm_get builtin_en"
proof -
  have "distinct (map fst builtin_en)" using hash_of_wf by (simp add: builtin_en_def hm_wf_def)
  then show "hm_get (i18n_load url_ok (Some (enc_i18n_response (get_i18n env q)))) = hm_get builtin_en"
    by (auto simp: i18n_load_def i18n_answer_dictionary fold_missing_get fun_eq_iff) (simp_all add: hm_get_def)
qed (simp add: i18n_load_def)

section \<open>What rendering does\<close>

text \<open>A template as the literal texts and variables it is made of.\<close>

datatype part = PLit string | PVar string

fun part_wf :: "part \<Rightarrow> bool" where
  "part_wf (PLit s) = (CHR 0x7B \<notin> set s)"
| "part_wf (PVar k) = (CHR 0x7D \<notin> set k)"

fun part_text :: "part \<Rightarrow> string" where
  "part_text (PLit s) = s"
| "part_text (PVar k) = [CHR 0x7B] @ k @ [CHR 0x7D]"

fun part_value :: "(string \<times> string) list \<Rightarrow> part \<Rightarrow> string" where
  "part_value vars (PLit s) = concat (map push_byte s)"
| "part_value vars (PVar k) = (case map_of vars k of Some v \<Rightarrow> v | None \<Rightarrow> part_text (PVar k))"

lemma split_close_part: "CHR 0x7D \<notin> set k \<Longrightarrow> split_close (k @ CHR 0x7D # r) = Some (k, r)"
  by (induction k) auto

lemma render_lit: "CHR 0x7B \<notin> set s \<Longrightarrow> render vars (s @ r) = concat (map push_byte s) @ render vars r"
  by (induction s) auto

lemma render_part: "part_wf p \<Longrightarrow> render vars (part_text p @ r) = part_value vars p @ render vars r"
  by (cases p) (auto simp: render_lit split_close_part split: option.split)

lemma push_byte_ascii: "of_char c < (128 :: nat) \<Longrightarrow> push_byte c = [c]"
  by (simp add: push_byte_def utf8_char_def)

lemma push_byte_high: "\<not> of_char c < (128 :: nat) \<Longrightarrow> length (push_byte c) = 2"
proof -
  have "of_char c < (2048 :: nat)" by (rule less_trans[of _ 256]) simp_all
  then show "\<not> of_char c < (128 :: nat) \<Longrightarrow> ?thesis" by (simp add: push_byte_def utf8_char_def)
qed

lemma push_bytes_length:
  "length (concat (map push_byte s)) = length s + length (filter (\<lambda>c. \<not> of_char c < (128 :: nat)) s)"
  by (induction s) (auto simp: push_byte_ascii push_byte_high)

text \<open>
  Rendering a template replaces each placeholder by its variable and leaves an unknown one as
  it stands; a literal text survives exactly when it is ASCII. Every other byte of it is written
  as the character of that number, two bytes instead of one, so no text outside ASCII, as all of
  the built-in Chinese ones, is ever rendered correctly.
\<close>

lemma render_parts:
  assumes "list_all part_wf ps"
  shows "render vars (concat (map part_text ps)) = concat (map (part_value vars) ps) \<and>
    (part_value vars (PLit s) = s \<longleftrightarrow> (\<forall>c \<in> set s. of_char c < (128 :: nat)))"
proof
  show "render vars (concat (map part_text ps)) = concat (map (part_value vars) ps)"
    using assms by (induction ps) (simp_all add: render_part)
  have "\<forall>c \<in> set s. of_char c < (128 :: nat) \<Longrightarrow> concat (map push_byte s) = s"
    by (induction s) (simp_all add: push_byte_ascii)
  moreover have "concat (map push_byte s) = s \<Longrightarrow> \<forall>c \<in> set s. of_char c < (128 :: nat)"
    using push_bytes_length[of s] by (auto simp: filter_empty_conv)
  ultimately show "part_value vars (PLit s) = s \<longleftrightarrow> (\<forall>c \<in> set s. of_char c < (128 :: nat))" by auto
qed

theorem render_parts_witness:
  "hm_get builtin_zh ''notif.call.incoming'' = Some (concat (map part_text [PVar ''number'', PLit ('' '' @ utf8 [0x6765, 0x7535])])) \<and>
   render [(''number'', ''10086'')] (concat (map part_text [PVar ''number'', PLit ('' '' @ utf8 [0x6765, 0x7535])]))
     \<noteq> ''10086 '' @ utf8 [0x6765, 0x7535]"
proof -
  let ?ps = "[PVar ''number'', PLit ('' '' @ utf8 [0x6765, 0x7535])]"
  let ?v = "[(''number'', ''10086'')]"
  have w: "list_all part_wf ?ps"
    using utf8_char_high[of "0x6765"] utf8_char_high[of "0x7535"] by (auto simp: utf8_def list_all_iff)
  have h: "\<not> (\<forall>c \<in> set ('' '' @ utf8 [0x6765, 0x7535]). of_char c < (128 :: nat))"
    by (simp add: utf8_def utf8_char_def of_char_of)
  have "render ?v (concat (map part_text ?ps)) = concat (map (part_value ?v) ?ps)"
    by (rule conjunct1[OF render_parts[OF w, of ?v "[]"]])
  then have "render ?v (concat (map part_text ?ps)) = ''10086'' @ part_value ?v (PLit ('' '' @ utf8 [0x6765, 0x7535]))"
    by simp
  moreover have "part_value ?v (PLit ('' '' @ utf8 [0x6765, 0x7535])) \<noteq> '' '' @ utf8 [0x6765, 0x7535]"
    using render_parts[OF w] h by blast
  moreover have "hm_get builtin_zh ''notif.call.incoming'' = Some (concat (map part_text ?ps))"
    by (simp add: builtin_zh_def hash_of_def builtin_zh_dict_def)
  ultimately show ?thesis by simp
qed

end
