(* ===== verification/DeskBackend.thy ===== *)
theory DeskBackend
  imports I18n Wire
begin

text \<open>
  The notification backends of the desktop display (DeskDisplay/src): the sink of outgoing actions
  (actions.rs), the translation of events to toasts and the D-Bus backend (backends/linux.rs),
  the recording and the no-op backend (backends/mock.rs, stub.rs), and what the client relies on
  as a locale (backends/mod.rs). The notification daemon's answers and the outcome of a prompt
  are arguments; the text serde gives a decoding error is not modelled, its event kind is kept.
\<close>

section \<open>Actions\<close>

definition map_ok :: "('a \<Rightarrow> 'b) \<Rightarrow> 'e + 'a \<Rightarrow> 'e + 'b" where
  "map_ok f r = (case r of Inl e \<Rightarrow> Inl e | Inr a \<Rightarrow> Inr (f a))"

datatype display_error =
    DeConfig string | DeTokenFile string | DeHttp string | DeWebSocket string | DeDbus string
  | DePrompt string | DeProtocol string | DeIo string | DeOther string

fun display_error_str :: "display_error \<Rightarrow> string" where
  "display_error_str (DeConfig e) = ''config: '' @ e"
| "display_error_str (DeTokenFile e) = ''token file: '' @ e"
| "display_error_str (DeHttp e) = ''http: '' @ e"
| "display_error_str (DeWebSocket e) = ''websocket: '' @ e"
| "display_error_str (DeDbus e) = ''dbus: '' @ e"
| "display_error_str (DePrompt e) = ''prompt: '' @ e"
| "display_error_str (DeProtocol e) = ''protocol: '' @ e"
| "display_error_str (DeIo e) = ''io: '' @ e"
| "display_error_str (DeOther e) = e"

text \<open>A bounded channel of actions: what is queued, and whether the receiver is gone.\<close>

record action_chan =
  ac_queue :: "display_action list"
  ac_closed :: bool

definition ACTION_BUFFER :: nat where
  "ACTION_BUFFER = 32"

definition action_chan_new :: action_chan where
  "action_chan_new = \<lparr>ac_queue = [], ac_closed = False\<rparr>"

type_synonym action_sink = "action_chan option"

definition sink_new :: action_sink where
  "sink_new = None"

definition sink_bind :: "action_chan \<Rightarrow> action_sink \<Rightarrow> action_sink" where
  "sink_bind c _ = Some c"

definition sink_unbind :: "action_sink \<Rightarrow> action_sink" where
  "sink_unbind _ = None"

definition sink_try_send :: "display_action \<Rightarrow> action_sink \<Rightarrow> display_error + action_sink" where
  "sink_try_send a s =
     (case s of
        None \<Rightarrow> Inl (DeWebSocket ''action sink unbound'')
      | Some c \<Rightarrow>
          if ac_closed c then Inl (DeWebSocket ''action channel closed'')
          else if ACTION_BUFFER \<le> length (ac_queue c) then Inl (DeWebSocket ''action channel full'')
          else Inr (Some (c\<lparr>ac_queue := ac_queue c @ [a]\<rparr>)))"

section \<open>Toasts\<close>

datatype toast_kind =
    TkNotification | TkSms | TkCallIncoming | TkCallOngoing | TkCallEnded | TkActionResult | TkPhoneOffline

record toast =
  to_kind :: toast_kind
  to_title :: string
  to_body :: string
  to_actions :: "(string \<times> string) list"
  to_envelope_id :: uuid
  to_device_id :: uuid

definition REPLY_ACTION :: string where "REPLY_ACTION = ''reply''"
definition MARK_READ_ACTION :: string where "MARK_READ_ACTION = ''mark_read''"
definition DISMISS_ACTION :: string where "DISMISS_ACTION = ''dismiss''"
definition ANSWER_ACTION :: string where "ANSWER_ACTION = ''answer''"
definition HANGUP_ACTION :: string where "HANGUP_ACTION = ''hangup''"

definition action_list_for :: "string \<Rightarrow> display_i18n \<Rightarrow> (string \<times> string) list" where
  "action_list_for kind I =
     (if kind = ''sms'' \<or> kind = ''notification''
      then [(REPLY_ACTION, i18n_t I ''notif.action.reply''),
            (MARK_READ_ACTION, i18n_t I ''notif.action.mark_read''),
            (DISMISS_ACTION, i18n_t I ''notif.action.dismiss'')]
      else if kind = ''call''
      then [(ANSWER_ACTION, i18n_t I ''notif.action.answer''),
            (HANGUP_ACTION, i18n_t I ''notif.action.hangup'')]
      else [])"

definition translate_notification ::
  "display_i18n \<Rightarrow> uuid \<Rightarrow> uuid \<Rightarrow> notification_received \<Rightarrow> toast" where
  "translate_notification I eid dev n =
     \<lparr>to_kind = TkNotification,
      to_title = (case nr_app_name n of Some a \<Rightarrow> a | None \<Rightarrow> nr_title n),
      to_body = (if nr_is_sensitive n then utf8 [0x2022, 0x2022, 0x2022] else nr_content n),
      to_actions = action_list_for ''notification'' I, to_envelope_id = eid, to_device_id = dev\<rparr>"

definition translate_sms :: "display_i18n \<Rightarrow> uuid \<Rightarrow> uuid \<Rightarrow> sms_received \<Rightarrow> toast" where
  "translate_sms I eid dev s =
     \<lparr>to_kind = TkSms, to_title = render [(''address'', sr_address s)] (i18n_t I ''notif.sms.incoming''),
      to_body = sr_body s, to_actions = action_list_for ''sms'' I, to_envelope_id = eid, to_device_id = dev\<rparr>"

definition translate_call_incoming :: "display_i18n \<Rightarrow> uuid \<Rightarrow> uuid \<Rightarrow> call_incoming \<Rightarrow> toast" where
  "translate_call_incoming I eid dev c =
     \<lparr>to_kind = TkCallIncoming,
      to_title = render [(''number'', ci_phone_number c)] (i18n_t I ''notif.call.incoming''),
      to_body = (case ci_contact_name c of Some n \<Rightarrow> n | None \<Rightarrow> []),
      to_actions = action_list_for ''call'' I, to_envelope_id = eid, to_device_id = dev\<rparr>"

definition translate_call_state :: "display_i18n \<Rightarrow> uuid \<Rightarrow> uuid \<Rightarrow> call_state \<Rightarrow> toast option" where
  "translate_call_state I eid dev c =
     (if cs_state c \<noteq> CsRinging \<and> cs_state c \<noteq> CsOffhook then None
      else (let number = (case cs_phone_number c of Some n \<Rightarrow> n | None \<Rightarrow> []) in Some
        \<lparr>to_kind = TkCallOngoing,
         to_title = (if cs_state c = CsOffhook then i18n_t I ''notif.call.ongoing''
                     else render [(''number'', number)] (i18n_t I ''notif.call.incoming'')),
         to_body = [], to_actions = action_list_for ''call'' I, to_envelope_id = eid, to_device_id = dev\<rparr>))"

definition translate_action_result :: "display_i18n \<Rightarrow> uuid \<Rightarrow> uuid \<Rightarrow> json \<Rightarrow> toast" where
  "translate_action_result I eid dev p =
     (let ok = (case Option.bind (json_get p ''ok'') json_as_bool of Some b \<Rightarrow> b | None \<Rightarrow> False);
          msg = (case Option.bind (json_get p ''message'') json_as_str of Some m \<Rightarrow> m | None \<Rightarrow> [])
      in \<lparr>to_kind = TkActionResult,
          to_title = (if ok then i18n_t I ''toast.action_sent''
                      else render [(''message'', msg)] (i18n_t I ''toast.action_failed'')),
          to_body = [], to_actions = [], to_envelope_id = eid, to_device_id = dev\<rparr>)"

definition translate_phone_offline :: "display_i18n \<Rightarrow> uuid \<Rightarrow> uuid \<Rightarrow> json \<Rightarrow> toast" where
  "translate_phone_offline I eid dev p =
     (let kind = (case Option.bind (json_get p ''action_kind'') json_as_str of Some m \<Rightarrow> m | None \<Rightarrow> [])
      in \<lparr>to_kind = TkPhoneOffline, to_title = i18n_t I ''toast.phone_offline'' @ '' ('' @ kind @ '')'',
          to_body = [], to_actions = [], to_envelope_id = eid, to_device_id = dev\<rparr>)"

text \<open>Decoding a payload, the failure named by the event's kind.\<close>

definition decode_as :: "(json \<Rightarrow> 'p option) \<Rightarrow> display_event \<Rightarrow> display_error + 'p" where
  "decode_as d e = (case d (de_payload e) of None \<Rightarrow> Inl (DeProtocol (de_kind e)) | Some p \<Rightarrow> Inr p)"

definition translate_via_event :: "display_i18n \<Rightarrow> display_event \<Rightarrow> display_error + toast option" where
  "translate_via_event I e =
     (if de_kind e = ''notification.received''
      then map_ok (Some \<circ> translate_notification I (de_envelope_id e) (de_device_id e))
             (decode_as dec_notification_received e)
      else if de_kind e = ''sms.received''
      then map_ok (Some \<circ> translate_sms I (de_envelope_id e) (de_device_id e)) (decode_as dec_sms_received e)
      else if de_kind e = ''call.incoming''
      then map_ok (Some \<circ> translate_call_incoming I (de_envelope_id e) (de_device_id e))
             (decode_as dec_call_incoming e)
      else if de_kind e = ''call.state''
      then map_ok (translate_call_state I (de_envelope_id e) (de_device_id e)) (decode_as dec_call_state e)
      else if de_kind e = ''action.result''
      then Inr (Some (translate_action_result I (de_envelope_id e) (de_device_id e) (de_payload e)))
      else if de_kind e = ''phone.offline''
      then Inr (Some (translate_phone_offline I (de_envelope_id e) (de_device_id e) (de_payload e)))
      else Inr None)"

section \<open>The Linux backend\<close>

record notif_ref =
  nf_envelope_id :: uuid
  nf_device_id :: uuid
  nf_kind :: string
  nf_address :: "string option"
  nf_call_id :: "string option"
  nf_package :: "string option"
  nf_notif_id :: "string option"

text \<open>
  \<open>lb_shown\<close> records the calls of \<open>Notify\<close> that succeeded: the toast shown and
  its category.
\<close>

record linux =
  lb_conn :: bool
  lb_map :: "(u32, notif_ref) hmap"
  lb_sink :: action_sink
  lb_shown :: "(toast \<times> string) list"

definition linux_new :: linux where
  "linux_new = \<lparr>lb_conn = False, lb_map = [], lb_sink = sink_new, lb_shown = []\<rparr>"

text \<open>\<open>reply\<close> is the notification daemon's answer: an error's text or the id it assigned.\<close>

definition linux_notify :: "string + u32 \<Rightarrow> linux \<Rightarrow> display_error + u32" where
  "linux_notify reply b =
     (if \<not> lb_conn b then Inl (DeDbus ''not connected to session bus'')
      else map_sum (\<lambda>e. DeDbus (''Notify: '' @ e)) id reply)"

definition dispatch_toast ::
  "string + u32 \<Rightarrow> toast \<Rightarrow> string \<Rightarrow> string option \<Rightarrow> string option \<Rightarrow> string option \<Rightarrow> string option \<Rightarrow>
     string \<Rightarrow> linux \<Rightarrow> (display_error + unit) \<times> linux" where
  "dispatch_toast reply t kind package address call_id nid category b =
     (case linux_notify reply b of
        Inl e \<Rightarrow> (Inl e, b)
      | Inr i \<Rightarrow>
          (Inr (), b\<lparr>lb_map := hm_insert i
             \<lparr>nf_envelope_id = to_envelope_id t, nf_device_id = to_device_id t, nf_kind = kind,
              nf_address = address, nf_call_id = call_id, nf_package = package, nf_notif_id = nid\<rparr>
             (lb_map b), lb_shown := lb_shown b @ [(t, category)]\<rparr>))"

definition present_notification ::
  "display_i18n \<Rightarrow> string + u32 \<Rightarrow> uuid \<Rightarrow> uuid \<Rightarrow> notification_received \<Rightarrow> linux \<Rightarrow> (display_error + unit) \<times> linux" where
  "present_notification I reply eid dev n =
     dispatch_toast reply (translate_notification I eid dev n) ''notification'' (Some (nr_package n)) None
       None (Some (nr_id n)) ''im''"

definition present_sms ::
  "display_i18n \<Rightarrow> string + u32 \<Rightarrow> uuid \<Rightarrow> uuid \<Rightarrow> sms_received \<Rightarrow> linux \<Rightarrow> (display_error + unit) \<times> linux" where
  "present_sms I reply eid dev s =
     dispatch_toast reply (translate_sms I eid dev s) ''sms'' None (Some (sr_address s)) None None ''im''"

definition present_call_incoming ::
  "display_i18n \<Rightarrow> string + u32 \<Rightarrow> uuid \<Rightarrow> uuid \<Rightarrow> call_incoming \<Rightarrow> linux \<Rightarrow> (display_error + unit) \<times> linux" where
  "present_call_incoming I reply eid dev c =
     dispatch_toast reply (translate_call_incoming I eid dev c) ''call'' None (Some (ci_phone_number c)) None
       None ''call''"

definition present_call_state ::
  "display_i18n \<Rightarrow> string + u32 \<Rightarrow> uuid \<Rightarrow> uuid \<Rightarrow> call_state \<Rightarrow> linux \<Rightarrow> (display_error + unit) \<times> linux" where
  "present_call_state I reply eid dev c b =
     (case translate_call_state I eid dev c of
        None \<Rightarrow> (Inr (), b)
      | Some t \<Rightarrow> dispatch_toast reply t ''call'' None
          (Some (case cs_phone_number c of Some n \<Rightarrow> n | None \<Rightarrow> [])) (cs_call_id c) None ''call'' b)"

definition present_action_result ::
  "display_i18n \<Rightarrow> string + u32 \<Rightarrow> uuid \<Rightarrow> uuid \<Rightarrow> json \<Rightarrow> linux \<Rightarrow> (display_error + unit) \<times> linux" where
  "present_action_result I reply eid dev p =
     dispatch_toast reply (translate_action_result I eid dev p) ''action_result'' None None None None
       ''transfer.complete''"

definition present_phone_offline ::
  "display_i18n \<Rightarrow> string + u32 \<Rightarrow> uuid \<Rightarrow> uuid \<Rightarrow> json \<Rightarrow> linux \<Rightarrow> (display_error + unit) \<times> linux" where
  "present_phone_offline I reply eid dev p =
     dispatch_toast reply (translate_phone_offline I eid dev p) ''phone_offline'' None None None None
       ''transfer.error''"

definition linux_start :: "bool \<Rightarrow> linux \<Rightarrow> (display_error + unit) \<times> linux" where
  "linux_start bus_ok b =
     (if bus_ok then (Inr (), b\<lparr>lb_conn := True\<rparr>) else (Inl (DeDbus ''session bus''), b))"

definition linux_stop :: "linux \<Rightarrow> (display_error + unit) \<times> linux" where
  "linux_stop b = (Inr (), b\<lparr>lb_conn := False\<rparr>)"

text \<open>\<open>serde_json::from_value(..)?\<close>, then the presentation of what was decoded.\<close>

definition decoded ::
  "(json \<Rightarrow> 'p option) \<Rightarrow> display_event \<Rightarrow> (uuid \<Rightarrow> uuid \<Rightarrow> 'p \<Rightarrow> 's \<Rightarrow> (display_error + unit) \<times> 's) \<Rightarrow> 's \<Rightarrow>
     (display_error + unit) \<times> 's" where
  "decoded d e f b =
     (case decode_as d e of Inl er \<Rightarrow> (Inl er, b) | Inr p \<Rightarrow> f (de_envelope_id e) (de_device_id e) p b)"

definition linux_present ::
  "display_i18n \<Rightarrow> string + u32 \<Rightarrow> display_event \<Rightarrow> linux \<Rightarrow> (display_error + unit) \<times> linux" where
  "linux_present I reply e b =
     (if de_kind e = ''notification.received''
      then decoded dec_notification_received e (present_notification I reply) b
      else if de_kind e = ''sms.received'' then decoded dec_sms_received e (present_sms I reply) b
      else if de_kind e = ''call.incoming'' then decoded dec_call_incoming e (present_call_incoming I reply) b
      else if de_kind e = ''call.state'' then decoded dec_call_state e (present_call_state I reply) b
      else if de_kind e = ''action.result''
      then present_action_result I reply (de_envelope_id e) (de_device_id e) (de_payload e) b
      else if de_kind e = ''phone.offline''
      then present_phone_offline I reply (de_envelope_id e) (de_device_id e) (de_payload e) b
      else (Inr (), b))"

section \<open>Signals\<close>

definition ref_action :: "string \<Rightarrow> notif_ref \<Rightarrow> string option \<Rightarrow> string option \<Rightarrow> display_action" where
  "ref_action kind r to call_id =
     \<lparr>da_kind = kind, da_envelope_id = nf_envelope_id r, da_device_id = nf_device_id r, da_to = to,
      da_body = None, da_call_id = call_id\<rparr>"

definition action_for_key :: "string \<Rightarrow> notif_ref \<Rightarrow> display_action option" where
  "action_for_key key r =
     (if key = REPLY_ACTION then Some (ref_action ''sms.reply'' r (nf_address r) None)
      else if key = MARK_READ_ACTION then Some (ref_action ''notification.read'' r None None)
      else if key = DISMISS_ACTION then Some (ref_action ''notification.dismiss'' r None None)
      else if key = ANSWER_ACTION then Some (ref_action ''call.answer'' r None (nf_call_id r))
      else if key = HANGUP_ACTION then Some (ref_action ''call.end'' r None (nf_call_id r))
      else None)"

text \<open>
  A prompt program that ran: whether it succeeded and what it printed. A tool that is not
  installed is \<open>None\<close>; one that cannot be run is an error.
\<close>

definition run_prompt :: "string + bool \<times> string \<Rightarrow> display_error + string option" where
  "run_prompt r =
     (case r of Inl e \<Rightarrow> Inl (DePrompt e) | Inr (ok, out) \<Rightarrow> Inr (if ok then Some (trim out) else None))"

definition collect_reply_text ::
  "(string + bool \<times> string) option \<Rightarrow> (string + bool \<times> string) option \<Rightarrow> display_error + string" where
  "collect_reply_text zenity kdialog =
     (let missing = Inl (DePrompt ''neither zenity nor kdialog is installed; cannot collect reply text'');
          second = (case kdialog of
                      None \<Rightarrow> missing
                    | Some r \<Rightarrow> (case run_prompt r of
                                   Inl e \<Rightarrow> Inl e | Inr (Some t) \<Rightarrow> Inr t | Inr None \<Rightarrow> missing))
      in case zenity of
           None \<Rightarrow> second
         | Some r \<Rightarrow> (case run_prompt r of Inl e \<Rightarrow> Inl e | Inr (Some t) \<Rightarrow> Inr t | Inr None \<Rightarrow> second))"

definition linux_enqueue :: "display_action \<Rightarrow> linux \<Rightarrow> linux" where
  "linux_enqueue a b = (case sink_try_send a (lb_sink b) of Inl _ \<Rightarrow> b | Inr s \<Rightarrow> b\<lparr>lb_sink := s\<rparr>)"

text \<open>One \<open>ActionInvoked\<close> signal; \<open>prompt\<close> answers the question it is given.\<close>

definition action_invoked :: "(string \<Rightarrow> display_error + string) \<Rightarrow> u32 \<Rightarrow> string \<Rightarrow> linux \<Rightarrow> linux" where
  "action_invoked prompt i key b =
     (case hm_get (lb_map b) i of
        None \<Rightarrow> b
      | Some r \<Rightarrow>
          (case action_for_key key r of
             None \<Rightarrow> b
           | Some a \<Rightarrow>
               if da_kind a = ''sms.reply'' \<and> da_body a = None
               then (let address = (case Option.bind (hm_get (lb_map b) i) nf_address of
                                      Some ad \<Rightarrow> ad | None \<Rightarrow> ''(unknown)'')
                     in case prompt (''Reply to '' @ address @ '':'') of
                          Inl _ \<Rightarrow> b
                        | Inr text \<Rightarrow> if text \<noteq> [] then linux_enqueue (a\<lparr>da_body := Some text\<rparr>) b else b)
               else linux_enqueue a b))"

definition notification_closed :: "u32 \<Rightarrow> linux \<Rightarrow> linux" where
  "notification_closed i b = b\<lparr>lb_map := hm_remove i (lb_map b)\<rparr>"

section \<open>The recording and the no-op backend\<close>

record mock =
  mk_toasts :: "toast list"
  mk_actions :: "display_action list"

definition mock_new :: mock where
  "mock_new = \<lparr>mk_toasts = [], mk_actions = []\<rparr>"

definition mock_record :: "toast \<Rightarrow> mock \<Rightarrow> mock" where
  "mock_record t m = m\<lparr>mk_toasts := mk_toasts m @ [t]\<rparr>"

definition mock_reset :: "mock \<Rightarrow> mock" where
  "mock_reset m = m\<lparr>mk_toasts := [], mk_actions := []\<rparr>"

definition present_via_linux_logic ::
  "display_i18n \<Rightarrow> display_event \<Rightarrow> mock \<Rightarrow> (display_error + toast option) \<times> mock" where
  "present_via_linux_logic I e m =
     (let recorded = (\<lambda>t. (Inr (Some t), mock_record t m));
          decode = (\<lambda>r. case r of Inl er \<Rightarrow> (Inl er, m) | Inr t \<Rightarrow> recorded t)
      in if de_kind e = ''notification.received''
         then decode (map_ok (translate_notification I (de_envelope_id e) (de_device_id e))
                (decode_as dec_notification_received e))
         else if de_kind e = ''sms.received''
         then decode (map_ok (translate_sms I (de_envelope_id e) (de_device_id e)) (decode_as dec_sms_received e))
         else if de_kind e = ''call.incoming''
         then decode (map_ok (translate_call_incoming I (de_envelope_id e) (de_device_id e))
                (decode_as dec_call_incoming e))
         else if de_kind e = ''call.state''
         then (case decode_as dec_call_state e of
                 Inl er \<Rightarrow> (Inl er, m)
               | Inr c \<Rightarrow> (case translate_call_state I (de_envelope_id e) (de_device_id e) c of
                             Some t \<Rightarrow> recorded t | None \<Rightarrow> (Inr None, m)))
         else if de_kind e = ''action.result''
         then recorded (translate_action_result I (de_envelope_id e) (de_device_id e) (de_payload e))
         else if de_kind e = ''phone.offline''
         then recorded (translate_phone_offline I (de_envelope_id e) (de_device_id e) (de_payload e))
         else (Inr None, m))"

definition mock_present :: "display_i18n \<Rightarrow> display_event \<Rightarrow> mock \<Rightarrow> (display_error + unit) \<times> mock" where
  "mock_present I e m =
     (case present_via_linux_logic I e m of (Inl er, m') \<Rightarrow> (Inl er, m') | (Inr _, m') \<Rightarrow> (Inr (), m'))"

definition from_event_kind :: "string \<Rightarrow> toast_kind" where
  "from_event_kind kind =
     (if kind = ''notification.received'' then TkNotification
      else if kind = ''sms.received'' then TkSms
      else if kind = ''call.incoming'' then TkCallIncoming
      else if kind = ''call.state'' then TkCallOngoing
      else if kind = ''action.result'' then TkActionResult
      else if kind = ''phone.offline'' then TkPhoneOffline
      else TkActionResult)"

definition stub_present :: "display_event \<Rightarrow> unit \<Rightarrow> (display_error + unit) \<times> unit" where
  "stub_present e s = (Inr (), s)"

section \<open>The contract of a backend\<close>

text \<open>
  What the client relies on. \<open>shown\<close> is what the user has been shown, \<open>view\<close>
  the toast an event stands for; an event that is presented adds exactly its toast, one that is
  refused nothing, and while the backend is up and its surroundings answer, only an event without
  a toast is refused.
\<close>

locale display_backend =
  fixes present :: "'w \<Rightarrow> display_event \<Rightarrow> 's \<Rightarrow> (display_error + unit) \<times> 's"
    and shown :: "'s \<Rightarrow> toast list"
    and view :: "display_event \<Rightarrow> toast option"
    and up :: "'s \<Rightarrow> bool"
    and answers :: "'w \<Rightarrow> bool"
  assumes present_shows: "present w e s = (Inr (), s') \<Longrightarrow>
      shown s' = shown s @ (case view e of None \<Rightarrow> [] | Some t \<Rightarrow> [t])"
    and refused_shows: "present w e s = (Inl er, s') \<Longrightarrow> shown s' = shown s"
    and refused: "present w e s = (Inl er, s') \<Longrightarrow> up s \<Longrightarrow> answers w \<Longrightarrow> view e = None"
    and stays_up: "present w e s = (r, s') \<Longrightarrow> up s \<Longrightarrow> up s'"
begin

lemma present_up:
  assumes "up s" "answers w"
  shows "shown (snd (present w e s)) = shown s @ (case view e of None \<Rightarrow> [] | Some t \<Rightarrow> [t])"
    "up (snd (present w e s))"
proof -
  obtain r s' where p: "present w e s = (r, s')" by fastforce
  show "shown (snd (present w e s)) = shown s @ (case view e of None \<Rightarrow> [] | Some t \<Rightarrow> [t])"
    using present_shows refused_shows refused assms p by (cases r) fastforce+
  show "up (snd (present w e s))" using stays_up[OF p assms(1)] p by simp
qed

end

text \<open>The toast of an event, which the translation decides.\<close>

definition toast_of :: "display_i18n \<Rightarrow> display_event \<Rightarrow> toast option" where
  "toast_of I e = (case translate_via_event I e of Inl _ \<Rightarrow> None | Inr t \<Rightarrow> t)"

text \<open>The six kinds of event a backend presents.\<close>

definition EVENT_KINDS :: "string list" where
  "EVENT_KINDS = [''notification.received'', ''sms.received'', ''call.incoming'', ''call.state'',
     ''action.result'', ''phone.offline'']"

lemma event_kind_cases:
  obtains "de_kind e = ''notification.received''" | "de_kind e = ''sms.received''"
    | "de_kind e = ''call.incoming''" | "de_kind e = ''call.state''"
    | "de_kind e = ''action.result''" | "de_kind e = ''phone.offline''"
    | "de_kind e \<notin> set EVENT_KINDS"
  unfolding EVENT_KINDS_def by auto

lemma mock_present_eq:
  "mock_present I e m =
     (case translate_via_event I e of
        Inl er \<Rightarrow> (Inl er, m)
      | Inr None \<Rightarrow> (Inr (), m)
      | Inr (Some t) \<Rightarrow> (Inr (), mock_record t m))"
  by (cases e rule: event_kind_cases)
    (simp_all add: mock_present_def present_via_linux_logic_def translate_via_event_def Let_def
      EVENT_KINDS_def map_ok_def split: sum.split option.split)

lemmas present_defs = present_notification_def present_sms_def present_call_incoming_def
  present_call_state_def present_action_result_def present_phone_offline_def

lemma dispatch_toast_some:
  "\<exists>k pk ad ci ni cat. dispatch_toast reply t k' pk' ad' ci' ni' cat' b = dispatch_toast reply t k pk ad ci ni cat b"
  by blast

lemma linux_present_eq:
  "\<exists>k pk ad ci ni cat. linux_present I reply e b =
     (case translate_via_event I e of
        Inl er \<Rightarrow> (Inl er, b)
      | Inr None \<Rightarrow> (Inr (), b)
      | Inr (Some t) \<Rightarrow> dispatch_toast reply t k pk ad ci ni cat b)"
  by (cases e rule: event_kind_cases)
    (auto simp: linux_present_def translate_via_event_def decoded_def present_defs
      dispatch_toast_some EVENT_KINDS_def map_ok_def split: sum.split option.split)

interpretation mock_backend: display_backend "\<lambda>_ :: unit. mock_present I" mk_toasts "toast_of I"
    "\<lambda>_. True" "\<lambda>_. True" for I
  by unfold_locales
    (auto simp: mock_present_eq toast_of_def mock_record_def split: sum.splits option.splits)

fun daemon_answers :: "string + u32 \<Rightarrow> bool" where
  "daemon_answers (Inl _) = False"
| "daemon_answers (Inr _) = True"

lemma dispatch_toast_cases:
  "dispatch_toast reply t k pk ad ci ni cat b = (r, b') \<Longrightarrow>
     lb_conn b' = lb_conn b \<and> lb_sink b' = lb_sink b \<and>
     (case r of
        Inl _ \<Rightarrow> b' = b \<and> \<not> (lb_conn b \<and> daemon_answers reply)
      | Inr _ \<Rightarrow> lb_shown b' = lb_shown b @ [(t, cat)])"
  by (cases reply) (auto simp: dispatch_toast_def linux_notify_def split: if_splits)

text \<open>Every presentation keeps the connection and the sink, and shows what the event stands for.\<close>

lemma linux_present_cases:
  assumes "linux_present I reply e b = (r, b')"
  shows "lb_conn b' = lb_conn b \<and> lb_sink b' = lb_sink b \<and>
    (case r of
       Inl _ \<Rightarrow> b' = b \<and> (toast_of I e = None \<or> \<not> (lb_conn b \<and> daemon_answers reply))
     | Inr _ \<Rightarrow> map fst (lb_shown b') =
         map fst (lb_shown b) @ (case toast_of I e of None \<Rightarrow> [] | Some t \<Rightarrow> [t]))"
proof -
  obtain k pk ad ci ni cat where l: "linux_present I reply e b =
     (case translate_via_event I e of
        Inl er \<Rightarrow> (Inl er, b)
      | Inr None \<Rightarrow> (Inr (), b)
      | Inr (Some t) \<Rightarrow> dispatch_toast reply t k pk ad ci ni cat b)"
    using linux_present_eq by blast
  show ?thesis
  proof (cases "translate_via_event I e")
    case (Inl er)
    then show ?thesis using assms l by (auto simp: toast_of_def)
  next
    case (Inr o')
    show ?thesis
    proof (cases o')
      case None
      then show ?thesis using assms l Inr by (auto simp: toast_of_def)
    next
      case (Some t)
      then have "dispatch_toast reply t k pk ad ci ni cat b = (r, b')" using assms l Inr by simp
      from dispatch_toast_cases[OF this] show ?thesis
        using Inr Some by (cases r) (auto simp: toast_of_def)
    qed
  qed
qed

interpretation linux_backend: display_backend "linux_present I" "\<lambda>b. map fst (lb_shown b)" "toast_of I"
    lb_conn daemon_answers for I
  by unfold_locales (auto dest!: linux_present_cases)

interpretation stub_backend: display_backend "\<lambda>_ :: unit. stub_present" "\<lambda>_. []" "\<lambda>_. None"
    "\<lambda>_. True" "\<lambda>_. True"
  by unfold_locales (simp_all add: stub_present_def)

end
