(* ===== verification/DeskConfig.thy ===== *)
theory DeskConfig
  imports DeskBackend DisplayAuth Config
begin

text \<open>
  The configuration of the desktop display (DeskDisplay/src/config.rs), the token subcommands of
  the message-center (main.rs), and how the two meet at the display endpoint. The TOML reader, the
  URL library, name resolution and the contents of files are the environment.
\<close>

section \<open>The configuration\<close>

record daemon_section =
  ds_url :: "string option"
  ds_token :: "string option"
  ds_token_file :: "string option"

record i18n_section =
  is_locale :: "string option"

record toml_config =
  tc_daemon :: "daemon_section option"
  tc_i18n :: "i18n_section option"

record display_config =
  dc_daemon_url :: string
  dc_token :: string
  dc_locale :: string
  dc_config_path :: string

datatype url_host = HostV4 u32 | HostV6 "128 word" | HostDomain string

record url =
  ur_scheme :: string
  ur_path :: string
  ur_host :: "url_host option"

text \<open>\<open>kv_missing\<close> is the system's text for a file that does not exist.\<close>

record desk_env =
  kv_file :: "string \<Rightarrow> stored"
  kv_missing :: string
  kv_toml :: "string \<Rightarrow> string + toml_config"
  kv_project_dir :: "string option"
  kv_home :: "string option"
  kv_url :: "string \<Rightarrow> string + url"
  kv_set_scheme :: "url \<Rightarrow> string \<Rightarrow> bool"
  kv_resolve :: "string \<Rightarrow> ip_addr list option"

text \<open>Where the configuration lives: the directory of the platform, else one under the home.\<close>

definition default_config_dir :: "desk_env \<Rightarrow> string" where
  "default_config_dir E =
     (case kv_project_dir E of
        Some d \<Rightarrow> d
      | None \<Rightarrow>
          (let home = (case kv_home E of Some h \<Rightarrow> h | None \<Rightarrow> ''.'')
           in path_join (path_join (path_join home ''.config'') ''phonebridge'') ''display''))"

definition default_config_path :: "desk_env \<Rightarrow> string" where
  "default_config_path E = path_join (default_config_dir E) ''display.toml''"

definition read_token_file :: "desk_env \<Rightarrow> string \<Rightarrow> display_error + string" where
  "read_token_file E p =
     (case kv_file E p of
        Absent \<Rightarrow> Inl (DeTokenFile (p @ '': '' @ kv_missing E))
      | Unreadable e \<Rightarrow> Inl (DeTokenFile (p @ '': '' @ e))
      | Stored raw \<Rightarrow> Inr (case str_lines raw of [] \<Rightarrow> [] | l # _ \<Rightarrow> trim l))"

definition resolve_loopback :: "desk_env \<Rightarrow> string \<Rightarrow> bool option" where
  "resolve_loopback E host = map_option (list_ex (\<lambda>a. case a of Ipv4 _ \<Rightarrow> is_loopback a | Ipv6 _ \<Rightarrow> False))
     (kv_resolve E host)"

definition is_loopback_daemon_url :: "desk_env \<Rightarrow> string \<Rightarrow> bool" where
  "is_loopback_daemon_url E daemon_url =
     (case kv_url E daemon_url of
        Inl _ \<Rightarrow> False
      | Inr u \<Rightarrow>
          (case ur_host u of
             None \<Rightarrow> False
           | Some (HostV4 ip) \<Rightarrow> is_loopback (Ipv4 ip)
           | Some (HostV6 ip) \<Rightarrow> is_loopback (Ipv6 ip)
           | Some (HostDomain d) \<Rightarrow>
               if ascii_lower d = ''localhost'' then True
               else (case resolve_loopback E d of Some b \<Rightarrow> b | None \<Rightarrow> False)))"

definition apply_toml :: "desk_env \<Rightarrow> toml_config \<Rightarrow> display_config \<Rightarrow> display_error + display_config" where
  "apply_toml E t cfg =
     (let with_locale = (\<lambda>c. case Option.bind (tc_i18n t) is_locale of
                           Some l \<Rightarrow> c\<lparr>dc_locale := l\<rparr> | None \<Rightarrow> c)
      in case tc_daemon t of
           None \<Rightarrow> Inr (with_locale cfg)
         | Some d \<Rightarrow>
             (let c1 = (case ds_url d of Some u \<Rightarrow> cfg\<lparr>dc_daemon_url := u\<rparr> | None \<Rightarrow> cfg);
                  c2 = (case ds_token d of Some k \<Rightarrow> c1\<lparr>dc_token := k\<rparr> | None \<Rightarrow> c1)
              in case ds_token_file d of
                   None \<Rightarrow> Inr (with_locale c2)
                 | Some f \<Rightarrow> map_ok (\<lambda>k. with_locale (c2\<lparr>dc_token := k\<rparr>)) (read_token_file E f)))"

text \<open>The token beside the default configuration, when none was configured.\<close>

definition discover_token :: "desk_env \<Rightarrow> display_config \<Rightarrow> display_error + display_config" where
  "discover_token E cfg =
     (let p = path_join (default_config_dir E) ''display.token''
      in if dc_token cfg = [] \<and> kv_file E p \<noteq> Absent
         then map_ok (\<lambda>k. cfg\<lparr>dc_token := k\<rparr>) (read_token_file E p)
         else Inr cfg)"

definition no_token_message :: string where
  "no_token_message = ''no token configured; set [daemon].token or [daemon].token_file, '' @
     ''or run `message-center --print-display-token` and copy it into display.toml. '' @
     ''(The token is not required when the daemon URL points at 127.0.0.1 / ::1 / localhost.)''"

definition desk_load_from :: "desk_env \<Rightarrow> string \<Rightarrow> display_error + display_config" where
  "desk_load_from E path =
     (let cfg0 = \<lparr>dc_daemon_url = ''http://127.0.0.1:8443'', dc_token = [], dc_locale = ''auto'',
                  dc_config_path = path\<rparr>;
          read = (case kv_file E path of
                    Absent \<Rightarrow> Inr cfg0
                  | Unreadable e \<Rightarrow> Inl (DeConfig (''read '' @ path @ '': '' @ e))
                  | Stored raw \<Rightarrow>
                      (case kv_toml E raw of
                         Inl e \<Rightarrow> Inl (DeConfig (''parse '' @ path @ '': '' @ e))
                       | Inr t \<Rightarrow> apply_toml E t cfg0))
      in case read of
           Inl e \<Rightarrow> Inl e
         | Inr c \<Rightarrow>
             (case discover_token E c of
                Inl e \<Rightarrow> Inl e
              | Inr cfg \<Rightarrow>
                  if dc_token cfg = [] \<and> \<not> is_loopback_daemon_url E (dc_daemon_url cfg)
                  then Inl (DeConfig no_token_message) else Inr cfg))"

definition desk_load :: "desk_env \<Rightarrow> display_error + display_config" where
  "desk_load E = desk_load_from E (default_config_path E)"

section \<open>Addresses of the daemon\<close>

definition ws_path :: "string \<Rightarrow> string" where
  "ws_path path =
     (let p = trim_slashes path
      in if ends_with p ''/ws/display'' then p
         else if \<not> ends_with p ''/ws'' then (if p \<noteq> [] then p @ ''/'' else p) @ ''ws/display''
         else p @ ''/display'')"

definition i18n_path :: "string \<Rightarrow> string" where
  "i18n_path path =
     (let p = trim_slashes path
      in if ends_with p ''/api/v1'' then p @ ''/i18n'' else p @ ''/api/v1/i18n'')"

text \<open>A request's address as far as it is ours: the scheme, the path that is set and the query.\<close>

record target =
  tg_scheme :: string
  tg_path :: string
  tg_query :: "string \<times> string"

definition ws_url :: "desk_env \<Rightarrow> display_config \<Rightarrow> display_error + target" where
  "ws_url E cfg =
     (case kv_url E (dc_daemon_url cfg) of
        Inl e \<Rightarrow> Inl (DeConfig (''bad daemon url: '' @ e))
      | Inr u \<Rightarrow>
          (let scheme = (if ur_scheme u = ''https'' then ''wss'' else ''ws'')
           in if \<not> kv_set_scheme E u scheme then Inl (DeConfig ''could not switch scheme to ws/wss'')
              else Inr \<lparr>tg_scheme = scheme, tg_path = ws_path (ur_path u), tg_query = (''token'', dc_token cfg)\<rparr>))"

definition i18n_url :: "desk_env \<Rightarrow> display_config \<Rightarrow> string \<Rightarrow> display_error + target" where
  "i18n_url E cfg locale =
     (case kv_url E (dc_daemon_url cfg) of
        Inl e \<Rightarrow> Inl (DeConfig (''bad daemon url: '' @ e))
      | Inr u \<Rightarrow> Inr \<lparr>tg_scheme = ur_scheme u, tg_path = i18n_path (ur_path u), tg_query = (''locale'', locale)\<rparr>)"

section \<open>The token subcommands\<close>

datatype token_command = PrintToken | RotateToken | RevokeToken

text \<open>
  A process of its own: it loads the token, perhaps replaces it, prints what it holds, and ends. Of
  a running message-center it shares only the token file.
\<close>

definition token_main ::
  "token_command \<Rightarrow> bool \<Rightarrow> write_fault option \<Rightarrow> u8 list \<Rightarrow> write_fault option \<Rightarrow> u8 list \<Rightarrow> token_fs \<Rightarrow>
     string option \<times> token_fs" where
  "token_main cmd unreadable fault1 random1 fault2 random2 fs =
     (case load_or_generate unreadable fault1 random1 fs of
        (Inl _, fs') \<Rightarrow> (None, fs')
      | (Inr au, fs') \<Rightarrow>
          if cmd = PrintToken then (Some (au_current au), fs')
          else (case revoke_token fault2 random2 au of
                  (Inl _, au') \<Rightarrow> (None, au_fs au')
                | (Inr _, au') \<Rightarrow> (Some (au_current au'), au_fs au')))"

section \<open>Meeting at the endpoint\<close>

lemma loaded_token:
  assumes "desk_load_from E path = Inr cfg" "dc_token cfg = []"
  shows "is_loopback_daemon_url E (dc_daemon_url cfg)"
  using assms by (auto simp: desk_load_from_def Let_def split: sum.splits stored.splits if_splits)

lemma hex_line: "is_valid_hex s \<Longrightarrow> str_lines s = [s] \<and> trim s = s \<and> s \<noteq> []"
proof -
  assume v: "is_valid_hex s"
  then have "CHR 0x0A \<notin> set s"
    using hexdigit_not_space by (fastforce simp: is_valid_hex_def list_all_iff is_space_def)
  then have "split_char (CHR 0x0A) s = [s]" by (rule split_char_plain)
  moreover have "s \<noteq> []" using v by (auto simp: is_valid_hex_def TOKEN_BYTES_def)
  ultimately show ?thesis using trim_valid[OF v] by (simp add: str_lines_def)
qed

text \<open>What the message-center generates and stores is what the display reads.\<close>

lemma generated_token_read:
  assumes "load_or_generate unreadable fault random fs = (Inr au, fs')" "tk_file fs = None"
    "length random = TOKEN_BYTES" "tk_file fs' = Some raw" "kv_file E p = Stored raw"
  shows "read_token_file E p = Inr (au_current au)" "au_current au \<noteq> []"
proof -
  have "raw = generate_token_string random" "au_current au = generate_token_string random"
    using assms(1,2,4)
    by (auto simp: load_or_generate_def write_token_file_def Let_def split: if_splits option.splits
        write_fault.splits sum.splits prod.splits)
  then show "read_token_file E p = Inr (au_current au)" "au_current au \<noteq> []"
    using hex_line[OF token_valid[OF assms(3)]] assms(5) by (simp_all add: read_token_file_def)
qed


definition demo_token :: string where
  "demo_token = generate_token_string (replicate 32 7)"

definition demo_desk_env :: desk_env where
  "demo_desk_env = \<lparr>kv_file = (\<lambda>p. if p = ''t'' then Stored demo_token else if p = ''c'' then Stored ''x'' else Absent),
     kv_missing = ''no such file'',
     kv_toml = (\<lambda>_. Inr \<lparr>tc_daemon = Some \<lparr>ds_url = Some ''u'', ds_token = None, ds_token_file = Some ''t''\<rparr>,
       tc_i18n = None\<rparr>),
     kv_project_dir = Some ''d'', kv_home = None, kv_url = (\<lambda>_. Inr \<lparr>ur_scheme = ''https'', ur_path = ''/'', ur_host = None\<rparr>),
     kv_set_scheme = (\<lambda>_ _. True), kv_resolve = (\<lambda>_. None)\<rparr>"

lemma demo_generated:
  "load_or_generate False None (replicate 32 7) \<lparr>tk_file = None, tk_tmp = None\<rparr> =
     (Inr \<lparr>au_fs = \<lparr>tk_file = Some demo_token, tk_tmp = None\<rparr>, au_current = demo_token\<rparr>,
      \<lparr>tk_file = Some demo_token, tk_tmp = None\<rparr>)"
  by (simp add: load_or_generate_def write_token_file_def demo_token_def Let_def)

lemma demo_token_valid: "is_valid_hex demo_token"
  unfolding demo_token_def by (rule token_valid) (simp add: TOKEN_BYTES_def)


text \<open>
  Rotating or revoking the token from the command line does not reach a message-center that is
  running: it goes on accepting the old token from every address and refuses the new one to every
  other host, although the file already holds the new one and every display that reads it from then
  on presents it.
\<close>

lemma rotation_not_seen:
  assumes "cmd \<noteq> PrintToken" "length random = TOKEN_BYTES"
    and "load_or_generate False fault0 random0 fs = (Inr running, fs1)"
    and "token_main cmd False fault1 random1 fault2 random fs1 = (Some new, fs2)"
    and "new \<noteq> au_current running" "\<not> is_same_host ifs peer"
  shows "ws_display_upgrade running ifs peer (au_current running) = Upgraded \<and>
    ws_display_upgrade running ifs peer new = Refused 401 ''bad display token'' \<and>
    tk_file fs2 = Some new \<and> (kv_file E p = Stored new \<longrightarrow> read_token_file E p = Inr new)"
proof -
  have n: "new = generate_token_string random \<and> tk_file fs2 = Some new"
    using assms(1,4)
    by (auto simp: token_main_def revoke_token_def rotate_token_def write_token_file_def Let_def
        split: prod.splits sum.splits if_splits option.splits write_fault.splits)
  then have "read_token_file E p = Inr new" if "kv_file E p = Stored new"
    using hex_line[OF token_valid[OF assms(2)]] that by (simp add: read_token_file_def)
  then show ?thesis using assms(5,6) n by (simp add: ws_display_upgrade_def verify_eq)
qed

theorem rotation_not_seen_witness:
  "\<exists>running new fs2. token_main RotateToken False None [] None (replicate 32 9)
       \<lparr>tk_file = Some demo_token, tk_tmp = None\<rparr> = (Some new, fs2) \<and>
     ws_display_upgrade running None (Ipv4 5) new = Refused 401 ''bad display token'' \<and>
     au_current running = demo_token"
proof -
  let ?fs = "\<lparr>tk_file = Some demo_token, tk_tmp = None\<rparr>"
  let ?new = "generate_token_string (replicate 32 9)"
  have l: "load_or_generate False None [] ?fs = (Inr \<lparr>au_fs = ?fs, au_current = demo_token\<rparr>, ?fs)"
    using hex_line[OF demo_token_valid] demo_token_valid by (simp add: load_or_generate_def Let_def)
  have c: "token_main RotateToken False None [] None (replicate 32 9) ?fs =
      (Some ?new, \<lparr>tk_file = Some ?new, tk_tmp = None\<rparr>)"
    by (simp add: token_main_def l revoke_token_def rotate_token_def write_token_file_def Let_def)
  have d: "?new \<noteq> demo_token"
    by (simp add: demo_token_def generate_token_string_def hex_encode_inj)
  have h: "\<not> is_same_host None (Ipv4 5)" by (simp add: is_same_host_def get_local_addrs_def)
  have "RotateToken \<noteq> PrintToken" "length (replicate 32 (9 :: u8)) = TOKEN_BYTES"
    by (simp_all add: TOKEN_BYTES_def)
  from rotation_not_seen[OF this l c _ h] d c show ?thesis
    by (intro exI[of _ "\<lparr>au_fs = ?fs, au_current = demo_token\<rparr>"] exI) auto
qed

lemma trim_slashes_plain: "s \<noteq> [] \<Longrightarrow> last s \<noteq> CHR ''/'' \<Longrightarrow> trim_slashes s = s"
  by (cases s rule: rev_cases) (simp_all add: trim_slashes_def)

lemma ends_with_iff: "ends_with s p \<longleftrightarrow> (\<exists>q. s = q @ p)"
  unfolding ends_with_def prefix_def by (metis rev_append rev_rev_ident)

text \<open>The path of the WebSocket is complete, and completing it again changes nothing.\<close>

lemma ws_path_complete:
  "ends_with (ws_path p) ''ws/display''" "ws_path p \<noteq> ''ws/display'' \<Longrightarrow> ws_path (ws_path p) = ws_path p"
proof -
  let ?q = "trim_slashes p"
  have shape: "\<exists>q. ws_path p = q @ ''/ws/display'' \<or> ws_path p = ''ws/display''"
    by (auto simp: ws_path_def Let_def ends_with_iff)
  then show "ends_with (ws_path p) ''ws/display''"
    unfolding ends_with_iff by (metis append_Cons append_Nil append_assoc)
  show "ws_path (ws_path p) = ws_path p" if ne: "ws_path p \<noteq> ''ws/display''"
  proof -
  obtain q where q: "ws_path p = q @ ''/ws/display''" using shape ne by blast
  then have "trim_slashes (ws_path p) = ws_path p" by (simp add: trim_slashes_plain)
  moreover have "ends_with (ws_path p) ''/ws/display''" using q by (auto simp: ends_with_iff)
  ultimately show ?thesis by (simp add: ws_path_def[of "ws_path p"])
  qed
qed

end
