(* ===== verification/StartUp.thy ===== *)
theory StartUp
  imports System Listener Discovery DeskConfig
begin

text \<open>
  The start of the message-center (message-center/src/main.rs, from the command line to the
  listener) and what each connection of a phone is told of it (ws.rs, app_state.rs). The steps are
  those of the other theories, in the order of main; what they share is the host: the files of the
  data directory, the token file, the databases and the mDNS daemons.
\<close>

section \<open>Command line, host and surroundings\<close>

type_synonym sock_addr = "ip_addr \<times> u16"

record cli = args +
  ag_config :: "string option"
  ag_pair_with :: "sock_addr option"
  ag_device_id :: "uuid option"
  ag_name :: "string option"
  ag_token :: "token_command option"

record host =
  ho_files :: files
  ho_token :: token_fs
  ho_db :: "string \<Rightarrow> db"
  ho_mdns :: mdns_host

text \<open>
  The answers of the system: variables and directories, which steps fail, the fresh values. The
  host part of a socket address is read by \<open>se_ip\<close>.
\<close>

record start_env =
  se_vars :: "string \<Rightarrow> string option"
  se_dirs :: "(string \<times> string) option"
  se_mkdir :: "string \<Rightarrow> bool"
  se_config :: "string \<Rightarrow> stored"
  se_toml :: "string \<Rightarrow> json option"
  se_log :: log_env
  se_db :: db_env
  se_id :: id_env
  se_seed :: nat
  se_unreadable :: bool
  se_fault :: "write_fault option"
  se_random :: "u8 list"
  se_fault2 :: "write_fault option"
  se_random2 :: "u8 list"
  se_mdns :: mdns_env
  se_ip :: "string \<Rightarrow> ip_addr option"
  se_tls :: tls_env
  se_bound :: "sock_addr \<Rightarrow> bool"

text \<open>
  \<open>SocketAddr\<close>'s parser: a host, a colon and a decimal port that fits sixteen bits. An IPv6
  host stands in brackets, so the port follows the last colon.
\<close>

definition sock_parse :: "(string \<Rightarrow> ip_addr option) \<Rightarrow> string \<Rightarrow> sock_addr option" where
  "sock_parse ip s =
     (let ps = split_char (CHR '':'') s; port = last ps
      in if length ps < 2 \<or> port = [] then None
         else (case (ip (join_char (CHR '':'') (butlast ps)), read_value 0 port) of
                 (Some a, Some n) \<Rightarrow> if n < 2 ^ 16 then Some (a, of_nat n) else None
               | _ \<Rightarrow> None))"

definition listen_port_from_bind :: "(string \<Rightarrow> ip_addr option) \<Rightarrow> string \<Rightarrow> u16 option" where
  "listen_port_from_bind ip addr = map_option snd (sock_parse ip addr)"

section \<open>Shared state\<close>

text \<open>\<open>AppState::new\<close>, and the identity \<open>ws_upgrade\<close> gives every connection.\<close>

definition ws_identity :: "(string \<Rightarrow> ip_addr option) \<Rightarrow> string \<Rightarrow> center_identity \<Rightarrow> ws_cfg" where
  "ws_identity ip addr c =
     \<lparr>wc_device_id = ci_device_id c, wc_name = ci_name c, wc_public_key = ci_public_key_b64 c,
      wc_port = listen_port_from_bind ip addr\<rparr>"

definition app_new :: "db \<Rightarrow> ws_cfg \<Rightarrow> string \<Rightarrow> app" where
  "app_new d W fp = \<lparr>a_net = \<lparr>n_pairing = [], n_pending = [], n_registry = [], n_hist = [],
     n_sink = \<lparr>cn_db = d, cn_console = console_bus_new, cn_display = display_bus_new\<rparr>\<rparr>,
     a_pins = [], a_cfg = W, a_fingerprint = fp\<rparr>"

section \<open>main\<close>

datatype start_error =
    SePaths path_error | SeEnsure | SeTokenCommand | SeConfig config_error | SeLog log_error
  | SeDb open_error  | SeIdentity id_error | SeToken auth_error | SeTls id_error | SeAddr string | SeServe serve_error

record served =
  up_config :: config
  up_center :: center_identity
  up_app :: app
  up_auth :: display_auth
  up_tls :: "identity option"
  up_addr :: sock_addr
  up_presents :: "(u8 list list \<times> u8 list) option"

datatype started = TokenPrinted string | PairRun sock_addr center_identity | Serving served

definition on_files :: "(id_error \<Rightarrow> start_error) \<Rightarrow> (files \<Rightarrow> (id_error + 'a) \<times> files) \<Rightarrow> host \<Rightarrow> (start_error + 'a) \<times> host" where
  "on_files err f H =
     (case f (ho_files H) of
        (Inl e, F) \<Rightarrow> (Inl (err e), H\<lparr>ho_files := F\<rparr>)
      | (Inr a, F) \<Rightarrow> (Inr a, H\<lparr>ho_files := F\<rparr>))"

text \<open>\<open>?\<close> on a step that leaves the host alone.\<close>

definition checked :: "('e \<Rightarrow> start_error) \<Rightarrow> 'e + 'a \<Rightarrow> host \<Rightarrow> (start_error + 'a) \<times> host" where
  "checked err r H = (map_sum err id r, H)"

definition load_auth :: "start_env \<Rightarrow> host \<Rightarrow> (start_error + display_auth) \<times> host" where
  "load_auth E H =
     (case load_or_generate (se_unreadable E) (se_fault E) (se_random E) (ho_token H) of
        (Inl e, fs) \<Rightarrow> (Inl (SeToken e), H\<lparr>ho_token := fs\<rparr>)
      | (Inr au, fs) \<Rightarrow> (Inr au, H\<lparr>ho_token := fs\<rparr>))"

text \<open>The token options end the program before anything else is read.\<close>

definition token_only :: "start_env \<Rightarrow> token_command \<Rightarrow> host \<Rightarrow> (start_error + started) \<times> host" where
  "token_only E cmd H =
     (case token_main cmd (se_unreadable E) (se_fault E) (se_random E) (se_fault2 E) (se_random2 E) (ho_token H) of
        (None, fs) \<Rightarrow> (Inl SeTokenCommand, H\<lparr>ho_token := fs\<rparr>)
      | (Some s, fs) \<Rightarrow> (Inr (TokenPrinted s), H\<lparr>ho_token := fs\<rparr>))"

definition tls_identity ::
  "'e ext \<Rightarrow> (string \<Rightarrow> u8 list option) \<Rightarrow> start_env \<Rightarrow> bool \<Rightarrow> string \<Rightarrow> config \<Rightarrow> host \<Rightarrow>
     (start_error + identity option) \<times> host" where
  "tls_identity X B E no_tls dir c H =
     (let cp = (if sv_cert_path (cf_server c) = [] then cert_file dir else sv_cert_path (cf_server c));
          kp = (if sv_key_path (cf_server c) = [] then key_file dir else sv_key_path (cf_server c))
      in if no_tls then (Inr None, H)
         else and_then (on_files SeTls (tls_load_or_generate X B (se_id E) (se_seed E) cp kp) H)
                (\<lambda>i H'. (Inr (Some i), H')))"

text \<open>From the identity to the listener.\<close>

definition main_listen ::
  "'e ext \<Rightarrow> (string \<Rightarrow> u8 list option) \<Rightarrow> start_env \<Rightarrow> bool \<Rightarrow> app_paths \<Rightarrow> config \<Rightarrow> center_identity \<Rightarrow> host \<Rightarrow>
     (start_error + started) \<times> host" where
  "main_listen X B E no_tls p c i H =
     (let addr = sv_bind (cf_server c)
      in and_then (load_auth E H) (\<lambda>au H1.
           (let s = app_new (ho_db H1 (main_db_path p c)) (ws_identity (se_ip E) addr i) (ci_fingerprint i);
                H2 = H1\<lparr>ho_mdns := main_mdns (se_mdns E) (dv_enabled (cf_discovery c)) addr
                       (dv_service_type (cf_discovery c)) (uuid_str X (ci_device_id i)) (ci_name i)
                       (ci_fingerprint i) (ho_mdns H1)\<rparr>
            in and_then (tls_identity X B E no_tls (ap_data_dir p) c H2) (\<lambda>t H3.
                 (case sock_parse (se_ip E) addr of
                    None \<Rightarrow> (Inl (SeAddr addr), H3)
                  | Some ad \<Rightarrow>
                      and_then (checked SeServe (listen (se_tls E) (se_bound E ad) t) H3)
                        (\<lambda>w H4. (Inr (Serving \<lparr>up_config = c, up_center = i, up_app = s, up_auth = au,
                           up_tls = t, up_addr = ad, up_presents = w\<rparr>), H4)))))))"

text \<open>From the loaded configuration, with the bind address it ends up with, to the identity.\<close>

definition main_run ::
  "'e ext \<Rightarrow> (string \<Rightarrow> u8 list option) \<Rightarrow> start_env \<Rightarrow> cli \<Rightarrow> app_paths \<Rightarrow> config \<Rightarrow> host \<Rightarrow>
     (start_error + started) \<times> host" where
  "main_run X B E a p c H =
     and_then (checked SeLog (logging_init (se_log E) (cf_logging c)) H) (\<lambda>_ H1.
     and_then (checked SeDb (db_ready (se_db E) (main_db_path p c)) H1) (\<lambda>_ H2.
     and_then (on_files SeIdentity (load_or_create X B (se_id E) (ap_data_dir p) (ag_device_id a) (ag_name a)) H2)
       (\<lambda>i H3. case ag_pair_with a of
          Some peer \<Rightarrow> (Inr (PairRun peer i), H3)
        | None \<Rightarrow> main_listen X B E (ag_no_tls a) p c i H3)))"

definition main_start ::
  "'e ext \<Rightarrow> (string \<Rightarrow> u8 list option) \<Rightarrow> start_env \<Rightarrow> cli \<Rightarrow> host \<Rightarrow> (start_error + started) \<times> host" where
  "main_start X B E a H =
     (case paths_resolve (se_vars E) (se_dirs E) of
        Inl e \<Rightarrow> (Inl (SePaths e), H)
      | Inr p \<Rightarrow>
          if \<not> paths_ensure (se_mkdir E) p then (Inl SeEnsure, H)
          else (case ag_token a of
            Some cmd \<Rightarrow> token_only E cmd H
          | None \<Rightarrow>
              (case load_from_file (se_toml E) (se_config E (case ag_config a of Some f \<Rightarrow> f | None \<Rightarrow> paths_config_file p)) of
                 Inl e \<Rightarrow> (Inl (SeConfig e), H)
               | Inr c \<Rightarrow>
                   main_run X B E a p
                     (c\<lparr>cf_server := (cf_server c)\<lparr>sv_bind := main_bind (args.truncate a) c\<rparr>\<rparr>) H)))"

section \<open>A start that serves\<close>

lemma on_files_Inr:
  "on_files err f H = (Inr a, H') \<longleftrightarrow> (\<exists>F. f (ho_files H) = (Inr a, F) \<and> H' = H\<lparr>ho_files := F\<rparr>)"
  by (auto simp: on_files_def split: prod.split sum.split)

lemma checked_Inr: "checked err r H = (Inr a, H') \<longleftrightarrow> r = Inr a \<and> H' = H"
  by (cases r) (auto simp: checked_def)

lemma load_auth_Inr:
  "load_auth E H = (Inr au, H') \<longleftrightarrow>
     (\<exists>fs. load_or_generate (se_unreadable E) (se_fault E) (se_random E) (ho_token H) = (Inr au, fs) \<and>
       H' = H\<lparr>ho_token := fs\<rparr>)"
  by (auto simp: load_auth_def split: prod.split sum.split)

text \<open>Loading the listener's certificate, or none, from given files.\<close>

definition tls_step ::
  "'e ext \<Rightarrow> (string \<Rightarrow> u8 list option) \<Rightarrow> id_env \<Rightarrow> nat \<Rightarrow> bool \<Rightarrow> string \<Rightarrow> string \<Rightarrow> string \<Rightarrow> files \<Rightarrow>
     identity option \<Rightarrow> files \<Rightarrow> bool" where
  "tls_step X B I seed no_tls dir cert key F t F' \<longleftrightarrow>
     (if no_tls then t = None \<and> F' = F
      else \<exists>i. t = Some i \<and> tls_load_or_generate X B I seed (if cert = [] then cert_file dir else cert)
             (if key = [] then key_file dir else key) F = (Inr i, F'))"

lemma tls_identity_Inr:
  "tls_identity X B E no_tls dir c H = (Inr t, H') \<longleftrightarrow>
     (\<exists>F. tls_step X B (se_id E) (se_seed E) no_tls dir (sv_cert_path (cf_server c)) (sv_key_path (cf_server c))
        (ho_files H) t F \<and> H' = H\<lparr>ho_files := F\<rparr>)"
  by (cases no_tls) (auto simp: tls_identity_def tls_step_def Let_def and_then_Inr on_files_Inr)

lemma main_load_step:
  "main_load X B I dir gid gname no_tls cert key seed F = (Inr \<lparr>ld_center = i, ld_tls = t\<rparr>, F') \<longleftrightarrow>
     (\<exists>F1. load_or_create X B I dir gid gname F = (Inr i, F1) \<and> tls_step X B I seed no_tls dir cert key F1 t F')"
  by (cases no_tls) (auto simp: main_load_def tls_step_def Let_def and_then_Inr)

text \<open>What has been done when the listener is reached.\<close>

lemma main_listen_Serving:
  "main_listen X B E no_tls p c i H = (Inr (Serving s), H') \<longleftrightarrow>
     (\<exists>F fs t au ad w.
       tls_step X B (se_id E) (se_seed E) no_tls (ap_data_dir p) (sv_cert_path (cf_server c))
         (sv_key_path (cf_server c)) (ho_files H) t F \<and>
       load_or_generate (se_unreadable E) (se_fault E) (se_random E) (ho_token H) = (Inr au, fs) \<and>
       sock_parse (se_ip E) (sv_bind (cf_server c)) = Some ad \<and> listen (se_tls E) (se_bound E ad) t = Inr w \<and>
       s = \<lparr>up_config = c, up_center = i, up_app = app_new (ho_db H (main_db_path p c))
              (ws_identity (se_ip E) (sv_bind (cf_server c)) i) (ci_fingerprint i), up_auth = au,
              up_tls = t, up_addr = ad, up_presents = w\<rparr> \<and>
       H' = H\<lparr>ho_token := fs, ho_mdns := main_mdns (se_mdns E) (dv_enabled (cf_discovery c))
         (sv_bind (cf_server c)) (dv_service_type (cf_discovery c)) (uuid_str X (ci_device_id i))
         (ci_name i) (ci_fingerprint i) (ho_mdns H), ho_files := F\<rparr>)"
  by (cases "sock_parse (se_ip E) (sv_bind (cf_server c))")
    (auto simp: main_listen_def Let_def and_then_Inr load_auth_Inr tls_identity_Inr checked_Inr)

text \<open>The configuration main goes by: the loaded one with the bind address it settles on.\<close>

definition settled :: "cli \<Rightarrow> config \<Rightarrow> config" where
  "settled a c = c\<lparr>cf_server := (cf_server c)\<lparr>sv_bind := main_bind (args.truncate a) c\<rparr>\<rparr>"

text \<open>
  A start reaches the listener exactly under these conditions; the identities are those
  \<open>main_load\<close> loads.
\<close>

lemma main_start_Serving:
  "main_start X B E a H = (Inr (Serving s), H') \<longleftrightarrow>
     (\<exists>p c F fs. paths_resolve (se_vars E) (se_dirs E) = Inr p \<and> paths_ensure (se_mkdir E) p \<and> ag_token a = None \<and>
       load_from_file (se_toml E) (se_config E (case ag_config a of Some f \<Rightarrow> f | None \<Rightarrow> paths_config_file p)) = Inr c \<and>
       (\<exists>su. logging_init (se_log E) (cf_logging c) = Inr su) \<and> (\<exists>opts. db_ready (se_db E) (main_db_path p c) = Inr opts) \<and>
       ag_pair_with a = None \<and> listen (se_tls E) (se_bound E (up_addr s)) (up_tls s) = Inr (up_presents s) \<and>
       main_load X B (se_id E) (ap_data_dir p) (ag_device_id a) (ag_name a) (ag_no_tls a)
         (sv_cert_path (cf_server c)) (sv_key_path (cf_server c)) (se_seed E) (ho_files H) =
         (Inr \<lparr>ld_center = up_center s, ld_tls = up_tls s\<rparr>, F) \<and>
       load_or_generate (se_unreadable E) (se_fault E) (se_random E) (ho_token H) = (Inr (up_auth s), fs) \<and>
       sock_parse (se_ip E) (main_bind (args.truncate a) c) = Some (up_addr s) \<and> up_config s = settled a c \<and>
       up_app s = app_new (ho_db H (main_db_path p c))
         (ws_identity (se_ip E) (main_bind (args.truncate a) c) (up_center s)) (ci_fingerprint (up_center s)) \<and>
       H' = H\<lparr>ho_token := fs, ho_mdns := main_mdns (se_mdns E) (dv_enabled (cf_discovery c))
         (main_bind (args.truncate a) c) (dv_service_type (cf_discovery c)) (uuid_str X (ci_device_id (up_center s)))
         (ci_name (up_center s)) (ci_fingerprint (up_center s)) (ho_mdns H), ho_files := F\<rparr>)"
  (is "_ \<longleftrightarrow> ?R")
proof
  have db: "main_db_path p (settled a c) = main_db_path p c" for p c
    by (simp add: main_db_path_def settled_def)
  note run = main_run_def main_listen_Serving and_then_Inr on_files_Inr checked_Inr main_load_step db[unfolded settled_def]
  {
    assume "main_start X B E a H = (Inr (Serving s), H')"
    then obtain p c where p: "paths_resolve (se_vars E) (se_dirs E) = Inr p" "paths_ensure (se_mkdir E) p" "ag_token a = None"
      "load_from_file (se_toml E) (se_config E (case ag_config a of Some f \<Rightarrow> f | None \<Rightarrow> paths_config_file p)) = Inr c"
      and r: "main_run X B E a p (settled a c) H = (Inr (Serving s), H')"
      by (auto simp: main_start_def token_only_def settled_def split: sum.splits if_splits option.splits prod.splits)
    from r show ?R
      by (intro exI[of _ p] exI[of _ c], cases "ag_pair_with a")
        (auto simp: p run settled_def)
  next
    assume ?R
    then show "main_start X B E a H = (Inr (Serving s), H')"
      by (cases s) (auto simp: main_start_def run settled_def)
  }
qed

section \<open>Settings that are not read\<close>

text \<open>
  The advertised host, the interface of the discovery and the two bounds of the log are in the
  configuration and change nothing: a start that has them comes to what it comes to without.
\<close>

definition unread :: "string \<Rightarrow> string option \<Rightarrow> u32 \<Rightarrow> u32 \<Rightarrow> config \<Rightarrow> config" where
  "unread h i n k c =
     c\<lparr>cf_server := (cf_server c)\<lparr>sv_advertise_host := h\<rparr>,
       cf_discovery := (cf_discovery c)\<lparr>dv_interface := i\<rparr>,
       cf_logging := (cf_logging c)\<lparr>lg_max_log_size_mb := n, lg_max_log_files := k\<rparr>\<rparr>"

fun reconfigured :: "config \<Rightarrow> started \<Rightarrow> started" where
  "reconfigured c (Serving s) = Serving (s\<lparr>up_config := c\<rparr>)"
| "reconfigured c r = r"

lemma unread_settings:
  "main_run X B E a p (unread h i n k c) H =
     (let (r, H') = main_run X B E a p c H in (map_sum id (reconfigured (unread h i n k c)) r, H'))"
proof -
  have l: "logging_init (se_log E) (cf_logging (unread h i n k c)) = logging_init (se_log E) (cf_logging c)"
    by (simp add: unread_def logging_ignores)
  have d: "main_db_path p (unread h i n k c) = main_db_path p c"
    by (simp add: unread_def main_db_path_def)
  have t: "tls_identity X B E nt dir (unread h i n k c) G = tls_identity X B E nt dir c G" for nt dir G
    by (simp add: unread_def tls_identity_def)
  have s: "sv_bind (cf_server (unread h i n k c)) = sv_bind (cf_server c)"
    "dv_enabled (cf_discovery (unread h i n k c)) = dv_enabled (cf_discovery c)"
    "dv_service_type (cf_discovery (unread h i n k c)) = dv_service_type (cf_discovery c)"
    by (simp_all add: unread_def)
  have m: "main_listen X B E nt p (unread h i n k c) ci G =
      (let (r, H') = main_listen X B E nt p c ci G in (map_sum id (reconfigured (unread h i n k c)) r, H'))" for nt ci G
    by (simp add: main_listen_def s d t Let_def and_then_def checked_def split: prod.split sum.split option.split)
  show ?thesis
    by (simp add: main_run_def l d m and_then_def Let_def split: prod.split sum.split option.split)
qed

section \<open>A small host\<close>

definition demo_start_env :: start_env where
  "demo_start_env = \<lparr>se_vars = [''PHONEBRIDGE_CONFIG_DIR'' \<mapsto> ''c'', ''PHONEBRIDGE_DATA_DIR'' \<mapsto> ''d''],
     se_dirs = None, se_mkdir = (\<lambda>_. True), se_config = (\<lambda>_. Absent), se_toml = (\<lambda>_. None),
     se_log = \<lparr>le_rust_log = None, le_parents = (\<lambda>_. True), le_opens = (\<lambda>_. True)\<rparr>,
     se_db = \<lparr>dn_parents = (\<lambda>_. True), dn_url = (\<lambda>_. None), dn_connect = (\<lambda>_. None), dn_migrate = (\<lambda>_. None)\<rparr>,
     se_id = demo_id_env, se_seed = 2, se_unreadable = False, se_fault = None,
     se_random = replicate 32 7, se_fault2 = None, se_random2 = replicate 32 9,
     se_mdns = demo_mdns,
     se_ip = (\<lambda>_. Some (Ipv4 0)),
     se_tls = \<lparr>tl_certs = (\<lambda>_. [Inr [1]]), tl_key = (\<lambda>_. Inr (Some [2])), tl_config = (\<lambda>_ _. None)\<rparr>,
     se_bound = (\<lambda>_. True)\<rparr>"

definition demo_cli :: cli where
  "demo_cli = \<lparr>ag_bind = None, ag_no_tls = False, ag_config = None, ag_pair_with = None,
     ag_device_id = None, ag_name = None, ag_token = None\<rparr>"

definition demo_host :: host where
  "demo_host = \<lparr>ho_files = Map.empty, ho_token = \<lparr>tk_file = None, tk_tmp = None\<rparr>, ho_db = (\<lambda>_. db_empty),
     ho_mdns = \<lparr>mh_next = 0, mh_ads = [], mh_browses = []\<rparr>\<rparr>"

lemma demo_sock: "sock_parse (\<lambda>_. Some (Ipv4 0)) ''0.0.0.0:8443'' = Some (Ipv4 0, 8443)"
proof -
  have r: "read_value 0 ''8443'' = Some 8443" by (simp add: is_ascii_digit_def)
  have s: "split_char (CHR '':'') ''0.0.0.0:8443'' = [''0.0.0.0'', ''8443'']" by simp
  show ?thesis unfolding sock_parse_def s Let_def by (simp add: r del: read_value.simps)
qed

lemma demo_serving:
  obtains s H' where "main_start demo_id_ext demo_std demo_start_env demo_cli demo_host = (Inr (Serving s), H')"
    "up_addr s = (Ipv4 0, 8443)" "up_config s = config_default" "ci_name (up_center s) = ''desk ''"
    "up_presents s = Some ([[1]], [2])"
proof -
  obtain l F' where l: "main_load demo_id_ext demo_std demo_id_env ''d'' None None False [] [] 2 Map.empty = (Inr l, F')"
    "ci_name (ld_center l) = ''desk ''" by (rule demo_start)
  have b: "main_bind (args.truncate demo_cli) config_default = ''0.0.0.0:8443''"
    by (simp add: main_bind_def args.truncate_def demo_cli_def config_default_def server_default_def default_bind_def)
  have s: "settled demo_cli config_default = config_default"
    unfolding settled_def b by (simp add: config_default_def server_default_def default_bind_def)
  obtain au fs where k: "load_or_generate False None (replicate 32 7) \<lparr>tk_file = None, tk_tmp = None\<rparr> = (Inr au, fs)"
    by (simp only: load_or_generate_def write_token_file_def Let_def token_fs.simps option.case if_False prod.case sum.case)
  let ?s = "\<lparr>up_config = config_default, up_center = ld_center l, up_app = app_new db_empty
      (ws_identity (\<lambda>_. Some (Ipv4 0)) ''0.0.0.0:8443'' (ld_center l)) (ci_fingerprint (ld_center l)),
    up_auth = au, up_tls = ld_tls l, up_addr = (Ipv4 0, 8443), up_presents = Some ([[1]], [2])\<rparr>"
  let ?p = "\<lparr>ap_config_dir = ''c'', ap_data_dir = ''d'', ap_log_dir = ''d''\<rparr>"
  have p: "paths_resolve (se_vars demo_start_env) (se_dirs demo_start_env) = Inr ?p"
    by (simp add: paths_resolve_def expand_tilde_def demo_start_env_def)
  have c: "sv_cert_path (cf_server config_default) = []" "sv_key_path (cf_server config_default) = []"
    "main_db_path ?p config_default = paths_db_file ?p"
    by (simp_all add: config_default_def server_default_def storage_default_def main_db_path_def)
  have a: "ag_token demo_cli = None" "ag_pair_with demo_cli = None" "ag_config demo_cli = None"
    "ag_device_id demo_cli = None" "ag_name demo_cli = None" "ag_no_tls demo_cli = False"
    by (simp_all add: demo_cli_def)
  obtain i where i: "ld_tls l = Some i"
    using l(1) by (cases "ld_tls l"; cases l) (auto simp: main_load_step tls_step_def)
  have e: "paths_ensure (se_mkdir demo_start_env) p" "\<exists>su. logging_init (se_log demo_start_env) lc = Inr su"
    "\<exists>opts. db_ready (se_db demo_start_env) d = Inr opts"
    "listen (se_tls demo_start_env) (se_bound demo_start_env ad) (ld_tls l) = Inr (Some ([[1]], [2]))"
    "load_from_file (se_toml demo_start_env) (se_config demo_start_env f) = Inr config_default"
    "se_id demo_start_env = demo_id_env" "se_seed demo_start_env = 2" "\<not> se_unreadable demo_start_env"
    "se_fault demo_start_env = None" "se_random demo_start_env = replicate 32 7"
    "se_ip demo_start_env = (\<lambda>_. Some (Ipv4 0))" for d f p lc ad
    by (simp_all add: demo_start_env_def load_from_file_def paths_ensure_def logging_init_def open_log_file_def
        db_ready_def db_open_def db_migrate_def listen_def serve_https_def tls_config_def i Let_def)
  have h: "ho_files demo_host = Map.empty" "ho_token demo_host = \<lparr>tk_file = None, tk_tmp = None\<rparr>"
    "ho_db demo_host d = db_empty" for d
    by (simp_all add: demo_host_def)
  obtain su where su: "logging_init (se_log demo_start_env) (cf_logging config_default) = Inr su"
    using e(2) by blast
  obtain opts where opts: "db_ready (se_db demo_start_env) (main_db_path ?p config_default) = Inr opts"
    using e(3) by blast
  have "\<exists>H'. main_start demo_id_ext demo_std demo_start_env demo_cli demo_host = (Inr (Serving ?s), H')"
    unfolding main_start_Serving
    by (intro exI conjI) (rule p a e su opts refl | simp add: a b c e h s k l(1) demo_sock)+
  then show thesis using that[of ?s] l(2) by auto
qed

section \<open>The port\<close>

lemma read_value_digits: "read_value k s = Some n \<Longrightarrow> list_all is_ascii_digit s"
  by (induction k s rule: read_value.induct) (auto split: if_splits)

lemma sock_parse_port: "sock_parse ip s = Some (a, p) \<Longrightarrow> bind_port s = p"
proof -
  assume s: "sock_parse ip s = Some (a, p)"
  let ?p = "last (split_char (CHR '':'') s)"
  obtain n where n: "?p \<noteq> []" "read_value 0 ?p = Some n" "n < 2 ^ 16" "p = of_nat n"
    using s by (auto simp: sock_parse_def Let_def split: if_splits option.splits)
  then have "hd ?p \<noteq> CHR ''+''"
    using read_value_digits[OF n(2)] by (cases ?p) (auto simp: is_ascii_digit_def)
  then show "bind_port s = p" using n by (simp add: bind_port_def parse_u16_def Let_def)
qed



section \<open>Starting again\<close>

lemma token_again:
  assumes "load_or_generate unreadable f r fs = (Inr au, fs')" "length r = TOKEN_BYTES"
  shows "load_or_generate False f' r' fs' = (Inr au, fs')"
proof -
  have v: "is_valid_hex (generate_token_string r)" by (rule token_valid[OF assms(2)])
  have "trim (generate_token_string r) = generate_token_string r" "generate_token_string r \<noteq> []"
    using trim_valid[OF v] v by (auto simp: is_valid_hex_def TOKEN_BYTES_def)
  then show ?thesis using assms(1) v
    by (auto simp: load_or_generate_def Let_def write_token_file_def
        split: if_splits option.splits write_fault.splits)
qed

text \<open>Surroundings with the same settings and outcomes as before, whose files can be read.\<close>

definition same_settings :: "start_env \<Rightarrow> start_env \<Rightarrow> bool" where
  "same_settings E E' \<longleftrightarrow> se_vars E' = se_vars E \<and> se_dirs E' = se_dirs E \<and> se_config E' = se_config E \<and>
     se_toml E' = se_toml E \<and> se_ip E' = se_ip E \<and> se_mkdir E' = se_mkdir E \<and> se_log E' = se_log E \<and>
     se_db E' = se_db E \<and> se_tls E' = se_tls E \<and> se_bound E' = se_bound E \<and> \<not> se_unreadable E' \<and> (\<forall>p. ie_readable (se_id E') p)"

text \<open>
  C28: A restart serves the same: once the message-center has reached its listener, starting it again
  with the same settings, without an id or a name on the command line, reaches the listener again,
  whatever fresh identifiers, seeds, random bytes and mDNS outcomes it meets; it presents the same
  id, key, fingerprint and certificate at the same address, accepts exactly the same display token,
  and changes neither the files nor the token file.
\<close>

theorem restart_serves_same:
  assumes "certs_wf X B" "uuids_plain X" "length (se_random E) = TOKEN_BYTES"
    and "main_start X B E a H = (Inr (Serving s), H')"
    and "sv_cert_path (cf_server (up_config s)) = []" "sv_key_path (cf_server (up_config s)) = []"
    and "same_settings E E'"
  shows "\<exists>s' H''. main_start X B E' (a\<lparr>ag_device_id := None, ag_name := None\<rparr>) H' = (Inr (Serving s'), H'') \<and>
    up_center s' = (up_center s)\<lparr>ci_name := trim (ci_name (up_center s))\<rparr> \<and> up_tls s' = up_tls s \<and>
    up_presents s' = up_presents s \<and> up_addr s' = up_addr s \<and> up_config s' = up_config s \<and>
    (\<forall>candidate. verify (up_auth s') candidate \<longleftrightarrow> verify (up_auth s) candidate) \<and>
    ho_files H'' = ho_files H' \<and> ho_token H'' = ho_token H'"
proof -
  obtain p c F fs where p: "paths_resolve (se_vars E) (se_dirs E) = Inr p" "ag_token a = None"
    "load_from_file (se_toml E) (se_config E (case ag_config a of Some f \<Rightarrow> f | None \<Rightarrow> paths_config_file p)) = Inr c"
    "ag_pair_with a = None" "sock_parse (se_ip E) (main_bind (args.truncate a) c) = Some (up_addr s)"
    "up_config s = settled a c" "paths_ensure (se_mkdir E) p" "\<exists>su. logging_init (se_log E) (cf_logging c) = Inr su"
      "\<exists>opts. db_ready (se_db E) (main_db_path p c) = Inr opts"
      "listen (se_tls E) (se_bound E (up_addr s)) (up_tls s) = Inr (up_presents s)"
    and m: "main_load X B (se_id E) (ap_data_dir p) (ag_device_id a) (ag_name a) (ag_no_tls a)
      (sv_cert_path (cf_server c)) (sv_key_path (cf_server c)) (se_seed E) (ho_files H) =
      (Inr \<lparr>ld_center = up_center s, ld_tls = up_tls s\<rparr>, F)"
    and k: "load_or_generate (se_unreadable E) (se_fault E) (se_random E) (ho_token H) = (Inr (up_auth s), fs)"
    and H': "ho_files H' = F" "ho_token H' = fs"
    using assms(4) unfolding main_start_Serving by auto
  have e: "sv_cert_path (cf_server c) = []" "sv_key_path (cf_server c) = []"
    using assms(5,6) p(6) by (simp_all add: settled_def)
  let ?a = "a\<lparr>ag_device_id := None, ag_name := None\<rparr>"
  let ?i = "(up_center s)\<lparr>ci_name := trim (ci_name (up_center s))\<rparr>"
  let ?s = "\<lparr>up_config = settled a c, up_center = ?i, up_app = app_new (ho_db H' (main_db_path p c))
    (ws_identity (se_ip E) (main_bind (args.truncate a) c) ?i) (ci_fingerprint ?i),
    up_auth = up_auth s, up_tls = up_tls s, up_addr = up_addr s, up_presents = up_presents s\<rparr>"
  have t: "args.truncate ?a = args.truncate a" "settled ?a c = settled a c"
    by (simp_all add: args.truncate_def settled_def)
  have "main_load X B (se_id E') (ap_data_dir p) None None (ag_no_tls a) [] [] (se_seed E') F =
      (Inr \<lparr>ld_center = ?i, ld_tls = up_tls s\<rparr>, F)"
    using main_load_again[OF assms(1,2) m[unfolded e], of "se_id E'"] assms(7) by (simp add: same_settings_def)
  moreover have "load_or_generate False (se_fault E') (se_random E') fs = (Inr (up_auth s), fs)"
    by (rule token_again[OF k assms(3)])
  ultimately have "\<exists>H''. main_start X B E' ?a H' = (Inr (Serving ?s), H'') \<and> ho_files H'' = F \<and> ho_token H'' = fs"
    using p assms(7) e H' t unfolding main_start_Serving same_settings_def by auto
  then show ?thesis using H' p(6) by (intro exI[of _ ?s]) auto
qed

theorem restart_serves_same_witness:
  "\<exists>s H' s' H''. main_start demo_id_ext demo_std demo_start_env demo_cli demo_host = (Inr (Serving s), H') \<and>
     main_start demo_id_ext demo_std (demo_start_env\<lparr>se_seed := 9, se_random := []\<rparr>) demo_cli H' = (Inr (Serving s'), H'') \<and>
     ci_name (up_center s) = ''desk '' \<and> ci_name (up_center s') = ''desk'' \<and> up_tls s' = up_tls s"
proof -
  obtain s H' where s: "main_start demo_id_ext demo_std demo_start_env demo_cli demo_host = (Inr (Serving s), H')"
    "up_config s = config_default" "ci_name (up_center s) = ''desk ''" by (rule demo_serving)
  have r: "length (se_random demo_start_env) = TOKEN_BYTES" by (simp add: demo_start_env_def TOKEN_BYTES_def)
  have c: "sv_cert_path (cf_server (up_config s)) = []" "sv_key_path (cf_server (up_config s)) = []"
    using s(2) by (simp_all add: config_default_def server_default_def)
  have e: "same_settings demo_start_env (demo_start_env\<lparr>se_seed := 9, se_random := []\<rparr>)"
    by (simp add: same_settings_def demo_start_env_def demo_id_env_def)
  have t: "trim ''desk '' = ''desk''" by (simp add: trim_def is_space_def)
  have "demo_cli\<lparr>ag_device_id := None, ag_name := None\<rparr> = demo_cli" by (simp add: demo_cli_def)
  then show ?thesis
    using restart_serves_same[OF demo_certs_wf demo_uuids_plain r s(1) c e] s(1,3) t by fastforce
qed

end
