(* ===== verification/Protocol.thy ===== *)
theory Protocol
  imports Demo
begin

text \<open>
  What the wire format and the cryptographic helpers promise: encoding and decoding of
  envelopes and payloads, fingerprints, pairing codes and pins.
\<close>

section \<open>Envelopes\<close>

text \<open>
  An envelope survives the wire: with identifiers printed and parsed by the uuid crate and a
  timestamp in the range of i64, decoding the encoding of an envelope gives it back, so an
  encoding determines its envelope, and the type on the wire is the name of its message type.
\<close>

lemma envelope_roundtrip:
  assumes "uuid_ok X" and "i64_range (env_ts e)"
  shows "dec_envelope X (enc_envelope X e) = Some e \<and>
    json_get (enc_envelope X e) ''type'' = Some (JStr (mt_str (env_type e))) \<and>
    (i64_range (env_ts e') \<longrightarrow> enc_envelope X e' = enc_envelope X e \<longrightarrow> e' = e)"
proof (intro conjI impI)
  show d: "dec_envelope X (enc_envelope X e) = Some e" using rt_envelope assms by blast
  show "json_get (enc_envelope X e) ''type'' = Some (JStr (mt_str (env_type e)))"
    by (simp add: enc_envelope_def)
  assume "i64_range (env_ts e')" "enc_envelope X e' = enc_envelope X e"
  then show "e' = e" using d rt_envelope[OF assms(1), of e'] by simp
qed

theorem envelope_roundtrip_witness:
  "let e = envelope_new MtDeviceUnpair 3 (JObj []) 5 1000 in
     dec_envelope demo_ext (enc_envelope demo_ext e) = Some e"
  using envelope_roundtrip[of demo_ext "envelope_new MtDeviceUnpair 3 (JObj []) 5 1000"]
  by (simp add: envelope_new_def i64_range_def)

section \<open>Payloads\<close>

text \<open>
  Every pairing and control payload survives its encoding unchanged, whatever its fields:
  hello, heartbeat, info update, pair request, confirm, accept, reject and complete, unpair,
  notification dismissed, call state, incoming, answer, end and dial requests.
\<close>

lemma payload_roundtrip:
  "dec_device_hello (enc_device_hello a) = Some a \<and>
   dec_device_heartbeat (enc_device_heartbeat b) = Some b \<and>
   dec_device_info_update (enc_device_info_update c) = Some c \<and>
   dec_pair_request (enc_pair_request d) = Some d \<and>
   dec_pair_confirm (enc_pair_confirm e) = Some e \<and>
   dec_pair_accept (enc_pair_accept f) = Some f \<and>
   dec_pair_reject (enc_pair_reject g) = Some g \<and>
   dec_pair_complete (enc_pair_complete h) = Some h \<and>
   dec_unpair (enc_unpair i) = Some i \<and>
   dec_notification_dismissed (enc_notification_dismissed j) = Some j \<and>
   dec_call_state (enc_call_state k) = Some k \<and>
   dec_call_incoming (enc_call_incoming l) = Some l \<and>
   dec_call_answer_request (enc_call_answer_request m) = Some m \<and>
   dec_call_end_request (enc_call_end_request n) = Some n \<and>
   dec_call_dial_request (enc_call_dial_request p) = Some p"
  by (intro conjI) (rule rt_device_hello rt_device_heartbeat rt_device_info_update rt_pair_request
    rt_pair_confirm rt_pair_accept rt_pair_reject rt_pair_complete rt_unpair
    rt_notification_dismissed rt_call_state rt_call_incoming rt_call_answer_request
    rt_call_end_request rt_call_dial_request)+

section \<open>Types\<close>

lemma dec_int_range: "dec_int ok j = Some i \<Longrightarrow> ok i"
  by (cases j) (auto split: if_splits)

lemma req_range: "req (dec_int ok) f = Some i \<Longrightarrow> ok i"
  by (cases f) (auto simp: req_def dest: dec_int_range)

lemma opt_int_range: "opt (dec_int ok) f = Some v \<Longrightarrow> pred_option ok v"
  by (induction "dec_int ok" f rule: opt.induct) (auto split: if_splits)

lemma dec_list_all:
  "dec_list d j = Some xs \<Longrightarrow> (\<And>y x. d y = Some x \<Longrightarrow> P x) \<Longrightarrow> x \<in> set xs \<Longrightarrow> P x"
proof (cases j)
  case (JArr ys)
  assume *: "dec_list d j = Some xs" "\<And>y x. d y = Some x \<Longrightarrow> P x" "x \<in> set xs"
  have "those (map d ys) = Some xs \<Longrightarrow> \<forall>x \<in> set xs. P x" for xs
    using *(2) by (induction ys arbitrary: xs) (auto split: option.splits)
  then show ?thesis using * JArr by simp
qed simp_all

lemma accepted_envelope: "dec_envelope X j = Some e \<Longrightarrow> i64_range (env_ts e)"
  by (auto simp: dec_envelope_def dest!: req_range split: bind_splits)

lemma accepted_display_event: "dec_display_event X j = Some p \<Longrightarrow> i64_range (de_timestamp p)"
  by (auto simp: dec_display_event_def dest!: req_range split: bind_splits)

lemma accepted_action_result: "dec_action_result_event X j = Some p \<Longrightarrow> i64_range (ar_timestamp p)"
  by (auto simp: dec_action_result_event_def dest!: req_range split: bind_splits)

lemma accepted_challenge: "dec_pair_challenge j = Some p \<Longrightarrow> i64_range (pch_expires_at p)"
  by (auto simp: dec_pair_challenge_def dest!: req_range split: bind_splits)

lemma accepted_notification: "dec_notification_received j = Some p \<Longrightarrow> i64_range (nr_posted_at p)"
  by (auto simp: dec_notification_received_def dest!: req_range split: bind_splits)

lemma accepted_sms: "dec_sms_received j = Some p \<Longrightarrow> sms_received_wf p"
  by (auto simp: dec_sms_received_def sms_received_wf_def dest: req_range opt_int_range
      split: bind_splits)

lemma accepted_send: "dec_sms_send_request j = Some p \<Longrightarrow> pred_option i32_range (sq_subscription_id p)"
  by (auto simp: dec_sms_send_request_def dest: opt_int_range split: bind_splits)

lemma accepted_list_request: "dec_sms_list_request j = Some p \<Longrightarrow> pred_option i64_range (lq_before p)"
  by (auto simp: dec_sms_list_request_def dest: opt_int_range split: bind_splits)

lemma accepted_entry: "dec_call_history_entry j = Some p \<Longrightarrow> i64_range (che_started_at p)"
  by (auto simp: dec_call_history_entry_def dest: req_range split: bind_splits)

lemma req_dec_list_all:
  "req (dec_list d) f = Some xs \<Longrightarrow> (\<And>y x. d y = Some x \<Longrightarrow> P x) \<Longrightarrow> x \<in> set xs \<Longrightarrow> P x"
  by (cases f) (auto simp: req_def dest: dec_list_all)

lemma accepted_sms_list:
  "dec_sms_list_result j = Some p \<Longrightarrow> x \<in> set (lr_messages p) \<Longrightarrow> sms_received_wf x"
  by (auto simp: dec_sms_list_result_def split: bind_splits
      elim: req_dec_list_all[where P = sms_received_wf, OF _ accepted_sms])

lemma accepted_history:
  "dec_call_history j = Some p \<Longrightarrow> x \<in> set (ch_entries p) \<Longrightarrow> i64_range (che_started_at x)"
  by (auto simp: dec_call_history_def split: bind_splits
      elim: req_dec_list_all[where P = "\<lambda>e. i64_range (che_started_at e)", OF _ accepted_entry])

text \<open>
  C38: Whatever a decoder accepts is a value of the Rust type, every integer within its width, in
  the envelope, in the display messages, and in each element of the lists a phone sends; and its
  encoding is read back as the same value, so no accepted message changes when it is forwarded.
\<close>

theorem accepted_is_canonical:
  assumes "uuid_ok X"
  shows "(dec_envelope X j = Some e \<longrightarrow>
      i64_range (env_ts e) \<and> dec_envelope X (enc_envelope X e) = Some e) \<and>
    (dec_display_event X j = Some d \<longrightarrow>
      i64_range (de_timestamp d) \<and> dec_display_event X (enc_display_event X d) = Some d) \<and>
    (dec_action_result_event X j = Some r \<longrightarrow>
      i64_range (ar_timestamp r) \<and> dec_action_result_event X (enc_action_result_event X r) = Some r) \<and>
    (dec_pair_challenge j = Some c \<longrightarrow>
      i64_range (pch_expires_at c) \<and> dec_pair_challenge (enc_pair_challenge c) = Some c) \<and>
    (dec_notification_received j = Some n \<longrightarrow>
      i64_range (nr_posted_at n) \<and> dec_notification_received (enc_notification_received n) = Some n) \<and>
    (dec_sms_received j = Some s \<longrightarrow>
      sms_received_wf s \<and> dec_sms_received (enc_sms_received s) = Some s) \<and>
    (dec_sms_send_request j = Some q \<longrightarrow>
      pred_option i32_range (sq_subscription_id q) \<and> dec_sms_send_request (enc_sms_send_request q) = Some q) \<and>
    (dec_sms_list_request j = Some l \<longrightarrow>
      pred_option i64_range (lq_before l) \<and> dec_sms_list_request (enc_sms_list_request l) = Some l) \<and>
    (dec_sms_list_result j = Some m \<longrightarrow>
      list_all sms_received_wf (lr_messages m) \<and> dec_sms_list_result (enc_sms_list_result m) = Some m) \<and>
    (dec_call_history j = Some h \<longrightarrow>
      list_all (\<lambda>x. i64_range (che_started_at x)) (ch_entries h) \<and>
      dec_call_history (enc_call_history h) = Some h)"
  using assms accepted_envelope[of X j e] accepted_display_event[of X j d]
    accepted_action_result[of X j r] accepted_challenge[of j c] accepted_notification[of j n]
    accepted_sms[of j s] accepted_send[of j q] accepted_list_request[of j l]
    accepted_sms_list[of j m] accepted_history[of j h]
  by (simp add: rt_envelope rt_display_event rt_action_result_event rt_pair_challenge
      rt_notification_received rt_sms_received rt_sms_send_request rt_sms_list_request
      rt_sms_list_result rt_call_history list_all_iff)

text \<open>An SMS in the array form of a struct, with the subscription id left out.\<close>

theorem accepted_is_canonical_witness:
  "let j = JArr [JStr ''m1'', JStr ''+49'', JStr ''hi'', JInt 1700000000000] in
     \<exists>s. dec_sms_received j = Some s \<and> sms_received_wf s \<and>
       dec_sms_received (enc_sms_received s) = Some s \<and> enc_sms_received s \<noteq> j"
proof -
  let ?j = "JArr [JStr ''m1'', JStr ''+49'', JStr ''hi'', JInt 1700000000000]"
  have "dec_sms_received ?j \<noteq> None"
    by (simp add: dec_sms_received_def wire_simps i64_range_def)
  then obtain s where s: "dec_sms_received ?j = Some s" by blast
  then have "enc_sms_received s \<noteq> ?j" by (simp add: enc_sms_received_def)
  then show ?thesis
    using s accepted_is_canonical[of demo_ext ?j] by auto
qed

section \<open>Fingerprints, codes and pins\<close>

text \<open>
  A certificate's fingerprint parses back to the digest it prints, and whatever text parses
  as a fingerprint has 32 pairs of two characters.
\<close>

lemma fingerprint_roundtrip:
  assumes "length (sha256 X der) = SHA256_LEN"
  shows "parse_fingerprint (cert_fingerprint_der X der) = Inr (sha256 X der) \<and>
    (parse_fingerprint s = Inr bs \<longrightarrow> length bs = SHA256_LEN \<and>
       list_all (\<lambda>p. length p = 2) (split_char (CHR '':'') s))"
proof (intro conjI impI)
  have pairs: "parse_pairs i ps = Inr bs \<Longrightarrow> list_all (\<lambda>p. length p = 2) ps" for i ps bs
    by (induction ps arbitrary: i bs) (auto split: if_splits option.splits sum.splits)
  show "parse_fingerprint (cert_fingerprint_der X der) = Inr (sha256 X der)"
    by (rule parse_format[OF assms])
  assume p: "parse_fingerprint s = Inr bs"
  then show "length bs = SHA256_LEN" by (rule parse_fingerprint_length)
  show "list_all (\<lambda>p. length p = 2) (split_char (CHR '':'') s)"
    using p pairs by (auto simp: parse_fingerprint_def Let_def split: if_splits)
qed

theorem fingerprint_roundtrip_witness:
  "parse_fingerprint (cert_fingerprint_der demo_ext [1]) = Inr (replicate 32 171)"
  using fingerprint_roundtrip[of demo_ext "[1]"] by (simp add: demo_ext_def SHA256_LEN_def)

text \<open>
  \<open>from_str_radix\<close> takes a plus sign, so a text that is not pairs of hexadecimal
  digits passes the fingerprint parser.
\<close>

lemma fingerprint_accepts_sign:
  "parse_fingerprint (join_char (CHR '':'') (replicate 32 ''+A'')) = Inr (replicate 32 10) \<and>
   \<not> list_all is_ascii_hexdigit ''+A''"
proof -
  have u: "u8_from_hex ''+A'' = Some 10" by code_simp
  have p: "parse_pairs i (replicate n ''+A'') = Inr (replicate n 10)" for i n
    by (induction n arbitrary: i) (simp_all add: u)
  have s: "split_char (CHR '':'') (join_char (CHR '':'') (replicate 32 ''+A'')) = replicate 32 ''+A''"
    by (rule split_join_char) auto
  have "\<not> list_all is_ascii_hexdigit ''+A''" by code_simp
  then show ?thesis unfolding parse_fingerprint_def s by (simp add: p SHA256_LEN_def)
qed

text \<open>The number a text of decimal digits writes.\<close>

definition dec_value :: "string \<Rightarrow> nat" where
  "dec_value s = foldl (\<lambda>n c. 10 * n + (of_char c - 48)) 0 s"

lemma digit_lower_value: "n < 10 \<Longrightarrow> of_char (digit_lower n) - 48 = n"
proof -
  assume "n < 10"
  moreover have "\<forall>n \<in> set [0..<10]. of_char (digit_lower n) - 48 = n" by code_simp
  ultimately show ?thesis by simp
qed

lemma dec_value_nat_dec: "dec_value (nat_dec n) = n"
proof (induction n rule: nat_dec.induct)
  case (1 n)
  then show ?case
    by (cases "n < 10")
      (simp_all add: nat_dec_small nat_dec_big digit_lower_value dec_value_def)
qed

lemma dec_value_pad: "dec_value (pad_zero w s) = dec_value s"
proof -
  have "foldl (\<lambda>n c. 10 * n + (of_char c - 48)) 0 (replicate k (CHR ''0'')) = (0 :: nat)" for k
    by (induction k) simp_all
  then show ?thesis by (simp add: dec_value_def pad_zero_def)
qed

text \<open>
  The pairing code is four ASCII digits for every key material, leading zeros kept: it writes
  the key material as a big-endian number modulo 10000, so two secrets show the same code exactly
  when those numbers agree.
\<close>

lemma pairing_code_four_digits:
  "code_shape (derive_pairing_code X shared) \<and>
   dec_value (derive_pairing_code X shared) =
     from_be_bytes (hkdf4 X HKDF_SALT HKDF_INFO shared) mod 10000 \<and>
   (derive_pairing_code X shared = derive_pairing_code X other \<longleftrightarrow>
     from_be_bytes (hkdf4 X HKDF_SALT HKDF_INFO shared) mod 10000 =
       from_be_bytes (hkdf4 X HKDF_SALT HKDF_INFO other) mod 10000)"
proof -
  have v: "dec_value (derive_pairing_code X s) =
      from_be_bytes (hkdf4 X HKDF_SALT HKDF_INFO s) mod 10000" for s
    by (simp add: derive_pairing_code_def dec_value_pad dec_value_nat_dec)
  show ?thesis
  proof (intro conjI iffI)
    assume "derive_pairing_code X shared = derive_pairing_code X other"
    then show "from_be_bytes (hkdf4 X HKDF_SALT HKDF_INFO shared) mod 10000 =
       from_be_bytes (hkdf4 X HKDF_SALT HKDF_INFO other) mod 10000"
      unfolding v[symmetric] by (rule arg_cong)
  qed (rule pairing_code_shape, rule v, simp only: derive_pairing_code_def)
qed

text \<open>
  A certificate chain passes the pin check exactly when the fingerprint of its leaf is the
  one pinned for the device; every other outcome names the reason, checked in the order no
  certificate, unknown device, mismatch.
\<close>

lemma verify_pin_decides:
  "verify_pin X store dev certs =
     (if certs = [] then Inl NoCert
      else if hm_get store dev = None then Inl UnknownDevice
      else if hm_get store dev = Some (cert_fingerprint_der X (hd certs)) then Inr ()
      else Inl (Mismatch (the (hm_get store dev)) (cert_fingerprint_der X (hd certs))))"
  by (auto simp: verify_pin_def Let_def split: list.splits option.splits)

end
