(* ===== verification/Windows.thy ===== *)
theory Windows
  imports DeskBackend
begin

text \<open>
  The Windows backend (DeskDisplay/src/backends/windows.rs): the markup of a toast and the map from
  action arguments to the events they belong to. Handing the markup to the system is not in the
  source: the backend builds it and drops it.
\<close>

section \<open>The markup\<close>

definition replace_char :: "char \<Rightarrow> string \<Rightarrow> string \<Rightarrow> string" where
  "replace_char c r s = concat (map (\<lambda>d. if d = c then r else [d]) s)"

definition xml_esc :: "string \<Rightarrow> string" where
  "xml_esc s = replace_char (CHR 0x22) ''&quot;'' (replace_char (CHR ''>'') ''&gt;''
     (replace_char (CHR ''<'') ''&lt;'' (replace_char (CHR ''&'') ''&amp;'' s)))"

definition dq :: string where "dq = [CHR 0x22]"
definition nl :: string where "nl = [CHR 0x0A]"

definition action_uri :: "string \<Rightarrow> string" where
  "action_uri key = ''phonebridge://action/'' @ key"

text \<open>The fixed pieces of the two format strings, in order.\<close>

definition action_head :: string where
  "action_head = ''<action content='' @ dq"

definition action_mid :: string where
  "action_mid = dq @ '' arguments='' @ dq"

definition action_tail :: string where
  "action_tail = dq @ '' activationType='' @ dq @ ''foreground'' @ dq @ '' />''"

definition action_xml :: "string \<times> string \<Rightarrow> string" where
  "action_xml = (\<lambda>(key, label). action_head @ xml_esc label @ action_mid @ action_uri key @ action_tail)"

definition toast_head :: string where
  "toast_head = ''<toast activationType='' @ dq @ ''foreground'' @ dq @ '' launch='' @ dq @
     ''phonebridge://action/noop'' @ dq @ ''>'' @ nl @ ''  <visual>'' @ nl @
     ''    <binding template='' @ dq @ ''ToastGeneric'' @ dq @ ''>'' @ nl @ ''      <text>''"

definition toast_mid :: string where
  "toast_mid = ''</text>'' @ nl @ ''      <text>''"

definition toast_tail :: string where
  "toast_tail = ''</text>'' @ nl @ ''    </binding>'' @ nl @ ''  </visual>'' @ nl @ ''  ''"

definition toast_end :: string where
  "toast_end = nl @ ''</toast>''"

definition build_toast_xml :: "toast \<Rightarrow> string" where
  "build_toast_xml t =
     (let actions = concat (map action_xml (to_actions t));
          block = (if actions = [] then [] else ''<actions>'' @ actions @ ''</actions>'')
      in toast_head @ xml_esc (to_title t) @ toast_mid @ xml_esc (to_body t) @ toast_tail @ block @ toast_end)"

section \<open>The pending map\<close>

record pending_entry =
  pe_envelope_id :: uuid
  pe_device_id :: uuid
  pe_kind :: toast_kind

type_synonym windows = "(string, pending_entry) hmap"

definition windows_new :: windows where
  "windows_new = []"

definition entry_of :: "toast \<Rightarrow> pending_entry" where
  "entry_of t = \<lparr>pe_envelope_id = to_envelope_id t, pe_device_id = to_device_id t, pe_kind = to_kind t\<rparr>"

definition show_translated :: "display_i18n \<Rightarrow> display_event \<Rightarrow> windows \<Rightarrow> (display_error + unit) \<times> windows" where
  "show_translated I e w =
     (case translate_via_event I e of
        Inl er \<Rightarrow> (Inl er, w)
      | Inr None \<Rightarrow> (Inr (), w)
      | Inr (Some t) \<Rightarrow>
          (Inr (), fold (\<lambda>(key, _). hm_insert (action_uri key) (entry_of t)) (to_actions t) w))"

definition windows_present :: "display_i18n \<Rightarrow> display_event \<Rightarrow> windows \<Rightarrow> (display_error + unit) \<times> windows" where
  "windows_present I e w = show_translated I e w"

text \<open>No toast of this backend is ever shown.\<close>

interpretation windows_backend: display_backend "\<lambda>_ :: unit. windows_present I" "\<lambda>_. []" "\<lambda>_. None"
    "\<lambda>_. True" "\<lambda>_. True" for I
  by unfold_locales simp_all

section \<open>Reading the markup back\<close>

definition strip_prefix :: "string \<Rightarrow> string \<Rightarrow> string option" where
  "strip_prefix p s = (if take (length p) s = p then Some (drop (length p) s) else None)"

function unesc :: "string \<Rightarrow> string" where
  "unesc [] = []"
| "unesc (c # s) =
     (if c \<noteq> CHR ''&'' then c # unesc s
      else case strip_prefix ''amp;'' s of
        Some r \<Rightarrow> CHR ''&'' # unesc r
      | None \<Rightarrow> (case strip_prefix ''lt;'' s of
          Some r \<Rightarrow> CHR ''<'' # unesc r
        | None \<Rightarrow> (case strip_prefix ''gt;'' s of
            Some r \<Rightarrow> CHR ''>'' # unesc r
          | None \<Rightarrow> (case strip_prefix ''quot;'' s of
              Some r \<Rightarrow> CHR 0x22 # unesc r
            | None \<Rightarrow> c # unesc s))))"
  by pat_completeness auto
termination
  by (relation "measure length") (auto simp: strip_prefix_def split: if_splits)

text \<open>Text up to a delimiter, decoded, and what follows the delimiter's position.\<close>

definition text_until :: "char \<Rightarrow> string \<Rightarrow> string \<times> string" where
  "text_until d s = (unesc (takeWhile (\<lambda>c. c \<noteq> d) s), dropWhile (\<lambda>c. c \<noteq> d) s)"

definition read_action :: "string \<Rightarrow> ((string \<times> string) \<times> string) option" where
  "read_action s = do {
     s1 \<leftarrow> strip_prefix action_head s;
     let (label, s2) = text_until (CHR 0x22) s1;
     s3 \<leftarrow> strip_prefix action_mid s2;
     s4 \<leftarrow> strip_prefix ''phonebridge://action/'' s3;
     s5 \<leftarrow> strip_prefix action_tail (dropWhile (\<lambda>c. c \<noteq> CHR 0x22) s4);
     Some ((takeWhile (\<lambda>c. c \<noteq> CHR 0x22) s4, label), s5)
   }"

fun read_actions :: "nat \<Rightarrow> string \<Rightarrow> ((string \<times> string) list \<times> string) option" where
  "read_actions 0 s = None"
| "read_actions (Suc n) s =
     (case strip_prefix ''</actions>'' s of
        Some r \<Rightarrow> Some ([], r)
      | None \<Rightarrow> do {
          (a, r) \<leftarrow> read_action s;
          (as, r') \<leftarrow> read_actions n r;
          Some (a # as, r')
        })"

text \<open>The number bounds the actions that are read; the length of the markup is enough.\<close>

definition read_toast :: "string \<Rightarrow> (string \<times> string \<times> (string \<times> string) list) option" where
  "read_toast s = do {
     s1 \<leftarrow> strip_prefix toast_head s;
     let (title, s2) = text_until (CHR ''<'') s1;
     s3 \<leftarrow> strip_prefix toast_mid s2;
     let (body, s4) = text_until (CHR ''<'') s3;
     s5 \<leftarrow> strip_prefix toast_tail s4;
     (as, s6) \<leftarrow> (case strip_prefix ''<actions>'' s5 of
                      None \<Rightarrow> Some ([], s5) | Some r \<Rightarrow> read_actions (length s) r);
     if s6 = toast_end then Some (title, body, as) else None
   }"

lemma strip_prefix_append [simp]: "strip_prefix p (p @ s) = Some s"
  by (simp add: strip_prefix_def)

definition xml_char :: "char \<Rightarrow> string" where
  "xml_char c = (if c = CHR ''&'' then ''&amp;'' else if c = CHR ''<'' then ''&lt;''
     else if c = CHR ''>'' then ''&gt;'' else if c = CHR 0x22 then ''&quot;'' else [c])"

lemma replace_char_append [simp]: "replace_char c r (s @ t) = replace_char c r s @ replace_char c r t"
  by (simp add: replace_char_def)

lemma replace_char_Nil [simp]: "replace_char c r [] = []"
  by (simp add: replace_char_def)

lemma replace_char_Cons [simp]:
  "replace_char c r (d # s) = (if d = c then r else [d]) @ replace_char c r s"
  by (simp add: replace_char_def)

lemma xml_esc_Nil [simp]: "xml_esc [] = []"
  by (simp add: xml_esc_def)

lemma xml_esc_Cons [simp]: "xml_esc (c # s) = xml_char c @ xml_esc s"
  by (simp add: xml_esc_def xml_char_def)

lemma xml_esc_plain: "CHR ''<'' \<notin> set (xml_esc s)" "CHR 0x22 \<notin> set (xml_esc s)"
  by (induction s) (auto simp: xml_char_def)

lemma unesc_char: "unesc (xml_char c @ s) = c # unesc s"
  by (simp add: xml_char_def strip_prefix_def)

lemma unesc_esc: "unesc (xml_esc s) = s"
  by (induction s) (simp_all add: unesc_char)

lemma until_delimiter:
  assumes "d \<notin> set p"
  shows "takeWhile (\<lambda>c. c \<noteq> d) (p @ d # s) = p" "dropWhile (\<lambda>c. c \<noteq> d) (p @ d # s) = d # s"
  using assms by (induction p) auto

lemma text_until_esc:
  "text_until (CHR ''<'') (xml_esc p @ CHR ''<'' # s) = (p, CHR ''<'' # s)"
  "text_until (CHR 0x22) (xml_esc p @ CHR 0x22 # s) = (p, CHR 0x22 # s)"
  using xml_esc_plain[of p] by (simp_all add: text_until_def until_delimiter unesc_esc)

lemma pieces_start:
  "action_mid = CHR 0x22 # tl action_mid" "action_tail = CHR 0x22 # tl action_tail"
  "toast_mid = CHR ''<'' # tl toast_mid" "toast_tail = CHR ''<'' # tl toast_tail"
  by (simp_all add: action_mid_def action_tail_def toast_mid_def toast_tail_def dq_def)

lemma text_until_pieces [simp]:
  "text_until (CHR 0x22) (xml_esc p @ action_mid @ s) = (p, action_mid @ s)"
  "text_until (CHR ''<'') (xml_esc p @ toast_mid @ s) = (p, toast_mid @ s)"
  "text_until (CHR ''<'') (xml_esc p @ toast_tail @ s) = (p, toast_tail @ s)"
  using text_until_esc pieces_start by (metis append_Cons)+

lemma key_until [simp]:
  assumes "CHR 0x22 \<notin> set key"
  shows "takeWhile (\<lambda>c. c \<noteq> CHR 0x22) (key @ action_tail @ s) = key"
    "dropWhile (\<lambda>c. c \<noteq> CHR 0x22) (key @ action_tail @ s) = action_tail @ s"
  using until_delimiter[OF assms, of "tl action_tail @ s"] pieces_start(2) by (metis append_Cons)+

lemma read_action_xml:
  assumes "CHR 0x22 \<notin> set key"
  shows "read_action (action_xml (key, label) @ s) = Some ((key, label), s)"
  using assms strip_prefix_append[of "''phonebridge://action/''"]
  by (simp add: read_action_def action_xml_def action_uri_def del: append_Cons)

lemma not_end: "strip_prefix ''</actions>'' (action_xml a @ s) = None"
  by (simp add: action_xml_def action_head_def strip_prefix_def split: prod.split)

lemma read_actions_xml:
  "\<lbrakk>\<forall>a \<in> set as. CHR 0x22 \<notin> set (fst a); length as < n\<rbrakk> \<Longrightarrow>
     read_actions n (concat (map action_xml as) @ ''</actions>'' @ s) = Some (as, s)"
proof (induction as arbitrary: n)
  case Nil
  then show ?case using strip_prefix_append[of "''</actions>''" s] by (cases n) simp_all
next
  case (Cons a as)
  obtain m where m: "n = Suc m" "length as < m" using Cons.prems(2) by (cases n) auto
  obtain key label where a: "a = (key, label)" by fastforce
  show ?case
    using Cons.IH[of m] Cons.prems(1) m not_end[of a] read_action_xml[of key label]
    by (simp add: a del: append_Cons)
qed

lemma action_xml_length: "length as \<le> length (concat (map action_xml as))"
  by (induction as) (auto simp: action_xml_def action_head_def dq_def)

lemma no_block: "strip_prefix ''<actions>'' toast_end = None"
  by (simp add: toast_end_def nl_def strip_prefix_def)

lemma read_build:
  assumes "\<forall>a \<in> set (to_actions t). CHR 0x22 \<notin> set (fst a)"
  shows "read_toast (build_toast_xml t) = Some (to_title t, to_body t, to_actions t)"
proof (cases "to_actions t")
  case Nil
  then show ?thesis by (simp add: read_toast_def build_toast_xml_def no_block)
next
  case (Cons a as)
  let ?A = "concat (map action_xml (to_actions t))"
  have "?A \<noteq> []" using Cons by (simp add: action_xml_def action_head_def split: prod.split)
  then have b: "build_toast_xml t = toast_head @ xml_esc (to_title t) @ toast_mid @ xml_esc (to_body t) @
      toast_tail @ ''<actions>'' @ ?A @ ''</actions>'' @ toast_end"
    by (simp add: build_toast_xml_def Let_def)
  have "length (to_actions t) < length (build_toast_xml t)"
    using action_xml_length[of "to_actions t"] unfolding b by simp
  from read_actions_xml[OF assms this, of toast_end] show ?thesis
    using strip_prefix_append[of "''<actions>''" "?A @ ''</actions>'' @ toast_end"]
    unfolding read_toast_def b by (simp del: append_Cons)
qed

lemma action_list_keys:
  "a \<in> set (action_list_for kind I) \<Longrightarrow>
     fst a \<in> {REPLY_ACTION, MARK_READ_ACTION, DISMISS_ACTION, ANSWER_ACTION, HANGUP_ACTION}"
  by (auto simp: action_list_for_def split: if_splits)

lemma translated_actions:
  assumes "translate_via_event I e = Inr (Some t)"
  shows "to_actions t = [] \<or> (\<exists>kind. to_actions t = action_list_for kind I)"
  using assms
  by (cases e rule: event_kind_cases)
    (auto simp: translate_via_event_def map_ok_def translate_notification_def translate_sms_def
      translate_call_incoming_def translate_call_state_def translate_action_result_def
      translate_phone_offline_def EVENT_KINDS_def Let_def split: sum.splits if_splits)


definition demo_offline :: "string \<Rightarrow> display_event" where
  "demo_offline kind = \<lparr>de_kind = ''phone.offline'', de_device_id = 7, de_envelope_id = 3, de_timestamp = 5,
     de_payload = JObj [(''action_kind'', JStr kind)], de_summary = JNull\<rparr>"


section \<open>Which event an action belongs to\<close>

definition windows_run :: "display_i18n \<Rightarrow> display_event list \<Rightarrow> windows \<Rightarrow> windows" where
  "windows_run I es w = fold (\<lambda>e w. snd (windows_present I e w)) es w"

definition has_action :: "string \<Rightarrow> toast \<Rightarrow> bool" where
  "has_action key t \<longleftrightarrow> key \<in> fst ` set (to_actions t)"

text \<open>The last toast with an action, among the toasts of a sequence of events.\<close>

definition last_with :: "display_i18n \<Rightarrow> string \<Rightarrow> display_event list \<Rightarrow> toast option" where
  "last_with I key es =
     (let ts = filter (has_action key) (List.map_filter (toast_of I) es)
      in if ts = [] then None else Some (last ts))"

lemma insert_actions:
  "hm_get (fold (\<lambda>(k, _). hm_insert (action_uri k) v) as w) (action_uri key) =
     (if key \<in> fst ` set as then Some v else hm_get w (action_uri key))"
  by (induction as arbitrary: w) (auto simp: action_uri_def)

lemma windows_present_get:
  "hm_get (snd (windows_present I e w)) (action_uri key) =
     (case toast_of I e of
        Some t \<Rightarrow> if has_action key t then Some (entry_of t) else hm_get w (action_uri key)
      | None \<Rightarrow> hm_get w (action_uri key))"
  by (simp add: windows_present_def show_translated_def toast_of_def has_action_def insert_actions
      split: sum.split option.split)

lemma last_with_snoc:
  "last_with I key (es @ [e]) =
     (case toast_of I e of
        Some t \<Rightarrow> if has_action key t then Some t else last_with I key es
      | None \<Rightarrow> last_with I key es)"
  by (auto simp: last_with_def List.map_filter_def Let_def split: option.split)

text \<open>
  The Windows backend remembers for each action argument only the last toast that had it: after
  any sequence of events an argument stands for the envelope and the device of the last toast with
  that action, so a button of any earlier toast that is still shown is taken for the last one's.
\<close>

lemma windows_last_toast_wins:
  "hm_get (windows_run I es windows_new) (action_uri key) = map_option entry_of (last_with I key es)"
proof (induction es rule: rev_induct)
  case Nil
  then show ?case by (simp add: windows_run_def windows_new_def last_with_def map_filter_simps)
next
  case (snoc e es)
  then show ?case
    by (simp add: windows_run_def windows_present_get last_with_snoc split: option.split)
qed

end
