(* ===== verification/DeskClient.thy ===== *)
theory DeskClient
  imports DeskBackend DisplayWs
begin

text \<open>
  The client of the desktop display (DeskDisplay/src/client.rs) and the program around it
  (main.rs). The socket's frames, the outcome of a connection attempt and the answers of a
  backend's surroundings are arguments. The lemmas on what the user is shown are proved once in
  the locale \<open>display_backend\<close> and hold for each of its backends.
\<close>

section \<open>A session\<close>

definition INITIAL_BACKOFF :: nat where
  "INITIAL_BACKOFF = 500"

definition MAX_BACKOFF :: nat where
  "MAX_BACKOFF = 30 * 1000"

datatype client_frame = CfText string | CfBinary | CfClose | CfOther | CfError string

type_synonym ('w, 's) presenter = "'w \<Rightarrow> display_event \<Rightarrow> 's \<Rightarrow> (display_error + unit) \<times> 's"

definition client_line ::
  "envelope ext \<Rightarrow> ('w, 's) presenter \<Rightarrow> 'w \<Rightarrow> string \<Rightarrow> 's \<Rightarrow> 's" where
  "client_line X P w line b =
     (let l = trim line
      in if l = [] then b
         else (case Option.bind (json_parse X l) (dec_display_event X) of
                 None \<Rightarrow> b
               | Some e \<Rightarrow> snd (P w e b)))"

fun client_lines ::
  "envelope ext \<Rightarrow> ('w, 's) presenter \<Rightarrow> (nat \<Rightarrow> 'w) \<Rightarrow> nat \<Rightarrow> string list \<Rightarrow> 's \<Rightarrow> 's" where
  "client_lines X P ws k [] b = b"
| "client_lines X P ws k (l # ls) b = client_lines X P ws (Suc k) ls (client_line X P (ws k) l b)"

text \<open>The reading loop, which also ends when the stream does.\<close>

fun client_reader ::
  "envelope ext \<Rightarrow> ('w, 's) presenter \<Rightarrow> ((nat \<Rightarrow> 'w) \<times> client_frame) list \<Rightarrow> 's \<Rightarrow>
     (display_error + unit) \<times> 's" where
  "client_reader X P [] b = (Inr (), b)"
| "client_reader X P ((ws, fr) # fs) b =
     (case fr of
        CfError e \<Rightarrow> (Inl (DeWebSocket (''recv: '' @ e)), b)
      | CfClose \<Rightarrow> (Inr (), b)
      | CfBinary \<Rightarrow> client_reader X P fs b
      | CfOther \<Rightarrow> client_reader X P fs b
      | CfText text \<Rightarrow> client_reader X P fs (client_lines X P ws 0 (str_lines text) b))"

text \<open>
  What a session meets: the URL the configuration gives, the outcome of the connection, the
  frames, and what the writer task had taken from the action channel when the session ended.
\<close>

record 'w dialogue =
  dg_url :: "display_error + string"
  dg_connect :: "string + unit"
  dg_frames :: "((nat \<Rightarrow> 'w) \<times> client_frame) list"

record 's client =
  cl_backend :: 's
  cl_sink :: action_sink

definition client_session ::
  "envelope ext \<Rightarrow> ('w, 's) presenter \<Rightarrow> 'w dialogue \<Rightarrow> 's client \<Rightarrow> (display_error + unit) \<times> 's client" where
  "client_session X P d c =
     (case dg_url d of
        Inl e \<Rightarrow> (Inl e, c)
      | Inr _ \<Rightarrow>
          (case dg_connect d of
             Inl e \<Rightarrow> (Inl (DeWebSocket (''connect: '' @ e)), c)
           | Inr _ \<Rightarrow>
               (let c1 = c\<lparr>cl_sink := sink_bind action_chan_new (cl_sink c)\<rparr>;
                    (r, b) = client_reader X P (dg_frames d) (cl_backend c1)
                in (r, c1\<lparr>cl_backend := b, cl_sink := sink_unbind (cl_sink c1)\<rparr>))))"

text \<open>
  The reconnect loop over the sessions it has been through: the sleep after each of them, in
  milliseconds, and the client afterwards. A session that ends cleanly is followed by none.
\<close>

fun client_run ::
  "envelope ext \<Rightarrow> ('w, 's) presenter \<Rightarrow> 'w dialogue list \<Rightarrow> nat \<Rightarrow> 's client \<Rightarrow> nat option list \<times> 's client" where
  "client_run X P [] backoff c = ([], c)"
| "client_run X P (d # ds) backoff c =
     (case client_session X P d c of
        (Inr _, c') \<Rightarrow> (let (ss, c'') = client_run X P ds INITIAL_BACKOFF c' in (None # ss, c''))
      | (Inl _, c') \<Rightarrow>
          (let (ss, c'') = client_run X P ds (min (backoff * 2) MAX_BACKOFF) c'
           in (Some backoff # ss, c'')))"

section \<open>What the user is shown\<close>

definition line_event :: "envelope ext \<Rightarrow> string \<Rightarrow> display_event option" where
  "line_event X line =
     (if trim line = [] then None else Option.bind (json_parse X (trim line)) (dec_display_event X))"

text \<open>The events of a dialogue: every readable line up to the end of the stream.\<close>

fun frame_events :: "envelope ext \<Rightarrow> client_frame list \<Rightarrow> display_event list" where
  "frame_events X [] = []"
| "frame_events X (CfText text # fs) = List.map_filter (line_event X) (str_lines text) @ frame_events X fs"
| "frame_events X (CfBinary # fs) = frame_events X fs"
| "frame_events X (CfOther # fs) = frame_events X fs"
| "frame_events X (CfClose # fs) = []"
| "frame_events X (CfError e # fs) = []"

definition dialogue_events :: "envelope ext \<Rightarrow> 'w dialogue \<Rightarrow> display_event list" where
  "dialogue_events X d =
     (if isl (dg_url d) \<or> isl (dg_connect d) then [] else frame_events X (map snd (dg_frames d)))"

definition all_events :: "envelope ext \<Rightarrow> 'w dialogue list \<Rightarrow> display_event list" where
  "all_events X ds = concat (map (dialogue_events X) ds)"

text \<open>Every answer of the surroundings that a dialogue holds.\<close>

definition dialogue_answers :: "('w \<Rightarrow> bool) \<Rightarrow> 'w dialogue \<Rightarrow> bool" where
  "dialogue_answers A d \<longleftrightarrow> (\<forall>(ws, f) \<in> set (dg_frames d). \<forall>k. A (ws k))"

context display_backend
begin

lemma line_shows:
  assumes "up b" "answers w"
  shows "shown (client_line X present w l b) =
      shown b @ List.map_filter view (List.map_filter (line_event X) [l])"
    "up (client_line X present w l b)"
  using present_up[OF assms]
  by (auto simp: client_line_def line_event_def Let_def map_filter_simps assms(1) split: option.split)

lemma map_filter_append_shows:
  "List.map_filter f (List.map_filter g (l # ls)) =
     List.map_filter f (List.map_filter g [l]) @ List.map_filter f (List.map_filter g ls)"
  by (simp add: map_filter_simps split: option.split)

lemma lines_show:
  "\<lbrakk>up b; \<forall>k. answers (ws k)\<rbrakk> \<Longrightarrow>
     shown (client_lines X present ws k ls b) =
       shown b @ List.map_filter view (List.map_filter (line_event X) ls) \<and>
     up (client_lines X present ws k ls b)"
proof (induction ls arbitrary: k b)
  case Nil
  then show ?case by (simp add: map_filter_simps)
next
  case (Cons l ls)
  show ?case
    using Cons.IH[of "client_line X present (ws k) l b" "Suc k"] line_shows[of b "ws k" X l] Cons.prems
      map_filter_append_shows[of view "line_event X" l ls]
    by simp
qed

lemma map_filter_append: "List.map_filter f (xs @ ys) = List.map_filter f xs @ List.map_filter f ys"
  by (simp add: List.map_filter_def)

lemma reader_shows:
  "\<lbrakk>up b; \<forall>(ws, f) \<in> set fs. \<forall>k. answers (ws k)\<rbrakk> \<Longrightarrow>
     shown (snd (client_reader X present fs b)) =
       shown b @ List.map_filter view (frame_events X (map snd fs)) \<and>
     up (snd (client_reader X present fs b))"
proof (induction fs arbitrary: b)
  case Nil
  then show ?case by (simp add: map_filter_simps)
next
  case (Cons x fs)
  obtain ws fr where x: "x = (ws, fr)" by fastforce
  show ?case
  proof (cases fr)
    case (CfText str)
    have "\<forall>k. answers (ws k)" using Cons.prems x by simp
    from lines_show[OF Cons.prems(1) this, of X 0 "str_lines str"] Cons.IH Cons.prems show ?thesis
      by (simp add: x CfText map_filter_append)
  qed (use Cons x in \<open>simp_all add: map_filter_simps\<close>)
qed

lemma session_shows:
  assumes "up (cl_backend c)" "dialogue_answers answers d"
  shows "shown (cl_backend (snd (client_session X present d c))) =
      shown (cl_backend c) @ List.map_filter view (dialogue_events X d) \<and>
    up (cl_backend (snd (client_session X present d c)))"
  using reader_shows[of "cl_backend c" "dg_frames d" X] assms
  by (auto simp: client_session_def dialogue_answers_def dialogue_events_def Let_def map_filter_simps
      split: sum.split prod.split)

lemma run_shows:
  "\<lbrakk>up (cl_backend c); \<forall>d \<in> set ds. dialogue_answers answers d\<rbrakk> \<Longrightarrow>
     shown (cl_backend (snd (client_run X present ds k c))) =
       shown (cl_backend c) @ List.map_filter view (all_events X ds)"
proof (induction ds arbitrary: k c)
  case Nil
  then show ?case by (simp add: all_events_def map_filter_simps)
next
  case (Cons d ds)
  obtain r c' where s: "client_session X present d c = (r, c')" by fastforce
  from session_shows[of c d X] Cons.prems s Cons.IH[of c'] show ?case
    by (cases r) (simp_all add: all_events_def map_filter_append Let_def case_prod_beta)
qed

end

text \<open>
  The D-Bus backend and the recording backend show the user the same: whatever frames and
  failures a sequence of sessions meets, each shows exactly the toasts of the readable events, in
  order, provided the D-Bus backend is started and the notification daemon answers.
\<close>

lemma backends_show_same:
  assumes "lb_conn (cl_backend c)" "\<forall>d \<in> set ds. dialogue_answers daemon_answers d"
  shows "map fst (lb_shown (cl_backend (snd (client_run X (linux_present I) ds k c)))) =
      map fst (lb_shown (cl_backend c)) @ List.map_filter (toast_of I) (all_events X ds) \<and>
    mk_toasts (cl_backend (snd (client_run X (\<lambda>_ :: unit. mock_present I) ds' k' c'))) =
      mk_toasts (cl_backend c') @ List.map_filter (toast_of I) (all_events X ds')"
  by (intro conjI linux_backend.run_shows[OF assms] mock_backend.run_shows)
    (simp_all add: dialogue_answers_def)

definition demo_shown_event :: display_event where
  "demo_shown_event = \<lparr>de_kind = ''phone.offline'', de_device_id = 7, de_envelope_id = 3, de_timestamp = 5,
     de_payload = JNull, de_summary = JNull\<rparr>"

definition demo_line_ext :: "envelope ext" where
  "demo_line_ext = demo_ext\<lparr>json_parse :=
     (\<lambda>s. if s = ''e'' then Some (enc_display_event demo_ext demo_shown_event) else None)\<rparr>"

definition demo_dialogue :: "'w \<Rightarrow> 'w dialogue" where
  "demo_dialogue w = \<lparr>dg_url = Inr ''ws'', dg_connect = Inr (),
     dg_frames = [(\<lambda>_. w, CfBinary), (\<lambda>_. w, CfText ''e''), (\<lambda>_. w, CfError ''reset'')]\<rparr>"

lemma demo_line_event: "line_event demo_line_ext ''e'' = Some demo_shown_event"
proof -
  have "uuid_ok demo_line_ext" using demo_uuid_ok by (simp add: uuid_ok_def demo_line_ext_def)
  moreover have "enc_display_event demo_ext demo_shown_event = enc_display_event demo_line_ext demo_shown_event"
    by (simp add: enc_display_event_def demo_line_ext_def enc_uuid_def)
  ultimately have "dec_display_event demo_line_ext (enc_display_event demo_ext demo_shown_event) = Some demo_shown_event"
    using rt_display_event[of demo_line_ext demo_shown_event] by (simp add: demo_shown_event_def i64_range_def)
  moreover have "json_parse demo_line_ext ''e'' = Some (enc_display_event demo_ext demo_shown_event)"
    by (simp add: demo_line_ext_def)
  moreover have "trim ''e'' = ''e''" by code_simp
  ultimately show ?thesis by (simp add: line_event_def)
qed

lemma demo_dialogue_events: "dialogue_events demo_line_ext (demo_dialogue w) = [demo_shown_event]"
proof -
  have "str_lines ''e'' = [''e'']" by code_simp
  then show ?thesis
    by (simp add: dialogue_events_def demo_dialogue_def demo_line_event map_filter_simps)
qed

theorem backends_show_same_witness:
  "\<exists>c ds. lb_conn (cl_backend c) \<and>
     map fst (lb_shown (cl_backend (snd (client_run demo_line_ext (linux_present []) ds 500 c)))) =
       [translate_phone_offline [] 3 7 JNull]"
proof -
  let ?c = "\<lparr>cl_backend = linux_new\<lparr>lb_conn := True\<rparr>, cl_sink = None\<rparr>"
  have a: "lb_conn (cl_backend ?c)"
    "\<forall>d \<in> set [demo_dialogue (Inr 4)]. dialogue_answers daemon_answers d"
    by (simp_all add: dialogue_answers_def demo_dialogue_def)
  have "toast_of [] demo_shown_event = Some (translate_phone_offline [] 3 7 JNull)"
    by (simp add: toast_of_def demo_shown_event_def translate_via_event_def)
  then show ?thesis
    using conjunct1[OF backends_show_same[OF a, of demo_line_ext "[]" 500]]
    by (intro exI[of _ ?c] exI[of _ "[demo_dialogue (Inr 4)]"])
      (simp add: all_events_def demo_dialogue_events map_filter_simps linux_new_def)
qed

section \<open>The reconnect loop\<close>

text \<open>The result of a session does not depend on the client it runs in.\<close>

fun reader_ok :: "client_frame list \<Rightarrow> bool" where
  "reader_ok (CfError e # fs) = False"
| "reader_ok (CfClose # fs) = True"
| "reader_ok (f # fs) = reader_ok fs"
| "reader_ok [] = True"

definition dialogue_ok :: "'w dialogue \<Rightarrow> bool" where
  "dialogue_ok d \<longleftrightarrow>
     \<not> isl (dg_url d) \<and> \<not> isl (dg_connect d) \<and> reader_ok (map snd (dg_frames d))"

lemma reader_result: "isl (fst (client_reader X P fs b)) = (\<not> reader_ok (map snd fs))"
  by (induction X P fs b rule: client_reader.induct) (auto split: client_frame.split)

lemma session_result: "isl (fst (client_session X P d c)) = (\<not> dialogue_ok d)"
  using reader_result[of X P "dg_frames d" "cl_backend c"]
  by (auto simp: client_session_def dialogue_ok_def Let_def split: sum.split prod.split)

text \<open>How many sessions in a row have failed just before the \<open>i\<close>-th.\<close>

definition failures_before :: "bool list \<Rightarrow> nat \<Rightarrow> nat" where
  "failures_before rs i = length (takeWhile Not (rev (take i rs)))"

lemma failures_before_0 [simp]: "failures_before rs 0 = 0"
  by (simp add: failures_before_def)

lemma failures_before_Suc:
  "failures_before (r # rs) (Suc i) =
     (if r \<or> True \<in> set (take i rs) then failures_before rs i else Suc (failures_before rs i))"
proof (cases "True \<in> set (take i rs)")
  case True
  then show ?thesis by (simp add: failures_before_def takeWhile_append1)
next
  case False
  then have all: "takeWhile Not (rev (take i rs)) = rev (take i rs)"
    by (auto simp: takeWhile_eq_all_conv)
  have "takeWhile Not (rev (take i rs) @ [r]) = rev (take i rs) @ (if r then [] else [r])"
    using False by (subst takeWhile_append2) auto
  then show ?thesis by (simp add: failures_before_def all False)
qed

text \<open>The sleep after \<open>k\<close> failures, when the first one starts from \<open>b\<close>.\<close>

lemma backoff_step: "b \<le> MAX_BACKOFF \<Longrightarrow> min (min (b * 2) MAX_BACKOFF * 2 ^ k) MAX_BACKOFF = min (b * 2 ^ Suc k) MAX_BACKOFF"
proof (cases "b * 2 \<le> MAX_BACKOFF")
  case False
  have "MAX_BACKOFF \<le> MAX_BACKOFF * 2 ^ k" "b * 2 \<le> b * 2 ^ Suc k" by simp_all
  then have "MAX_BACKOFF \<le> b * 2 ^ Suc k" using False by linarith
  then show ?thesis using False \<open>MAX_BACKOFF \<le> MAX_BACKOFF * 2 ^ k\<close> by (simp only: min_absorb2 nat_le_linear not_le less_imp_le)
qed (simp add: mult.assoc)

lemma run_sleeps:
  "b \<le> MAX_BACKOFF \<Longrightarrow> fst (client_run X P ds b c) =
     map (\<lambda>i. if dialogue_ok (ds ! i) then None
              else Some (min ((if True \<in> set (map dialogue_ok (take i ds)) then INITIAL_BACKOFF else b) *
                              2 ^ failures_before (map dialogue_ok ds) i) MAX_BACKOFF)) [0..<length ds]"
proof (induction ds arbitrary: b c)
  case Nil
  then show ?case by simp
next
  case (Cons d ds)
  obtain r c' where s: "client_session X P d c = (r, c')" by fastforce
  have up: "map f [0..<length (d # ds)] = f 0 # map (\<lambda>i. f (Suc i)) [0..<length ds]" for f :: "nat \<Rightarrow> nat option"
    by (simp add: upt_conv_Cons map_Suc_upt[symmetric] del: upt_Suc)
  have small: "INITIAL_BACKOFF \<le> MAX_BACKOFF" by (simp add: INITIAL_BACKOFF_def MAX_BACKOFF_def)
  show ?case
  proof (cases r)
    case (Inl e)
    then have bad: "\<not> dialogue_ok d" using session_result[of X P d c] s by simp
    show ?thesis
      using Cons.IH[of "min (b * 2) MAX_BACKOFF" c'] Cons.prems
      unfolding up by (simp add: s Inl bad Let_def case_prod_beta failures_before_Suc take_map backoff_step)
  next
    case (Inr u)
    then have "dialogue_ok d" using session_result[of X P d c] s by simp
    then show ?thesis
      using Cons.IH[OF small, of c']
      unfolding up by (simp add: s Inr Let_def case_prod_beta failures_before_Suc take_map)
  qed
qed

text \<open>
  The sleeps of the reconnect loop, whatever the backend: a session that ended cleanly is
  followed by the next at once, and a failed one by a sleep of 500 ms doubled for each failure
  directly before it, at most 30 s.
\<close>

lemma backoff_schedule:
  "fst (client_run X P ds INITIAL_BACKOFF c) =
     map (\<lambda>i. if dialogue_ok (ds ! i) then None
              else Some (min (500 * 2 ^ failures_before (map dialogue_ok ds) i) 30000)) [0..<length ds]"
  using run_sleeps[of INITIAL_BACKOFF X P ds c] by (simp add: INITIAL_BACKOFF_def MAX_BACKOFF_def)

section \<open>The program\<close>

text \<open>
  The D-Bus build of the program: main starts the backend it created, whose sink is its own, and
  hands the client another one. Frames arrive, the user clicks, notifications close, the writer
  task drains the client's channel, sessions begin and end, in any order.
\<close>

record desk =
  dk_client :: "linux client"
  dk_sent :: "display_action list"

definition desk_init :: "linux \<Rightarrow> desk" where
  "desk_init b = \<lparr>dk_client = \<lparr>cl_backend = b, cl_sink = sink_new\<rparr>, dk_sent = []\<rparr>"

definition desk_backend :: "(linux \<Rightarrow> linux) \<Rightarrow> desk \<Rightarrow> desk" where
  "desk_backend f k = k\<lparr>dk_client := (dk_client k)\<lparr>cl_backend := f (cl_backend (dk_client k))\<rparr>\<rparr>"

definition desk_sink :: "(action_sink \<Rightarrow> action_sink) \<Rightarrow> desk \<Rightarrow> desk" where
  "desk_sink f k = k\<lparr>dk_client := (dk_client k)\<lparr>cl_sink := f (cl_sink (dk_client k))\<rparr>\<rparr>"

inductive desk_step :: "envelope ext \<Rightarrow> display_i18n \<Rightarrow> desk \<Rightarrow> desk \<Rightarrow> bool" for X I where
  connected: "desk_step X I k (desk_sink (sink_bind action_chan_new) k)"
| received: "desk_step X I k (desk_backend (client_lines X (linux_present I) ws 0 (str_lines line)) k)"
| clicked: "desk_step X I k (desk_backend (action_invoked prompt i key) k)"
| closed: "desk_step X I k (desk_backend (notification_closed i) k)"
| written: "cl_sink (dk_client k) = Some ch \<Longrightarrow> ac_queue ch = a # as \<Longrightarrow>
    desk_step X I k ((desk_sink (\<lambda>_. Some (ch\<lparr>ac_queue := as\<rparr>)) k)\<lparr>dk_sent := dk_sent k @ [a]\<rparr>)"
| ended: "desk_step X I k (desk_sink sink_unbind k)"

inductive desk_reach :: "envelope ext \<Rightarrow> display_i18n \<Rightarrow> desk \<Rightarrow> bool" for X I where
  start: "linux_start bus_ok linux_new = (Inr (), b) \<Longrightarrow> desk_reach X I (desk_init b)"
| step: "desk_reach X I k \<Longrightarrow> desk_step X I k k' \<Longrightarrow> desk_reach X I k'"

inductive_cases desk_stepE: "desk_step X I k k'"

lemmas desk_defs = desk_backend_def desk_sink_def

lemma linux_present_sink [simp]: "lb_sink (snd (linux_present I reply e b)) = lb_sink b"
  by (metis linux_present_cases prod.collapse)

lemma client_lines_sink [simp]: "lb_sink (client_lines X (linux_present I) ws k ls b) = lb_sink b"
  by (induction ls arbitrary: k b) (auto simp: client_line_def Let_def split: option.split)

text \<open>Without a sink of its own that is bound, a click changes nothing.\<close>

lemma enqueue_unbound [simp]: "lb_sink b = None \<Longrightarrow> linux_enqueue a b = b"
  by (simp add: linux_enqueue_def sink_try_send_def)

lemma click_unbound [simp]: "lb_sink b = None \<Longrightarrow> action_invoked prompt i key b = b"
  by (simp add: action_invoked_def Let_def split: option.split sum.split)

definition desk_silent :: "desk \<Rightarrow> bool" where
  "desk_silent k \<longleftrightarrow> lb_sink (cl_backend (dk_client k)) = None \<and> dk_sent k = [] \<and>
     (\<forall>ch. cl_sink (dk_client k) = Some ch \<longrightarrow> ac_queue ch = [])"

lemma desk_step_silent: "desk_step X I k k' \<Longrightarrow> desk_silent k \<Longrightarrow> desk_silent k'"
  by (erule desk_stepE)
    (auto simp: desk_silent_def desk_defs sink_bind_def sink_unbind_def action_chan_new_def
      notification_closed_def)

text \<open>
  C21: The desktop program never sends an action: whatever arrives and whatever the user clicks,
  nothing is ever written to the daemon, because the clicks go to the sink the backend created
  for itself, which nobody binds, and every click is lost.
\<close>

theorem desk_never_sends:
  assumes "desk_reach X I k"
  shows "dk_sent k = [] \<and>
    action_invoked prompt i key (cl_backend (dk_client k)) = cl_backend (dk_client k)"
proof -
  have "desk_silent k" using assms
  proof induction
    case (start bus_ok b)
    then show ?case
      by (auto simp: desk_silent_def desk_init_def linux_start_def linux_new_def sink_new_def
          split: if_splits)
  qed (rule desk_step_silent)
  then show ?thesis by (simp add: desk_silent_def)
qed

theorem desk_never_sends_witness:
  "\<exists>k. desk_reach demo_line_ext [] k \<and> cl_sink (dk_client k) \<noteq> None \<and> dk_sent k = [] \<and>
     lb_conn (cl_backend (dk_client k))"
proof -
  let ?b = "linux_new\<lparr>lb_conn := True\<rparr>"
  let ?k = "desk_backend (action_invoked (\<lambda>_. Inr ''ok'') 4 REPLY_ACTION)
    (desk_sink (sink_bind action_chan_new) (desk_init ?b))"
  have "desk_reach demo_line_ext [] (desk_init ?b)"
    by (rule desk_reach.start[of True]) (simp add: linux_start_def)
  then have r: "desk_reach demo_line_ext [] ?k"
    by (blast intro: desk_reach.step desk_step.connected desk_step.clicked)
  have "lb_sink ?b = None" by (simp add: linux_new_def sink_new_def)
  then have "cl_sink (dk_client ?k) \<noteq> None \<and> lb_conn (cl_backend (dk_client ?k))"
    by (simp add: desk_defs desk_init_def sink_bind_def)
  then show ?thesis using desk_never_sends[OF r] r by blast
qed

section \<open>From a toast to the center\<close>

text \<open>A toast the daemon numbered \<open>i\<close> is remembered under \<open>i\<close>.\<close>

lemma dispatch_toast_ok:
  "lb_conn b \<Longrightarrow> dispatch_toast (Inr i) t k pk ad ci ni cat b =
     (Inr (), b\<lparr>lb_map := hm_insert i
        \<lparr>nf_envelope_id = to_envelope_id t, nf_device_id = to_device_id t, nf_kind = k,
         nf_address = ad, nf_call_id = ci, nf_package = pk, nf_notif_id = ni\<rparr> (lb_map b),
        lb_shown := lb_shown b @ [(t, cat)]\<rparr>)"
  by (simp add: dispatch_toast_def linux_notify_def)

lemma enqueue_room:
  "lb_sink b = Some c \<Longrightarrow> \<not> ac_closed c \<Longrightarrow> length (ac_queue c) < ACTION_BUFFER \<Longrightarrow>
     linux_enqueue a b = b\<lparr>lb_sink := Some (c\<lparr>ac_queue := ac_queue c @ [a]\<rparr>)\<rparr>"
  by (simp add: linux_enqueue_def sink_try_send_def)

definition reply_to :: "display_event \<Rightarrow> string option \<Rightarrow> string \<Rightarrow> display_action" where
  "reply_to e to txt = \<lparr>da_kind = ''sms.reply'', da_envelope_id = de_envelope_id e,
     da_device_id = de_device_id e, da_to = to, da_body = Some txt, da_call_id = None\<rparr>"

text \<open>A click on Reply queues the answer with the address the toast's event carried.\<close>

lemma reply_click:
  assumes "lb_conn b" "lb_sink b = Some c" "\<not> ac_closed c" "length (ac_queue c) < ACTION_BUFFER" "txt \<noteq> []"
    and "to_envelope_id t = de_envelope_id e" "to_device_id t = de_device_id e"
  shows "lb_sink (action_invoked (\<lambda>_. Inr txt) i REPLY_ACTION
      (snd (dispatch_toast (Inr i) t k pk ad ci ni cat b))) =
    Some (c\<lparr>ac_queue := ac_queue c @ [reply_to e ad txt]\<rparr>)"
  using assms unfolding dispatch_toast_ok[OF assms(1)]
  by (simp add: action_invoked_def action_for_key_def ref_action_def reply_to_def Let_def enqueue_room)


definition demo_sms_event :: display_event where
  "demo_sms_event = demo_shown_event\<lparr>de_kind := ''sms.received'', de_payload := enc_sms_received
     \<lparr>sr_id = ''i'', sr_address = ''55'', sr_body = ''yo'', sr_received_at = 5, sr_sim_slot = None,
      sr_subscription_id = None\<rparr>\<rparr>"


end
