(* ===== verification/Platforms.thy ===== *)
theory Platforms
  imports Windows DeskClient
begin

text \<open>
  The backend of each platform (DeskDisplay/src/backends/mod.rs and the rest of mock.rs, stub.rs
  and windows.rs): \<open>create\<close>, whose conditional compilation is the argument \<open>platform\<close>,
  and the operations of the backend it returns. The lemmas say what any backend has been given
  after the sessions of the client, and that an embedding of backends commutes with the client.
\<close>

section \<open>The rest of the backends\<close>

definition AUMID :: string where "AUMID = ''PhoneBridge.Display''"

text \<open>The trait's own \<open>stop\<close>, which the no-op backend keeps.\<close>

definition default_stop :: "'s \<Rightarrow> (display_error + unit) \<times> 's" where
  "default_stop s = (Inr (), s)"

definition mock_start :: "mock \<Rightarrow> (display_error + unit) \<times> mock" where
  "mock_start m = (Inr (), m)"

definition mock_stop :: "mock \<Rightarrow> (display_error + unit) \<times> mock" where
  "mock_stop m = (Inr (), m)"

definition mock_record_action :: "display_action \<Rightarrow> mock \<Rightarrow> mock" where
  "mock_record_action a m = m\<lparr>mk_actions := mk_actions m @ [a]\<rparr>"

definition classify :: "string \<Rightarrow> toast_kind" where
  "classify kind = from_event_kind kind"

definition stub_start :: "unit \<Rightarrow> (display_error + unit) \<times> unit" where
  "stub_start s = (Inr (), s)"

definition windows_start :: "windows \<Rightarrow> (display_error + unit) \<times> windows" where
  "windows_start w = (Inr (), w)"

definition windows_stop :: "windows \<Rightarrow> (display_error + unit) \<times> windows" where
  "windows_stop w = (Inr (), w)"

section \<open>The backend of a platform\<close>

datatype platform = PlLinux | PlWindows | PlOther

datatype backend = BkLinux linux | BkWindows windows | BkStub

definition create :: "platform \<Rightarrow> display_error + backend" where
  "create p =
     (case p of
        PlLinux \<Rightarrow> Inr (BkLinux linux_new)
      | PlWindows \<Rightarrow> Inr (BkWindows windows_new)
      | PlOther \<Rightarrow> Inr BkStub)"

definition wrapped :: "('a \<Rightarrow> 'b) \<Rightarrow> 'r \<times> 'a \<Rightarrow> 'r \<times> 'b" where
  "wrapped f r = (fst r, f (snd r))"

lemma wrapped_simps [simp]: "fst (wrapped f r) = fst r" "snd (wrapped f r) = f (snd r)"
  by (simp_all add: wrapped_def)

text \<open>\<open>bus_ok\<close> is whether the session bus answers, \<open>reply\<close> the notification daemon's answer.\<close>

fun backend_start :: "bool \<Rightarrow> backend \<Rightarrow> (display_error + unit) \<times> backend" where
  "backend_start bus_ok (BkLinux b) = wrapped BkLinux (linux_start bus_ok b)"
| "backend_start bus_ok (BkWindows w) = wrapped BkWindows (windows_start w)"
| "backend_start bus_ok BkStub = wrapped (\<lambda>_. BkStub) (stub_start ())"

fun backend_present ::
  "display_i18n \<Rightarrow> string + u32 \<Rightarrow> display_event \<Rightarrow> backend \<Rightarrow> (display_error + unit) \<times> backend" where
  "backend_present I reply e (BkLinux b) = wrapped BkLinux (linux_present I reply e b)"
| "backend_present I reply e (BkWindows w) = wrapped BkWindows (windows_present I e w)"
| "backend_present I reply e BkStub = wrapped (\<lambda>_. BkStub) (stub_present e ())"

fun backend_stop :: "backend \<Rightarrow> (display_error + unit) \<times> backend" where
  "backend_stop (BkLinux b) = wrapped BkLinux (linux_stop b)"
| "backend_stop (BkWindows w) = wrapped BkWindows (windows_stop w)"
| "backend_stop BkStub = wrapped (\<lambda>_. BkStub) (default_stop ())"

text \<open>What the user of a backend has been shown: only the D-Bus backend shows anything.\<close>

fun backend_shown :: "backend \<Rightarrow> toast list" where
  "backend_shown (BkLinux b) = map fst (lb_shown b)"
| "backend_shown _ = []"

fun backend_pending :: "backend \<Rightarrow> windows" where
  "backend_pending (BkWindows w) = w"
| "backend_pending _ = []"

section \<open>What a backend is given\<close>

text \<open>The events of the sessions, each with the answers of the surroundings at its line.\<close>

definition lines_given :: "envelope ext \<Rightarrow> (nat \<Rightarrow> 'w) \<Rightarrow> nat \<Rightarrow> string list \<Rightarrow> ('w \<times> display_event) list" where
  "lines_given X ws k ls =
     List.map_filter (\<lambda>(i, l). map_option (Pair (ws i)) (line_event X l)) (enumerate k ls)"

fun frames_given :: "envelope ext \<Rightarrow> ((nat \<Rightarrow> 'w) \<times> client_frame) list \<Rightarrow> ('w \<times> display_event) list" where
  "frames_given X [] = []"
| "frames_given X ((ws, CfText text) # fs) = lines_given X ws 0 (str_lines text) @ frames_given X fs"
| "frames_given X ((ws, CfBinary) # fs) = frames_given X fs"
| "frames_given X ((ws, CfOther) # fs) = frames_given X fs"
| "frames_given X ((ws, CfClose) # fs) = []"
| "frames_given X ((ws, CfError e) # fs) = []"

definition given :: "envelope ext \<Rightarrow> 'w dialogue list \<Rightarrow> ('w \<times> display_event) list" where
  "given X ds = concat (map (\<lambda>d.
     if isl (dg_url d) \<or> isl (dg_connect d) then [] else frames_given X (dg_frames d)) ds)"

definition present_all :: "('w, 's) presenter \<Rightarrow> ('w \<times> display_event) list \<Rightarrow> 's \<Rightarrow> 's" where
  "present_all P = fold (\<lambda>(w, e) b. snd (P w e b))"

lemma present_all_simps [simp]:
  "present_all P [] b = b"
  "present_all P ((w, e) # es) b = present_all P es (snd (P w e b))"
  "present_all P (es @ es') b = present_all P es' (present_all P es b)"
  by (simp_all add: present_all_def)

lemma lines_given_simps [simp]:
  "lines_given X ws k [] = []"
  "lines_given X ws k (l # ls) =
     (case line_event X l of None \<Rightarrow> [] | Some e \<Rightarrow> [(ws k, e)]) @ lines_given X ws (Suc k) ls"
  by (simp_all add: lines_given_def map_filter_simps split: option.split)

lemma lines_presented: "client_lines X P ws k ls b = present_all P (lines_given X ws k ls) b"
  by (induction ls arbitrary: k b)
    (simp_all add: client_line_def line_event_def Let_def split: option.split)

lemma reader_presented: "snd (client_reader X P fs b) = present_all P (frames_given X fs) b"
  by (induction X fs arbitrary: b rule: frames_given.induct) (simp_all add: lines_presented)

lemma session_presented:
  "cl_backend (snd (client_session X P d c)) = present_all P (given X [d]) (cl_backend c)"
  by (simp add: client_session_def given_def reader_presented[symmetric] Let_def
      split: sum.split prod.split)

lemma given_Cons: "given X (d # ds) = given X [d] @ given X ds"
  by (simp add: given_def)

text \<open>After its sessions the client's backend has been presented what they gave, in order.\<close>

lemma run_presented:
  "cl_backend (snd (client_run X P ds k c)) = present_all P (given X ds) (cl_backend c)"
proof (induction ds arbitrary: k c)
  case Nil
  then show ?case by (simp add: given_def)
next
  case (Cons d ds)
  obtain r c' where s: "client_session X P d c = (r, c')" by fastforce
  then show ?case
    using Cons.IH[of _ c'] session_presented[of X P d c]
    by (cases r) (simp_all add: given_Cons[of X d ds] Let_def case_prod_beta)
qed

lemma lines_given_events: "map snd (lines_given X ws k ls) = List.map_filter (line_event X) ls"
  by (induction ls arbitrary: k) (simp_all add: map_filter_simps split: option.split)

lemma frames_given_events: "map snd (frames_given X fs) = frame_events X (map snd fs)"
  by (induction X fs rule: frames_given.induct) (simp_all add: lines_given_events)

lemma given_events: "map snd (given X ds) = all_events X ds"
  by (induction ds)
    (simp_all add: given_def all_events_def dialogue_events_def frames_given_events)

text \<open>An embedding that commutes with the presentations commutes with a run.\<close>

lemma present_all_embed:
  assumes "\<And>w e b. snd (P w e (f b)) = f (snd (Q w e b))"
  shows "present_all P es (f b) = f (present_all Q es b)"
  by (induction es arbitrary: b) (auto simp: assms)

text \<open>A backend that does not look at its surroundings is a fold over the events.\<close>

lemma present_all_events:
  assumes "\<And>w e b. snd (P w e b) = g e b"
  shows "present_all P es b = fold g (map snd es) b"
  by (induction es arbitrary: b) (auto simp: assms)

lemma windows_run_given:
  "present_all (\<lambda>_. windows_present I) (given X ds) w = windows_run I (all_events X ds) w"
  by (subst present_all_events[where g = "\<lambda>e w. snd (windows_present I e w)"])
    (simp_all add: given_events windows_run_def)

lemma backend_run:
  "cl_backend (snd (client_run X (backend_present I) ds k c)) =
     (case cl_backend c of
        BkLinux b \<Rightarrow> BkLinux (present_all (linux_present I) (given X ds) b)
      | BkWindows w \<Rightarrow> BkWindows (windows_run I (all_events X ds) w)
      | BkStub \<Rightarrow> BkStub)"
proof (cases "cl_backend c")
  case (BkLinux b)
  then show ?thesis by (simp add: run_presented present_all_embed[where f = BkLinux and Q = "linux_present I"])
next
  case (BkWindows w)
  then show ?thesis
    by (simp add: run_presented windows_run_given[symmetric]
        present_all_embed[where f = BkWindows and Q = "\<lambda>_. windows_present I"])
next
  case BkStub
  have "present_all (backend_present I) es BkStub = BkStub" for es :: "((string + u32) \<times> display_event) list"
    by (induction es) auto
  then show ?thesis using BkStub by (simp add: run_presented)
qed

text \<open>A text is looked up, so equal look-ups give equal toasts.\<close>

lemma toast_of_cong:
  assumes "hm_get I = hm_get J"
  shows "toast_of I = toast_of J"
proof -
  have i: "i18n_t I = i18n_t J" using assms by (simp add: i18n_t_def fun_eq_iff)
  then have "action_list_for k I = action_list_for k J" for k by (simp add: action_list_for_def)
  with i have "translate_notification I = translate_notification J" "translate_sms I = translate_sms J"
    "translate_call_incoming I = translate_call_incoming J" "translate_call_state I = translate_call_state J"
    "translate_action_result I = translate_action_result J" "translate_phone_offline I = translate_phone_offline J"
    by (intro ext; simp add: translate_notification_def translate_sms_def translate_call_incoming_def
        translate_call_state_def translate_action_result_def translate_phone_offline_def)+
  then show ?thesis by (intro ext) (simp add: toast_of_def translate_via_event_def)
qed

end
