(* ===== verification/DeskStart.thy ===== *)
theory DeskStart
  imports DeskConfig Platforms
begin

text \<open>
  The start of the desktop display (DeskDisplay/src/main.rs): what its options print, the exit
  status of every failure, and the state the client loop begins in, on every platform. The loop
  never returns (\<open>client_run\<close> gives what it does for the sessions it has been through), and
  what the user is shown by it closes the theory.
\<close>

section \<open>The starter configuration\<close>

text \<open>The lines of the text; the long dash in one of them is written through its UTF-8 encoding.\<close>

definition starter_lines :: "string list" where
  "starter_lines =
    [''# deskdisplay configuration'',
     ''#'',
     ''# Location: $XDG_CONFIG_HOME/phonebridge/display.toml'',
     ''# (default: ~/.config/phonebridge/display.toml)'',
     '''',
     ''[daemon]'',
     ''# URL of the message-center HTTP / WS endpoint.'',
     ''url = '' @ [CHR 0x22] @ ''http://127.0.0.1:8443'' @ [CHR 0x22],
     ''# Either `token` (literal) or `token_file` (path). The'',
     ''# latter is the typical setup: the daemon writes'',
     ''# `~/.config/phonebridge/display.token` (mode 0600) and'',
     ''# this service reads it directly.'',
     ''token_file = '' @ [CHR 0x22] @ ''/root/.config/phonebridge/display.token'' @ [CHR 0x22],
     '''',
     ''[i18n]'',
     ''# `auto` (default) '' @ utf8 [0x2014] @ '' fetch from daemon, fall back to'',
     ''# LANG-derived builtin.'',
     ''locale = '' @ [CHR 0x22] @ ''auto'' @ [CHR 0x22]]"

definition DEFAULT_CONFIG_DOC :: string where
  "DEFAULT_CONFIG_DOC = concat (map (\<lambda>l. l @ [CHR 0x0A]) starter_lines)"

section \<open>main\<close>

record desk_cli =
  dl_config :: "string option"
  dl_print_config_path :: bool
  dl_print_default_config :: bool

datatype desk_outcome =
    DeskPrinted string
  | DeskExit nat "display_error option"
  | DeskRuns display_config display_i18n "backend client"

text \<open>
  \<open>DisplayI18n::load\<close> asks for the configured locale; \<open>body\<close> is the JSON body that comes
  back, if one does.
\<close>

definition desk_dictionary :: "desk_env \<Rightarrow> json option \<Rightarrow> display_config \<Rightarrow> display_i18n" where
  "desk_dictionary E body cfg = i18n_load (\<not> isl (i18n_url E cfg (dc_locale cfg))) body"

definition desk_main :: "platform \<Rightarrow> desk_env \<Rightarrow> bool \<Rightarrow> bool \<Rightarrow> json option \<Rightarrow> desk_cli \<Rightarrow> desk_outcome" where
  "desk_main P E runtime_ok bus_ok body a =
     (if dl_print_config_path a then DeskPrinted (default_config_path E @ [CHR 0x0A])
      else if dl_print_default_config a then DeskPrinted (DEFAULT_CONFIG_DOC @ [CHR 0x0A])
      else (case (case dl_config a of Some p \<Rightarrow> desk_load_from E p | None \<Rightarrow> desk_load E) of
              Inl e \<Rightarrow> DeskExit 2 (Some e)
            | Inr loaded \<Rightarrow>
                (let cfg = (case dl_config a of Some p \<Rightarrow> loaded\<lparr>dc_config_path := p\<rparr> | None \<Rightarrow> loaded)
                 in if \<not> runtime_ok then DeskExit 2 None
                    else (case create P of
                            Inl e \<Rightarrow> DeskExit 2 (Some e)
                          | Inr b \<Rightarrow>
                              (case backend_start bus_ok b of
                                 (Inl e, _) \<Rightarrow> DeskExit 2 (Some e)
                               | (Inr _, b') \<Rightarrow> DeskRuns cfg (desk_dictionary E body cfg)
                                   \<lparr>cl_backend = b', cl_sink = sink_new\<rparr>)))))"

section \<open>What a start comes to\<close>

text \<open>The configuration the starter text stands for.\<close>

definition starter_toml :: toml_config where
  "starter_toml =
     \<lparr>tc_daemon = Some \<lparr>ds_url = Some ''http://127.0.0.1:8443'', ds_token = None,
        ds_token_file = Some ''/root/.config/phonebridge/display.token''\<rparr>,
      tc_i18n = Some \<lparr>is_locale = Some ''auto''\<rparr>\<rparr>"

text \<open>
  The starter configuration works for root only. Saved as it is printed, the display ends with
  status 2 for want of the token file under /root whenever that file cannot be read, although its
  daemon is on the same host; with no configuration file at all, and no token beside it, the same
  display loads the same address without a token and runs.
\<close>

lemma starter_config_needs_root:
  assumes "kv_toml E DEFAULT_CONFIG_DOC = Inr starter_toml"
    and "kv_file E ''/root/.config/phonebridge/display.token'' = Absent \<or>
      kv_file E ''/root/.config/phonebridge/display.token'' = Unreadable why"
    and "kv_url E ''http://127.0.0.1:8443'' = Inr u" "ur_host u = Some (HostV4 0x7F000001)"
    and "kv_file E path = Stored DEFAULT_CONFIG_DOC" "kv_file E none = Absent"
    and "kv_file E (path_join (default_config_dir E) ''display.token'') = Absent"
  shows "(\<exists>m. desk_main P E True True body
        \<lparr>dl_config = Some path, dl_print_config_path = False, dl_print_default_config = False\<rparr> =
      DeskExit 2 (Some (DeTokenFile m))) \<and>
    is_loopback_daemon_url E ''http://127.0.0.1:8443'' \<and>
    (\<exists>cfg dict c. desk_main P E True True body
        \<lparr>dl_config = Some none, dl_print_config_path = False, dl_print_default_config = False\<rparr> =
      DeskRuns cfg dict c \<and> dc_daemon_url cfg = ''http://127.0.0.1:8443'' \<and> dc_token cfg = [])"
proof -
  have l: "is_loopback_daemon_url E ''http://127.0.0.1:8443''"
    by (simp add: is_loopback_daemon_url_def assms(3,4))
  obtain m where m: "read_token_file E ''/root/.config/phonebridge/display.token'' = Inl (DeTokenFile m)"
    using assms(2) by (auto simp: read_token_file_def)
  have f: "desk_load_from E path = Inl (DeTokenFile m)"
    by (simp add: desk_load_from_def assms(1,5) apply_toml_def starter_toml_def map_ok_def m Let_def)
  have n: "desk_load_from E none = Inr \<lparr>dc_daemon_url = ''http://127.0.0.1:8443'', dc_token = [],
      dc_locale = ''auto'', dc_config_path = none\<rparr>"
    by (simp add: desk_load_from_def assms(6,7) discover_token_def l Let_def)
  show ?thesis using l
    by (cases P) (simp_all add: desk_main_def f n create_def linux_start_def windows_start_def stub_start_def
        wrapped_def Let_def)
qed

definition demo_starter_env :: desk_env where
  "demo_starter_env = \<lparr>kv_file = (\<lambda>p. if p = ''c'' then Stored DEFAULT_CONFIG_DOC else Absent),
     kv_missing = ''no such file'', kv_toml = (\<lambda>_. Inr starter_toml), kv_project_dir = Some ''d'', kv_home = None,
     kv_url = (\<lambda>_. Inr \<lparr>ur_scheme = ''http'', ur_path = ''/'', ur_host = Some (HostV4 0x7F000001)\<rparr>),
     kv_set_scheme = (\<lambda>_ _. True), kv_resolve = (\<lambda>_. None)\<rparr>"

theorem starter_config_needs_root_witness:
  "(\<exists>m. desk_main PlLinux demo_starter_env True True None
        \<lparr>dl_config = Some ''c'', dl_print_config_path = False, dl_print_default_config = False\<rparr> =
      DeskExit 2 (Some (DeTokenFile m))) \<and>
   is_loopback_daemon_url demo_starter_env ''http://127.0.0.1:8443''"
proof -
  let ?u = "\<lparr>ur_scheme = ''http'', ur_path = ''/'', ur_host = Some (HostV4 0x7F000001)\<rparr>"
  have e: "kv_toml demo_starter_env DEFAULT_CONFIG_DOC = Inr starter_toml"
    "kv_file demo_starter_env ''/root/.config/phonebridge/display.token'' = Absent \<or>
      kv_file demo_starter_env ''/root/.config/phonebridge/display.token'' = Unreadable []"
    "kv_url demo_starter_env ''http://127.0.0.1:8443'' = Inr ?u" "ur_host ?u = Some (HostV4 0x7F000001)"
    "kv_file demo_starter_env ''c'' = Stored DEFAULT_CONFIG_DOC" "kv_file demo_starter_env ''n'' = Absent"
    "kv_file demo_starter_env (path_join (default_config_dir demo_starter_env) ''display.token'') = Absent"
    by (simp_all add: demo_starter_env_def default_config_dir_def path_join_def)
  show ?thesis using starter_config_needs_root[OF e, of PlLinux None] by blast
qed

section \<open>What the user is shown\<close>

text \<open>What main hands the client: the created backend after its start, whose bus answered.\<close>

lemma desk_main_runs:
  assumes "desk_main P E runtime_ok bus_ok body a = DeskRuns cfg I c"
  shows "I = desk_dictionary E body cfg \<and>
    cl_backend c = (case P of PlLinux \<Rightarrow> BkLinux (linux_new\<lparr>lb_conn := True\<rparr>)
                   | PlWindows \<Rightarrow> BkWindows windows_new | PlOther \<Rightarrow> BkStub) \<and>
    (P = PlLinux \<longrightarrow> bus_ok)"
  using assms
  by (cases P) (auto simp: desk_main_def create_def linux_start_def windows_start_def stub_start_def wrapped_def
      Let_def split: if_splits sum.splits)

text \<open>The dictionary is the built-in English one, whatever the center answers.\<close>

lemma desk_english:
  assumes "body = None \<or> (\<exists>env q. body = Some (enc_i18n_response (get_i18n env q)))"
  shows "hm_get (desk_dictionary E body cfg) = hm_get builtin_en"
  using assms loaded_english by (auto simp: desk_dictionary_def)

lemma mock_fold:
  "mk_toasts (fold (\<lambda>e m. snd (mock_present I e m)) es m) = mk_toasts m @ List.map_filter (toast_of I) es"
  by (induction es arbitrary: m)
    (auto simp: mock_present_eq toast_of_def mock_record_def map_filter_simps split: sum.split option.split)

definition demo_args :: desk_cli where
  "demo_args = \<lparr>dl_config = Some ''n'', dl_print_config_path = False, dl_print_default_config = False\<rparr>"

lemma demo_main:
  obtains cfg I c where "desk_main PlLinux demo_starter_env True True None demo_args = DeskRuns cfg I c"
proof -
  have "is_loopback_daemon_url demo_starter_env ''http://127.0.0.1:8443''"
    by (simp add: is_loopback_daemon_url_def demo_starter_env_def default_config_dir_def)
  then have "\<exists>cfg. desk_load_from demo_starter_env ''n'' = Inr cfg"
    by (simp add: desk_load_from_def discover_token_def demo_starter_env_def default_config_dir_def path_join_def Let_def)
  then show thesis
    using that by (auto simp: desk_main_def demo_args_def create_def linux_start_def wrapped_def Let_def)
qed

text \<open>
  On Linux the client shows the toasts of the readable events, in English, provided the
  notification daemon answers.
\<close>

lemma linux_shows:
  assumes "desk_main PlLinux E runtime_ok bus_ok body a = DeskRuns cfg I c"
    and "body = None \<or> (\<exists>env q. body = Some (enc_i18n_response (get_i18n env q)))"
    and "\<forall>d \<in> set ds. dialogue_answers daemon_answers d"
  shows "backend_shown (cl_backend (snd (client_run X (backend_present I) ds k c))) =
    List.map_filter (toast_of builtin_en) (all_events X ds)"
proof -
  note r = desk_main_runs[OF assms(1)]
  have "toast_of I = toast_of builtin_en"
    using desk_english[OF assms(2)] r by (auto intro: toast_of_cong)
  moreover have "map fst (lb_shown (present_all (linux_present I) (given X ds) (linux_new\<lparr>lb_conn := True\<rparr>))) =
      List.map_filter (toast_of I) (all_events X ds)"
    using linux_backend.run_shows[of "\<lparr>cl_backend = linux_new\<lparr>lb_conn := True\<rparr>, cl_sink = None\<rparr>" ds X I]
      assms(3) by (simp add: run_presented linux_new_def)
  ultimately show ?thesis using r by (simp add: backend_run)
qed



end
