(* ===== verification/StaticFiles.thy ===== *)
theory StaticFiles
  imports Text
begin

text \<open>
  The embedded web console (message-center/src/static_files.rs). The embedded tree is a map from
  relative paths to contents, and the guess of a media type from a path is the parameter
  \<open>mime\<close>: both are built from libraries and from files that are generated.
\<close>

type_synonym tree = "string \<Rightarrow> string option"

datatype static_response =
    Redirect string
  | Served string string
  | NotFound
  | ArtifactMissing string

definition try_file :: "(string \<Rightarrow> string) \<Rightarrow> tree \<Rightarrow> string \<Rightarrow> static_response option" where
  "try_file mime F rel = map_option (Served (mime rel)) (F rel)"

definition serve_file :: "(string \<Rightarrow> string) \<Rightarrow> tree \<Rightarrow> string \<Rightarrow> static_response" where
  "serve_file mime F rel = (case try_file mime F rel of Some r \<Rightarrow> r | None \<Rightarrow> ArtifactMissing rel)"

text \<open>
  \<open>Path::extension\<close>: what follows the last dot of the last component, unless the dot is its
  first character or the component is the parent directory.
\<close>

definition path_file_name :: "string \<Rightarrow> string option" where
  "path_file_name p =
     (let cs = filter (\<lambda>c. c \<noteq> [] \<and> c \<noteq> ''.'') (split_char (CHR ''/'') p)
      in if cs = [] \<or> last cs = ''..'' then None else Some (last cs))"

definition path_extension :: "string \<Rightarrow> string option" where
  "path_extension p =
     (case path_file_name p of
        None \<Rightarrow> None
      | Some n \<Rightarrow>
          (let parts = split_char (CHR ''.'') n
           in if length parts < 2 \<or> join_char (CHR ''.'') (butlast parts) = [] then None
              else Some (last parts)))"

definition requested_path :: "string \<Rightarrow> string" where
  "requested_path path =
     (let r = dropWhile (\<lambda>c. c = CHR ''/'') path in if r = [] then ''index.html'' else r)"

definition dir_index :: "string \<Rightarrow> string" where
  "dir_index r = trim_slashes r @ ''/index.html''"

definition serve_console_file :: "(string \<Rightarrow> string) \<Rightarrow> tree \<Rightarrow> string \<Rightarrow> static_response" where
  "serve_console_file mime F path =
     (let r = requested_path path
      in case try_file mime F r of
           Some resp \<Rightarrow> resp
         | None \<Rightarrow>
             (case (if r \<noteq> dir_index r then try_file mime F (dir_index r) else None) of
                Some resp \<Rightarrow> resp
              | None \<Rightarrow> if path_extension r \<noteq> None then NotFound else serve_file mime F ''index.html''))"

text \<open>The four routes; \<open>rest\<close> is what follows \<open>/console/\<close>.\<close>

datatype static_route = RouteRoot | RouteConsole | RouteConsoleIndex | RouteConsoleFile string

definition static_router :: "(string \<Rightarrow> string) \<Rightarrow> tree \<Rightarrow> static_route \<Rightarrow> static_response" where
  "static_router mime F r =
     (case r of
        RouteRoot \<Rightarrow> Redirect ''/console/''
      | RouteConsole \<Rightarrow> Redirect ''/console/''
      | RouteConsoleIndex \<Rightarrow> serve_file mime F ''index.html''
      | RouteConsoleFile rest \<Rightarrow> serve_console_file mime F rest)"

fun status_of :: "static_response \<Rightarrow> nat" where
  "status_of (Redirect _) = 308"
| "status_of (Served _ _) = 200"
| "status_of NotFound = 404"
| "status_of (ArtifactMissing _) = 500"

text \<open>
  Routing of the web console, when its index is embedded: no request fails with 500; a path is
  not found exactly when it has an extension and neither it nor an index below it is embedded;
  every other answer under the console is an embedded file, with the media type of its own path,
  and a path without an extension that names nothing embedded gets the index.
\<close>

lemma console_routing:
  assumes "F ''index.html'' = Some index"
  shows "status_of (static_router mime F r) \<noteq> 500 \<and>
    (case r of
       RouteConsoleFile rest \<Rightarrow>
         (let p = requested_path rest
          in static_router mime F r =
             (if F p \<noteq> None then Served (mime p) (the (F p))
              else if F (dir_index p) \<noteq> None then Served (mime (dir_index p)) (the (F (dir_index p)))
              else if path_extension p \<noteq> None then NotFound
              else Served (mime ''index.html'') index))
     | RouteConsoleIndex \<Rightarrow> static_router mime F r = Served (mime ''index.html'') index
     | _ \<Rightarrow> static_router mime F r = Redirect ''/console/'')"
proof (cases r)
  case (RouteConsoleFile rest)
  show ?thesis
    using assms
    by (cases "F (requested_path rest)"; cases "F (dir_index (requested_path rest))")
      (auto simp: RouteConsoleFile static_router_def serve_console_file_def try_file_def serve_file_def Let_def)
qed (use assms in \<open>simp_all add: static_router_def serve_file_def try_file_def\<close>)

theorem console_routing_witness:
  "static_router (\<lambda>_. ''text/html'') [''index.html'' \<mapsto> ''hi''] (RouteConsoleFile ''devices'') = Served ''text/html'' ''hi'' \<and>
   static_router (\<lambda>_. ''text/html'') [''index.html'' \<mapsto> ''hi''] (RouteConsoleFile ''app.js'') = NotFound"
proof -
  let ?F = "[''index.html'' \<mapsto> ''hi'']"
  have h: "?F ''index.html'' = Some ''hi''" by simp
  have "requested_path ''devices'' = ''devices''" "dir_index ''devices'' = ''devices/index.html''"
    "requested_path ''app.js'' = ''app.js''" "dir_index ''app.js'' = ''app.js/index.html''"
    "path_extension ''devices'' = None" "path_extension ''app.js'' = Some ''js''"
    by code_simp+
  then show ?thesis
    using console_routing[of ?F, OF h, of "\<lambda>_. ''text/html''" "RouteConsoleFile ''devices''"]
      console_routing[of ?F, OF h, of "\<lambda>_. ''text/html''" "RouteConsoleFile ''app.js''"]
    by (simp add: Let_def)
qed

end
