(* ===== verification/Api.thy ===== *)
theory Api
  imports System I18n StaticFiles Discovery
begin

text \<open>
  The HTTP interface of the message-center: the table of routes that \<open>build_router\<close>
  (message-center/src/main.rs) puts together from the sub-routers, the extractors of the REST
  handlers (path, query and body of rest.rs and i18n.rs) and one request from the method and the
  path to the answer. axum is outside the repository: which route pattern a path matches, the
  decoding of captured segments and of query strings and the reading of a JSON body are the fields
  of the record \<open>axum\<close>; the table, what each handler extracts and what it does are the
  code's.
\<close>

section \<open>Requests\<close>

datatype http_method = GET | HEAD | POST | DELETE | OPTIONS | OtherMethod string

record http_request =
  hq_method :: http_method
  hq_path :: string
  hq_query :: string
  hq_body :: string

text \<open>
  \<open>ax_route\<close> gives, for the patterns of a router and a path, the pattern that matches and
  what it captures; \<open>ax_segment\<close> the percent-decoded text of a captured segment, when it is
  UTF-8; \<open>ax_query\<close> the pairs of a query string; \<open>ax_json\<close> the JSON value of the
  body, or the status of the rejection (413, 415 or 400).
\<close>

record axum =
  ax_route :: "string list \<Rightarrow> string \<Rightarrow> (string \<times> string list) option"
  ax_segment :: "string \<Rightarrow> string option"
  ax_query :: "string \<Rightarrow> (string \<times> string) list"
  ax_json :: "http_request \<Rightarrow> nat + json"

section \<open>The routes\<close>

text \<open>One constructor per handler.\<close>

datatype endpoint =
    EpHealth | EpGetCert
  | EpListDevices | EpGetDevice | EpRemoveDevice
  | EpListPairings | EpPairStart | EpPairAccept | EpPairReject
  | EpListIncoming | EpIncomingAccept | EpIncomingReject
  | EpListNotifications | EpNotificationsStats | EpMarkRead | EpDismiss | EpMarkAllRead
  | EpListSms | EpConversations | EpSendSms
  | EpListCalls | EpDashboard | EpListAudit | EpDial
  | EpI18n
  | EpWs | EpWsConsole | EpWsDisplay
  | EpOpenapiJson | EpSwaggerHtml
  | EpRootRedirect | EpConsoleRedirect | EpConsoleIndex | EpConsoleFile

type_synonym route_table = "(string \<times> http_method \<times> endpoint) list"

definition rest_router :: route_table where
  "rest_router =
     [(''/health'', GET, EpHealth),
      (''/cert'', GET, EpGetCert),
      (''/devices'', GET, EpListDevices),
      (''/devices/:id'', GET, EpGetDevice),
      (''/devices/:id'', DELETE, EpRemoveDevice),
      (''/pairings'', GET, EpListPairings),
      (''/pair/start'', POST, EpPairStart),
      (''/pair/accept'', POST, EpPairAccept),
      (''/pair/reject'', POST, EpPairReject),
      (''/pair/incoming'', GET, EpListIncoming),
      (''/pair/incoming-accept'', POST, EpIncomingAccept),
      (''/pair/incoming-reject'', POST, EpIncomingReject),
      (''/notifications'', GET, EpListNotifications),
      (''/notifications/stats'', GET, EpNotificationsStats),
      (''/notifications/:device_id/:id/read'', POST, EpMarkRead),
      (''/notifications/:device_id/:id/dismiss'', POST, EpDismiss),
      (''/notifications/mark-all-read'', POST, EpMarkAllRead),
      (''/sms'', GET, EpListSms),
      (''/sms/conversations'', GET, EpConversations),
      (''/sms'', POST, EpSendSms),
      (''/calls'', GET, EpListCalls),
      (''/dashboard'', GET, EpDashboard),
      (''/audit'', GET, EpListAudit),
      (''/dial'', POST, EpDial)]"

definition i18n_router :: route_table where
  "i18n_router = [(''/i18n'', GET, EpI18n)]"

definition docs_router :: route_table where
  "docs_router =
     [(''/console/api-docs/openapi.json'', GET, EpOpenapiJson),
      (''/console/api-docs/'', GET, EpSwaggerHtml),
      (''/console/api-docs'', GET, EpSwaggerHtml)]"

definition console_router :: route_table where
  "console_router =
     [(''/'', GET, EpRootRedirect),
      (''/console'', GET, EpConsoleRedirect),
      (''/console/'', GET, EpConsoleIndex),
      (''/console/*path'', GET, EpConsoleFile)]"

definition nest :: "string \<Rightarrow> route_table \<Rightarrow> route_table" where
  "nest pre R = map (\<lambda>(p, me). (pre @ p, me)) R"

definition build_router :: route_table where
  "build_router =
     nest ''/api/v1'' (rest_router @ i18n_router)
     @ [(''/ws'', GET, EpWs),
        (''/ws/console'', GET, EpWsConsole),
        (''/ws/display'', GET, EpWsDisplay)]
     @ docs_router @ console_router"

text \<open>
  The handler a pattern has for a method; \<open>get\<close> routes answer HEAD requests too.
\<close>

definition served_method :: "http_method \<Rightarrow> http_method" where
  "served_method m = (if m = HEAD then GET else m)"

definition endpoint_of :: "string \<Rightarrow> http_method \<Rightarrow> endpoint option" where
  "endpoint_of p m = map_of (map (\<lambda>(p, m, e). ((p, m), e)) build_router) (p, served_method m)"

section \<open>Extractors\<close>

text \<open>
  \<open>str::parse\<close> for \<open>i64\<close> and \<open>bool\<close>, and a field of a query struct: absent,
  or present once with a value that parses; a repeated field is an error.
\<close>

definition parse_i64 :: "string \<Rightarrow> int option" where
  "parse_i64 s =
     (let (neg, ds) = (case s of [] \<Rightarrow> (False, [])
                         | c # r \<Rightarrow> if c = CHR ''-'' then (True, r)
                                    else if c = CHR ''+'' then (False, r) else (False, s))
      in if ds = [] then None
         else case read_value 0 ds of
                None \<Rightarrow> None
              | Some n \<Rightarrow>
                  (let i = (if neg then - int n else int n)
                   in if i64_range i then Some i else None))"

definition parse_bool :: "string \<Rightarrow> bool option" where
  "parse_bool s = (if s = ''true'' then Some True else if s = ''false'' then Some False else None)"

definition query_field :: "(string \<Rightarrow> 'a option) \<Rightarrow> string \<Rightarrow> (string \<times> string) list \<Rightarrow> 'a option option" where
  "query_field parse k ps =
     (case filter (\<lambda>p. fst p = k) ps of
        [] \<Rightarrow> Some None
      | [p] \<Rightarrow> map_option Some (parse (snd p))
      | _ \<Rightarrow> None)"

record notifications_query =
  nq_device_id :: "uuid option"
  nq_limit :: "int option"
  nq_package :: "string option"
  nq_unread_only :: "bool option"

definition dec_notifications_query ::
  "envelope ext \<Rightarrow> (string \<times> string) list \<Rightarrow> notifications_query option" where
  "dec_notifications_query X ps = do {
     d \<leftarrow> query_field (uuid_parse X) ''device_id'' ps;
     l \<leftarrow> query_field parse_i64 ''limit'' ps;
     p \<leftarrow> query_field Some ''package'' ps;
     u \<leftarrow> query_field parse_bool ''unread_only'' ps;
     Some \<lparr>nq_device_id = d, nq_limit = l, nq_package = p, nq_unread_only = u\<rparr> }"

record sms_query =
  lsq_device_id :: "uuid option"
  lsq_phone_number :: "string option"
  lsq_limit :: "int option"

definition dec_sms_query :: "envelope ext \<Rightarrow> (string \<times> string) list \<Rightarrow> sms_query option" where
  "dec_sms_query X ps = do {
     d \<leftarrow> query_field (uuid_parse X) ''device_id'' ps;
     p \<leftarrow> query_field Some ''phone_number'' ps;
     l \<leftarrow> query_field parse_i64 ''limit'' ps;
     Some \<lparr>lsq_device_id = d, lsq_phone_number = p, lsq_limit = l\<rparr> }"

record calls_query =
  lcq_device_id :: "uuid option"
  lcq_limit :: "int option"

definition dec_calls_query :: "envelope ext \<Rightarrow> (string \<times> string) list \<Rightarrow> calls_query option" where
  "dec_calls_query X ps = do {
     d \<leftarrow> query_field (uuid_parse X) ''device_id'' ps;
     l \<leftarrow> query_field parse_i64 ''limit'' ps;
     Some \<lparr>lcq_device_id = d, lcq_limit = l\<rparr> }"

definition dec_dashboard_query :: "envelope ext \<Rightarrow> (string \<times> string) list \<Rightarrow> uuid option option" where
  "dec_dashboard_query X ps = query_field (uuid_parse X) ''device_id'' ps"

definition dec_audit_query :: "(string \<times> string) list \<Rightarrow> int option option" where
  "dec_audit_query ps = query_field parse_i64 ''limit'' ps"

definition dec_i18n_query :: "(string \<times> string) list \<Rightarrow> string option option" where
  "dec_i18n_query ps = query_field Some ''locale'' ps"

text \<open>The request bodies.\<close>

definition dec_pair_start :: "envelope ext \<Rightarrow> json \<Rightarrow> uuid option" where
  "dec_pair_start X j = do {
     f \<leftarrow> struct_fields 1 j;
     req (dec_uuid X) (f 0 ''device_id'') }"

definition dec_pair_accept_request :: "envelope ext \<Rightarrow> json \<Rightarrow> (uuid \<times> string option) option" where
  "dec_pair_accept_request X j = do {
     f \<leftarrow> struct_fields 2 j;
     u \<leftarrow> req (dec_uuid X) (f 0 ''device_id'');
     c \<leftarrow> opt dec_str (f 1 ''code'');
     Some (u, c) }"

definition dec_pair_reject_request :: "envelope ext \<Rightarrow> json \<Rightarrow> (uuid \<times> string option) option" where
  "dec_pair_reject_request X j = do {
     f \<leftarrow> struct_fields 2 j;
     u \<leftarrow> req (dec_uuid X) (f 0 ''device_id'');
     r \<leftarrow> opt dec_str (f 1 ''reason'');
     Some (u, r) }"

definition dec_incoming_accept :: "envelope ext \<Rightarrow> json \<Rightarrow> uuid option" where
  "dec_incoming_accept X j = do {
     f \<leftarrow> struct_fields 1 j;
     req (dec_uuid X) (f 0 ''device_id'') }"

definition dec_send_sms :: "envelope ext \<Rightarrow> json \<Rightarrow> send_sms_request option" where
  "dec_send_sms X j = do {
     f \<leftarrow> struct_fields 4 j;
     u \<leftarrow> req (dec_uuid X) (f 0 ''device_id'');
     a \<leftarrow> req dec_str (f 1 ''to'');
     b \<leftarrow> req dec_str (f 2 ''body'');
     s \<leftarrow> opt (dec_int i32_range) (f 3 ''subscription_id'');
     Some \<lparr>rq_device_id = u, rq_to = a, rq_body = b, rq_subscription_id = s\<rparr> }"

definition dec_dial_request :: "envelope ext \<Rightarrow> json \<Rightarrow> (uuid \<times> string) option" where
  "dec_dial_request X j = do {
     f \<leftarrow> struct_fields 2 j;
     u \<leftarrow> req (dec_uuid X) (f 0 ''device_id'');
     n \<leftarrow> req dec_str (f 1 ''number'');
     Some (u, n) }"

section \<open>What a request asks for\<close>

text \<open>The handlers that only read, next to \<open>request\<close> for those that write.\<close>

datatype read_request =
    RdHealth | RdCert | RdDevices | RdDevice uuid | RdPairings | RdIncoming
  | RdNotifications notifications_query | RdStats "uuid option"
  | RdSms sms_query | RdConversations "uuid option" | RdCalls calls_query
  | RdDashboard "uuid option" | RdAudit "int option"

definition rest_read :: "app \<Rightarrow> read_request \<Rightarrow> response" where
  "rest_read s r =
     (case r of
        RdHealth \<Rightarrow> rest_health s
      | RdCert \<Rightarrow> rest_get_cert s
      | RdDevices \<Rightarrow> rest_list_devices s
      | RdDevice u \<Rightarrow> rest_get_device s u
      | RdPairings \<Rightarrow> rest_list_pairings s
      | RdIncoming \<Rightarrow> rest_list_incoming s
      | RdNotifications q \<Rightarrow> rest_list_notifications s (nq_device_id q) (nq_limit q) (nq_package q)
          (nq_unread_only q)
      | RdStats d \<Rightarrow> rest_notifications_stats s d
      | RdSms q \<Rightarrow> rest_list_sms s (lsq_device_id q) (lsq_phone_number q) (lsq_limit q)
      | RdConversations d \<Rightarrow> rest_conversations s d
      | RdCalls q \<Rightarrow> rest_list_calls s (lcq_device_id q) (lcq_limit q)
      | RdDashboard d \<Rightarrow> rest_dashboard s d
      | RdAudit l \<Rightarrow> rest_list_audit s l)"

datatype rest_call = CallRead read_request | CallWrite request

text \<open>
  The extractors and their rejections: 400 for a path or a query that does not decode, 422 for a
  JSON body that is not the request's struct.
\<close>

definition from_path :: "envelope ext \<Rightarrow> axum \<Rightarrow> string list \<Rightarrow> (uuid \<Rightarrow> rest_call) \<Rightarrow> nat + rest_call" where
  "from_path X A caps k =
     (case caps of
        [i] \<Rightarrow> (case Option.bind (ax_segment A i) (uuid_parse X) of
                  None \<Rightarrow> Inl 400 | Some u \<Rightarrow> Inr (k u))
      | _ \<Rightarrow> Inl 500)"

definition from_path2 ::
  "envelope ext \<Rightarrow> axum \<Rightarrow> string list \<Rightarrow> (uuid \<Rightarrow> string \<Rightarrow> rest_call) \<Rightarrow> nat + rest_call" where
  "from_path2 X A caps k =
     (case caps of
        [d, i] \<Rightarrow> (case (Option.bind (ax_segment A d) (uuid_parse X), ax_segment A i) of
                     (Some u, Some n) \<Rightarrow> Inr (k u n) | _ \<Rightarrow> Inl 400)
      | _ \<Rightarrow> Inl 500)"

definition from_query ::
  "axum \<Rightarrow> http_request \<Rightarrow> ((string \<times> string) list \<Rightarrow> 'a option) \<Rightarrow> ('a \<Rightarrow> rest_call) \<Rightarrow> nat + rest_call" where
  "from_query A q dec k =
     (case dec (ax_query A (hq_query q)) of None \<Rightarrow> Inl 400 | Some a \<Rightarrow> Inr (k a))"

definition from_json ::
  "axum \<Rightarrow> http_request \<Rightarrow> (json \<Rightarrow> 'a option) \<Rightarrow> ('a \<Rightarrow> rest_call) \<Rightarrow> nat + rest_call" where
  "from_json A q dec k =
     (case ax_json A q of
        Inl status \<Rightarrow> Inl status
      | Inr j \<Rightarrow> (case dec j of None \<Rightarrow> Inl 422 | Some a \<Rightarrow> Inr (k a)))"

fun rest_extract ::
  "envelope ext \<Rightarrow> axum \<Rightarrow> string list \<Rightarrow> http_request \<Rightarrow> endpoint \<Rightarrow> (nat + rest_call) option" where
  "rest_extract X A caps q EpHealth = Some (Inr (CallRead RdHealth))"
| "rest_extract X A caps q EpGetCert = Some (Inr (CallRead RdCert))"
| "rest_extract X A caps q EpListDevices = Some (Inr (CallRead RdDevices))"
| "rest_extract X A caps q EpGetDevice = Some (from_path X A caps (\<lambda>u. CallRead (RdDevice u)))"
| "rest_extract X A caps q EpRemoveDevice = Some (from_path X A caps (\<lambda>u. CallWrite (RqRemoveDevice u)))"
| "rest_extract X A caps q EpListPairings = Some (Inr (CallRead RdPairings))"
| "rest_extract X A caps q EpPairStart =
     Some (from_json A q (dec_pair_start X) (\<lambda>u. CallWrite (RqPairStart u)))"
| "rest_extract X A caps q EpPairAccept =
     Some (from_json A q (dec_pair_accept_request X) (\<lambda>(u, c). CallWrite (RqPairAccept u c)))"
| "rest_extract X A caps q EpPairReject =
     Some (from_json A q (dec_pair_reject_request X) (\<lambda>(u, r). CallWrite (RqPairReject u r)))"
| "rest_extract X A caps q EpListIncoming = Some (Inr (CallRead RdIncoming))"
| "rest_extract X A caps q EpIncomingAccept =
     Some (from_json A q (dec_incoming_accept X) (\<lambda>u. CallWrite (RqIncomingAccept u)))"
| "rest_extract X A caps q EpIncomingReject =
     Some (from_json A q (dec_incoming_accept X) (\<lambda>u. CallWrite (RqIncomingReject u)))"
| "rest_extract X A caps q EpListNotifications =
     Some (from_query A q (dec_notifications_query X) (\<lambda>n. CallRead (RdNotifications n)))"
| "rest_extract X A caps q EpNotificationsStats =
     Some (from_query A q (dec_notifications_query X) (\<lambda>n. CallRead (RdStats (nq_device_id n))))"
| "rest_extract X A caps q EpMarkRead = Some (from_path2 X A caps (\<lambda>u i. CallWrite (RqMarkRead u i)))"
| "rest_extract X A caps q EpDismiss = Some (from_path2 X A caps (\<lambda>u i. CallWrite (RqDismiss u i)))"
| "rest_extract X A caps q EpMarkAllRead =
     Some (from_query A q (dec_notifications_query X) (\<lambda>n. CallWrite (RqMarkAllRead (nq_device_id n))))"
| "rest_extract X A caps q EpListSms = Some (from_query A q (dec_sms_query X) (\<lambda>n. CallRead (RdSms n)))"
| "rest_extract X A caps q EpConversations =
     Some (from_query A q (dec_sms_query X) (\<lambda>n. CallRead (RdConversations (lsq_device_id n))))"
| "rest_extract X A caps q EpSendSms = Some (from_json A q (dec_send_sms X) (\<lambda>r. CallWrite (RqSendSms r)))"
| "rest_extract X A caps q EpListCalls =
     Some (from_query A q (dec_calls_query X) (\<lambda>n. CallRead (RdCalls n)))"
| "rest_extract X A caps q EpDashboard =
     Some (from_query A q (dec_dashboard_query X) (\<lambda>d. CallRead (RdDashboard d)))"
| "rest_extract X A caps q EpListAudit =
     Some (from_query A q dec_audit_query (\<lambda>l. CallRead (RdAudit l)))"
| "rest_extract X A caps q EpDial =
     Some (from_json A q (dec_dial_request X) (\<lambda>(u, n). CallWrite (RqDial u n)))"
| "rest_extract X A caps q _ = None"

section \<open>Answers\<close>

text \<open>
  \<open>AnSocket\<close> is a request handed to one of the WebSocket upgrades, which decide for
  themselves (the display's asks for the token); \<open>AnDocs\<close> the constant API description
  and its page. The CORS layer answers every OPTIONS request itself.
\<close>

datatype http_answer =
    AnPreflight
  | AnNotFound
  | AnMethodNotAllowed
  | AnRejected nat
  | AnRest response
  | AnI18n json
  | AnStatic static_response
  | AnDocs endpoint
  | AnSocket endpoint

record http_env =
  he_axum :: axum
  he_vars :: "string \<Rightarrow> string option"
  he_mime :: "string \<Rightarrow> string"
  he_tree :: tree

definition http_call ::
  "envelope ext \<Rightarrow> http_env \<Rightarrow> tick \<Rightarrow> app \<Rightarrow> endpoint \<Rightarrow> string list \<Rightarrow> http_request \<Rightarrow>
   (http_answer \<times> app) run" where
  "http_call X E t s e caps q =
     (case rest_extract X (he_axum E) caps q e of
        Some (Inl status) \<Rightarrow> Done (AnRejected status, s)
      | Some (Inr (CallRead r)) \<Rightarrow> Done (AnRest (rest_read s r), s)
      | Some (Inr (CallWrite r)) \<Rightarrow>
          (case rest_step X t s r of Panic \<Rightarrow> Panic | Done (resp, s') \<Rightarrow> Done (AnRest resp, s'))
      | None \<Rightarrow>
          Done (if e = EpI18n
                then (case dec_i18n_query (ax_query (he_axum E) (hq_query q)) of
                        None \<Rightarrow> AnRejected 400
                      | Some l \<Rightarrow> AnI18n (enc_i18n_response (get_i18n (he_vars E) l)))
                else if e = EpRootRedirect then AnStatic (static_router (he_mime E) (he_tree E) RouteRoot)
                else if e = EpConsoleRedirect then AnStatic (static_router (he_mime E) (he_tree E) RouteConsole)
                else if e = EpConsoleIndex then AnStatic (static_router (he_mime E) (he_tree E) RouteConsoleIndex)
                else if e = EpConsoleFile then
                  (case caps of
                     [p] \<Rightarrow> (case ax_segment (he_axum E) p of
                               None \<Rightarrow> AnRejected 400
                             | Some f \<Rightarrow> AnStatic (static_router (he_mime E) (he_tree E) (RouteConsoleFile f)))
                   | _ \<Rightarrow> AnRejected 500)
                else if e = EpOpenapiJson \<or> e = EpSwaggerHtml then AnDocs e
                else AnSocket e, s))"

definition http_serve ::
  "envelope ext \<Rightarrow> http_env \<Rightarrow> tick \<Rightarrow> app \<Rightarrow> http_request \<Rightarrow> (http_answer \<times> app) run" where
  "http_serve X E t s q =
     (if hq_method q = OPTIONS then Done (AnPreflight, s)
      else case ax_route (he_axum E) (map fst build_router) (hq_path q) of
             None \<Rightarrow> Done (AnNotFound, s)
           | Some (p, caps) \<Rightarrow>
               (case endpoint_of p (hq_method q) of
                  None \<Rightarrow> Done (AnMethodNotAllowed, s)
                | Some e \<Rightarrow> http_call X E t s e caps q))"

section \<open>Lemmas\<close>

text \<open>The handler a call belongs to.\<close>

fun asks :: "rest_call \<Rightarrow> endpoint" where
  "asks (CallRead r) = (case r of
     RdHealth \<Rightarrow> EpHealth | RdCert \<Rightarrow> EpGetCert | RdDevices \<Rightarrow> EpListDevices | RdDevice _ \<Rightarrow> EpGetDevice
   | RdPairings \<Rightarrow> EpListPairings | RdIncoming \<Rightarrow> EpListIncoming
   | RdNotifications _ \<Rightarrow> EpListNotifications | RdStats _ \<Rightarrow> EpNotificationsStats
   | RdSms _ \<Rightarrow> EpListSms | RdConversations _ \<Rightarrow> EpConversations | RdCalls _ \<Rightarrow> EpListCalls
   | RdDashboard _ \<Rightarrow> EpDashboard | RdAudit _ \<Rightarrow> EpListAudit)"
| "asks (CallWrite r) = (case r of
     RqRemoveDevice _ \<Rightarrow> EpRemoveDevice | RqPairStart _ \<Rightarrow> EpPairStart | RqPairAccept _ _ \<Rightarrow> EpPairAccept
   | RqPairReject _ _ \<Rightarrow> EpPairReject | RqIncomingAccept _ \<Rightarrow> EpIncomingAccept
   | RqIncomingReject _ \<Rightarrow> EpIncomingReject | RqMarkRead _ _ \<Rightarrow> EpMarkRead | RqDismiss _ _ \<Rightarrow> EpDismiss
   | RqMarkAllRead _ \<Rightarrow> EpMarkAllRead | RqSendSms _ \<Rightarrow> EpSendSms | RqDial _ _ \<Rightarrow> EpDial)"

lemma extract_asks:
  "rest_extract X A caps q e = Some (Inr c) \<Longrightarrow> e = asks c"
  by (cases e)
    (auto simp: from_path_def from_path2_def from_query_def from_json_def
      split: option.splits list.splits sum.splits)

definition writes :: "endpoint \<Rightarrow> bool" where
  "writes e \<longleftrightarrow> e \<in> {EpRemoveDevice, EpPairStart, EpPairAccept, EpPairReject, EpIncomingAccept,
     EpIncomingReject, EpMarkRead, EpDismiss, EpMarkAllRead, EpSendSms, EpDial}"

lemma extract_write:
  "rest_extract X A caps q e = Some (Inr (CallWrite r)) \<Longrightarrow> writes e"
  by (drule extract_asks) (cases r; simp add: writes_def)

lemma endpoint_of_writes:
  assumes "endpoint_of p m = Some e" "writes e"
  shows "m = POST \<or> m = DELETE"
proof -
  have "((p, served_method m), e) \<in> set (map (\<lambda>(p, m, e). ((p, m), e)) build_router)"
    using assms(1) unfolding endpoint_of_def by (rule map_of_SomeD)
  then have "(p, served_method m, e) \<in> set build_router" by auto
  moreover have "\<forall>(p, m, e) \<in> set build_router. writes e \<longrightarrow> m = POST \<or> m = DELETE"
    by (simp add: build_router_def nest_def rest_router_def i18n_router_def docs_router_def
        console_router_def writes_def)
  ultimately have "served_method m = POST \<or> served_method m = DELETE" using assms(2) by auto
  then show ?thesis by (auto simp: served_method_def split: if_splits)
qed

text \<open>
  C13: A request over HTTP either leaves the message-center as it is, or it is a POST or a DELETE
  whose handler takes the one step on the shared state that its path, query or body spells out and
  answers what that step answers. So GET, HEAD and OPTIONS requests, unknown paths, wrong methods
  and rejected requests change nothing, and every request keeps the invariants of the
  message-center. This holds whatever pattern axum picks for a path.
\<close>

theorem http_writes_are_steps:
  assumes "http_serve X E t s q = Done (a, s')"
  shows "(s' = s \<or> (\<exists>r resp. (hq_method q = POST \<or> hq_method q = DELETE) \<and>
            rest_step X t s r = Done (resp, s') \<and> a = AnRest resp)) \<and>
    (app_ok s \<longrightarrow> app_ok s')"
proof (cases "s' = s")
  case False
  then obtain p caps e where e: "endpoint_of p (hq_method q) = Some e"
    and c: "http_call X E t s e caps q = Done (a, s')"
    using assms by (auto simp: http_serve_def split: if_splits option.splits)
  from c False obtain r resp where "rest_extract X (he_axum E) caps q e = Some (Inr (CallWrite r))"
    and r: "rest_step X t s r = Done (resp, s')" "a = AnRest resp"
    by (auto simp: http_call_def split: option.splits sum.splits rest_call.splits run.splits)
  then have "hq_method q = POST \<or> hq_method q = DELETE"
    using endpoint_of_writes[OF e] extract_write by blast
  then show ?thesis using r rest_step_ok by blast
qed simp

definition demo_axum :: axum where
  "demo_axum = \<lparr>ax_route = (\<lambda>ps p. if p \<in> set ps then Some (p, []) else None), ax_segment = Some,
     ax_query = (\<lambda>_. []), ax_json = (\<lambda>_. Inl 415)\<rparr>"

definition demo_http :: http_env where
  "demo_http = \<lparr>he_axum = demo_axum, he_vars = (\<lambda>_. None), he_mime = (\<lambda>_. []), he_tree = (\<lambda>_. None)\<rparr>"

definition demo_post :: "http_method \<Rightarrow> string \<Rightarrow> http_request" where
  "demo_post m p = \<lparr>hq_method = m, hq_path = p, hq_query = [], hq_body = []\<rparr>"

lemma demo_endpoints:
  "endpoint_of ''/api/v1/notifications/mark-all-read'' POST = Some EpMarkAllRead \<and>
   endpoint_of ''/api/v1/notifications/mark-all-read'' HEAD = None"
  by code_simp

lemma demo_serve:
  "ax_route demo_axum (map fst build_router) ''/api/v1/notifications/mark-all-read'' =
     Some (''/api/v1/notifications/mark-all-read'', [])"
  by (simp add: demo_axum_def build_router_def nest_def rest_router_def)

theorem http_writes_are_steps_witness:
  "\<exists>s s' a. http_serve demo_ext demo_http (demo_tick 0) s (demo_post POST ''/api/v1/notifications/mark-all-read'')
       = Done (a, s') \<and> s' \<noteq> s \<and> a = AnRest (204, RbText []) \<and>
     (\<exists>r resp. rest_step demo_ext (demo_tick 0) s r = Done (resp, s'))"
proof -
  let ?s = "\<lparr>a_net = demo_net demo_center, a_pins = [], a_cfg = demo_cfg, a_fingerprint = []\<rparr>"
  let ?q = "demo_post POST ''/api/v1/notifications/mark-all-read''"
  let ?d = "demo_db\<lparr>t_notifications := [demo_note\<lparr>nw_read := True\<rparr>]\<rparr>"
  have l: "list_notifications demo_db None 100000 True None = Inr [demo_note]"
    using list_notifications_reference[of demo_db None 100000 True None]
    by (simp add: demo_db_wf) (simp add: demo_db_def demo_note_def notif_wanted_def sort_desc_def limit_rows_def)
  have d: "app_db ?s = demo_db" by (simp add: app_db_def demo_net_def demo_center_def)
  have "mark_rows_read [demo_note] demo_db = ?d"
    by (simp add: mark_rows_read_eq demo_db_wf) (simp add: read_rows_def demo_db_def)
  then have r: "rest_mark_all_read ?s None = ((204, RbText []), app_set_db ?s ?d)"
    unfolding rest_mark_all_read_def d l by simp
  have h: "http_serve demo_ext demo_http (demo_tick 0) ?s ?q = Done (AnRest (204, RbText []), app_set_db ?s ?d)"
    by (simp add: http_serve_def demo_post_def demo_http_def demo_serve demo_endpoints http_call_def
        from_query_def dec_notifications_query_def query_field_def demo_axum_def[THEN arg_cong, of ax_query]
        rest_step_def r)
  have "t_notifications (app_db (app_set_db ?s ?d)) \<noteq> t_notifications (app_db ?s)"
    by (simp add: d) (simp add: demo_db_def demo_note_def)
  then have n: "app_set_db ?s ?d \<noteq> ?s" by metis
  obtain r resp where "rest_step demo_ext (demo_tick 0) ?s r = Done (resp, app_set_db ?s ?d)"
    using http_writes_are_steps[OF h] n by blast
  then show ?thesis using h n by blast
qed

end
