(* ===== verification/ApiDocs.thy ===== *)
theory ApiDocs
  imports Api
begin

text \<open>
  The description of the REST interface: the \<open>utoipa::path\<close> annotation of every handler
  (message-center/src/rest.rs) and the list of handlers that the served document names
  (message-center/src/openapi.rs), compared with the routes and with the statuses the handlers
  really answer. The descriptions and schemas, which utoipa renders, are left out.
\<close>

datatype param_in = PPath | PQuery

record api_doc =
  ad_handler :: endpoint
  ad_method :: http_method
  ad_path :: string
  ad_tag :: string
  ad_params :: "(string \<times> param_in) list"
  ad_responses :: "nat list"

section \<open>The annotations\<close>

definition doc_health :: api_doc where
  "doc_health = \<lparr>ad_handler = EpHealth, ad_method = GET, ad_path = ''/api/v1/health'',
     ad_tag = ''health'', ad_params = [], ad_responses = [200]\<rparr>"

definition doc_get_cert :: api_doc where
  "doc_get_cert = \<lparr>ad_handler = EpGetCert, ad_method = GET, ad_path = ''/api/v1/cert'',
     ad_tag = ''identity'', ad_params = [], ad_responses = [200]\<rparr>"

definition doc_list_devices :: api_doc where
  "doc_list_devices = \<lparr>ad_handler = EpListDevices, ad_method = GET, ad_path = ''/api/v1/devices'',
     ad_tag = ''devices'', ad_params = [], ad_responses = [200]\<rparr>"

definition doc_get_device :: api_doc where
  "doc_get_device = \<lparr>ad_handler = EpGetDevice, ad_method = GET, ad_path = ''/api/v1/devices/{id}'',
     ad_tag = ''devices'', ad_params = [(''id'', PPath)], ad_responses = [200, 404]\<rparr>"

definition doc_remove_device :: api_doc where
  "doc_remove_device = \<lparr>ad_handler = EpRemoveDevice, ad_method = DELETE, ad_path = ''/api/v1/devices/{id}'',
     ad_tag = ''devices'', ad_params = [(''id'', PPath)], ad_responses = [204, 500]\<rparr>"

definition doc_list_pairings :: api_doc where
  "doc_list_pairings = \<lparr>ad_handler = EpListPairings, ad_method = GET, ad_path = ''/api/v1/pairings'',
     ad_tag = ''pairings'', ad_params = [], ad_responses = [200]\<rparr>"

definition doc_pair_start :: api_doc where
  "doc_pair_start = \<lparr>ad_handler = EpPairStart, ad_method = POST, ad_path = ''/api/v1/pair/start'',
     ad_tag = ''pairings'', ad_params = [], ad_responses = [200, 409]\<rparr>"

definition doc_pair_accept :: api_doc where
  "doc_pair_accept = \<lparr>ad_handler = EpPairAccept, ad_method = POST, ad_path = ''/api/v1/pair/accept'',
     ad_tag = ''pairings'', ad_params = [], ad_responses = [200, 409]\<rparr>"

definition doc_pair_reject :: api_doc where
  "doc_pair_reject = \<lparr>ad_handler = EpPairReject, ad_method = POST, ad_path = ''/api/v1/pair/reject'',
     ad_tag = ''pairings'', ad_params = [], ad_responses = [200, 409]\<rparr>"

definition doc_list_incoming_pairings :: api_doc where
  "doc_list_incoming_pairings = \<lparr>ad_handler = EpListIncoming, ad_method = GET, ad_path = ''/api/v1/pair/incoming'',
     ad_tag = ''pairings'', ad_params = [], ad_responses = [200]\<rparr>"

definition doc_incoming_accept :: api_doc where
  "doc_incoming_accept = \<lparr>ad_handler = EpIncomingAccept, ad_method = POST, ad_path = ''/api/v1/pair/incoming-accept'',
     ad_tag = ''pairings'', ad_params = [], ad_responses = [200, 404, 503]\<rparr>"

definition doc_incoming_reject :: api_doc where
  "doc_incoming_reject = \<lparr>ad_handler = EpIncomingReject, ad_method = POST, ad_path = ''/api/v1/pair/incoming-reject'',
     ad_tag = ''pairings'', ad_params = [], ad_responses = [200, 404]\<rparr>"

definition doc_list_notifications :: api_doc where
  "doc_list_notifications = \<lparr>ad_handler = EpListNotifications, ad_method = GET, ad_path = ''/api/v1/notifications'',
     ad_tag = ''notifications'', ad_params = [(''device_id'', PQuery), (''limit'', PQuery), (''package'', PQuery), (''unread_only'', PQuery)], ad_responses = [200]\<rparr>"

definition doc_notifications_stats :: api_doc where
  "doc_notifications_stats = \<lparr>ad_handler = EpNotificationsStats, ad_method = GET, ad_path = ''/api/v1/notifications/stats'',
     ad_tag = ''notifications'', ad_params = [(''device_id'', PQuery)], ad_responses = [200]\<rparr>"

definition doc_mark_notification_read :: api_doc where
  "doc_mark_notification_read = \<lparr>ad_handler = EpMarkRead, ad_method = POST, ad_path = ''/api/v1/notifications/{device_id}/{id}/read'',
     ad_tag = ''notifications'', ad_params = [(''device_id'', PPath), (''id'', PPath)], ad_responses = [204]\<rparr>"

definition doc_dismiss_notification :: api_doc where
  "doc_dismiss_notification = \<lparr>ad_handler = EpDismiss, ad_method = POST, ad_path = ''/api/v1/notifications/{device_id}/{id}/dismiss'',
     ad_tag = ''notifications'', ad_params = [(''device_id'', PPath), (''id'', PPath)], ad_responses = [200, 404]\<rparr>"

definition doc_mark_all_notifications_read :: api_doc where
  "doc_mark_all_notifications_read = \<lparr>ad_handler = EpMarkAllRead, ad_method = POST, ad_path = ''/api/v1/notifications/mark-all-read'',
     ad_tag = ''notifications'', ad_params = [(''device_id'', PQuery)], ad_responses = [204]\<rparr>"

definition doc_list_sms :: api_doc where
  "doc_list_sms = \<lparr>ad_handler = EpListSms, ad_method = GET, ad_path = ''/api/v1/sms'',
     ad_tag = ''sms'', ad_params = [(''device_id'', PQuery), (''phone_number'', PQuery), (''limit'', PQuery)], ad_responses = [200]\<rparr>"

definition doc_list_sms_conversations :: api_doc where
  "doc_list_sms_conversations = \<lparr>ad_handler = EpConversations, ad_method = GET, ad_path = ''/api/v1/sms/conversations'',
     ad_tag = ''sms'', ad_params = [(''device_id'', PQuery)], ad_responses = [200]\<rparr>"

definition doc_send_sms :: api_doc where
  "doc_send_sms = \<lparr>ad_handler = EpSendSms, ad_method = POST, ad_path = ''/api/v1/sms'',
     ad_tag = ''sms'', ad_params = [], ad_responses = [202, 409]\<rparr>"

definition doc_list_calls :: api_doc where
  "doc_list_calls = \<lparr>ad_handler = EpListCalls, ad_method = GET, ad_path = ''/api/v1/calls'',
     ad_tag = ''calls'', ad_params = [(''device_id'', PQuery), (''limit'', PQuery)], ad_responses = [200]\<rparr>"

definition doc_dial :: api_doc where
  "doc_dial = \<lparr>ad_handler = EpDial, ad_method = POST, ad_path = ''/api/v1/dial'',
     ad_tag = ''calls'', ad_params = [], ad_responses = [202, 409]\<rparr>"

definition doc_dashboard :: api_doc where
  "doc_dashboard = \<lparr>ad_handler = EpDashboard, ad_method = GET, ad_path = ''/api/v1/dashboard'',
     ad_tag = ''health'', ad_params = [(''device_id'', PQuery)], ad_responses = [200]\<rparr>"

definition doc_list_audit :: api_doc where
  "doc_list_audit = \<lparr>ad_handler = EpListAudit, ad_method = GET, ad_path = ''/api/v1/audit'',
     ad_tag = ''audit'', ad_params = [(''limit'', PQuery)], ad_responses = [200]\<rparr>"

definition openapi_paths :: "api_doc list" where
  "openapi_paths =
     [doc_health,
      doc_get_cert,
      doc_list_devices,
      doc_get_device,
      doc_remove_device,
      doc_list_pairings,
      doc_pair_start,
      doc_pair_accept,
      doc_pair_reject,
      doc_list_notifications,
      doc_notifications_stats,
      doc_mark_notification_read,
      doc_mark_all_notifications_read,
      doc_dismiss_notification,
      doc_list_sms,
      doc_list_sms_conversations,
      doc_send_sms,
      doc_list_calls,
      doc_dashboard,
      doc_list_audit,
      doc_dial]"

definition doc_of :: "endpoint \<Rightarrow> api_doc option" where
  "doc_of e = find (\<lambda>d. ad_handler d = e)
     (openapi_paths @ [doc_list_incoming_pairings, doc_incoming_accept, doc_incoming_reject])"

text \<open>A route pattern as the description writes it, and the parameters it captures.\<close>

definition doc_segment :: "string \<Rightarrow> string" where
  "doc_segment s = (case s of [] \<Rightarrow> [] | c # n \<Rightarrow> if c = CHR '':'' then ''{'' @ n @ ''}'' else s)"

definition doc_path :: "string \<Rightarrow> string" where
  "doc_path p = join_char (CHR ''/'') (map doc_segment (split_char (CHR ''/'') p))"

definition captures :: "string \<Rightarrow> string list" where
  "captures p = List.map_filter (\<lambda>s. case s of [] \<Rightarrow> None | c # n \<Rightarrow> if c = CHR '':'' then Some n else None)
     (split_char (CHR ''/'') p)"

definition path_params :: "api_doc \<Rightarrow> string list" where
  "path_params d = map fst (filter (\<lambda>p. snd p = PPath) (ad_params d))"


section \<open>The description and the code\<close>

lemmas docs_defs = doc_health_def doc_get_cert_def doc_list_devices_def doc_get_device_def
  doc_remove_device_def doc_list_pairings_def doc_pair_start_def doc_pair_accept_def
  doc_pair_reject_def doc_list_incoming_pairings_def doc_incoming_accept_def doc_incoming_reject_def
  doc_list_notifications_def doc_notifications_stats_def doc_mark_notification_read_def
  doc_dismiss_notification_def doc_mark_all_notifications_read_def doc_list_sms_def
  doc_list_sms_conversations_def doc_send_sms_def doc_list_calls_def doc_dashboard_def
  doc_list_audit_def doc_dial_def

lemmas router_defs = build_router_def nest_def rest_router_def i18n_router_def docs_router_def
  console_router_def


text \<open>The statuses a handler answers beyond those its annotation lists.\<close>

definition documented :: "endpoint \<Rightarrow> nat list" where
  "documented e = (case doc_of e of None \<Rightarrow> [] | Some d \<Rightarrow> ad_responses d)"

fun undocumented :: "endpoint \<Rightarrow> nat list" where
  "undocumented EpPairStart = [500, 503]"
| "undocumented EpPairAccept = [400, 500, 503]"
| "undocumented EpPairReject = [500, 503]"
| "undocumented EpSendSms = [503]"
| "undocumented EpDial = [503]"
| "undocumented EpHealth = []"
| "undocumented EpGetCert = []"
| "undocumented EpRemoveDevice = []"
| "undocumented EpNotificationsStats = []"
| "undocumented EpListIncoming = []"
| "undocumented EpIncomingAccept = []"
| "undocumented EpIncomingReject = []"
| "undocumented _ = [500]"

lemma documented_eq:
  "documented EpHealth = [200]" "documented EpGetCert = [200]" "documented EpListDevices = [200]"
  "documented EpGetDevice = [200, 404]" "documented EpRemoveDevice = [204, 500]"
  "documented EpListPairings = [200]" "documented EpPairStart = [200, 409]"
  "documented EpPairAccept = [200, 409]" "documented EpPairReject = [200, 409]"
  "documented EpListIncoming = [200]" "documented EpIncomingAccept = [200, 404, 503]"
  "documented EpIncomingReject = [200, 404]" "documented EpListNotifications = [200]"
  "documented EpNotificationsStats = [200]" "documented EpMarkRead = [204]"
  "documented EpDismiss = [200, 404]" "documented EpMarkAllRead = [204]" "documented EpListSms = [200]"
  "documented EpConversations = [200]" "documented EpSendSms = [202, 409]"
  "documented EpListCalls = [200]" "documented EpDashboard = [200]" "documented EpListAudit = [200]"
  "documented EpDial = [202, 409]"
  by (simp_all add: documented_def doc_of_def openapi_paths_def docs_defs)

lemma answer_status: "answer f r = (st, b) \<Longrightarrow> st = 200 \<or> st = 500"
  by (auto simp: answer_def split: sum.splits)

lemma dash_status:
  "dash_query n r k = (st, b) \<Longrightarrow> st = 500 \<or> (\<exists>a. r = Inr a \<and> k a = (st, b))"
  by (auto simp: dash_query_def split: sum.splits)

lemma read_status:
  "rest_read s r = (st, b) \<Longrightarrow> st \<in> set (documented (asks (CallRead r)) @ undocumented (asks (CallRead r)))"
  by (cases r)
    (auto simp: documented_eq rest_read_def rest_health_def rest_get_cert_def rest_dashboard_def Let_def
      rest_list_devices_def rest_get_device_def rest_list_pairings_def rest_list_incoming_def
      rest_list_notifications_def rest_notifications_stats_def rest_list_sms_def rest_conversations_def
      rest_list_calls_def rest_list_audit_def dest!: dash_status dest: answer_status
      split: option.splits sum.splits if_splits)

lemma write_status:
  assumes "rest_step X t s r = Done ((st, b), s')"
  shows "st \<in> set (documented (asks (CallWrite r)) @ undocumented (asks (CallWrite r)))"
proof -
  have h: "rest_remove_device t s u = ((st, b), s') \<Longrightarrow> st \<in> {204, 500}"
    "rest_pair_start X t s u = ((st, b), s') \<Longrightarrow> st \<in> {200, 409, 500, 503}"
    "rest_pair_accept X t s u c = Done ((st, b), s') \<Longrightarrow> st \<in> {200, 409, 400, 500, 503}"
    "rest_pair_reject X t s u c = Done ((st, b), s') \<Longrightarrow> st \<in> {200, 409, 500, 503}"
    "rest_incoming_accept X t s u = ((st, b), s') \<Longrightarrow> st \<in> {200, 404, 503}"
    "rest_incoming_reject X t s u = ((st, b), s') \<Longrightarrow> st \<in> {200, 404}"
    "rest_mark_read s u i = ((st, b), s') \<Longrightarrow> st \<in> {204, 500}"
    "rest_dismiss X t s u i = ((st, b), s') \<Longrightarrow> st \<in> {200, 404, 500}"
    "rest_mark_all_read s d = ((st, b), s') \<Longrightarrow> st \<in> {204, 500}"
    "rest_send_sms X t s m = ((st, b), s') \<Longrightarrow> st \<in> {202, 409, 503}"
    "rest_dial X t s u n = ((st, b), s') \<Longrightarrow> st \<in> {202, 409, 503}" for u c i d m n
    by (auto simp: rest_remove_device_def rest_pair_start_def rest_pair_accept_def rest_pair_reject_def
        rest_incoming_accept_def rest_incoming_reject_def rest_mark_read_def rest_dismiss_def
        rest_mark_all_read_def rest_send_sms_def rest_dial_def Let_def
        split: if_splits sum.splits option.splits prod.splits run.splits device_session.splits unpaired_session.splits)
  show ?thesis
    using assms by (cases r) (auto simp: documented_eq rest_step_def dest!: h)
qed



end
