(* ===== verification/ApiBody.thy ===== *)
theory ApiBody
  imports Api
begin

text \<open>
  The bodies of the REST answers: how serde writes the response structs of
  message-center/src/rest.rs and the rows of phonebridge-storage/src/models.rs, and how it reads
  the rows back. The text of a database error is the parameter \<open>err\<close>.
\<close>

section \<open>Rows\<close>

definition or_null :: "('a \<Rightarrow> json) \<Rightarrow> 'a option \<Rightarrow> json" where
  "or_null e v = (case v of None \<Rightarrow> JNull | Some a \<Rightarrow> e a)"

definition enc_device_row :: "envelope ext \<Rightarrow> device_row \<Rightarrow> json" where
  "enc_device_row X r = JObj
     ([(''id'', JInt (dr_id r)), (''name'', JStr (dr_name r)),
       (''device_id'', enc_uuid X (dr_device_id r)), (''public_key'', JStr (dr_public_key r)),
       (''last_seen'', JInt (dr_last_seen r)), (''paired'', JBool (dr_paired r))]
      @ opt_f ''hardware_id'' JStr (dr_hardware_id r))"

definition dec_device_row :: "envelope ext \<Rightarrow> json \<Rightarrow> device_row option" where
  "dec_device_row X j = do {
     f \<leftarrow> struct_fields 7 j;
     i \<leftarrow> req (dec_int i64_range) (f 0 ''id'');
     n \<leftarrow> req dec_str (f 1 ''name'');
     u \<leftarrow> req (dec_uuid X) (f 2 ''device_id'');
     k \<leftarrow> req dec_str (f 3 ''public_key'');
     l \<leftarrow> req (dec_int i64_range) (f 4 ''last_seen'');
     p \<leftarrow> req dec_bool (f 5 ''paired'');
     h \<leftarrow> opt dec_str (f 6 ''hardware_id'');
     Some \<lparr>dr_id = i, dr_name = n, dr_device_id = u, dr_public_key = k, dr_last_seen = l,
       dr_paired = p, dr_hardware_id = h\<rparr> }"

definition enc_pairing_row :: "envelope ext \<Rightarrow> pairing_row \<Rightarrow> json" where
  "enc_pairing_row X r = JObj
     [(''id'', JInt (pw_id r)), (''device_id'', enc_uuid X (pw_device_id r)),
      (''cert_pem'', JStr (pw_cert_pem r)), (''cert_fingerprint'', JStr (pw_cert_fingerprint r)),
      (''paired_at'', JInt (pw_paired_at r))]"

definition dec_pairing_row :: "envelope ext \<Rightarrow> json \<Rightarrow> pairing_row option" where
  "dec_pairing_row X j = do {
     f \<leftarrow> struct_fields 5 j;
     i \<leftarrow> req (dec_int i64_range) (f 0 ''id'');
     u \<leftarrow> req (dec_uuid X) (f 1 ''device_id'');
     c \<leftarrow> req dec_str (f 2 ''cert_pem'');
     p \<leftarrow> req dec_str (f 3 ''cert_fingerprint'');
     a \<leftarrow> req (dec_int i64_range) (f 4 ''paired_at'');
     Some \<lparr>pw_id = i, pw_device_id = u, pw_cert_pem = c, pw_cert_fingerprint = p, pw_paired_at = a\<rparr> }"

definition enc_notification_row :: "envelope ext \<Rightarrow> notification_row \<Rightarrow> json" where
  "enc_notification_row X r = JObj
     [(''id'', JStr (nw_id r)), (''device_id'', enc_uuid X (nw_device_id r)),
      (''package_name'', JStr (nw_package_name r)), (''app_name'', or_null JStr (nw_app_name r)),
      (''title'', JStr (nw_title r)), (''content'', JStr (nw_content r)),
      (''posted_at'', JInt (nw_posted_at r)), (''is_sensitive'', JBool (nw_is_sensitive r)),
      (''category'', or_null JStr (nw_category r)), (''read'', JBool (nw_read r))]"

definition dec_notification_row :: "envelope ext \<Rightarrow> json \<Rightarrow> notification_row option" where
  "dec_notification_row X j = do {
     f \<leftarrow> struct_fields 10 j;
     i \<leftarrow> req dec_str (f 0 ''id'');
     u \<leftarrow> req (dec_uuid X) (f 1 ''device_id'');
     p \<leftarrow> req dec_str (f 2 ''package_name'');
     a \<leftarrow> opt dec_str (f 3 ''app_name'');
     t \<leftarrow> req dec_str (f 4 ''title'');
     c \<leftarrow> req dec_str (f 5 ''content'');
     at \<leftarrow> req (dec_int i64_range) (f 6 ''posted_at'');
     s \<leftarrow> req dec_bool (f 7 ''is_sensitive'');
     g \<leftarrow> opt dec_str (f 8 ''category'');
     r \<leftarrow> req dec_bool (f 9 ''read'');
     Some \<lparr>nw_id = i, nw_device_id = u, nw_package_name = p, nw_app_name = a, nw_title = t,
       nw_content = c, nw_posted_at = at, nw_is_sensitive = s, nw_category = g, nw_read = r\<rparr> }"

definition enc_sms_row :: "envelope ext \<Rightarrow> sms_row \<Rightarrow> json" where
  "enc_sms_row X r = JObj
     [(''id'', JStr (sw_id r)), (''device_id'', enc_uuid X (sw_device_id r)),
      (''sim_slot'', or_null enc_word (sw_sim_slot r)), (''phone_number'', JStr (sw_phone_number r)),
      (''body'', JStr (sw_body r)), (''direction'', JStr (sw_direction r)),
      (''timestamp'', JInt (sw_timestamp r))]"

definition dec_sms_row :: "envelope ext \<Rightarrow> json \<Rightarrow> sms_row option" where
  "dec_sms_row X j = do {
     f \<leftarrow> struct_fields 7 j;
     i \<leftarrow> req dec_str (f 0 ''id'');
     u \<leftarrow> req (dec_uuid X) (f 1 ''device_id'');
     s \<leftarrow> opt dec_word (f 2 ''sim_slot'');
     p \<leftarrow> req dec_str (f 3 ''phone_number'');
     b \<leftarrow> req dec_str (f 4 ''body'');
     d \<leftarrow> req dec_str (f 5 ''direction'');
     t \<leftarrow> req (dec_int i64_range) (f 6 ''timestamp'');
     Some \<lparr>sw_id = i, sw_device_id = u, sw_sim_slot = s, sw_phone_number = p, sw_body = b,
       sw_direction = d, sw_timestamp = t\<rparr> }"

definition enc_call_row :: "envelope ext \<Rightarrow> call_row \<Rightarrow> json" where
  "enc_call_row X r = JObj
     [(''id'', JInt (cw_id r)), (''device_id'', enc_uuid X (cw_device_id r)),
      (''phone_number'', JStr (cw_phone_number r)), (''contact_name'', or_null JStr (cw_contact_name r)),
      (''state'', JStr (cw_state r)), (''started_at'', JInt (cw_started_at r)),
      (''ended_at'', or_null JInt (cw_ended_at r)), (''direction'', JStr (cw_direction r)),
      (''duration_secs'', or_null JInt (cw_duration_secs r)), (''sim_slot'', or_null enc_word (cw_sim_slot r))]"

definition dec_call_row :: "envelope ext \<Rightarrow> json \<Rightarrow> call_row option" where
  "dec_call_row X j = do {
     f \<leftarrow> struct_fields 10 j;
     i \<leftarrow> req (dec_int i64_range) (f 0 ''id'');
     u \<leftarrow> req (dec_uuid X) (f 1 ''device_id'');
     p \<leftarrow> req dec_str (f 2 ''phone_number'');
     c \<leftarrow> opt dec_str (f 3 ''contact_name'');
     s \<leftarrow> req dec_str (f 4 ''state'');
     a \<leftarrow> req (dec_int i64_range) (f 5 ''started_at'');
     e \<leftarrow> opt (dec_int i64_range) (f 6 ''ended_at'');
     d \<leftarrow> req dec_str (f 7 ''direction'');
     l \<leftarrow> opt (dec_int i64_range) (f 8 ''duration_secs'');
     m \<leftarrow> opt dec_word (f 9 ''sim_slot'');
     Some \<lparr>cw_id = i, cw_device_id = u, cw_phone_number = p, cw_contact_name = c, cw_state = s,
       cw_started_at = a, cw_ended_at = e, cw_direction = d, cw_duration_secs = l, cw_sim_slot = m\<rparr> }"

definition enc_audit_row :: "envelope ext \<Rightarrow> audit_row \<Rightarrow> json" where
  "enc_audit_row X r = JObj
     [(''id'', JInt (aw_id r)), (''timestamp'', JInt (aw_timestamp r)),
      (''device_id'', or_null (enc_uuid X) (aw_device_id r)), (''event'', JStr (aw_event r)),
      (''detail'', or_null JStr (aw_detail r))]"

definition dec_audit_row :: "envelope ext \<Rightarrow> json \<Rightarrow> audit_row option" where
  "dec_audit_row X j = do {
     f \<leftarrow> struct_fields 5 j;
     i \<leftarrow> req (dec_int i64_range) (f 0 ''id'');
     t \<leftarrow> req (dec_int i64_range) (f 1 ''timestamp'');
     u \<leftarrow> opt (dec_uuid X) (f 2 ''device_id'');
     e \<leftarrow> req dec_str (f 3 ''event'');
     d \<leftarrow> opt dec_str (f 4 ''detail'');
     Some \<lparr>aw_id = i, aw_timestamp = t, aw_device_id = u, aw_event = e, aw_detail = d\<rparr> }"

section \<open>Bodies\<close>

definition CARGO_PKG_VERSION :: string where
  "CARGO_PKG_VERSION = ''0.1.0''"

definition enc_health :: "envelope ext \<Rightarrow> health_body \<Rightarrow> json" where
  "enc_health X b = JObj
     [(''status'', JStr (hl_status b)), (''version'', JStr CARGO_PKG_VERSION),
      (''our_device_id'', enc_uuid X (hl_our_device_id b)),
      (''our_fingerprint'', JStr (hl_our_fingerprint b)),
      (''paired_devices'', JInt (hl_paired_devices b)), (''online_devices'', JInt (hl_online_devices b))]"

definition enc_cert :: "envelope ext \<Rightarrow> cert_body \<Rightarrow> json" where
  "enc_cert X b = JObj
     [(''device_id'', enc_uuid X (cb_device_id b)), (''name'', JStr (cb_name b)),
      (''fingerprint'', JStr (cb_fingerprint b)), (''public_key'', JStr (cb_public_key b))]"

definition enc_devices :: "envelope ext \<Rightarrow> device_row list \<Rightarrow> json" where
  "enc_devices X rows = JObj [(''devices'', enc_list (enc_device_row X) rows)]"

definition enc_pairings :: "envelope ext \<Rightarrow> uuid list \<Rightarrow> pairing_row list \<Rightarrow> json" where
  "enc_pairings X flight rows = JObj [(''in_flight'', enc_list (enc_uuid X) flight),
     (''persisted'', enc_list (enc_pairing_row X) rows)]"

definition enc_pending_incoming :: "envelope ext \<Rightarrow> uuid \<times> string \<times> int \<Rightarrow> json" where
  "enc_pending_incoming X p = (case p of (u, n, at) \<Rightarrow>
     JObj [(''device_id'', enc_uuid X u), (''name'', JStr n), (''received_at'', JInt at)])"

definition enc_notifications :: "envelope ext \<Rightarrow> notification_row list \<Rightarrow> json" where
  "enc_notifications X rows = JObj [(''notifications'', enc_list (enc_notification_row X) rows)]"

definition enc_package_count :: "string \<times> int \<Rightarrow> json" where
  "enc_package_count p = JObj [(''package'', JStr (fst p)), (''count'', JInt (snd p))]"

definition enc_notifications_stats :: "notifications_stats_body \<Rightarrow> json" where
  "enc_notifications_stats b = JObj [(''total'', JInt (ns_total b)), (''unread'', JInt (ns_unread b)),
     (''by_package'', enc_list enc_package_count (ns_by_package b))]"

definition enc_sms_listing :: "envelope ext \<Rightarrow> sms_row list \<Rightarrow> json" where
  "enc_sms_listing X rows = JObj [(''messages'', enc_list (enc_sms_row X) rows)]"

definition enc_conversation :: "string \<times> int \<times> int \<Rightarrow> json" where
  "enc_conversation c = (case c of (a, l, n) \<Rightarrow>
     JObj [(''address'', JStr a), (''last_timestamp'', JInt l), (''count'', JInt n)])"

definition enc_conversations :: "(string \<times> int \<times> int) list \<Rightarrow> json" where
  "enc_conversations cs = JObj [(''conversations'', enc_list enc_conversation cs)]"

definition enc_calls :: "envelope ext \<Rightarrow> call_row list \<Rightarrow> json" where
  "enc_calls X rows = JObj [(''calls'', enc_list (enc_call_row X) rows)]"

definition enc_notification_counts :: "dashboard_body \<Rightarrow> json" where
  "enc_notification_counts b = JObj [(''total'', JInt (db_notif_total b)), (''unread'', JInt (db_notif_unread b))]"

definition enc_sms_counts :: "dashboard_body \<Rightarrow> json" where
  "enc_sms_counts b = JObj [(''total'', JInt (db_sms_total b)), (''conversations'', JInt (db_sms_conversations b))]"

definition enc_call_counts :: "dashboard_body \<Rightarrow> json" where
  "enc_call_counts b = JObj [(''total'', JInt (db_call_total b)), (''missed'', JInt (db_call_missed b)),
     (''ringing'', JInt (db_call_ringing b))]"

definition enc_dashboard :: "dashboard_body \<Rightarrow> json" where
  "enc_dashboard b = JObj
     [(''paired_devices'', JInt (db_paired_devices b)), (''online_devices'', JInt (db_online_devices b)),
      (''notifications'', enc_notification_counts b), (''sms'', enc_sms_counts b), (''calls'', enc_call_counts b)]"

definition dashboard_error :: "(db_error \<Rightarrow> string) \<Rightarrow> string \<Rightarrow> db_error \<Rightarrow> json" where
  "dashboard_error err q e = JObj [(''error'', JStr ''dashboard_unavailable''),
     (''message'', JStr (''dashboard query `'' @ q @ ''` failed: '' @ err e))]"

definition enc_audit :: "envelope ext \<Rightarrow> audit_row list \<Rightarrow> json" where
  "enc_audit X rows = JObj [(''entries'', enc_list (enc_audit_row X) rows)]"

text \<open>The body of an answer: a text, or a JSON value.\<close>

fun rest_body_out :: "envelope ext \<Rightarrow> (db_error \<Rightarrow> string) \<Rightarrow> rest_body \<Rightarrow> string + json" where
  "rest_body_out X err (RbText s) = Inl s"
| "rest_body_out X err (RbDbError e) = Inl (''db: '' @ err e)"
| "rest_body_out X err (RbJson j) = Inr j"
| "rest_body_out X err (RbHealth b) = Inr (enc_health X b)"
| "rest_body_out X err (RbCert b) = Inr (enc_cert X b)"
| "rest_body_out X err (RbDevices rows) = Inr (enc_devices X rows)"
| "rest_body_out X err (RbDevice r) = Inr (enc_device_row X r)"
| "rest_body_out X err (RbPairings flight rows) = Inr (enc_pairings X flight rows)"
| "rest_body_out X err (RbPending ps) = Inr (JObj [(''pending'', enc_list (enc_pending_incoming X) ps)])"
| "rest_body_out X err (RbNotifications rows) = Inr (enc_notifications X rows)"
| "rest_body_out X err (RbStats b) = Inr (enc_notifications_stats b)"
| "rest_body_out X err (RbSms rows) = Inr (enc_sms_listing X rows)"
| "rest_body_out X err (RbConversations cs) = Inr (enc_conversations cs)"
| "rest_body_out X err (RbCalls rows) = Inr (enc_calls X rows)"
| "rest_body_out X err (RbDashboard b) = Inr (enc_dashboard b)"
| "rest_body_out X err (RbDashboardError q e) = Inr (dashboard_error err q e)"
| "rest_body_out X err (RbAudit rows) = Inr (enc_audit X rows)"

section \<open>Reading the rows back\<close>

definition rows_ok :: "db \<Rightarrow> bool" where
  "rows_ok d \<longleftrightarrow>
     list_all (\<lambda>r. i64_range (dr_id r) \<and> i64_range (dr_last_seen r)) (t_devices d) \<and>
     list_all (\<lambda>r. i64_range (pw_id r) \<and> i64_range (pw_paired_at r)) (t_pairings d) \<and>
     list_all (\<lambda>r. i64_range (nw_posted_at r)) (t_notifications d) \<and>
     list_all (\<lambda>r. i64_range (sw_timestamp r)) (t_sms d) \<and>
     list_all (\<lambda>r. i64_range (cw_id r) \<and> i64_range (cw_started_at r) \<and>
       pred_option i64_range (cw_ended_at r) \<and> pred_option i64_range (cw_duration_secs r)) (t_calls d) \<and>
     list_all (\<lambda>r. i64_range (aw_id r) \<and> i64_range (aw_timestamp r)) (t_audit d)"

lemma opt_or_null [wire_simps]:
  assumes "\<And>a. v = Some a \<Longrightarrow> d (e a) = Some a" and "\<And>a. e a \<noteq> JNull"
  shows "opt d (Some (or_null e v)) = Some v"
proof (cases v)
  case (Some a)
  with assms have "d (e a) = Some a" and "e a \<noteq> JNull" by simp_all
  with Some show ?thesis by (cases "e a") (auto simp: or_null_def)
qed (simp add: or_null_def)

lemma enc_not_null [simp]: "enc_word w \<noteq> JNull" "enc_uuid X u \<noteq> JNull"
  by (simp_all add: enc_word_def enc_uuid_def)

lemma rt_device_row:
  "uuid_ok X \<Longrightarrow> i64_range (dr_id r) \<Longrightarrow> i64_range (dr_last_seen r) \<Longrightarrow>
   dec_device_row X (enc_device_row X r) = Some r"
  by (simp add: dec_device_row_def enc_device_row_def wire_simps)

lemma rt_pairing_row:
  "uuid_ok X \<Longrightarrow> i64_range (pw_id r) \<Longrightarrow> i64_range (pw_paired_at r) \<Longrightarrow>
   dec_pairing_row X (enc_pairing_row X r) = Some r"
  by (simp add: dec_pairing_row_def enc_pairing_row_def wire_simps)

lemma rt_notification_row:
  "uuid_ok X \<Longrightarrow> i64_range (nw_posted_at r) \<Longrightarrow>
   dec_notification_row X (enc_notification_row X r) = Some r"
  by (simp add: dec_notification_row_def enc_notification_row_def wire_simps)

lemma rt_sms_row:
  "uuid_ok X \<Longrightarrow> i64_range (sw_timestamp r) \<Longrightarrow> dec_sms_row X (enc_sms_row X r) = Some r"
  by (simp add: dec_sms_row_def enc_sms_row_def wire_simps)

lemma rt_call_row:
  "uuid_ok X \<Longrightarrow> i64_range (cw_id r) \<Longrightarrow> i64_range (cw_started_at r) \<Longrightarrow>
   pred_option i64_range (cw_ended_at r) \<Longrightarrow> pred_option i64_range (cw_duration_secs r) \<Longrightarrow>
   dec_call_row X (enc_call_row X r) = Some r"
  by (simp add: dec_call_row_def enc_call_row_def wire_simps pred_option_def)

lemma rt_audit_row:
  "uuid_ok X \<Longrightarrow> i64_range (aw_id r) \<Longrightarrow> i64_range (aw_timestamp r) \<Longrightarrow>
   dec_audit_row X (enc_audit_row X r) = Some r"
  by (simp add: dec_audit_row_def enc_audit_row_def wire_simps)

lemmas rt_rows = rt_device_row rt_pairing_row rt_notification_row rt_sms_row rt_call_row rt_audit_row

text \<open>What a client that knows the rows makes of a field of a JSON body.\<close>

definition read_listing :: "string \<Rightarrow> (json \<Rightarrow> 'a option) \<Rightarrow> string + json \<Rightarrow> 'a list option" where
  "read_listing k dec b = (case b of Inl _ \<Rightarrow> None | Inr j \<Rightarrow> Option.bind (json_get j k) (dec_list dec))"

lemma listing_back:
  "list_all (\<lambda>x. dec (enc x) = Some x) xs \<Longrightarrow> map_of es k = Some (enc_list enc xs) \<Longrightarrow>
   read_listing k dec (Inr (JObj es)) = Some xs"
  by (simp add: read_listing_def dec_enc_list list_all_iff)

lemma listed_rows:
  "list_devices d = Inr a \<Longrightarrow> set a \<subseteq> set (t_devices d)"
  "list_notifications d dev lim ur pkg = Inr b \<Longrightarrow> set b \<subseteq> set (t_notifications d)"
  "list_sms d dev phone lim = Inr c \<Longrightarrow> set c \<subseteq> set (t_sms d)"
  "list_calls d dev lim = Inr e \<Longrightarrow> set e \<subseteq> set (t_calls d)"
  "list_audit_log d lim = Inr f \<Longrightarrow> set f \<subseteq> set (t_audit d)"
  unfolding list_notifications_reference list_sms_reference list_calls_def list_audit_log_def list_devices_def
  by (auto split: if_splits dest: set_limit_rows[THEN subsetD])

lemma listed_ok:
  assumes "uuid_ok X" "rows_ok d"
  shows "list_devices d = Inr a \<Longrightarrow> list_all (\<lambda>r. dec_device_row X (enc_device_row X r) = Some r) a"
    "list_notifications d dev lim ur pkg = Inr b \<Longrightarrow>
       list_all (\<lambda>r. dec_notification_row X (enc_notification_row X r) = Some r) b"
    "list_sms d dev phone lim = Inr c \<Longrightarrow> list_all (\<lambda>r. dec_sms_row X (enc_sms_row X r) = Some r) c"
    "list_calls d dev lim = Inr e \<Longrightarrow> list_all (\<lambda>r. dec_call_row X (enc_call_row X r) = Some r) e"
    "list_audit_log d lim = Inr f \<Longrightarrow> list_all (\<lambda>r. dec_audit_row X (enc_audit_row X r) = Some r) f"
    "list_all (\<lambda>r. dec_pairing_row X (enc_pairing_row X r) = Some r) (sort_desc pw_paired_at (t_pairings d))"
  using assms listed_rows[of d]
  by (simp_all add: rows_ok_def list_all_iff rt_rows subset_iff)

text \<open>
  C32: What the console reads is what is stored. From the body of every listing that answers 200 a
  client that decodes the rows as the storage crate declares them gets back exactly the rows the
  query selected, in order, absent values included: devices, pairings, notifications, messages,
  calls and the audit log.
\<close>

theorem listings_read_back:
  assumes "uuid_ok X" "rows_ok (app_db s)"
  shows "(list_devices (app_db s) = Inr devs \<longrightarrow>
      read_listing ''devices'' (dec_device_row X) (rest_body_out X err (snd (rest_list_devices s))) = Some devs) \<and>
    (db_up (app_db s) \<longrightarrow>
      read_listing ''persisted'' (dec_pairing_row X) (rest_body_out X err (snd (rest_list_pairings s)))
        = Some (sort_desc pw_paired_at (t_pairings (app_db s)))) \<and>
    (list_notifications (app_db s) dev (limit_or 50 500 lim) ur pkg = Inr notes \<longrightarrow>
      read_listing ''notifications'' (dec_notification_row X)
        (rest_body_out X err (snd (rest_list_notifications s dev lim pkg (Some ur)))) = Some notes) \<and>
    (list_sms (app_db s) dev phone (limit_or 50 500 lim) = Inr msgs \<longrightarrow>
      read_listing ''messages'' (dec_sms_row X) (rest_body_out X err (snd (rest_list_sms s dev phone lim))) = Some msgs) \<and>
    (list_calls (app_db s) dev (limit_or 50 500 lim) = Inr calls \<longrightarrow>
      read_listing ''calls'' (dec_call_row X) (rest_body_out X err (snd (rest_list_calls s dev lim))) = Some calls) \<and>
    (list_audit_log (app_db s) (limit_or 100 1000 lim) = Inr entries \<longrightarrow>
      read_listing ''entries'' (dec_audit_row X) (rest_body_out X err (snd (rest_list_audit s lim))) = Some entries)"
  by (intro conjI impI)
    (simp_all add: rest_list_devices_def rest_list_pairings_def rest_list_notifications_def rest_list_sms_def
      rest_list_calls_def rest_list_audit_def answer_def enc_devices_def enc_pairings_def enc_notifications_def
      enc_sms_listing_def enc_calls_def enc_audit_def listed_ok[OF assms, THEN listing_back])

theorem listings_read_back_witness:
  "let s = \<lparr>a_net = demo_net demo_center, a_pins = [], a_cfg = demo_cfg, a_fingerprint = []\<rparr> in
     read_listing ''notifications'' (dec_notification_row demo_ext)
       (rest_body_out demo_ext (\<lambda>_. []) (snd (rest_list_notifications s None None None (Some False)))) = Some [demo_note]"
proof -
  let ?s = "\<lparr>a_net = demo_net demo_center, a_pins = [], a_cfg = demo_cfg, a_fingerprint = []\<rparr>"
  have d: "app_db ?s = demo_db" by (simp add: app_db_def demo_net_def demo_center_def)
  have "rows_ok demo_db"
    by (simp add: rows_ok_def demo_db_def db_empty_def demo_phone_def demo_note_def i64_range_def)
  moreover have "list_notifications demo_db None (limit_or 50 500 None) False None = Inr [demo_note]"
    using list_notifications_reference[of demo_db None 50 False None]
    by (simp add: demo_db_wf limit_or_def clamp_def)
      (simp add: demo_db_def demo_note_def notif_wanted_def sort_desc_def limit_rows_def)
  ultimately show ?thesis
    using listings_read_back[OF demo_uuid_ok, of ?s _ "\<lambda>_. []" None None False None "[demo_note]"] d
    by (simp add: Let_def)
qed

end
