(* ===== verification/Race.thy ===== *)
theory Race
  imports Rest
begin

text \<open>
  The pairing map under concurrency (phonebridge-net/src/ws_handler.rs). The map is locked for one
  operation at a time, while a handler of the dispatcher uses two or three of them: it takes a
  session out, or looks whether there is one, works on it, and puts the result in. Handlers of other
  connections and of the REST interface run in between. Here a handler is a sequence of such steps;
  the steps of several handlers, and the insertions and removals of the REST interface, interleave.
\<close>

section \<open>A handler as steps on the map\<close>

text \<open>
  Where a handler is: not begun, about to insert a session, about to look for a responder (after it
  found no initiator for a \<open>pair.complete\<close>), or done with the map.
\<close>

datatype hstate = HsStart | HsInsert device_session | HsResponder | HsEnd

definition insert_completed :: "uuid \<Rightarrow> 'e + pairing_outcome \<Rightarrow> hstate" where
  "insert_completed peer r = (case r of Inl _ \<Rightarrow> HsEnd | Inr o' \<Rightarrow> HsInsert (paired_as peer o'))"

definition start_step ::
  "envelope ext \<Rightarrow> tick \<Rightarrow> envelope \<Rightarrow> pairing_map \<Rightarrow> (hstate \<times> pairing_map) run" where
  "start_step X t e m =
     (let peer = env_device_id e in
      case env_type e of
        MtDeviceHello \<Rightarrow>
          (case pairing_get X t peer m of
             Panic \<Rightarrow> Panic
           | Done (Some _) \<Rightarrow> Done (HsEnd, m)
           | Done None \<Rightarrow> Done (case responder_start X t peer of
                Inl _ \<Rightarrow> HsEnd | Inr r \<Rightarrow> HsInsert (Unpaired (USResponder r)), m))
      | MtDevicePairChallenge \<Rightarrow>
          (case take_unpaired_initiator peer m of
             (None, m') \<Rightarrow> Done (HsEnd, m')
           | (Some i, m') \<Rightarrow> Done (HsInsert (Unpaired (USInitiator
                (case initiator_on_challenge X t i e of Inl _ \<Rightarrow> i | Inr (i', _) \<Rightarrow> i'))), m'))
      | MtDevicePairConfirm \<Rightarrow>
          (case take_unpaired_initiator peer m of
             (None, m') \<Rightarrow> Done (HsEnd, m')
           | (Some i, m') \<Rightarrow>
               Done (if (case dec_pair_confirm (env_payload e) of None \<Rightarrow> False | Some c \<Rightarrow> pcf_accepted c)
                     then HsInsert (Unpaired (USInitiator i)) else HsEnd, m'))
      | MtDevicePairComplete \<Rightarrow>
          (case take_unpaired_initiator peer m of
             (None, m') \<Rightarrow> Done (HsResponder, m')
           | (Some i, m') \<Rightarrow> Done (insert_completed peer (initiator_on_complete X i e), m'))
      | _ \<Rightarrow> Done (HsEnd, m))"

definition map_step ::
  "envelope ext \<Rightarrow> tick \<Rightarrow> envelope \<Rightarrow> hstate \<Rightarrow> pairing_map \<Rightarrow> (hstate \<times> pairing_map) run" where
  "map_step X t e h m =
     (let peer = env_device_id e in
      case h of
        HsStart \<Rightarrow> start_step X t e m
      | HsInsert s \<Rightarrow> Done (HsEnd, pairing_insert peer s m)
      | HsResponder \<Rightarrow>
          (case take_unpaired_responder peer m of
             (None, m') \<Rightarrow> Done (HsEnd, m')
           | (Some r, m') \<Rightarrow> Done (insert_completed peer (responder_on_complete X r e), m'))
      | HsEnd \<Rightarrow> Done (HsEnd, m))"

section \<open>Interleaving\<close>

record race =
  ra_handlers :: "(tick \<times> envelope \<times> hstate) list"
  ra_map :: pairing_map

text \<open>
  A step of some handler, or of the REST interface: \<open>pair_start\<close> inserts the initiator it has
  made, \<open>remove_device\<close> removes what there is.
\<close>

datatype race_label = RlHandler nat | RlInsert uuid device_session | RlRemove uuid

inductive race_step :: "envelope ext \<Rightarrow> race_label \<Rightarrow> race \<Rightarrow> race \<Rightarrow> bool" for X where
  handler: "i < length (ra_handlers s) \<Longrightarrow> ra_handlers s ! i = (t, e, h) \<Longrightarrow>
    map_step X t e h (ra_map s) = Done (h', m') \<Longrightarrow>
    race_step X (RlHandler i) s \<lparr>ra_handlers = (ra_handlers s)[i := (t, e, h')], ra_map = m'\<rparr>"
| insert: "race_step X (RlInsert d x) s (s\<lparr>ra_map := pairing_insert d x (ra_map s)\<rparr>)"
| remove: "race_step X (RlRemove d) s (s\<lparr>ra_map := snd (pairing_remove d (ra_map s))\<rparr>)"

inductive race_run :: "envelope ext \<Rightarrow> race_label list \<Rightarrow> race \<Rightarrow> race \<Rightarrow> bool" for X where
  refl: "race_run X [] s s"
| step: "race_run X ls s s' \<Longrightarrow> race_step X l s' s'' \<Longrightarrow> race_run X (ls @ [l]) s s''"

inductive_cases race_stepE: "race_step X l s s'"

text \<open>Whether a label concerns a device by itself, and which handlers do.\<close>

fun touches :: "uuid \<Rightarrow> race_label \<Rightarrow> bool" where
  "touches d (RlHandler _) = False"
| "touches d (RlInsert u _) = (u = d)"
| "touches d (RlRemove u) = (u = d)"

definition concerned :: "uuid \<Rightarrow> race \<Rightarrow> nat list" where
  "concerned d s = filter (\<lambda>i. case ra_handlers s ! i of (_, e, _) \<Rightarrow> env_device_id e = d) [0..<length (ra_handlers s)]"

section \<open>One handler on its entry\<close>

text \<open>What the entry will be when a handler that is at \<open>h\<close> has finished alone.\<close>

definition finish ::
  "envelope ext \<Rightarrow> tick \<Rightarrow> envelope \<Rightarrow> hstate \<Rightarrow> device_session option \<Rightarrow> device_session option" where
  "finish X t e h s =
     (case h of
        HsStart \<Rightarrow> session_after X t e s
      | HsInsert x \<Rightarrow> Some x
      | HsResponder \<Rightarrow>
          (case s of
             Some (Unpaired (USResponder r)) \<Rightarrow> completed (env_device_id e) (responder_on_complete X r e)
           | _ \<Rightarrow> s)
      | HsEnd \<Rightarrow> s)"

lemma confirm_accepted:
  "(case c of None \<Rightarrow> False | Some c \<Rightarrow> pcf_accepted c) \<longleftrightarrow> c = Some \<lparr>pcf_accepted = True\<rparr>"
  by (cases c) (auto intro: pair_confirm.equality)

lemma map_step_entry:
  assumes "map_step X t e h m = Done (h', m')"
  shows "finish X t e h' (hm_get m' (env_device_id e)) = finish X t e h (hm_get m (env_device_id e)) \<and>
    (\<forall>d. d \<noteq> env_device_id e \<longrightarrow> hm_get m' d = hm_get m d)"
proof (cases h)
  case HsStart
  then have s: "start_step X t e m = Done (h', m')" using assms by (simp add: map_step_def)
  show ?thesis
  proof (cases "env_type e")
    case MtDeviceHello
    then show ?thesis using s HsStart
      by (auto simp: start_step_def finish_def session_after_def Let_def pairing_get_def
          split: option.splits run.splits sum.splits)
  next
    case MtDevicePairChallenge
    then show ?thesis using s HsStart
      by (auto simp: start_step_def finish_def session_after_def Let_def
          split: prod.splits option.splits device_session.splits unpaired_session.splits dest!: take_initiator_cases)
  next
    case MtDevicePairConfirm
    then show ?thesis using s HsStart
      by (auto simp: start_step_def finish_def session_after_def Let_def confirm_accepted
          split: prod.splits option.splits device_session.splits unpaired_session.splits if_splits
          dest!: take_initiator_cases)
  next
    case MtDevicePairComplete
    then show ?thesis using s HsStart
      by (auto simp: start_step_def finish_def session_after_def Let_def insert_completed_def completed_def paired_as_def
          split: sum.splits prod.splits option.splits device_session.splits unpaired_session.splits
          dest!: take_initiator_cases)
  qed (use s HsStart in \<open>auto simp: start_step_def finish_def session_after_def Let_def\<close>)
next
  case (HsInsert x)
  then show ?thesis using assms by (auto simp: map_step_def finish_def pairing_insert_def Let_def)
next
  case HsResponder
  then show ?thesis using assms
    by (auto simp: map_step_def finish_def Let_def insert_completed_def completed_def paired_as_def
        split: sum.splits prod.splits option.splits device_session.splits unpaired_session.splits
        dest!: take_responder_cases)
next
  case HsEnd
  then show ?thesis using assms by (simp add: map_step_def Let_def)
qed

text \<open>A handler is never stuck, and is done after at most three steps of its own.\<close>

fun steps_left :: "hstate \<Rightarrow> nat" where
  "steps_left HsStart = 3"
| "steps_left HsResponder = 2"
| "steps_left (HsInsert _) = 1"
| "steps_left HsEnd = 0"

lemma map_step_progress:
  assumes "rcgen_ok X" "h \<noteq> HsEnd"
  shows "\<exists>h' m'. map_step X t e h m = Done (h', m') \<and> steps_left h' < steps_left h"
proof (cases h)
  case HsStart
  have g: "pairing_get X t (env_device_id e) m \<noteq> Panic" by (rule pairing_get_total[OF assms(1)])
  have c: "steps_left (insert_completed u r) \<le> 2" for u and r :: "pairing_error + pairing_outcome"
    by (simp add: insert_completed_def split: sum.split)
  obtain h' m' where "start_step X t e m = Done (h', m')" "steps_left h' \<le> 2"
  proof (cases "start_step X t e m")
    case Panic
    then show ?thesis using g
      by (auto simp: start_step_def Let_def split: message_type.splits run.splits option.splits prod.splits)
  next
    case (Done p)
    then have "steps_left (fst p) \<le> 2" using c
      by (cases "env_type e")
        (auto simp: start_step_def Let_def split: run.splits option.splits prod.splits sum.splits if_splits intro: order_trans)
    then show ?thesis using that Done by (cases p) simp
  qed
  then show ?thesis using HsStart by (simp add: map_step_def Let_def)
next
  case HsResponder
  then show ?thesis by (auto simp: map_step_def Let_def insert_completed_def split: prod.split option.split sum.split)
qed (use assms(2) in \<open>simp_all add: map_step_def Let_def\<close>)

section \<open>Handlers of different devices\<close>

definition work :: "tick \<times> envelope \<times> hstate \<Rightarrow> tick \<times> envelope" where
  "work p = (fst p, fst (snd p))"

definition same_work :: "race \<Rightarrow> race \<Rightarrow> bool" where
  "same_work s s' \<longleftrightarrow> map work (ra_handlers s') = map work (ra_handlers s)"

lemma same_work_nth:
  assumes "same_work s s'" "i < length (ra_handlers s)"
  shows "i < length (ra_handlers s') \<and> work (ra_handlers s' ! i) = work (ra_handlers s ! i)"
proof -
  have l: "length (ra_handlers s') = length (ra_handlers s)"
    using assms(1) map_eq_imp_length_eq unfolding same_work_def by blast
  then show ?thesis using assms unfolding same_work_def by (metis nth_map)
qed

lemma race_step_work: "race_step X l s s' \<Longrightarrow> same_work s s'"
proof (erule race_stepE)
  fix i t e h h' m'
  assume "s' = \<lparr>ra_handlers = (ra_handlers s)[i := (t, e, h')], ra_map = m'\<rparr>" "i < length (ra_handlers s)"
    "ra_handlers s ! i = (t, e, h)"
  moreover from this have "(map work (ra_handlers s))[i := work (t, e, h')] = map work (ra_handlers s)"
    by (intro list_update_same_conv[THEN iffD2]) (simp_all add: work_def)
  ultimately show ?thesis by (simp add: same_work_def map_update)
qed (simp_all add: same_work_def)

lemma concerned_iff:
  "i \<in> set (concerned d s) \<longleftrightarrow>
     i < length (ra_handlers s) \<and> env_device_id (snd (work (ra_handlers s ! i))) = d"
  by (cases "ra_handlers s ! i") (auto simp: concerned_def work_def)

lemma race_run_entry:
  assumes "race_run X ls s s'" "concerned d s = [i]" "ra_handlers s ! i = (t, e, h)" "list_all (\<lambda>l. \<not> touches d l) ls"
  shows "same_work s s' \<and> (\<exists>h'. ra_handlers s' ! i = (t, e, h') \<and>
    finish X t e h' (hm_get (ra_map s') d) = finish X t e h (hm_get (ra_map s) d))"
  using assms
proof (induction rule: race_run.induct)
  case (refl s)
  then show ?case by (simp add: same_work_def)
next
  case (step ls s s' l s'')
  have ii: "i \<in> set (concerned d s)" using step.prems(1) by simp
  then have i: "i < length (ra_handlers s)" and e: "env_device_id e = d"
    using step.prems(2) by (auto simp: concerned_iff work_def)
  obtain h1 where w: "same_work s s'" and h1: "ra_handlers s' ! i = (t, e, h1)"
    "finish X t e h1 (hm_get (ra_map s') d) = finish X t e h (hm_get (ra_map s) d)"
    using step.IH step.prems by auto
  have w': "same_work s s''" using w race_step_work[OF step.hyps(2)] by (simp add: same_work_def)
  have other: "j = i" if "j < length (ra_handlers s')" "ra_handlers s' ! j = (t', e', h')" "env_device_id e' = d"
    for j t' e' h'
  proof -
    have "same_work s' s" using w by (simp add: same_work_def)
    then have "j \<in> set (concerned d s)"
      using same_work_nth[OF _ that(1)] that(2,3) by (auto simp: concerned_iff work_def)
    then show ?thesis using step.prems(1) by simp
  qed
  from step.hyps(2) show ?case
  proof cases
    case (handler j t' e' h2 h3 m')
    show ?thesis
    proof (cases "j = i")
      case True
      then have "t' = t" "e' = e" "h2 = h1" using handler h1 by simp_all
      then show ?thesis using map_step_entry[OF handler(5)] handler h1 w' e True by auto
    next
      case False
      then have "env_device_id e' \<noteq> d" using other handler(3,4) by blast
      then have "hm_get m' d = hm_get (ra_map s') d" using map_step_entry[OF handler(5)] by auto
      then show ?thesis using handler h1 w' False by simp
    qed
  next
    case (insert u x)
    then show ?thesis using h1 w' step.prems(3) by (auto simp: pairing_insert_def)
  next
    case (remove u)
    then show ?thesis using h1 w' step.prems(3) by (auto simp: pairing_remove_def)
  qed
qed

text \<open>
  C5: The dispatcher may be read as atomic for each device. Whatever handlers of other devices and
  insertions and removals of the REST interface for other devices run in between, when the only
  handler of a device is done with the map, the entry of the device is the one the dispatcher leaves
  when nothing runs in between.
\<close>

theorem handlers_atomic_per_device:
  assumes "race_run X ls s s'" "concerned d s = [i]" "list_all (\<lambda>l. \<not> touches d l) ls"
    and "ra_handlers s ! i = (t, e, HsStart)" "ra_handlers s' ! i = (t, e, HsEnd)"
    and "n_pairing n = ra_map s" "dispatch X W t e n = Done (r, n')"
  shows "hm_get (ra_map s') d = hm_get (n_pairing n') d"
proof -
  have "i \<in> set (concerned d s)" using assms(2) by simp
  then have d: "env_device_id e = d" using assms(4) by (auto simp: concerned_iff work_def)
  have "finish X t e HsEnd (hm_get (ra_map s') d) = finish X t e HsStart (hm_get (ra_map s) d)"
    using race_run_entry[OF assms(1,2,4,3)] assms(5) by auto
  then show ?thesis using dispatch_session_entry[OF assms(7)] assms(6) d by (simp add: finish_def)
qed

section \<open>Handlers of one device\<close>

text \<open>A run of one handler, and of the REST interface, from its start.\<close>

definition alone :: "tick \<Rightarrow> envelope \<Rightarrow> pairing_map \<Rightarrow> race" where
  "alone t e m = \<lparr>ra_handlers = [(t, e, HsStart)], ra_map = m\<rparr>"

lemma race_run_Cons: "race_step X l s s' \<Longrightarrow> race_run X ls s' s'' \<Longrightarrow> race_run X (l # ls) s s''"
proof (rotate_tac, induction rule: race_run.induct)
  case (refl s')
  then show ?case using race_run.step[OF race_run.refl] by fastforce
next
  case (step ls s1 s2 l' s3)
  then show ?case using race_run.step[of X "l # ls"] by simp
qed

lemma race_first:
  "map_step X t e h m = Done (h', m') \<Longrightarrow>
     race_step X (RlHandler 0) \<lparr>ra_handlers = [(t, e, h)], ra_map = m\<rparr> \<lparr>ra_handlers = [(t, e, h')], ra_map = m'\<rparr>"
  using race_step.handler[of 0 "\<lparr>ra_handlers = [(t, e, h)], ra_map = m\<rparr>" t e h X h' m'] by simp

lemmas race_three = race_run_Cons[OF _ race_run_Cons[OF _ race_run_Cons[OF _ race_run.refl]]]

lemma insert_map_step: "map_step X t e (HsInsert x) k = Done (HsEnd, pairing_insert (env_device_id e) x k)"
  by (simp add: map_step_def Let_def)

lemma hello_map_step:
  assumes "env_type e = MtDeviceHello"
  shows "hm_get m (env_device_id e) = None \<Longrightarrow> responder_start X t (env_device_id e) = Inr r \<Longrightarrow>
      map_step X t e HsStart m = Done (HsInsert (Unpaired (USResponder r)), m)"
    "rcgen_ok X \<Longrightarrow> hm_get m (env_device_id e) = Some x \<Longrightarrow> map_step X t e HsStart m = Done (HsEnd, m)"
proof -
  show "hm_get m (env_device_id e) = None \<Longrightarrow> responder_start X t (env_device_id e) = Inr r \<Longrightarrow>
      map_step X t e HsStart m = Done (HsInsert (Unpaired (USResponder r)), m)"
    by (simp add: map_step_def start_step_def assms pairing_get_def)
  assume "rcgen_ok X" and g: "hm_get m (env_device_id e) = Some x"
  then have "pairing_get X t (env_device_id e) m \<noteq> Panic" by (intro pairing_get_total)
  then show "map_step X t e HsStart m = Done (HsEnd, m)" using g
    by (auto simp: map_step_def start_step_def assms pairing_get_def split: run.splits)
qed

lemma hello_overwrites:
  assumes "rcgen_ok X" "env_type e = MtDeviceHello" "hm_get m (env_device_id e) = None"
  shows "\<exists>r. race_run X [RlHandler 0, RlInsert (env_device_id e) x, RlHandler 0] (alone t e m)
    \<lparr>ra_handlers = [(t, e, HsEnd)],
     ra_map = pairing_insert (env_device_id e) (Unpaired (USResponder r)) (pairing_insert (env_device_id e) x m)\<rparr>"
proof -
  obtain r where r: "responder_start X t (env_device_id e) = Inr r" using responder_start_total[OF assms(1)] by blast
  let ?s = "\<lparr>ra_handlers = [(t, e, HsInsert (Unpaired (USResponder r)))], ra_map = m\<rparr>"
  show ?thesis unfolding alone_def
    using race_three[OF race_first[OF hello_map_step(1)[OF assms(2,3) r]] _ race_first[OF insert_map_step]]
      race_step.insert[of X "env_device_id e" x ?s] by fastforce
qed

lemma hello_serial:
  assumes "rcgen_ok X" "env_type e = MtDeviceHello" "hm_get m (env_device_id e) = None"
  shows "\<exists>s. race_run X [RlHandler 0, RlHandler 0, RlInsert (env_device_id e) x] (alone t e m) s \<and>
      hm_get (ra_map s) (env_device_id e) = Some x"
    "\<exists>s. race_run X [RlInsert (env_device_id e) x, RlHandler 0, RlHandler 0] (alone t e m) s \<and>
      hm_get (ra_map s) (env_device_id e) = Some x"
proof -
  let ?d = "env_device_id e"
  obtain r where r: "responder_start X t ?d = Inr r" using responder_start_total[OF assms(1)] by blast
  let ?m = "pairing_insert ?d (Unpaired (USResponder r)) m"
  have "race_run X [RlHandler 0, RlHandler 0, RlInsert ?d x] (alone t e m)
      \<lparr>ra_handlers = [(t, e, HsEnd)], ra_map = pairing_insert ?d x ?m\<rparr>"
    unfolding alone_def
    using race_three[OF race_first[OF hello_map_step(1)[OF assms(2,3) r]] race_first[OF insert_map_step]]
      race_step.insert[of X ?d x "\<lparr>ra_handlers = [(t, e, HsEnd)], ra_map = ?m\<rparr>"] by simp
  then show "\<exists>s. race_run X [RlHandler 0, RlHandler 0, RlInsert ?d x] (alone t e m) s \<and> hm_get (ra_map s) ?d = Some x"
    by (intro exI conjI) (assumption, simp add: pairing_insert_def)
  have e: "map_step X t e HsEnd k = Done (HsEnd, k)" for k by (simp add: map_step_def Let_def)
  have g: "hm_get (pairing_insert ?d x m) ?d = Some x" by (simp add: pairing_insert_def)
  have "race_run X [RlInsert ?d x, RlHandler 0, RlHandler 0] (alone t e m)
      \<lparr>ra_handlers = [(t, e, HsEnd)], ra_map = pairing_insert ?d x m\<rparr>"
    unfolding alone_def
    using race_three[OF _ race_first[OF hello_map_step(2)[OF assms(2,1) g]] race_first[OF e]]
      race_step.insert[of X ?d x "\<lparr>ra_handlers = [(t, e, HsStart)], ra_map = m\<rparr>"] by simp
  then show "\<exists>s. race_run X [RlInsert ?d x, RlHandler 0, RlHandler 0] (alone t e m) s \<and> hm_get (ra_map s) ?d = Some x"
    using g by (intro exI conjI) (assumption, simp)
qed

lemma removed_returns:
  assumes "env_type f = MtDevicePairComplete" "hm_get p (env_device_id f) = Some (Unpaired (USInitiator j))"
    and "initiator_on_complete X j f = Inr o'"
  shows "\<exists>s. race_run X [RlHandler 0, RlRemove (env_device_id f), RlHandler 0] (alone t f p) s \<and>
    hm_get (ra_map s) (env_device_id f) = Some (paired_as (env_device_id f) o')"
proof -
  let ?u = "env_device_id f" and ?x = "paired_as (env_device_id f) o'"
  have "map_step X t f HsStart p = Done (HsInsert ?x, hm_remove ?u p)"
    by (simp add: map_step_def start_step_def assms take_unpaired_initiator_def insert_completed_def Let_def)
  then have "race_run X [RlHandler 0, RlRemove ?u, RlHandler 0] (alone t f p)
      \<lparr>ra_handlers = [(t, f, HsEnd)], ra_map = pairing_insert ?u ?x (snd (pairing_remove ?u (hm_remove ?u p)))\<rparr>"
    unfolding alone_def
    using race_three[OF race_first _ race_first[OF insert_map_step]]
      race_step.remove[of X ?u "\<lparr>ra_handlers = [(t, f, HsInsert ?x)], ra_map = hm_remove ?u p\<rparr>"] by fastforce
  then show ?thesis by (intro exI conjI) (assumption, simp add: pairing_insert_def)
qed

lemma challenge_dropped:
  assumes "hm_get (n_pairing n) (env_device_id c) = Some (Unpaired (USResponder r))"
  shows "fst (dispatch_challenge X W t c n) = None \<and>
    hm_get (n_pairing (snd (dispatch_challenge X W t c n))) = hm_get (n_pairing n)"
  using assms by (auto simp: dispatch_challenge_def take_unpaired_initiator_def Let_def fun_eq_iff)

text \<open>
  C6: What an interleaving on one device can lose. A console that starts a pairing while the
  dispatcher handles a hello of the same phone, between its look at the map and its insertion, has
  its initiator overwritten by a responder, and the phone's challenge is then dropped without an
  answer; in either serial order the initiator stays. And a device the console removes while its
  \<open>pair.complete\<close> is handled comes back as paired.
\<close>

theorem updates_lost:
  assumes "rcgen_ok X" "env_type e = MtDeviceHello" "hm_get m (env_device_id e) = None"
    and "env_type f = MtDevicePairComplete" "hm_get p (env_device_id f) = Some (Unpaired (USInitiator j))"
    and "initiator_on_complete X j f = Inr o'" and "env_device_id c = env_device_id e"
  shows "(\<exists>s. race_run X [RlHandler 0, RlInsert (env_device_id e) (Unpaired (USInitiator i)), RlHandler 0] (alone t e m) s \<and>
      (\<exists>r. hm_get (ra_map s) (env_device_id e) = Some (Unpaired (USResponder r))) \<and>
      fst (dispatch_challenge X W t c (n\<lparr>n_pairing := ra_map s\<rparr>)) = None \<and>
      hm_get (n_pairing (snd (dispatch_challenge X W t c (n\<lparr>n_pairing := ra_map s\<rparr>)))) = hm_get (ra_map s)) \<and>
    (\<exists>s. race_run X [RlHandler 0, RlHandler 0, RlInsert (env_device_id e) (Unpaired (USInitiator i))] (alone t e m) s \<and>
      hm_get (ra_map s) (env_device_id e) = Some (Unpaired (USInitiator i))) \<and>
    (\<exists>s. race_run X [RlInsert (env_device_id e) (Unpaired (USInitiator i)), RlHandler 0, RlHandler 0] (alone t e m) s \<and>
      hm_get (ra_map s) (env_device_id e) = Some (Unpaired (USInitiator i))) \<and>
    (\<exists>s. race_run X [RlHandler 0, RlRemove (env_device_id f), RlHandler 0] (alone t f p) s \<and>
      hm_get (ra_map s) (env_device_id f) = Some (paired_as (env_device_id f) o'))"
proof -
  obtain r where r: "race_run X [RlHandler 0, RlInsert (env_device_id e) (Unpaired (USInitiator i)), RlHandler 0] (alone t e m)
      \<lparr>ra_handlers = [(t, e, HsEnd)], ra_map = pairing_insert (env_device_id e) (Unpaired (USResponder r))
         (pairing_insert (env_device_id e) (Unpaired (USInitiator i)) m)\<rparr>" (is "race_run X _ _ ?s")
    using hello_overwrites[OF assms(1-3)] by blast
  have g: "hm_get (ra_map ?s) (env_device_id e) = Some (Unpaired (USResponder r))"
    by (simp add: pairing_insert_def)
  then have "fst (dispatch_challenge X W t c (n\<lparr>n_pairing := ra_map ?s\<rparr>)) = None \<and>
      hm_get (n_pairing (snd (dispatch_challenge X W t c (n\<lparr>n_pairing := ra_map ?s\<rparr>)))) = hm_get (ra_map ?s)"
    using challenge_dropped[of "n\<lparr>n_pairing := ra_map ?s\<rparr>" c r X W t] assms(7) by simp
  then show ?thesis using r g hello_serial[OF assms(1-3)] removed_returns[OF assms(4-6)] by blast
qed

section \<open>Concrete interleavings\<close>

lemma demo_hello_fields: "env_type (demo_hello d) = MtDeviceHello" "env_device_id (demo_hello d) = d"
  by (simp_all add: demo_hello_def envelope_new_def)

text \<open>The hellos of two phones, their steps in turn.\<close>

theorem handlers_atomic_per_device_witness:
  "\<exists>s n'. race_run demo_ext [RlHandler 0, RlHandler 1, RlHandler 0]
       \<lparr>ra_handlers = [(demo_tick 0, demo_hello 1, HsStart), (demo_tick 0, demo_hello 3, HsStart)], ra_map = []\<rparr> s \<and>
     dispatch demo_ext demo_cfg (demo_tick 0) (demo_hello 1) (demo_net ()) = Done (None, n') \<and>
     hm_get (ra_map s) 1 = hm_get (n_pairing n') 1"
proof -
  let ?t = "demo_tick 0" and ?e = "demo_hello 1" and ?f = "demo_hello 3"
  obtain r where r: "responder_start demo_ext ?t 1 = Inr r" using responder_start_total[OF frames_rcgen(2)] by blast
  obtain q where q: "responder_start demo_ext ?t 3 = Inr q" using responder_start_total[OF frames_rcgen(2)] by blast
  let ?r = "HsInsert (Unpaired (USResponder r))" and ?q = "HsInsert (Unpaired (USResponder q))"
  let ?s0 = "\<lparr>ra_handlers = [(?t, ?e, HsStart), (?t, ?f, HsStart)], ra_map = []\<rparr>"
  let ?s1 = "\<lparr>ra_handlers = [(?t, ?e, ?r), (?t, ?f, HsStart)], ra_map = []\<rparr>"
  let ?s2 = "\<lparr>ra_handlers = [(?t, ?e, ?r), (?t, ?f, ?q)], ra_map = []\<rparr>"
  let ?s3 = "\<lparr>ra_handlers = [(?t, ?e, HsEnd), (?t, ?f, ?q)], ra_map = pairing_insert 1 (Unpaired (USResponder r)) []\<rparr>"
  have "race_step demo_ext (RlHandler 0) ?s0 ?s1"
    using race_step.handler[of 0 ?s0 ?t ?e HsStart demo_ext ?r "[]"] r
    by (simp add: hello_map_step(1) demo_hello_fields)
  moreover have "race_step demo_ext (RlHandler 1) ?s1 ?s2"
    using race_step.handler[of 1 ?s1 ?t ?f HsStart demo_ext ?q "[]"] q
    by (simp add: hello_map_step(1) demo_hello_fields)
  moreover have "race_step demo_ext (RlHandler 0) ?s2 ?s3"
    using race_step.handler[of 0 ?s2 ?t ?e ?r demo_ext HsEnd] by (simp add: insert_map_step demo_hello_fields)
  ultimately have run: "race_run demo_ext [RlHandler 0, RlHandler 1, RlHandler 0] ?s0 ?s3" by (rule race_three)
  obtain x n' where d: "dispatch demo_ext demo_cfg ?t ?e (demo_net ()) = Done (x, n')"
    using dispatch_total[OF frames_rcgen(2)] by (metis run.exhaust prod.exhaust)
  have "x = None" using d
    by (auto simp: dispatch_def demo_hello_fields dispatch_hello_def split: run.splits option.splits sum.splits)
  moreover have "concerned 1 ?s0 = [0]" by (simp add: concerned_def demo_hello_fields upt_rec)
  then have "hm_get (ra_map ?s3) 1 = hm_get (n_pairing n') 1"
    by (rule handlers_atomic_per_device[OF run _ _ _ _ _ d]) (simp_all add: demo_net_def)
  ultimately show ?thesis using run d by blast
qed

theorem updates_lost_witness:
  "\<exists>s. race_run demo_ext [RlHandler 0, RlRemove 1, RlHandler 0]
       (alone (demo_tick 0) (demo_finish 1) [(1, Unpaired (USInitiator demo_initiator))]) s \<and>
     (\<exists>p. hm_get (ra_map s) 1 = Some (Paired p))"
proof -
  let ?m = "[(1, Unpaired (USInitiator demo_initiator))]"
  have f: "env_type (demo_finish 1) = MtDevicePairComplete" "env_device_id (demo_finish 1) = 1"
    by (simp_all add: demo_finish_def envelope_new_def)
  have c: "initiator_on_complete demo_ext demo_initiator (demo_finish 1) =
      Inr \<lparr>po_peer_device_id = 1, po_peer_fingerprint = cert_fingerprint_der demo_ext [1],
           po_peer_cert_pem = ''-----BEGIN CERTIFICATE-----''\<rparr>" (is "_ = Inr ?o")
    using parse_format[of demo_ext "[1]"]
    by (simp add: initiator_on_complete_def accept_complete_def demo_finish_def envelope_new_def
        parse_payload_def rt_pair_complete demo_initiator_def)
  have "hm_get ?m (env_device_id (demo_finish 1)) = Some (Unpaired (USInitiator demo_initiator))"
    by (simp add: f hm_get_def)
  then show ?thesis
    using updates_lost[OF frames_rcgen(2) demo_hello_fields(1)[of 5], of "[]" "demo_finish 1" ?m demo_initiator ?o "demo_hello 5"
        demo_initiator "demo_tick 0" demo_cfg "demo_net ()"] f c
    by (auto simp: paired_as_def)
qed

end
