(* ===== verification/Causes.thy ===== *)
theory Causes
  imports System
begin

text \<open>
  Why the message-center sends what it sends: every message handed to a phone's channel, with the
  step of the system that can have caused it. This is what a phone, or the test client
  (PairCli), can rely on.
\<close>

section \<open>Causes\<close>

text \<open>The types of message a step can hand to a phone.\<close>

fun cause :: "label \<Rightarrow> message_type \<Rightarrow> bool" where
  "cause (LRequest q) k =
     (case q of
        RqPairStart _ \<Rightarrow> k = MtDevicePairRequest
      | RqIncomingAccept _ \<Rightarrow> k = MtDevicePairConfirm
      | RqIncomingReject _ \<Rightarrow> k = MtDevicePairConfirm
      | RqDismiss _ _ \<Rightarrow> k = MtNotificationDismissed
      | RqSendSms _ \<Rightarrow> k = MtSmsSendRequest
      | RqDial _ _ \<Rightarrow> k = MtCallDialRequest
      | _ \<Rightarrow> False)"
| "cause (LMessage e) k =
     (case env_type e of
        MtDeviceHeartbeat \<Rightarrow> k = MtDeviceHeartbeat
      | MtDevicePairChallenge \<Rightarrow> k = MtDevicePairReject
      | MtDevicePairConfirm \<Rightarrow> k = MtDevicePairComplete
      | _ \<Rightarrow> False)"
| "cause (LAction a) k =
     (if da_kind a = ''sms.reply'' then k = MtSmsSendRequest
      else if da_kind a = ''notification.dismiss'' then k = MtNotificationDismissed
      else if da_kind a = ''call.answer'' then k = MtCallAnswerRequest
      else if da_kind a = ''call.end'' then k = MtCallEndRequest
      else False)"
| "cause LAccepted k = (k = MtDeviceHello)"
| "cause _ k = False"

definition ours :: "ws_cfg \<Rightarrow> label \<Rightarrow> nat \<times> envelope \<Rightarrow> bool" where
  "ours W l p \<longleftrightarrow> env_device_id (snd p) = wc_device_id W \<and> cause l (env_type (snd p))"

definition sends :: "label \<Rightarrow> app \<Rightarrow> app \<Rightarrow> bool" where
  "sends l s s' \<longleftrightarrow> a_cfg s' = a_cfg s \<and>
     (\<exists>new. n_hist (a_net s') = n_hist (a_net s) @ new \<and> list_all (ours (a_cfg s) l) new)"

lemma sends_none: "a_cfg s' = a_cfg s \<Longrightarrow> n_hist (a_net s') = n_hist (a_net s) \<Longrightarrow> sends l s s'"
  by (simp add: sends_def)

lemma sends_one:
  "a_cfg s' = a_cfg s \<Longrightarrow> n_hist (a_net s') = n_hist (a_net s) @ [p] \<Longrightarrow> ours (a_cfg s) l p \<Longrightarrow> sends l s s'"
  by (simp add: sends_def)

lemma ours_new:
  "ours W l (c, envelope_new k (wc_device_id W) p u now) \<longleftrightarrow> cause l k"
  "ours W l (c, (envelope_new k (wc_device_id W) p u now)\<lparr>env_id := v\<rparr>) \<longleftrightarrow> cause l k"
  by (simp_all add: ours_def envelope_new_def)

lemma request_Inr:
  "initiator_request X i us u now = Inr e \<Longrightarrow> \<exists>p. e = envelope_new MtDevicePairRequest us p u now"
  by (auto simp: initiator_request_def split: option.splits)

lemma rest_sends:
  assumes "rest_step X t s q = Done (r, s')"
  shows "sends (LRequest q) s s'"
proof (cases q)
  case (RqPairAccept u c)
  then show ?thesis using assms pair_answer_keeps(1) by (fastforce simp: rest_step_def intro: sends_none)
next
  case (RqPairReject u c)
  then show ?thesis using assms pair_answer_keeps(2) by (fastforce simp: rest_step_def intro: sends_none)
next
  case (RqRemoveDevice u)
  then show ?thesis using assms
    by (auto simp: rest_step_def rest_remove_device_def Let_def split: sum.splits intro!: sends_none)
next
  case (RqPairStart u)
  then show ?thesis using assms
    by (auto simp: rest_step_def rest_pair_start_def app_try_send_Inr ours_new
        dest!: request_Inr split: if_splits sum.splits intro: sends_none sends_one)
next
  case (RqDismiss u i)
  then show ?thesis using assms
    by (auto simp: rest_step_def rest_dismiss_def app_try_send_Inr ours_new Let_def sends_def
        split: option.splits sum.splits)
qed (use assms in \<open>auto simp: rest_step_def rest_incoming_accept_def rest_incoming_reject_def confirm_env_def
       rest_mark_read_def rest_mark_all_read_def rest_send_sms_def rest_dial_def app_try_send_Inr ours_new Let_def
     split: prod.splits option.splits if_splits sum.splits intro: sends_none sends_one\<close>)

lemma reject_Inr:
  "initiator_reject i us rs u now = Inr e \<Longrightarrow> \<exists>p. e = envelope_new MtDevicePairReject us p u now"
  by (auto simp: initiator_reject_def split: if_splits)

lemma complete_Inr:
  "initiator_complete i us u now = Inr e \<Longrightarrow> \<exists>p. e = envelope_new MtDevicePairComplete us p u now"
  by (auto simp: initiator_complete_def split: option.splits)

lemma dispatch_reply:
  assumes "dispatch X W t e n = Done (Some r, n')"
  shows "env_device_id r = wc_device_id W \<and> cause (LMessage e) (env_type r)"
  using assms
  by (cases "env_type e")
    (auto simp: dispatch_def dispatch_hello_def dispatch_challenge_def dispatch_confirm_def Let_def envelope_new_def
      dest!: reject_Inr complete_Inr split: run.splits option.splits sum.splits prod.splits if_splits)

lemma send_out_sends:
  "ours (a_cfg s) l (c, e) \<Longrightarrow> n_hist n = n_hist (a_net s) \<Longrightarrow> sends l s (s\<lparr>a_net := send_out X c e n\<rparr>)"
  by (auto simp: send_out_def chan_send_def intro: sends_none sends_one split: option.split)

lemma message_sends:
  assumes "handle_envelope X (a_cfg s) (center_sink X) t e cx (a_net s) = Done (cx', n')"
  shows "sends (LMessage e) s (s\<lparr>a_net := n'\<rparr>)"
proof -
  let ?n1 = "snd (side_effects X (center_sink X) t e cx (a_net s))"
  have h: "n_hist ?n1 = n_hist (a_net s)"
    by (cases "env_type e") (simp_all add: side_effects_def Let_def)
  obtain r n2 c where d: "dispatch X (a_cfg s) t e ?n1 = Done (r, n2)"
    and n': "n' = (case r of None \<Rightarrow> n2 | Some r \<Rightarrow> send_out X c r n2)"
    using assms by (auto simp: handle_envelope_def Let_def split: prod.splits run.splits)
  have "n_hist n2 = n_hist (a_net s)" using dispatch_frame[OF d] h by simp
  then show ?thesis using n' dispatch_reply[of X "a_cfg s" t e ?n1 _ n2] d
    by (cases r) (auto simp: ours_def intro!: sends_none send_out_sends)
qed

lemma result_sends: "sends l s s' \<Longrightarrow> sends l s (publish_action_result X t s' a ok code msg)"
  by (simp add: sends_def publish_result)

lemma send_action_sends:
  assumes "cause l k" "\<And>s. a_cfg (f s) = a_cfg s \<and> n_hist (a_net (f s)) = n_hist (a_net s)"
  shows "sends l s (send_action X t s a k p f)"
  using assms
  by (auto simp: send_action_def app_try_send_Inr ours_new split: sum.split
      intro!: result_sends intro: sends_none sends_one)

lemma action_sends: "sends (LAction a) s (handle_display_action X D t s a)"
proof -
  have "sends (LAction a) s (publish_phone_offline X t s a)"
    by (simp add: publish_phone_offline_def result_sends sends_none)
  then show ?thesis
    by (auto simp: handle_display_action_def do_sms_reply_def do_notification_read_def do_notification_dismiss_def
        do_call_answer_def do_call_end_def intro!: result_sends sends_none send_action_sends
        split: option.split sum.split prod.split)
qed

lemma step_sends: "sys_step X l s s' \<Longrightarrow> sends l s s'"
proof (induction rule: sys_step.induct)
  case (request s q r s' t)
  then show ?case by (rule rest_sends)
next
  case (message s t e cx cx' n')
  then show ?case by (rule message_sends)
next
  case (action a s D t)
  then show ?case by (rule action_sends)
next
  case (accepted s t cx)
  then show ?case
    by (auto simp: send_hello_def ours_def build_desktop_hello_def envelope_new_def intro!: sends_none send_out_sends)
qed (auto simp: cleanup_def app_console_def app_display_def intro!: sends_none split: option.split)

lemma sent_caused:
  assumes "sys_run X ls (app_init W fp) s" "(c, e) \<in> set (n_hist (a_net s))"
  shows "env_device_id e = wc_device_id W \<and> list_ex (\<lambda>l. cause l (env_type e)) ls \<and>
    env_type e \<noteq> MtDevicePairAccept \<and>
    (env_type e = MtDevicePairRequest \<longrightarrow> list_ex (\<lambda>l. \<exists>u. l = LRequest (RqPairStart u)) ls)"
proof -
  have "a_cfg s = W \<and> list_all (\<lambda>p. env_device_id (snd p) = wc_device_id W \<and>
      list_ex (\<lambda>l. cause l (env_type (snd p))) ls) (n_hist (a_net s))"
    using assms(1)
  proof (induction ls "app_init W fp" s rule: sys_run.induct)
    case refl
    then show ?case by (simp add: app_init_def)
  next
    case (step ls s l s')
    then show ?case using step_sends[of X l s s']
      by (fastforce simp: sends_def ours_def list_all_iff list_ex_iff)
  qed
  then have e: "env_device_id e = wc_device_id W" "list_ex (\<lambda>l. cause l (env_type e)) ls"
    using assms(2) by (auto simp: list_all_iff)
  have "\<not> cause l MtDevicePairAccept" "cause l MtDevicePairRequest \<Longrightarrow> \<exists>u. l = LRequest (RqPairStart u)" for l
    by (cases l; auto split: request.splits message_type.splits if_splits)+
  then show ?thesis using e by (auto simp: list_ex_iff) blast
qed

text \<open>
  C8: Every message that was ever handed to a phone carries the identity of this message-center and
  has a cause among the steps taken: the request of the console, the message of a phone or the
  action of a display whose handler sends that type, or an accepted connection for the hello. So a
  pair request goes out only after the console asked for a pairing, a dialled number only after a
  dial request, a text only after a request of the console or a reply on a display, and an acceptance
  never.
\<close>

theorem sent_has_cause:
  assumes "sys_run X ls (app_init W fp) s" "(c, e) \<in> set (n_hist (a_net s))"
  shows "env_device_id e = wc_device_id W \<and> list_ex (\<lambda>l. cause l (env_type e)) ls \<and>
    env_type e \<noteq> MtDevicePairAccept \<and>
    (env_type e = MtDevicePairRequest \<longrightarrow> list_ex (\<lambda>l. \<exists>u. l = LRequest (RqPairStart u)) ls)"
  using assms by (rule sent_caused)

theorem sent_has_cause_witness:
  "\<exists>s e. sys_run demo_ext [LAccepted] (app_init demo_cfg []) s \<and> n_hist (a_net s) = [(3, e)] \<and>
     env_type e = MtDeviceHello \<and> env_device_id e = wc_device_id demo_cfg"
proof -
  let ?cx = "\<lparr>cx_chan = 3, cx_device = None, cx_bus = bus_new 1024\<rparr>"
  let ?s = "app_init demo_cfg []"
  let ?s' = "?s\<lparr>a_net := send_hello demo_ext (a_cfg ?s) (demo_tick 0) ?cx (a_net ?s)\<rparr>"
  let ?e = "build_desktop_hello demo_cfg (t_uuid (demo_tick 0) 0) (t_ms (demo_tick 0) 0)"
  have r: "sys_run demo_ext [LAccepted] ?s ?s'"
    using sys_run.step[OF sys_run.refl sys_step.accepted, of demo_ext ?s "demo_tick 0" ?cx] by simp
  have h: "n_hist (a_net ?s') = [(3, ?e)]"
    by (simp add: send_hello_def send_out_def chan_send_def app_init_def demo_cfg_def demo_ext_def)
  have "env_type ?e = MtDeviceHello" by (simp add: build_desktop_hello_def envelope_new_def)
  moreover have "env_device_id ?e = wc_device_id demo_cfg" using sent_has_cause[OF r, of 3 ?e] h by simp
  ultimately show ?thesis using r h by blast
qed

end
