(* ===== verification/PairCli.thy ===== *)
theory PairCli
  imports Causes Identity
begin

text \<open>
  The one-shot test client (message-center/src/pair_cli.rs): a fake phone that connects, says hello
  and listens for ten seconds. Connecting, the TLS handshake and the sending of the hello are
  outcomes; what \<open>timeout(2s, ws.next())\<close> yields, with the clock at the test of the loop, is
  the script of the run. A script that ends stands for a clock that has passed the deadline.
\<close>

section \<open>The client\<close>

datatype cli_frame = CfText string | CfClose | CfEnd | CfOther | CfError string | CfTimeout

datatype cli_error = CeConnect string | CeSend string | CeTransport string | CeDecode

fun pair_cli_loop :: "envelope ext \<Rightarrow> int \<Rightarrow> (int \<times> cli_frame) list \<Rightarrow> cli_error + bool" where
  "pair_cli_loop X deadline [] = Inr False"
| "pair_cli_loop X deadline ((now, fr) # fs) =
     (if deadline \<le> now then Inr False
      else case fr of
             CfText s \<Rightarrow>
               (case envelope_from_text X s of
                  None \<Rightarrow> Inl CeDecode
                | Some e \<Rightarrow>
                    if env_type e = MtDevicePairRequest then Inr True
                    else pair_cli_loop X deadline fs)
           | CfClose \<Rightarrow> Inr False
           | CfEnd \<Rightarrow> Inr False
           | CfOther \<Rightarrow> pair_cli_loop X deadline fs
           | CfError e \<Rightarrow> Inl (CeTransport e)
           | CfTimeout \<Rightarrow> Inr False)"

definition cli_hello :: "center_identity \<Rightarrow> uuid \<Rightarrow> int \<Rightarrow> envelope" where
  "cli_hello I fresh now = envelope_new MtDeviceHello (ci_device_id I)
     (enc_device_hello \<lparr>dh_name = ci_name I, dh_device_type = DtAndroid, dh_protocol_version = 1,
        dh_pubkey = ci_public_key_b64 I, dh_port = None, dh_manufacturer = None, dh_model = None,
        dh_hardware_id = None\<rparr>) fresh now"

definition GOT_REQUEST :: string where
  "GOT_REQUEST = ''WS_OK: hello + pair.request round-tripped''"

definition NO_REQUEST :: string where
  "NO_REQUEST = ''WS_OK: hello accepted (message-center logged session); no pair.request observed (expected without web console trigger)''"

text \<open>The result with what was sent: the error, or the line that is printed.\<close>

definition pair_cli_run ::
  "envelope ext \<Rightarrow> center_identity \<Rightarrow> tick \<Rightarrow> string + unit \<Rightarrow> string + unit \<Rightarrow> (int \<times> cli_frame) list \<Rightarrow>
   (cli_error + string) \<times> envelope list" where
  "pair_cli_run X I t connected sent script =
     (case connected of
        Inl e \<Rightarrow> (Inl (CeConnect e), [])
      | Inr _ \<Rightarrow>
          (case sent of
             Inl e \<Rightarrow> (Inl (CeSend e), [])
           | Inr _ \<Rightarrow>
               (case pair_cli_loop X (t_ms t 1 + 10000) script of
                  Inl e \<Rightarrow> Inl e
                | Inr got \<Rightarrow> Inr (if got then GOT_REQUEST else NO_REQUEST),
                [cli_hello I (t_uuid t 0) (t_ms t 0)])))"

section \<open>What its line says\<close>

text \<open>The frames that are read: those in time, up to the first that ends the loop.\<close>

definition goes_on :: "envelope ext \<Rightarrow> int \<Rightarrow> int \<times> cli_frame \<Rightarrow> bool" where
  "goes_on X deadline f \<longleftrightarrow> fst f < deadline \<and>
     (case snd f of
        CfText s \<Rightarrow> (case envelope_from_text X s of None \<Rightarrow> False | Some e \<Rightarrow> env_type e \<noteq> MtDevicePairRequest)
      | CfOther \<Rightarrow> True
      | _ \<Rightarrow> False)"

lemma loop_result:
  "pair_cli_loop X deadline fs =
     (case dropWhile (goes_on X deadline) fs of
        [] \<Rightarrow> Inr False
      | f # _ \<Rightarrow>
          if deadline \<le> fst f then Inr False
          else case snd f of
                 CfText s \<Rightarrow> if envelope_from_text X s = None then Inl CeDecode else Inr True
               | CfError e \<Rightarrow> Inl (CeTransport e)
               | _ \<Rightarrow> Inr False)"
  by (induction X deadline fs rule: pair_cli_loop.induct)
    (auto simp: goes_on_def split: cli_frame.splits option.splits)

definition demo_cli_identity :: center_identity where
  "demo_cli_identity = \<lparr>ci_device_id = 4, ci_name = ''fake'', ci_cert_pem = [], ci_fingerprint = [],
     ci_public_key_b64 = []\<rparr>"

text \<open>A script whose texts are messages the message-center handed to the client's channel.\<close>

definition heard_from :: "envelope ext \<Rightarrow> app \<Rightarrow> nat \<Rightarrow> (int \<times> cli_frame) list \<Rightarrow> bool" where
  "heard_from X s c fs \<longleftrightarrow> list_all (\<lambda>f. case snd f of
     CfText m \<Rightarrow> list_ex (\<lambda>p. fst p = c \<and> envelope_from_text X m = Some (snd p)) (n_hist (a_net s))
   | _ \<Rightarrow> True) fs"

text \<open>
  C18: The test client against a message-center in any state it can reach. It never fails on a
  message it cannot read; it prints that a pair request came exactly when, before the ten seconds
  are over and before anything that ends its loop, a pair request was among what it was sent; and
  that happens only when the console has asked for a pairing, so a run without the web console
  always ends with the other line or a transport error.
\<close>

theorem test_client_report:
  assumes "sys_run X ls (app_init W fp) s" "heard_from X s c script"
  shows "fst (pair_cli_run X I t (Inr ()) (Inr ()) script) \<noteq> Inl CeDecode \<and>
    (fst (pair_cli_run X I t (Inr ()) (Inr ()) script) = Inr GOT_REQUEST \<longleftrightarrow>
      (\<exists>now m fs e. dropWhile (goes_on X (t_ms t 1 + 10000)) script = (now, CfText m) # fs \<and>
         now < t_ms t 1 + 10000 \<and> envelope_from_text X m = Some e \<and> env_type e = MtDevicePairRequest)) \<and>
    (fst (pair_cli_run X I t (Inr ()) (Inr ()) script) = Inr GOT_REQUEST \<longrightarrow>
      list_ex (\<lambda>l. \<exists>u. l = LRequest (RqPairStart u)) ls)"
proof -
  define d where "d = t_ms t 1 + 10000"
  have g: "GOT_REQUEST \<noteq> NO_REQUEST" by (simp add: GOT_REQUEST_def NO_REQUEST_def)
  have r: "fst (pair_cli_run X I t (Inr ()) (Inr ()) script) =
      (case pair_cli_loop X d script of Inl e \<Rightarrow> Inl e | Inr got \<Rightarrow> Inr (if got then GOT_REQUEST else NO_REQUEST))"
    by (simp add: pair_cli_run_def d_def)
  have "(case pair_cli_loop X d script of
      Inl e \<Rightarrow> e \<noteq> CeDecode \<and> \<not> (\<exists>now m fs. dropWhile (goes_on X d) script = (now, CfText m) # fs \<and> now < d)
    | Inr got \<Rightarrow> got \<longleftrightarrow> (\<exists>now m fs. dropWhile (goes_on X d) script = (now, CfText m) # fs \<and> now < d)) \<and>
    (\<forall>now m fs. dropWhile (goes_on X d) script = (now, CfText m) # fs \<longrightarrow> now < d \<longrightarrow>
      (\<exists>e. (c, e) \<in> set (n_hist (a_net s)) \<and> envelope_from_text X m = Some e \<and> env_type e = MtDevicePairRequest))"
  proof (cases "dropWhile (goes_on X d) script")
    case (Cons f fs)
    then have stop: "\<not> goes_on X d f" by (metis list.distinct(1) list.sel(1) hd_dropWhile)
    have "f \<in> set script" using Cons by (metis list.set_intros(1) set_dropWhileD)
    then have h: "\<exists>e. (c, e) \<in> set (n_hist (a_net s)) \<and> envelope_from_text X m = Some e" if "snd f = CfText m" for m
      using assms(2) that by (fastforce simp: heard_from_def list_all_iff list_ex_iff split: cli_frame.splits)
    have "\<exists>e. (c, e) \<in> set (n_hist (a_net s)) \<and> envelope_from_text X m = Some e \<and> env_type e = MtDevicePairRequest"
      if "snd f = CfText m" "fst f < d" for m
      using h[OF that(1)] stop that by (auto simp: goes_on_def)
    then show ?thesis using Cons
      by (cases f; cases "snd f") (fastforce simp: loop_result)+
  qed (simp add: loop_result del: dropWhile_eq_Nil_conv)
  then show ?thesis unfolding r d_def[symmetric] using g sent_caused[OF assms(1)]
    by (fastforce split: sum.splits if_splits)
qed

theorem test_client_report_witness:
  "\<exists>s e. sys_run (frames_ext [e]) [LAccepted] (app_init demo_cfg []) s \<and> heard_from (frames_ext [e]) s 3 [(5, CfText [])] \<and>
     fst (pair_cli_run (frames_ext [e]) demo_cli_identity (demo_tick 0) (Inr ()) (Inr ()) [(5, CfText [])]) \<noteq> Inl CeDecode"
proof -
  let ?e = "build_desktop_hello demo_cfg (t_uuid (demo_tick 0) 0) (t_ms (demo_tick 0) 0)"
  let ?X = "frames_ext [?e]" and ?s = "app_init demo_cfg []"
  let ?cx = "\<lparr>cx_chan = 3, cx_device = None, cx_bus = bus_new 1024\<rparr>"
  let ?s' = "?s\<lparr>a_net := send_hello ?X (a_cfg ?s) (demo_tick 0) ?cx (a_net ?s)\<rparr>"
  have r: "sys_run ?X [LAccepted] ?s ?s'"
    using sys_run.step[OF sys_run.refl sys_step.accepted, of ?X ?s "demo_tick 0" ?cx] by simp
  have "n_hist (a_net ?s') = [(3, ?e)]"
    by (simp add: send_hello_def send_out_def chan_send_def app_init_def demo_cfg_def demo_ext_def frames_ext_def)
  moreover have "i64_range (env_ts ?e)"
    by (simp add: build_desktop_hello_def envelope_new_def demo_tick_def i64_range_def)
  then have "envelope_from_text ?X [] = Some ?e" using frames_text[of 0 "[?e]"] by simp
  ultimately have h: "heard_from ?X ?s' 3 [(5, CfText [])]" by (simp add: heard_from_def)
  show ?thesis using test_client_report[OF r h] r h by blast
qed

end
