(* ===== verification/Upgrades.thy ===== *)
theory Upgrades
  imports System
begin

text \<open>
  The WebSocket endpoints as whole operations on the shared state: a phone's connection from the
  upgrade to the end of its handler (message-center/src/ws.rs, \<open>ws_upgrade\<close>) and a display's
  (display_ws.rs, \<open>handle_display_socket\<close>), and how they are made of the steps of System.
\<close>

section \<open>The endpoints\<close>

text \<open>
  The context of a connection: who the center is, and the maps and the sink its handler works on.
  \<open>new\<close> leaves the identity empty, \<open>with_identity\<close> fills it in; both
  start with maps of their own, which \<open>ws_upgrade\<close> replaces by the shared ones.
\<close>

record 's ws_context =
  wx_cfg :: ws_cfg
  wx_net :: "'s net"
  wx_bus :: proto_bus

definition ws_context_with_identity ::
  "uuid \<Rightarrow> string \<Rightarrow> string \<Rightarrow> u16 option \<Rightarrow> 's \<Rightarrow> registry \<Rightarrow> channel_log \<Rightarrow> 's ws_context" where
  "ws_context_with_identity us nm pk port snk reg hist =
     \<lparr>wx_cfg = \<lparr>wc_device_id = us, wc_name = nm, wc_public_key = pk, wc_port = port\<rparr>,
      wx_net = \<lparr>n_pairing = [], n_pending = [], n_registry = reg, n_hist = hist, n_sink = snk\<rparr>,
      wx_bus = proto_bus_new\<rparr>"

definition ws_context_new :: "uuid \<Rightarrow> 's \<Rightarrow> registry \<Rightarrow> channel_log \<Rightarrow> 's ws_context" where
  "ws_context_new us snk reg hist =
     \<lparr>wx_cfg = \<lparr>wc_device_id = us, wc_name = [], wc_public_key = [], wc_port = None\<rparr>,
      wx_net = \<lparr>n_pairing = [], n_pending = [], n_registry = reg, n_hist = hist, n_sink = snk\<rparr>,
      wx_bus = proto_bus_new\<rparr>"

definition test_context :: "uuid \<Rightarrow> db \<Rightarrow> center ws_context" where
  "test_context us d =
     ws_context_new us \<lparr>cn_db = d, cn_console = console_bus_new, cn_display = display_bus_new\<rparr> [] []"

text \<open>A phone's connection; \<open>c\<close> is the channel it opens.\<close>

definition upgrade_context :: "app \<Rightarrow> center ws_context" where
  "upgrade_context s =
     (let cx = ws_context_with_identity (wc_device_id (a_cfg s)) (wc_name (a_cfg s)) (wc_public_key (a_cfg s))
            (wc_port (a_cfg s)) (n_sink (a_net s)) (n_registry (a_net s)) (n_hist (a_net s))
      in cx\<lparr>wx_net := (wx_net cx)\<lparr>n_pairing := n_pairing (a_net s), n_pending := n_pending (a_net s)\<rparr>\<rparr>)"

definition ws_upgrade ::
  "envelope ext \<Rightarrow> nat \<Rightarrow> tick \<Rightarrow> (tick \<times> frame) list \<Rightarrow> tick \<Rightarrow> app \<Rightarrow> (bool \<times> app) run" where
  "ws_upgrade X c t0 fs t1 s =
     (let cx = upgrade_context s
      in case handle_connection X (wx_cfg cx) (center_sink X) c t0 fs t1 (wx_net cx) of
           Panic \<Rightarrow> Panic
         | Done (ok, n') \<Rightarrow> Done (ok, s\<lparr>a_net := n'\<rparr>))"

text \<open>The web console's: whatever its task does with its bus while others publish.\<close>

definition ws_console_upgrade :: "envelope ext \<Rightarrow> bool \<Rightarrow> json \<Rightarrow> console_input list \<Rightarrow> app \<Rightarrow> app" where
  "ws_console_upgrade X hello_sent h ins s =
     app_console (\<lambda>b. cc_bus (snd (run_console_axum X hello_sent h ins b))) s"

text \<open>
  A display: its subscription, the reader to the end of the frames, and the end of both tasks,
  which drops the subscription. What the tasks write meanwhile is \<open>pipe_step\<close>.
\<close>

definition handle_display_socket ::
  "envelope ext \<Rightarrow> (db_error \<Rightarrow> string) \<Rightarrow> ((nat \<Rightarrow> tick) \<times> display_frame) list \<Rightarrow> app \<Rightarrow> app" where
  "handle_display_socket X D fs s =
     (let i = snd (bus_subscribe (app_display_bus s));
          s1 = app_display (\<lambda>b. fst (bus_subscribe b)) s
      in app_display (bus_drop i) (display_reader X D fs s1))"

section \<open>What arrives on them\<close>

fun heard :: "envelope ext \<Rightarrow> (tick \<times> frame) list \<Rightarrow> envelope list" where
  "heard X [] = []"
| "heard X ((t, FText text) # fs) =
     (case envelope_from_text X text of None \<Rightarrow> heard X fs | Some e \<Rightarrow> e # heard X fs)"
| "heard X ((t, FPing) # fs) = heard X fs"
| "heard X ((t, FOther) # fs) = heard X fs"
| "heard X ((t, FClose) # fs) = []"
| "heard X ((t, FError) # fs) = []"

definition line_action :: "envelope ext \<Rightarrow> string \<Rightarrow> display_action option" where
  "line_action X line =
     (if trim line = [] then None else Option.bind (json_parse X (trim line)) (dec_display_action X))"

fun frame_actions :: "envelope ext \<Rightarrow> display_frame list \<Rightarrow> display_action list" where
  "frame_actions X [] = []"
| "frame_actions X (DfText text # fs) = List.map_filter (line_action X) (str_lines text) @ frame_actions X fs"
| "frame_actions X (DfBinary # fs) = frame_actions X fs"
| "frame_actions X (DfOther # fs) = frame_actions X fs"
| "frame_actions X (DfClose # fs) = []"
| "frame_actions X (DfError # fs) = []"

section \<open>Contexts\<close>

lemma upgrade_context_shared [simp]:
  "wx_cfg (upgrade_context s) = a_cfg s" "wx_net (upgrade_context s) = a_net s"
  by (simp_all add: upgrade_context_def ws_context_with_identity_def Let_def)

text \<open>
  A test works on the maps and buses of a center that has just started with that database, and
  greets without a name, a key or a port.
\<close>

lemma test_context_fresh:
  "wx_net (test_context us d) = (a_net (app_init W fp))\<lparr>n_sink := (n_sink (a_net (app_init W fp)))\<lparr>cn_db := d\<rparr>\<rparr>"
  "wx_cfg (test_context us d) = \<lparr>wc_device_id = us, wc_name = [], wc_public_key = [], wc_port = None\<rparr>"
  by (simp_all add: test_context_def ws_context_new_def app_init_def)

section \<open>Runs\<close>

lemma sys_run_append: "sys_run X ms t u \<Longrightarrow> sys_run X ls s t \<Longrightarrow> sys_run X (ls @ ms) s u"
  by (induction rule: sys_run.induct) (simp_all add: sys_run.step flip: append_assoc)

lemma sys_run_one: "sys_step X l s t \<Longrightarrow> sys_run X [l] s t"
  using sys_run.step[OF sys_run.refl] by fastforce

lemma sys_run_Cons: "sys_step X l s t \<Longrightarrow> sys_run X ls t u \<Longrightarrow> sys_run X (l # ls) s u"
  using sys_run_append[OF _ sys_run_one] by fastforce

lemma app_net_same [simp]: "s\<lparr>a_net := a_net s\<rparr> = s"
  by simp

text \<open>The loop of a phone's connection is a run of one step for each envelope heard.\<close>

lemma conn_loop_run:
  "conn_loop X (a_cfg s) (center_sink X) fs cx (a_net s) = Done (ok, cx', n') \<Longrightarrow>
     sys_run X (map LMessage (heard X fs)) s (s\<lparr>a_net := n'\<rparr>)"
proof (induction fs arbitrary: cx s)
  case Nil
  then show ?case by (auto intro: sys_run.refl)
next
  case (Cons f fs)
  obtain t fr where [simp]: "f = (t, fr)" by fastforce
  show ?case
  proof (cases fr)
    case (FText str)
    show ?thesis
    proof (cases "envelope_from_text X str")
      case None
      then show ?thesis using Cons FText by (simp add: handle_frame_def)
    next
      case (Some e)
      then obtain cx1 n1 where e: "handle_envelope X (a_cfg s) (center_sink X) t e cx (a_net s) = Done (cx1, n1)"
        using Cons.prems FText by (cases "handle_envelope X (a_cfg s) (center_sink X) t e cx (a_net s)")
          (auto simp: handle_frame_def)
      then have "conn_loop X (a_cfg (s\<lparr>a_net := n1\<rparr>)) (center_sink X) fs cx1 (a_net (s\<lparr>a_net := n1\<rparr>)) =
          Done (ok, cx', n')"
        using Cons.prems FText Some by (simp add: handle_frame_def)
      from Cons.IH[OF this] show ?thesis
        using sys_run_Cons[OF sys_step.message[OF e]] FText Some by simp
    qed
  qed (use Cons in \<open>auto simp: handle_frame_def intro: sys_run.refl\<close>)
qed

lemma ws_upgrade_run:
  assumes "ws_upgrade X c t0 fs t1 s = Done (ok, s')"
  shows "sys_run X (LAccepted # map LMessage (heard X fs) @ (if ok then [LClosed] else [])) s s'"
proof -
  let ?cx = "\<lparr>cx_chan = c, cx_device = None, cx_bus = bus_new 1024\<rparr>"
  let ?s0 = "s\<lparr>a_net := send_hello X (a_cfg s) t0 ?cx (a_net s)\<rparr>"
  obtain cx' n' where l: "conn_loop X (a_cfg ?s0) (center_sink X) fs ?cx (a_net ?s0) = Done (ok, cx', n')"
    and s': "s' = s\<lparr>a_net := if ok then cleanup (center_sink X) t1 cx' n' else n'\<rparr>"
    using assms by (auto simp: ws_upgrade_def handle_connection_def Let_def split: run.splits bool.splits)
  have "sys_run X (LAccepted # map LMessage (heard X fs)) s (s\<lparr>a_net := n'\<rparr>)"
    using sys_run_Cons[OF sys_step.accepted conn_loop_run[OF l]] by simp
  moreover have "sys_run X (if ok then [LClosed] else []) (s\<lparr>a_net := n'\<rparr>) s'"
    using sys_run_one[OF sys_step.closed[of X "s\<lparr>a_net := n'\<rparr>" t1 cx']] by (simp add: s' sys_run.refl)
  ultimately show ?thesis using sys_run_append by fastforce
qed

text \<open>The reader of a display is a run of one step for each action read.\<close>

lemma lines_run:
  "sys_run X (map LAction (List.map_filter (line_action X) ls)) s (handle_lines X D ts k ls s)"
proof (induction ls arbitrary: k s)
  case Nil
  then show ?case by (simp add: map_filter_simps sys_run.refl)
next
  case (Cons l ls)
  show ?case
  proof (cases "line_action X l")
    case None
    then have "handle_line X D (ts k) l s = s"
      by (auto simp: handle_line_def line_action_def Let_def split: if_splits option.split)
    then show ?thesis using Cons None by (simp add: map_filter_simps)
  next
    case (Some a)
    then have "handle_line X D (ts k) l s = handle_display_action X D (ts k) s a"
      by (auto simp: handle_line_def line_action_def Let_def split: if_splits)
    then show ?thesis using sys_run_Cons[OF sys_step.action Cons] Some by (simp add: map_filter_simps)
  qed
qed

lemma reader_run:
  "sys_run X (map LAction (frame_actions X (map snd fs))) s (display_reader X D fs s)"
proof (induction fs arbitrary: s)
  case Nil
  then show ?case by (simp add: sys_run.refl)
next
  case (Cons f fs)
  obtain ts fr where [simp]: "f = (ts, fr)" by fastforce
  show ?case
  proof (cases fr)
    case (DfText str)
    then show ?thesis using sys_run_append[OF Cons lines_run] by simp
  qed (use Cons in \<open>auto intro: sys_run.refl\<close>)
qed

section \<open>A display keeps its subscription\<close>

definition subscribed :: "nat \<Rightarrow> app \<Rightarrow> bool" where
  "subscribed i s \<longleftrightarrow> i \<in> sub_id ` set (bus_subs (app_display_bus s))"

lemma publish_subscribed [simp]: "subscribed i (app_publish_display e s) = subscribed i s"
  by (simp add: subscribed_def display_publish_def bus_send_def image_image)

lemma set_subscribed [simp]:
  "subscribed i (app_set_db s d) = subscribed i s" "subscribed i (app_set_hist s h) = subscribed i s"
  by (simp_all add: subscribed_def)

lemma result_subscribed [simp]: "subscribed i (publish_action_result X t s a ok code msg) = subscribed i s"
  by (simp add: publish_result)

lemma send_subscribed:
  assumes "\<And>s. subscribed i (f s) = subscribed i s"
  shows "subscribed i (send_action X t s a kind p f) = subscribed i s"
proof (cases "app_try_send X s (da_device_id a)
    (envelope_new kind (wc_device_id (a_cfg s)) p (t_uuid t 20) (t_ms t 22))")
  case (Inr s')
  then have "subscribed i s' = subscribed i s" by (auto simp: app_try_send_Inr)
  then show ?thesis using Inr assms[of s'] by (simp add: send_action_def)
qed (simp add: send_action_def)

lemma write_subscribed [simp]:
  "subscribed i (case r of Inl e \<Rightarrow> s | Inr d \<Rightarrow> app_set_db s d) = subscribed i s"
  "subscribed i (case r' of Inl e \<Rightarrow> s | Inr (d, x) \<Rightarrow> app_set_db s d) = subscribed i s"
  by (simp_all split: sum.split prod.split)

lemma action_subscribed: "subscribed i (handle_display_action X D t s a) = subscribed i s"
proof -
  have "subscribed i (do_sms_reply X t s a) = subscribed i s"
    by (simp add: do_sms_reply_def send_subscribed split: option.split)
  moreover have "subscribed i (do_notification_read X D t s a) = subscribed i s"
    by (simp add: do_notification_read_def split: sum.split)
  ultimately show ?thesis
    by (simp add: handle_display_action_def publish_phone_offline_def do_notification_dismiss_def
        do_call_answer_def do_call_end_def send_subscribed)
qed

lemma action_runs_subscribed:
  "sys_run X ls s s' \<Longrightarrow> set ls \<subseteq> range LAction \<Longrightarrow> subscribed i s' = subscribed i s"
  by (induction rule: sys_run.induct) (auto simp: action_subscribed elim: sys_stepE)

lemma display_socket_run:
  "sys_run X (LDisplayJoin # map LAction (frame_actions X (map snd fs)) @
       [LDisplayLeave (bus_next (app_display_bus s))]) s (handle_display_socket X D fs s)"
proof -
  let ?s1 = "app_display (\<lambda>b. fst (bus_subscribe b)) s" and ?i = "bus_next (app_display_bus s)"
  have "subscribed ?i ?s1"
    by (simp add: subscribed_def app_display_bus_def app_display_def bus_subscribe_def)
  then have "subscribed ?i (display_reader X D fs ?s1)"
    using action_runs_subscribed[OF reader_run] by fastforce
  then have "sys_step X (LDisplayLeave ?i) (display_reader X D fs ?s1) (handle_display_socket X D fs s)"
    using sys_step.display_leave[of ?i "display_reader X D fs ?s1" X]
    by (simp add: subscribed_def app_display_bus_def handle_display_socket_def bus_subscribe_def Let_def)
  from sys_run_append[OF sys_run_one[OF this] reader_run]
  show ?thesis using sys_run_Cons[OF sys_step.display_join] by fastforce
qed

text \<open>
  A turn of a console's task is a run of the system, of one step or two, as long as it is
  subscribed; what others publish between its turns are steps of theirs.
\<close>

fun turn_labels :: "nat \<Rightarrow> console_label \<Rightarrow> label list" where
  "turn_labels i CnEvent = [LConsoleRead i]"
| "turn_labels i CnLagged = [LConsoleRead i]"
| "turn_labels i CnSendFailed = [LConsoleRead i, LConsoleLeave i]"
| "turn_labels i CnLeft = [LConsoleLeave i]"
| "turn_labels i _ = []"

lemma app_console_twice [simp]:
  "app_console g (app_console f s) = app_console (\<lambda>b. g (f b)) s"
  "cn_console (n_sink (a_net (app_console f s))) = f (cn_console (n_sink (a_net s)))"
  by (simp_all add: app_console_def)

lemma app_console_same: "app_console (\<lambda>_. cn_console (n_sink (a_net s))) s = s"
  by (simp add: app_console_def)

lemma recv_member:
  assumes "bus_recv i b = Some (b', r)"
  shows "sub_id ` set (bus_subs b') = sub_id ` set (bus_subs b)"
proof -
  have u: "sub_id s' = i \<Longrightarrow> map sub_id (map (\<lambda>q. if sub_id q = i then s' else q) qs) = map sub_id qs" for s' and qs :: "'a bus_sub list"
    by simp
  obtain s where "find (\<lambda>s. sub_id s = i) (bus_subs b) = Some s"
    using assms by (auto simp: bus_recv_def split: option.splits)
  moreover from this have "sub_id s = i" by (auto simp: find_Some_iff)
  ultimately have "map sub_id (bus_subs b') = map sub_id (bus_subs b)"
    using assms u by (auto simp: bus_recv_def Let_def simp del: map_map split: if_splits list.splits)
  then show ?thesis by (metis list.set_map)
qed

lemma console_turn_run:
  assumes "console_step X i l c d" "cc_bus c = cn_console (n_sink (a_net s))" "\<And>e. l \<noteq> CnPublish e"
    "i \<in> sub_id ` set (bus_subs (cc_bus c))"
  shows "sys_run X (turn_labels i l) s (app_console (\<lambda>_. cc_bus d) s)"
  using assms(1)
proof cases
  case (cn_event b e)
  then show ?thesis using assms(2) sys_run_one[OF sys_step.console_read] by fastforce
next
  case (cn_failed b e)
  have "sys_step X (LConsoleRead i) s (app_console (\<lambda>_. b) s)"
    using cn_failed(4) assms(2) by (intro sys_step.console_read) simp
  moreover have "sys_step X (LConsoleLeave i) (app_console (\<lambda>_. b) s) (app_console (bus_drop i) (app_console (\<lambda>_. b) s))"
    using recv_member[OF cn_failed(4)] assms(4) by (intro sys_step.console_leave) simp
  ultimately show ?thesis using cn_failed(1,2) sys_run_Cons[OF _ sys_run_one]
    by (simp add: console_close_def)
next
  case (cn_lagged b)
  then show ?thesis using assms(2) sys_run_one[OF sys_step.console_read] by fastforce
next
  case cn_left
  then show ?thesis using assms(2,4) sys_run_one[OF sys_step.console_leave[of i s X]]
    by (simp add: console_close_def app_console_def)
qed (use assms in \<open>simp_all add: app_console_same sys_run.refl\<close>)

lemma console_upgrade_ok: "app_ok s \<Longrightarrow> app_ok (ws_console_upgrade X sent h ins s)"
  by (simp add: ws_console_upgrade_def bus_step_ok run_console_wf app_ok_bus)

text \<open>
  C7: A whole connection is a run of the system. From the upgrade to its end, a phone's connection
  comes to a state that is reached by one step for the hello, one for each envelope it heard
  before the end, in order, and one for the cleanup, which a transport error leaves out; a
  display's by joining, one step for each action read, and leaving with the subscription it took.
  None ever ends in a panic, and each keeps the invariant of the system, as the socket of a web
  console does whatever is published meanwhile; so what holds of every run holds after any sequence
  of connections.
\<close>

theorem sockets_are_runs:
  assumes "rcgen_ok X"
  shows "\<exists>ok s'. ws_upgrade X c t0 fs t1 s = Done (ok, s') \<and>
    sys_run X (LAccepted # map LMessage (heard X fs) @ (if ok then [LClosed] else [])) s s' \<and>
    sys_run X (LDisplayJoin # map LAction (frame_actions X (map snd ds)) @
       [LDisplayLeave (bus_next (app_display_bus s))]) s (handle_display_socket X D ds s) \<and>
    (app_ok s \<longrightarrow> app_ok s' \<and> app_ok (handle_display_socket X D ds s) \<and>
       app_ok (ws_console_upgrade X sent h ins s))"
proof -
  obtain ok n' where "handle_connection X (a_cfg s) (center_sink X) c t0 fs t1 (a_net s) = Done (ok, n')"
    using handle_connection_total[OF assms] by blast
  then have u: "ws_upgrade X c t0 fs t1 s = Done (ok, s\<lparr>a_net := n'\<rparr>)" by (simp add: ws_upgrade_def)
  from ws_upgrade_run[OF u] u display_socket_run show ?thesis using sys_run_ok console_upgrade_ok by blast
qed

theorem sockets_are_runs_witness:
  "\<exists>ok s'. ws_upgrade (frames_ext [demo_hello 1]) 9 (demo_tick 0) [text_frame 0, (demo_tick 0, FError)]
       (demo_tick 0) (app_init demo_cfg []) = Done (ok, s') \<and> \<not> ok \<and>
     sys_run (frames_ext [demo_hello 1]) [LAccepted, LMessage (demo_hello 1)] (app_init demo_cfg []) s'"
proof -
  let ?X = "frames_ext [demo_hello 1]" and ?fs = "[text_frame 0, (demo_tick 0, FError)]"
  obtain ok s' where u: "ws_upgrade ?X 9 (demo_tick 0) ?fs (demo_tick 0) (app_init demo_cfg []) = Done (ok, s')"
    and r: "sys_run ?X (LAccepted # map LMessage (heard ?X ?fs) @ (if ok then [LClosed] else []))
      (app_init demo_cfg []) s'"
    using sockets_are_runs[OF frames_rcgen(1), of "[demo_hello 1]" 9 "demo_tick 0" ?fs "demo_tick 0" "app_init demo_cfg []"]
    by blast
  have h: "heard ?X ?fs = [demo_hello 1]"
    using frames_text[of 0 "[demo_hello 1]"] demo_ts(1)[of 1] by (simp add: text_frame_def)
  have "\<not> ok" using u
    by (auto simp: ws_upgrade_def handle_connection_def Let_def text_frame_def handle_frame_def
        split: run.splits option.splits bool.splits)
  moreover from this have "sys_run ?X [LAccepted, LMessage (demo_hello 1)] (app_init demo_cfg []) s'"
    using r h by simp
  ultimately show ?thesis using u by blast
qed

end
