(* ===== verification/Watchers.thy ===== *)
theory Watchers
  imports System
begin

text \<open>
  What those who watch see: the socket of a web console and that of a display, each with its task
  running inside the whole system. The other steps of the system are the rest of the world that
  Feeds and DisplayWs take as given; here they are the handlers themselves, so what arrives is
  named by the messages the phones sent.
\<close>

section \<open>What a step publishes\<close>

text \<open>
  The news of a message: its payload as the center writes it again. One that does not decode is none,
  nor is a message of any other type.
\<close>

definition console_news :: "envelope ext \<Rightarrow> envelope \<Rightarrow> json option" where
  "console_news X e =
     (let p = env_payload e
      in case env_type e of
           MtDeviceHello \<Rightarrow> map_option enc_device_hello (dec_device_hello p)
         | MtNotificationReceived \<Rightarrow> map_option enc_notification_received (dec_notification_received p)
         | MtNotificationDismissed \<Rightarrow> map_option enc_notification_dismissed (dec_notification_dismissed p)
         | MtSmsReceived \<Rightarrow> map_option enc_sms_received (dec_sms_received p)
         | MtSmsSendResult \<Rightarrow> map_option (enc_sms_send_result X) (dec_sms_send_result X p)
         | MtCallState \<Rightarrow> map_option enc_call_state (dec_call_state p)
         | MtCallIncoming \<Rightarrow> map_option enc_call_incoming (dec_call_incoming p)
         | _ \<Rightarrow> None)"

text \<open>A display is also told of a listing of messages, and of nothing the noise filter holds back.\<close>

definition display_news :: "envelope ext \<Rightarrow> envelope \<Rightarrow> json option" where
  "display_news X e =
     (if env_type e = MtSmsListResult
      then map_option enc_sms_list_result (dec_sms_list_result (env_payload e))
      else console_news X e)"

text \<open>
  The events a step puts on each bus: of a message the one of its news; on the display bus the
  answer to an action too, after a notice when the phone is offline. Fresh ids, clock readings and the
  text of an answer are open.
\<close>

definition console_told :: "envelope ext \<Rightarrow> label \<Rightarrow> console_event list \<Rightarrow> bool" where
  "console_told X l es \<longleftrightarrow>
     (case l of
        LMessage e \<Rightarrow>
          (case console_news X e of
             None \<Rightarrow> es = []
           | Some p \<Rightarrow> \<exists>u now. es = [console_event_from_envelope
               (envelope_new (env_type e) (env_device_id e) p u now)])
      | _ \<Rightarrow> es = [])"

definition message_event :: "envelope \<Rightarrow> json \<Rightarrow> int \<Rightarrow> display_event" where
  "message_event e p now = build_display_event (mt_str (env_type e)) (env_device_id e) (env_id e) p now"

definition display_told :: "envelope ext \<Rightarrow> label \<Rightarrow> display_event list \<Rightarrow> bool" where
  "display_told X l vs \<longleftrightarrow>
     (case l of
        LMessage e \<Rightarrow>
          (case display_news X e of
             None \<Rightarrow> vs = []
           | Some p \<Rightarrow> \<exists>now. vs = (if should_filter (message_event e p now) = None
                                 then [message_event e p now] else []))
      | LAction a \<Rightarrow>
          (\<exists>offline p now ok msg later. vs =
             (if offline then [build_display_event ''phone.offline'' (da_device_id a) (da_envelope_id a) p now]
              else []) @ [result_event X a ok msg later])
      | _ \<Rightarrow> vs = [])"

definition told :: "('l \<Rightarrow> 'e list \<Rightarrow> bool) \<Rightarrow> 'l list \<Rightarrow> 'e list \<Rightarrow> bool" where
  "told T ls es \<longleftrightarrow> (\<exists>ess. list_all2 T ls ess \<and> es = concat ess)"

lemma told_snoc: "told T ls es \<Longrightarrow> T l es' \<Longrightarrow> told T (ls @ [l]) (es @ es')"
  unfolding told_def by (metis concat_append concat.simps append_Nil2 list_all2_Cons list_all2_Nil list_all2_appendI)

lemma told_Nil: "told T [] []"
  by (auto simp: told_def)

section \<open>How a bus evolves\<close>

text \<open>
  Seen from subscriber \<open>i\<close> a step of the system sends events, or is about another subscriber.
\<close>

inductive bus_evolves :: "nat \<Rightarrow> 'e bus \<Rightarrow> 'e list \<Rightarrow> 'e bus \<Rightarrow> bool" for i b where
  sends: "bus_evolves i b es (fold (\<lambda>e b. fst (bus_send e b)) es b)"
| joins: "bus_evolves i b [] (fst (bus_subscribe b))"
| leaves: "j \<noteq> i \<Longrightarrow> j \<in> sub_id ` set (bus_subs b) \<Longrightarrow> bus_evolves i b [] (bus_drop j b)"
| reads: "j \<noteq> i \<Longrightarrow> bus_recv j b = Some (b', r) \<Longrightarrow> bus_evolves i b [] b'"

lemma feed_sends: "feed i b taken sent l \<Longrightarrow> feed i (fold (\<lambda>e b. fst (bus_send e b)) es b) taken (sent @ es) l"
proof (induction es arbitrary: b sent)
  case (Cons e es)
  from Cons.IH[OF feed_send[OF Cons.prems]] show ?case by simp
qed simp

lemma recv_other:
  assumes "bus_recv j b = Some (b', r)" "j \<noteq> i"
  shows "sub_of i b' = sub_of i b"
proof -
  have u: "sub_id s' = j \<Longrightarrow> find (\<lambda>s. sub_id s = i) (map (\<lambda>q. if sub_id q = j then s' else q) qs) =
      find (\<lambda>s. sub_id s = i) qs" for s' and qs :: "'a bus_sub list"
    using assms(2) by (induction qs) auto
  obtain s where "find (\<lambda>s. sub_id s = j) (bus_subs b) = Some s"
    using assms(1) by (auto simp: bus_recv_def split: option.splits)
  moreover from this have "sub_id s = j" by (auto simp: find_Some_iff)
  ultimately show ?thesis using assms(1) u
    by (auto simp: bus_recv_def sub_of_def Let_def split: if_splits list.splits)
qed

lemma feed_evolves:
  assumes "bus_evolves i b es b'" "feed i b taken sent l"
  shows "feed i b' taken (sent @ es) l"
proof -
  have w: "bus_wf b" and m: "sub_of i b \<noteq> None" using assms(2) by (auto simp: feed_def)
  have same: "sub_of i b' = sub_of i b \<Longrightarrow> bus_wf b' \<Longrightarrow> feed i b' taken sent l"
    using assms(2) by (simp add: feed_def)
  from assms(1) show ?thesis
  proof cases
    case sends
    then show ?thesis using feed_sends[OF assms(2)] by simp
  next
    case joins
    have "sub_of i (fst (bus_subscribe b)) = sub_of i b"
      using m by (auto simp: sub_of_def bus_subscribe_def find_append split: option.splits)
    then show ?thesis using same joins bus_subscribe_wf[OF w] by simp
  next
    case (leaves j)
    have "sub_of i (bus_drop j b) = sub_of i b"
      using leaves(3) by (simp add: sub_of_def bus_drop_def find_filter_ne)
    then show ?thesis using same leaves(1,2) bus_drop_wf[OF w leaves(4)] by simp
  next
    case (reads j r)
    then show ?thesis using same recv_other[OF reads(3,2)] bus_recv_wf(1)[OF w reads(3)] by simp
  qed
qed

text \<open>A subscription that is there stays, and one that is gone does not come back.\<close>

lemma recv_next: "bus_recv j b = Some (b', r) \<Longrightarrow> bus_next b' = bus_next b"
  by (auto simp: bus_recv_def Let_def split: option.splits if_splits list.splits)

lemma sends_sub:
  "(sub_of i (fold (\<lambda>e b. fst (bus_send e b)) es b) = None \<longleftrightarrow> sub_of i b = None) \<and>
   bus_next (fold (\<lambda>e b. fst (bus_send e b)) es b) = bus_next b"
proof (induction es arbitrary: b)
  case (Cons e es)
  from Cons.IH[of "fst (bus_send e b)"] show ?case by (simp add: sub_of_send) (simp add: bus_send_def)
qed simp

lemma evolves_sub:
  assumes "bus_evolves i b es b'" "i < bus_next b"
  shows "(sub_of i b' = None \<longleftrightarrow> sub_of i b = None) \<and> i < bus_next b'"
  using assms(1)
proof cases
  case sends
  then show ?thesis using sends_sub assms(2) by metis
next
  case joins
  then show ?thesis using assms(2)
    by (auto simp: sub_of_def bus_subscribe_def find_append split: option.splits)
next
  case (leaves j)
  then show ?thesis using assms(2) by (simp add: sub_of_def bus_drop_def find_filter_ne)
next
  case (reads j r)
  then show ?thesis using assms(2) recv_other[OF reads(3,2)] recv_next[OF reads(3)] by simp
qed

section \<open>The buses in the system\<close>

definition app_console_bus :: "app \<Rightarrow> console_bus" where
  "app_console_bus s = cn_console (n_sink (a_net s))"

lemma sinks_same:
  "n_sink (a_net (app_set_db s d)) = (n_sink (a_net s))\<lparr>cn_db := d\<rparr>"
  "n_sink (a_net (app_set_hist s h)) = n_sink (a_net s)"
  "n_sink (a_net (app_set_pairing s m)) = n_sink (a_net s)"
  "n_sink (a_net (app_set_pending s p)) = n_sink (a_net s)"
  by (simp_all add: app_set_db_def app_set_hist_def app_set_pairing_def app_set_pending_def)

lemma buses_set [simp]:
  "app_console_bus (app_set_db s d) = app_console_bus s" "app_console_bus (app_set_hist s h) = app_console_bus s"
  "app_console_bus (app_set_pairing s m) = app_console_bus s" "app_console_bus (app_set_pending s p) = app_console_bus s"
  "app_display_bus (app_set_pairing s m) = app_display_bus s" "app_display_bus (app_set_pending s p) = app_display_bus s"
  "app_console_bus (app_publish_display e s) = app_console_bus s"
  by (simp_all add: app_console_bus_def app_display_bus_def sinks_same)

text \<open>No request over REST publishes anything.\<close>

definition quiet :: "app \<Rightarrow> app \<Rightarrow> bool" where
  "quiet s s' \<longleftrightarrow> app_console_bus s' = app_console_bus s \<and> app_display_bus s' = app_display_bus s"

lemma quiet_refl [simp]: "quiet s s"
  by (simp add: quiet_def)

lemma rest_quiet:
  assumes "rest_step X t s q = Done (r, s')"
  shows "quiet s s'"
proof (cases q)
  case (RqPairAccept u c)
  then show ?thesis using assms pair_answer_keeps(1) by (fastforce simp: rest_step_def)
next
  case (RqPairReject u c)
  then show ?thesis using assms pair_answer_keeps(2) by (fastforce simp: rest_step_def)
next
  case (RqRemoveDevice u)
  then show ?thesis using assms
    by (auto simp: rest_step_def rest_remove_device_def Let_def quiet_def app_console_bus_def app_display_bus_def
        sinks_same center_audit_def split: sum.splits)
next
  case (RqPairStart u)
  then show ?thesis using assms
    by (auto simp: rest_step_def rest_pair_start_def app_try_send_Inr quiet_def split: if_splits sum.splits)
next
  case (RqDismiss u i)
  then show ?thesis using assms
    by (auto simp: rest_step_def rest_dismiss_def app_try_send_Inr quiet_def Let_def
        split: sum.splits prod.splits option.splits)
qed (use assms in \<open>auto simp: rest_step_def rest_incoming_accept_def rest_incoming_reject_def confirm_env_def
       rest_mark_read_def rest_mark_all_read_def rest_send_sms_def rest_dial_def app_try_send_Inr quiet_def Let_def
     split: prod.splits option.splits if_splits sum.splits\<close>)

lemma publish_all_sends: "bus_wf b \<Longrightarrow> publish_all vs b = fold (\<lambda>e b. fst (bus_send e b)) vs b"
  by (induction vs arbitrary: b) (simp_all add: display_publish_send bus_send_wf)

lemma message_sink:
  assumes "handle_envelope X W K t e cx n = Done (cx', n')"
  shows "n_sink n' = n_sink (snd (side_effects X K t e cx n))"
  using assms dispatch_frame[of X W t e "snd (side_effects X K t e cx n)"]
  by (auto simp: handle_envelope_def split: prod.splits run.splits option.splits)

lemma fold_apply_buses:
  "cn_console (fold (\<lambda>x. db_apply (f x)) xs c) = cn_console c \<and> cn_display (fold (\<lambda>x. db_apply (f x)) xs c) = cn_display c"
  by (induction xs arbitrary: c) simp_all

lemma fold_apply_id_buses:
  "cn_console (fold (\<lambda>x. db_apply_id (f x)) xs c) = cn_console c \<and>
   cn_display (fold (\<lambda>x. db_apply_id (f x)) xs c) = cn_display c"
  by (induction xs arbitrary: c) simp_all

lemma display_only:
  "cn_console (center_publish_display k i d p now c) = cn_console c"
  "cn_display (center_publish_display k i d p now c) =
     (let ev = build_display_event (mt_str k) d i p now
      in if should_filter ev = None then fst (display_publish ev (cn_display c)) else cn_display c)"
  by (simp_all add: center_publish_display_def build_display_event_def Let_def split: option.split)

lemmas sink_simps = side_effects_def sink_call_def center_sink_def Let_def
  on_hello_def on_notification_def on_notification_dismissed_def on_sms_received_def on_sms_send_result_def
  on_call_state_def on_call_incoming_def on_call_history_def on_sms_list_result_def on_unpair_def
  center_audit_def center_touch_def publish_display_buses display_only
  fold_apply_buses fold_apply_id_buses

lemma message_console:
  "\<exists>es. console_told X (LMessage e) es \<and>
     cn_console (n_sink (snd (side_effects X (center_sink X) t e cx n))) =
       fold (\<lambda>e b. fst (bus_send e b)) es (cn_console (n_sink n))"
  by (cases "env_type e")
    (auto simp: sink_simps console_told_def console_news_def console_publish_def
      split: option.split intro!: exI[of _ "[_]"])

lemma message_display:
  assumes "bus_wf (cn_display (n_sink n))"
  shows "\<exists>vs. display_told X (LMessage e) vs \<and>
     cn_display (n_sink (snd (side_effects X (center_sink X) t e cx n))) =
       fold (\<lambda>e b. fst (bus_send e b)) vs (cn_display (n_sink n))"
proof (cases "display_news X e")
  case None
  then show ?thesis
    by (cases "env_type e")
      (auto simp: sink_simps display_told_def display_news_def console_news_def split: option.split)
next
  case (Some p)
  let ?ev = "message_event e p (t_ms t (if env_type e = MtSmsListResult then 10 else 12))"
  have "cn_display (n_sink (snd (side_effects X (center_sink X) t e cx n))) =
      (if should_filter ?ev = None then fst (display_publish ?ev (cn_display (n_sink n))) else cn_display (n_sink n))"
    using Some by (cases "env_type e") (auto simp: sink_simps display_news_def console_news_def message_event_def)
  then show ?thesis using Some assms
    by (intro exI[of _ "if should_filter ?ev = None then [?ev] else []"])
      (auto simp: display_told_def display_publish_send)
qed

lemma action_display:
  assumes "bus_wf (app_display_bus s)"
  shows "\<exists>vs. display_told X (LAction a) vs \<and>
     app_display_bus (handle_display_action X D t s a) = fold (\<lambda>e b. fst (bus_send e b)) vs (app_display_bus s)"
proof -
  obtain msg where m: "app_display_bus (handle_display_action X D t s a) = publish_all
      ((if app_connected s (da_device_id a) then []
        else [build_display_event ''phone.offline'' (da_device_id a) (da_envelope_id a)
               (JObj [(''action_kind'', JStr (da_kind a)),
                  (''message'', JStr ''phone offline; action not delivered'')]) (t_ms t 20)]) @
       [result_event X a (action_ok X s a) msg (t_ms t 21)]) (app_display_bus s)" (is "_ = publish_all ?vs _")
    using action_answer[of X D t s a] unfolding Let_def by blast
  have "display_told X (LAction a) ?vs"
    unfolding display_told_def label.case
    by (intro exI[of _ "\<not> app_connected s (da_device_id a)"]
        exI[of _ "JObj [(''action_kind'', JStr (da_kind a)),
                  (''message'', JStr ''phone offline; action not delivered'')]"] exI[of _ "t_ms t 20"]
        exI[of _ "action_ok X s a"] exI[of _ msg] exI[of _ "t_ms t 21"]) simp
  then show ?thesis using m publish_all_sends[OF assms] by metis
qed

lemma action_console: "app_console_bus (handle_display_action X D t s a) = app_console_bus s"
proof -
  have send: "(\<And>s. app_console_bus (f s) = app_console_bus s) \<Longrightarrow>
      app_console_bus (send_action X t s a k p f) = app_console_bus s" for k p f
    by (auto simp: send_action_def publish_result app_try_send_Inr split: sum.split)
  show ?thesis
    by (simp add: handle_display_action_def publish_phone_offline_def publish_result do_sms_reply_def
        do_notification_read_def do_notification_dismiss_def do_call_answer_def do_call_end_def send
        split: option.split sum.split prod.split)
qed

text \<open>Every step of the system, as each bus sees it.\<close>

lemma evolves_same: "b' = b \<Longrightarrow> bus_evolves i b [] b'"
  using bus_evolves.sends[of i b "[]"] by simp

lemma step_console:
  assumes "sys_step X l s s'" "l \<noteq> LConsoleLeave i" "l \<noteq> LConsoleRead i"
  shows "\<exists>es. console_told X l es \<and> bus_evolves i (app_console_bus s) es (app_console_bus s')"
  using assms
proof (induction rule: sys_step.induct)
  case (request t s q r s')
  then show ?case using rest_quiet[OF request(1)] by (simp add: quiet_def console_told_def evolves_same)
next
  case (message s t e cx cx' n')
  obtain es where "console_told X (LMessage e) es"
    "cn_console (n_sink n') = fold (\<lambda>e b. fst (bus_send e b)) es (app_console_bus s)"
    using message_console[of X e t cx "a_net s"] message_sink[OF message(1)] by (auto simp: app_console_bus_def)
  then show ?case using bus_evolves.sends[of i "app_console_bus s" es] by (auto simp: app_console_bus_def)
next
  case (action a s D t)
  then show ?case by (simp add: console_told_def action_console evolves_same)
next
  case (console_join s)
  then show ?case
    by (simp add: console_told_def app_console_bus_def app_console_def bus_evolves.joins)
next
  case (console_leave j s)
  then show ?case
    by (auto simp: console_told_def app_console_bus_def app_console_def intro: bus_evolves.leaves)
next
  case (console_read j s b r)
  then show ?case
    by (auto simp: console_told_def app_console_bus_def app_console_def intro: bus_evolves.reads)
qed (auto simp: console_told_def app_console_bus_def app_display_def cleanup_def center_sink_def on_disconnect_def
    center_audit_def center_touch_def intro!: evolves_same split: option.split)

lemma step_display:
  assumes "sys_step X l s s'" "l \<noteq> LDisplayLeave i" "l \<noteq> LDisplayRead i" "bus_wf (app_display_bus s)"
  shows "\<exists>vs. display_told X l vs \<and> bus_evolves i (app_display_bus s) vs (app_display_bus s')"
  using assms
proof (induction rule: sys_step.induct)
  case (request t s q r s')
  then show ?case using rest_quiet[OF request(1)] by (simp add: quiet_def display_told_def evolves_same)
next
  case (message s t e cx cx' n')
  obtain vs where "display_told X (LMessage e) vs"
    "cn_display (n_sink n') = fold (\<lambda>e b. fst (bus_send e b)) vs (app_display_bus s)"
    using message_display[of "a_net s" X e t cx] message_sink[OF message(1)] message(4)
    by (auto simp: app_display_bus_def)
  then show ?case using bus_evolves.sends[of i "app_display_bus s" vs] by (auto simp: app_display_bus_def)
next
  case (action a s D t)
  then show ?case using action_display[of s X a D t] bus_evolves.sends[of i "app_display_bus s"] by metis
next
  case (display_join s)
  then show ?case
    by (simp add: display_told_def app_display_bus_def app_display_def bus_evolves.joins)
next
  case (display_leave j s)
  then show ?case
    by (auto simp: display_told_def app_display_bus_def app_display_def intro: bus_evolves.leaves)
next
  case (display_read j s b r)
  then show ?case
    by (auto simp: display_told_def app_display_bus_def app_display_def intro: bus_evolves.reads)
qed (auto simp: display_told_def app_display_bus_def app_console_def cleanup_def center_sink_def on_disconnect_def
    center_audit_def center_touch_def intro!: evolves_same split: option.split)

section \<open>A task inside the system\<close>

text \<open>
  A step of the rest of the world, which leaves the subscription of the task to it, or a turn of the
  task itself on the bus of the system.
\<close>

datatype 'k watch_label = World label | Own 'k

fun world :: "'k watch_label list \<Rightarrow> label list" where
  "world [] = []"
| "world (World l # ls) = l # world ls"
| "world (Own k # ls) = world ls"

lemma world_append [simp]: "world (ls @ ms) = world ls @ world ms"
  by (induction ls rule: world.induct) simp_all

inductive console_watch ::
  "envelope ext \<Rightarrow> nat \<Rightarrow> console_label watch_label \<Rightarrow> app \<times> console_conn \<Rightarrow> app \<times> console_conn \<Rightarrow> bool"
  for X i where
  world: "sys_step X l s s' \<Longrightarrow> l \<noteq> LConsoleLeave i \<Longrightarrow> l \<noteq> LConsoleRead i \<Longrightarrow>
    console_watch X i (World l) (s, c) (s', c\<lparr>cc_bus := app_console_bus s'\<rparr>)"
| turn: "console_turn X i inp c = (Some k, d) \<Longrightarrow> (\<And>e. inp \<noteq> CiPublish e) \<Longrightarrow>
    console_watch X i (Own k) (s, c) (app_console (\<lambda>_. cc_bus d) s, d)"

definition console_seen ::
  "envelope ext \<Rightarrow> nat \<Rightarrow> json \<Rightarrow> console_label watch_label list \<Rightarrow> app \<times> console_conn \<Rightarrow> bool" where
  "console_seen X i h ls = (\<lambda>(s, c). app_ok s \<and> cc_bus c = app_console_bus s \<and> i < bus_next (cc_bus c) \<and>
     (sub_of i (cc_bus c) = None \<longleftrightarrow> \<not> cc_open c) \<and>
     (\<exists>es sent. cc_sent c = h # map (enc_console_event X) es \<and> told (console_told X) (world ls) sent \<and>
        subseq es sent \<and> (cc_open c \<longrightarrow> feed i (cc_bus c) es sent (Own CnLagged \<in> set ls))))"

lemma console_seenI:
  assumes "app_ok s" "cc_bus c = app_console_bus s" "i < bus_next (cc_bus c)"
    and "sub_of i (cc_bus c) = None \<longleftrightarrow> \<not> cc_open c" "cc_sent c = h # map (enc_console_event X) es"
    and "told (console_told X) (world ls) sent" "subseq es sent"
    and "cc_open c \<Longrightarrow> feed i (cc_bus c) es sent (Own CnLagged \<in> set ls)"
  shows "console_seen X i h ls (s, c)"
  using assms unfolding console_seen_def by blast

lemma console_bus_app [simp]: "app_console_bus (app_console f s) = f (app_console_bus s)"
  by (simp add: app_console_bus_def app_console_def)

lemma display_bus_app [simp]: "app_display_bus (app_display f s) = f (app_display_bus s)"
  by (simp add: app_display_bus_def app_display_def)

lemma app_ok_buses: "app_ok s \<Longrightarrow> bus_wf (app_console_bus s) \<and> bus_wf (app_display_bus s)"
  using app_ok_bus by (simp add: app_console_bus_def app_display_bus_def)

lemma app_ok_bus_set:
  "app_ok s \<Longrightarrow> bus_wf b \<Longrightarrow> app_ok (app_console (\<lambda>_. b) s)" "app_ok s \<Longrightarrow> bus_wf b' \<Longrightarrow> app_ok (app_display (\<lambda>_. b') s)"
  by (simp_all add: bus_step_ok)

lemma drop_sub: "i < bus_next b \<Longrightarrow> sub_of i (bus_drop i b) = None \<and> i < bus_next (bus_drop i b)"
  by (simp add: sub_of_drop) (simp add: bus_drop_def)

lemma drop_own_wf: "bus_wf b \<Longrightarrow> sub_of i b \<noteq> None \<Longrightarrow> bus_wf (bus_drop i b)"
  using bus_drop_wf sub_of_member by fastforce

lemma recv_own: "bus_recv i b = Some (b', r) \<Longrightarrow> r \<noteq> RvWait \<Longrightarrow> i < bus_next b \<Longrightarrow>
    sub_of i b' \<noteq> None \<and> i < bus_next b'"
  using recv_sub[of i b b' r] recv_next[of i b b' r] by simp

lemma console_watch_seen:
  assumes "console_seen X i h ls sc" "console_watch X i l sc sd"
  shows "console_seen X i h (ls @ [l]) sd"
proof -
  obtain s c where sc: "sc = (s, c)" by fastforce
  obtain es sent where e: "cc_sent c = h # map (enc_console_event X) es" "told (console_told X) (world ls) sent"
      "subseq es sent" "cc_open c \<longrightarrow> feed i (cc_bus c) es sent (Own CnLagged \<in> set ls)"
    and ok: "app_ok s" "cc_bus c = app_console_bus s" "i < bus_next (cc_bus c)"
      "sub_of i (cc_bus c) = None \<longleftrightarrow> \<not> cc_open c"
    using assms(1) unfolding console_seen_def sc prod.case by (elim conjE exE) (rule that)
  note es = e(1-3) e(4)[rule_format]
  have wf: "bus_wf (cc_bus c)" using app_ok_buses[OF ok(1)] ok(2) by simp
  from assms(2) show ?thesis
  proof cases
    case (world k s1 s' c1)
    then have st: "sys_step X k s s'" and same: "s1 = s" "c1 = c" using sc by simp_all
    obtain new where n: "console_told X k new" "bus_evolves i (cc_bus c) new (app_console_bus s')"
      using step_console[OF st world(5,6)] ok(2) by auto
    have "told (console_told X) (world (ls @ [l])) (sent @ new)" using told_snoc[OF es(2) n(1)] world(1) by simp
    then show ?thesis unfolding world(3)
      using world(1) same es(1) subseq_snoc[OF es(3)] feed_evolves[OF n(2) es(4)] evolves_sub[OF n(2) ok(3)] ok(4)
        sys_step_ok[OF st ok(1)]
      by (intro console_seenI[where es = es and sent = "sent @ new"]) auto
  next
    case (turn inp c1 k d s1)
    then have same: "s1 = s" "c1 = c" using sc by simp_all
    have st: "console_step X i k c d" using console_turn_step(1) turn(4) same by simp
    have t: "told (console_told X) (world (ls @ [l])) sent" using es(2) turn(1) by simp
    have p: "k \<noteq> CnPublish e" for e
      using turn(4,5) by (auto simp: console_turn_def split: console_input.splits if_splits option.splits prod.splits recv.splits)
    from st show ?thesis
    proof cases
      case (cn_event b e)
      have f: "feed i b (es @ [e]) sent (Own CnLagged \<in> set ls)" by (rule feed_event[OF es(4)[OF cn_event(3)] cn_event(4)])
      show ?thesis unfolding turn(3)
        using turn(1) same cn_event t es(1) f feed_subseq[OF f] app_ok_bus_set(1)[OF ok(1) bus_recv_wf(1)[OF wf cn_event(4)]]
          recv_own[OF cn_event(4) _ ok(3)]
        by (intro console_seenI[where es = "es @ [e]" and sent = sent]) auto
    next
      case (cn_failed b e)
      have "bus_wf b" "sub_of i b \<noteq> None" "i < bus_next b"
        using bus_recv_wf(1)[OF wf cn_failed(4)] recv_own[OF cn_failed(4) _ ok(3)] by simp_all
      then show ?thesis unfolding turn(3)
        using turn(1) same cn_failed t es(1,3) app_ok_bus_set(1)[OF ok(1) drop_own_wf[of b i]] drop_sub[of i b]
        by (intro console_seenI[where es = es and sent = sent]) (auto simp: console_close_def)
    next
      case (cn_lagged b)
      have f: "feed i b es sent True" by (rule feed_lagged[OF es(4)[OF cn_lagged(3)] cn_lagged(4)])
      show ?thesis unfolding turn(3)
        using turn(1) same cn_lagged t es(1,3) f app_ok_bus_set(1)[OF ok(1) bus_recv_wf(1)[OF wf cn_lagged(4)]]
          recv_own[OF cn_lagged(4) _ ok(3)]
        by (intro console_seenI[where es = es and sent = sent]) auto
    next
      case cn_frame
      have "app_console (\<lambda>_. cc_bus c) s = s" using ok(2) by (simp add: app_console_def app_console_bus_def)
      then show ?thesis unfolding turn(3) using turn(1) same cn_frame t es ok
        by (intro console_seenI[where es = es and sent = sent]) auto
    next
      case cn_left
      then show ?thesis unfolding turn(3)
        using turn(1) same t es(1,3) ok app_ok_bus_set(1)[OF ok(1) drop_own_wf[OF wf]] drop_sub[OF ok(3)]
        by (intro console_seenI[where es = es and sent = sent]) (auto simp: console_close_def)
    qed (use p in auto)
  qed
qed

lemma console_joins:
  assumes "app_ok s" "console_start True h (app_console_bus s) = (i, c)"
  shows "console_seen X i h [] (app_console (\<lambda>_. cc_bus c) s, c)"
proof -
  have w: "bus_wf (app_console_bus s)" using app_ok_buses[OF assms(1)] by simp
  have c: "c = \<lparr>cc_bus = fst (bus_subscribe (app_console_bus s)), cc_sent = [h], cc_open = True\<rparr>"
    "i = bus_next (app_console_bus s)"
    using assms(2) by (auto simp: console_start_def bus_subscribe_def)
  have "feed i (cc_bus c) [] [] False"
    using feed_start[OF w] c by (auto simp: bus_subscribe_def)
  moreover have "sub_of i (cc_bus c) \<noteq> None" using feed_sub[OF calculation] by simp
  moreover have "app_ok (app_console (\<lambda>_. cc_bus c) s)" using app_ok_bus_set(1)[OF assms(1) bus_subscribe_wf[OF w]] c by simp
  ultimately show ?thesis
    using c by (intro console_seenI[where es = "[]" and sent = "[]"]) (auto simp: told_Nil bus_subscribe_def)
qed

text \<open>
  C17: What a web console shows, in the whole system. Whatever the other handlers do while its socket is
  open, in any interleaving with its own task: after the hello it is sent, in order and each at
  most once, events that tell the messages the phones sent since it joined, one for each message
  of the seven types that are news whose payload decodes, naming the type, the device and the
  payload; nothing else in the system, no request, no action of a display and no other socket, makes
  it show anything. While it is open and has not lagged nothing is missing: what was sent and what
  is queued tell all of them. Once it has ended its subscription is gone and stays gone.
\<close>

theorem console_sees:
  assumes "app_ok s" "console_start True h (app_console_bus s) = (i, c)"
    and "lrun (console_watch X i) ls (app_console (\<lambda>_. cc_bus c) s, c) (s', d)"
  shows "\<exists>es sent. cc_sent d = h # map (enc_console_event X) es \<and> subseq es sent \<and>
    told (console_told X) (world ls) sent \<and>
    (if cc_open d
     then \<exists>q. sub_of i (app_console_bus s') = Some q \<and>
       (sub_lagged q \<or> Own CnLagged \<in> set ls \<or> es @ sub_queue q = sent)
     else sub_of i (app_console_bus s') = None)"
proof -
  have "console_seen X i h ls (s', d)"
    by (rule lrun_invariant[where P = "console_seen X i h", OF assms(3) console_joins[OF assms(1,2)]])
      (rule console_watch_seen)
  then obtain es sent where es: "cc_sent d = h # map (enc_console_event X) es" "subseq es sent"
      "told (console_told X) (world ls) sent" "cc_open d \<longrightarrow> feed i (cc_bus d) es sent (Own CnLagged \<in> set ls)"
    and b: "cc_bus d = app_console_bus s'" "sub_of i (cc_bus d) = None \<longleftrightarrow> \<not> cc_open d"
    unfolding console_seen_def prod.case by (elim conjE exE) (rule that)
  show ?thesis
    by (intro exI[of _ es] exI[of _ sent]) (use es b in \<open>auto simp: feed_def\<close>)
qed

text \<open>A fresh subscription that is sent one event has it to read.\<close>

lemma one_queued:
  assumes "bus_evolves i b [v] b'" "sub_of i b = Some \<lparr>sub_id = i, sub_queue = [], sub_lagged = False\<rparr>" "0 < bus_cap b"
  obtains b'' where "bus_recv i b' = Some (b'', RvEvent v)"
proof -
  have "b' = fst (bus_send v b)" using assms(1) by (cases rule: bus_evolves.cases) auto
  then have "sub_of i b' = Some \<lparr>sub_id = i, sub_queue = [v], sub_lagged = False\<rparr>"
    using assms(2,3) by (simp add: sub_of_send sub_push_def)
  then show thesis using that by (auto simp: bus_recv_def sub_of_def Let_def)
qed

theorem console_sees_witness:
  "\<exists>s s' d u now. app_ok s \<and>
     lrun (console_watch demo_ext 0) [World (LMessage (demo_hello 1)), Own CnEvent] (s, \<lparr>cc_bus = app_console_bus s,
       cc_sent = [JNull], cc_open = True\<rparr>) (s', d) \<and>
     cc_sent d = [JNull, enc_console_event demo_ext (console_event_from_envelope
       (envelope_new MtDeviceHello 1 (env_payload (demo_hello 1)) u now))]"
proof -
  let ?s = "app_init demo_cfg []" and ?m = "LMessage (demo_hello 1)"
  let ?b = "fst (bus_subscribe (app_console_bus ?s))"
  let ?joined = "app_console (\<lambda>_. ?b) ?s" and ?c = "\<lparr>cc_bus = ?b, cc_sent = [JNull], cc_open = True\<rparr>"
  have b0: "app_console_bus ?s = console_bus_new" by (simp add: app_console_bus_def app_init_def)
  have start: "console_start True JNull (app_console_bus ?s) = (0, ?c)"
    by (simp add: b0 console_start_def console_bus_new_def bus_new_def bus_subscribe_def)
  obtain s1 where 1: "sys_step demo_ext ?m ?joined s1" using message_enabled by blast
  have fields: "env_type (demo_hello 1) = MtDeviceHello" "env_device_id (demo_hello 1) = 1"
    by (simp_all add: demo_hello_def envelope_new_def)
  have news: "console_news demo_ext (demo_hello 1) = Some (env_payload (demo_hello 1))"
    by (simp add: console_news_def demo_hello_def envelope_new_def rt_device_hello)
  obtain es where es: "console_told demo_ext ?m es" "bus_evolves 0 (app_console_bus ?joined) es (app_console_bus s1)"
    using step_console[OF 1, of 0] by auto
  then obtain u now where v: "es = [console_event_from_envelope
      (envelope_new MtDeviceHello 1 (env_payload (demo_hello 1)) u now)]" (is "_ = [?v]")
    by (auto simp: console_told_def news fields)
  obtain b where r: "bus_recv 0 (app_console_bus s1) = Some (b, RvEvent ?v)"
    by (rule one_queued[OF es(2)[unfolded v]])
      (simp_all add: b0 console_bus_new_def bus_new_def bus_subscribe_def sub_of_def)
  let ?told = "?c\<lparr>cc_bus := app_console_bus s1\<rparr>" and ?d = "?c\<lparr>cc_bus := b, cc_sent := [JNull, enc_console_event demo_ext ?v]\<rparr>"
  have 2: "console_watch demo_ext 0 (World ?m) (?joined, ?c) (s1, ?told)" by (rule console_watch.world[OF 1]) simp_all
  have "console_turn demo_ext 0 (CiBus True) ?told = (Some CnEvent, ?d)" using r by (simp add: console_turn_def)
  then have 3: "console_watch demo_ext 0 (Own CnEvent) (s1, ?told) (app_console (\<lambda>_. cc_bus ?d) s1, ?d)"
    by (rule console_watch.turn) simp
  have run: "lrun (console_watch demo_ext 0) [World ?m, Own CnEvent] (?joined, ?c) (app_console (\<lambda>_. cc_bus ?d) s1, ?d)"
    by (rule lrun_Cons[where R = "console_watch demo_ext 0", OF 2 lrun_Cons[where R = "console_watch demo_ext 0", OF 3 lrun_refl]])
  note sees = console_sees[OF app_init_ok start, of demo_ext "[World ?m, Own CnEvent]" "app_console (\<lambda>_. cc_bus ?d) s1" ?d]
  have ok: "app_ok ?joined"
    using app_ok_bus_set(1)[OF app_init_ok bus_subscribe_wf] app_ok_buses[OF app_init_ok] by blast
  have "app_console_bus ?joined = ?b" by simp
  then show ?thesis using run ok sees
    by (intro exI[of _ ?joined] exI[of _ "app_console (\<lambda>_. cc_bus ?d) s1"] exI[of _ ?d] exI[of _ u] exI[of _ now]) simp
qed

section \<open>A display inside the system\<close>

inductive display_watch ::
  "envelope ext \<Rightarrow> nat \<Rightarrow> pipe_label watch_label \<Rightarrow> app \<times> pipe \<Rightarrow> app \<times> pipe \<Rightarrow> bool" for X i where
  world: "sys_step X l s s' \<Longrightarrow> l \<noteq> LDisplayLeave i \<Longrightarrow> l \<noteq> LDisplayRead i \<Longrightarrow>
    display_watch X i (World l) (s, p) (s', p\<lparr>pp_bus := app_display_bus s'\<rparr>)"
| turn: "pipe_step i k p q \<Longrightarrow> (\<And>e. k \<noteq> PlPublish e) \<Longrightarrow>
    display_watch X i (Own k) (s, p) (app_display (\<lambda>_. pp_bus q) s, q)"

definition display_seen ::
  "envelope ext \<Rightarrow> nat \<Rightarrow> pipe_label watch_label list \<Rightarrow> app \<times> pipe \<Rightarrow> bool" where
  "display_seen X i ls = (\<lambda>(s, p). app_ok s \<and> pp_bus p = app_display_bus s \<and> i < bus_next (pp_bus p) \<and>
     (sub_of i (pp_bus p) = None \<longleftrightarrow> \<not> pp_bridge p) \<and> length (pp_chan p) \<le> WRITER_CAPACITY \<and>
     (pp_writer p \<longrightarrow> pp_bridge p) \<and> (\<not> pp_writer p \<longrightarrow> pp_chan p = []) \<and>
     (\<exists>sent. told (display_told X) (world ls) sent \<and> subseq (pp_written p) sent \<and>
        (pp_writer p \<longrightarrow> feed i (pp_bus p) (pp_written p @ pp_chan p) sent (Own PlLagged \<in> set ls))))"

lemma display_seenI:
  assumes "app_ok s" "pp_bus p = app_display_bus s" "i < bus_next (pp_bus p)"
    and "sub_of i (pp_bus p) = None \<longleftrightarrow> \<not> pp_bridge p" "length (pp_chan p) \<le> WRITER_CAPACITY"
    and "pp_writer p \<Longrightarrow> pp_bridge p" "\<not> pp_writer p \<Longrightarrow> pp_chan p = []"
    and "told (display_told X) (world ls) sent" "subseq (pp_written p) sent"
    and "pp_writer p \<Longrightarrow> feed i (pp_bus p) (pp_written p @ pp_chan p) sent (Own PlLagged \<in> set ls)"
  shows "display_seen X i ls (s, p)"
  using assms unfolding display_seen_def by blast

text \<open>The end of the bridge, as the connection closes or its writer has failed.\<close>

lemma display_ends:
  assumes "app_ok s" "bus_wf (pp_bus p)" "i < bus_next (pp_bus p)" "pp_bus p = app_display_bus s \<or> pp_bridge p"
    and "sub_of i (pp_bus p) = None \<longleftrightarrow> \<not> pp_bridge p" "\<not> pp_writer p" "pp_chan p = []"
    and "told (display_told X) (world ls) sent" "subseq (pp_written p) sent"
  shows "display_seen X i ls (app_display (\<lambda>_. pp_bus (bridge_end i p)) s, bridge_end i p)"
proof -
  have "app_ok (app_display (\<lambda>_. pp_bus (bridge_end i p)) s)"
    using assms(1,2,5) drop_own_wf[of "pp_bus p" i] by (intro app_ok_bus_set(2)) (simp_all add: bridge_end_def)
  then show ?thesis
    using assms drop_sub[OF assms(3)] by (intro display_seenI[where sent = sent]) (auto simp: bridge_end_def)
qed

lemma display_watch_seen:
  assumes "display_seen X i ls sp" "display_watch X i l sp sq"
  shows "display_seen X i (ls @ [l]) sq"
proof -
  obtain s p where sp: "sp = (s, p)" by fastforce
  obtain sent where e: "told (display_told X) (world ls) sent" "subseq (pp_written p) sent"
      "pp_writer p \<longrightarrow> feed i (pp_bus p) (pp_written p @ pp_chan p) sent (Own PlLagged \<in> set ls)"
    and ok: "app_ok s" "pp_bus p = app_display_bus s" "i < bus_next (pp_bus p)"
      "sub_of i (pp_bus p) = None \<longleftrightarrow> \<not> pp_bridge p" "length (pp_chan p) \<le> WRITER_CAPACITY"
      "pp_writer p \<longrightarrow> pp_bridge p" "\<not> pp_writer p \<longrightarrow> pp_chan p = []"
    using assms(1) unfolding display_seen_def sp prod.case by (elim conjE exE) (rule that)
  note es = e(1,2) e(3)[rule_format]
  have wf: "bus_wf (pp_bus p)" using app_ok_buses[OF ok(1)] ok(2) by simp
  have same: "app_display (\<lambda>_. pp_bus p) s = s" using ok(2) by (simp add: app_display_def app_display_bus_def)
  from assms(2) show ?thesis
  proof cases
    case (world k s1 s' p1)
    then have st: "sys_step X k s s'" and same: "s1 = s" "p1 = p" using sp by simp_all
    obtain new where n: "display_told X k new" "bus_evolves i (pp_bus p) new (app_display_bus s')"
      using step_display[OF st world(5,6)] ok(2) wf by auto
    have "told (display_told X) (world (ls @ [l])) (sent @ new)" using told_snoc[OF es(1) n(1)] world(1) by simp
    then show ?thesis unfolding world(3)
      using world(1) same ok(5-7) subseq_snoc[OF es(2)] feed_evolves[OF n(2) es(3)] evolves_sub[OF n(2) ok(3)] ok(4)
        sys_step_ok[OF st ok(1)]
      by (intro display_seenI[where sent = "sent @ new"]) auto
  next
    case (turn k p1 q s1)
    then have s1: "s1 = s" "p1 = p" using sp by simp_all
    have t: "told (display_told X) (world (ls @ [l])) sent" using es(1) turn(1) by simp
    note own = turn(1) s1 t
    from turn(4)[unfolded s1] show ?thesis
    proof cases
      case (forward b e)
      have f: "feed i b ((pp_written p @ pp_chan p) @ [e]) sent (Own PlLagged \<in> set ls)"
        by (rule feed_event[OF es(3)[OF forward(4)] forward(5)])
      show ?thesis unfolding turn(3)
        using own forward es(2) ok f app_ok_bus_set(2)[OF ok(1) bus_recv_wf(1)[OF wf forward(5)]]
          recv_own[OF forward(5) _ ok(3)]
        by (intro display_seenI[where sent = sent]) auto
    next
      case (lagged b)
      have f: "pp_writer p \<Longrightarrow> feed i b (pp_written p @ pp_chan p) sent True"
        by (rule feed_lagged[OF es(3) lagged(4)])
      show ?thesis unfolding turn(3)
        using own lagged es(2) ok f app_ok_bus_set(2)[OF ok(1) bus_recv_wf(1)[OF wf lagged(4)]]
          recv_own[OF lagged(4) _ ok(3)]
        by (intro display_seenI[where sent = sent]) auto
    next
      case (flush e es')
      have "subseq (pp_written p @ e # es') sent" using feed_subseq[OF es(3)[OF flush(3)]] flush(4) by simp
      then have "subseq (pp_written p @ [e]) sent"
        by (metis append.assoc append_Cons append_Nil prefixI prefix_imp_subseq subseq_order.order_trans)
      then show ?thesis unfolding turn(3)
        using own flush ok es(3) same by (intro display_seenI[where sent = sent]) auto
    next
      case (failed e es')
      then show ?thesis unfolding turn(3)
        using own ok es(2) same by (intro display_seenI[where sent = sent]) auto
    next
      case (gone b e)
      have "display_seen X i (ls @ [l]) (app_display (\<lambda>_. pp_bus (bridge_end i (p\<lparr>pp_bus := b\<rparr>))) s,
          bridge_end i (p\<lparr>pp_bus := b\<rparr>))"
        using gone ok es(2) t bus_recv_wf(1)[OF wf gone(5)] recv_own[OF gone(5) _ ok(3)]
        by (intro display_ends[where sent = sent]) auto
      then show ?thesis using gone turn(3) s1 by simp
    next
      case closed
      have "display_seen X i (ls @ [l]) (app_display (\<lambda>_. pp_bus (bridge_end i (p\<lparr>pp_chan := [], pp_writer := False\<rparr>))) s,
          bridge_end i (p\<lparr>pp_chan := [], pp_writer := False\<rparr>))"
        using ok es(2) t wf by (intro display_ends[where sent = sent]) auto
      then show ?thesis using closed turn(3) s1 by simp
    qed (use turn(5) in auto)
  qed
qed

lemma display_joins:
  assumes "app_ok s" "pipe_start (app_display_bus s) = (i, p)"
  shows "display_seen X i [] (app_display (\<lambda>_. pp_bus p) s, p)"
proof -
  have w: "bus_wf (app_display_bus s)" using app_ok_buses[OF assms(1)] by simp
  have p: "p = \<lparr>pp_bus = fst (bus_subscribe (app_display_bus s)), pp_chan = [], pp_written = [],
      pp_writer = True, pp_bridge = True\<rparr>" "i = bus_next (app_display_bus s)"
    using assms(2) by (auto simp: pipe_start_def bus_subscribe_def)
  have "feed i (pp_bus p) [] [] False"
    using feed_start[OF w] p by (auto simp: bus_subscribe_def)
  moreover have "sub_of i (pp_bus p) \<noteq> None" using feed_sub[OF calculation] by simp
  moreover have "app_ok (app_display (\<lambda>_. pp_bus p) s)" using app_ok_bus_set(2)[OF assms(1) bus_subscribe_wf[OF w]] p by simp
  ultimately show ?thesis
    using p by (intro display_seenI[where sent = "[]"]) (auto simp: told_Nil bus_subscribe_def WRITER_CAPACITY_def)
qed

text \<open>
  C15: What a display is told, in the whole system, whatever the other handlers do meanwhile and however
  its own two tasks and the end of its connection interleave with them. What is written to its
  socket is, in order and each at most once, events that tell the messages the phones sent since
  it connected, those of the eight types that are news, whose payload decodes and which the noise filter
  lets through, and the answers to every display's actions; nothing else in the system makes it
  hear anything. While it lives and has not lagged nothing is missing, and its channel never holds
  more than its capacity; once its bridge has ended its subscription is gone and stays gone.
\<close>

theorem display_sees:
  assumes "app_ok s" "pipe_start (app_display_bus s) = (i, p)"
    and "lrun (display_watch X i) ls (app_display (\<lambda>_. pp_bus p) s, p) (s', q)"
  shows "\<exists>sent. subseq (pp_written q) sent \<and> told (display_told X) (world ls) sent \<and>
    length (pp_chan q) \<le> WRITER_CAPACITY \<and>
    (pp_writer q \<longrightarrow> (\<exists>r. sub_of i (app_display_bus s') = Some r \<and>
       (sub_lagged r \<or> Own PlLagged \<in> set ls \<or> pp_written q @ pp_chan q @ sub_queue r = sent))) \<and>
    (\<not> pp_bridge q \<longrightarrow> sub_of i (app_display_bus s') = None)"
proof -
  have "display_seen X i ls (s', q)"
    by (rule lrun_invariant[where P = "display_seen X i", OF assms(3) display_joins[OF assms(1,2)]])
      (rule display_watch_seen)
  then obtain sent where "told (display_told X) (world ls) sent" "subseq (pp_written q) sent"
      "pp_writer q \<longrightarrow> feed i (pp_bus q) (pp_written q @ pp_chan q) sent (Own PlLagged \<in> set ls)"
    and "pp_bus q = app_display_bus s'" "sub_of i (pp_bus q) = None \<longleftrightarrow> \<not> pp_bridge q"
      "length (pp_chan q) \<le> WRITER_CAPACITY"
    unfolding display_seen_def prod.case by (elim conjE exE) (rule that)
  then show ?thesis by (intro exI[of _ sent]) (auto simp: feed_def)
qed

theorem display_sees_witness:
  "\<exists>s i p s' q now. app_ok s \<and> pipe_start (app_display_bus s) = (i, p) \<and>
     lrun (display_watch demo_ext i) [World (LMessage (demo_hello 1)), Own PlForward, Own PlWrite]
       (app_display (\<lambda>_. pp_bus p) s, p) (s', q) \<and> sub_of i (app_display_bus s') \<noteq> None \<and>
     pp_written q = [message_event (demo_hello 1) (env_payload (demo_hello 1)) now]"
proof -
  let ?s = "app_init demo_cfg []" and ?m = "LMessage (demo_hello 1)" and ?W = "display_watch demo_ext 0"
  let ?b = "fst (bus_subscribe (app_display_bus ?s))"
  let ?joined = "app_display (\<lambda>_. ?b) ?s"
  let ?p = "\<lparr>pp_bus = ?b, pp_chan = [], pp_written = [], pp_writer = True, pp_bridge = True\<rparr>"
  have b0: "app_display_bus ?s = display_bus_new" by (simp add: app_display_bus_def app_init_def)
  have start: "pipe_start (app_display_bus ?s) = (0, ?p)"
    by (simp add: b0 pipe_start_def display_bus_new_def bus_new_def bus_subscribe_def)
  obtain s1 where 1: "sys_step demo_ext ?m ?joined s1" using message_enabled by blast
  have fields: "env_type (demo_hello 1) = MtDeviceHello" by (simp add: demo_hello_def envelope_new_def)
  have news: "display_news demo_ext (demo_hello 1) = Some (env_payload (demo_hello 1))"
    by (simp add: display_news_def console_news_def demo_hello_def envelope_new_def rt_device_hello)
  have pass: "should_filter (message_event (demo_hello 1) p now) = None" for p now
    using filter_by_type[of MtDeviceHello "message_event (demo_hello 1) p now"]
    by (simp add: message_event_def build_display_event_def fields)
  have w: "bus_wf (app_display_bus ?joined)"
    using bus_subscribe_wf[OF conjunct2[OF app_ok_buses[OF app_init_ok]], of demo_cfg "[]"] by simp
  obtain vs where vs: "display_told demo_ext ?m vs" "bus_evolves 0 (app_display_bus ?joined) vs (app_display_bus s1)"
    using step_display[OF 1 _ _ w, of 0] by auto
  then obtain now where v: "vs = [message_event (demo_hello 1) (env_payload (demo_hello 1)) now]" (is "_ = [?v]")
    by (auto simp: display_told_def news pass)
  obtain b where r: "bus_recv 0 (app_display_bus s1) = Some (b, RvEvent ?v)"
    by (rule one_queued[OF vs(2)[unfolded v]])
      (simp_all add: b0 display_bus_new_def bus_new_def bus_subscribe_def sub_of_def)
  let ?told = "?p\<lparr>pp_bus := app_display_bus s1\<rparr>" and ?taken = "?p\<lparr>pp_bus := b, pp_chan := [?v]\<rparr>"
    and ?done = "?p\<lparr>pp_bus := b, pp_chan := [], pp_written := [?v]\<rparr>" and ?after = "app_display (\<lambda>_. b)"
  have 2: "?W (World ?m) (?joined, ?p) (s1, ?told)" by (rule display_watch.world[OF 1]) simp_all
  have 3: "?W (Own PlForward) (s1, ?told) (?after s1, ?taken)"
    using display_watch.turn[OF pipe_step.forward[of ?told 0 b ?v], of demo_ext s1] r by (simp add: WRITER_CAPACITY_def)
  have 4: "?W (Own PlWrite) (?after s1, ?taken) (?after (?after s1), ?done)"
    using display_watch.turn[OF pipe_step.flush[of ?taken ?v "[]" 0], of demo_ext "?after s1"] by simp
  have run: "lrun ?W [World ?m, Own PlForward, Own PlWrite] (?joined, ?p) (?after (?after s1), ?done)"
    by (rule lrun_Cons[where R = ?W, OF 2 lrun_Cons[where R = ?W, OF 3 lrun_Cons[where R = ?W, OF 4 lrun_refl]]])
  then have run': "lrun ?W [World ?m, Own PlForward, Own PlWrite] (app_display (\<lambda>_. pp_bus ?p) ?s, ?p)
      (?after (?after s1), ?done)" by simp
  have "sub_of 0 (app_display_bus (?after (?after s1))) \<noteq> None"
    using display_sees[OF app_init_ok start run'] by auto
  moreover have "pp_written ?done = [?v]" by simp
  ultimately show ?thesis using app_init_ok start run' by blast
qed

end
