(* ===== verification/EndToEnd.thy ===== *)
theory EndToEnd
  imports Watchers DeskStart
begin

text \<open>
  From the phones to the user of the desktop: the system with its handlers, the socket of a
  display, the line the writer task sends for an event, the reader of the desktop client and the
  backend its main has started. The text serde_json prints for a value is an argument.
\<close>

section \<open>The line of an event\<close>

definition display_text :: "'e ext \<Rightarrow> (json \<Rightarrow> string) \<Rightarrow> display_event \<Rightarrow> string" where
  "display_text X J v = J (enc_display_event X v) @ [CHR 0x0A]"

text \<open>
  What the reader relies on of the printed text: it is one line without surrounding white space,
  which serde_json reads back; and the time of the event is one of 64 bits.
\<close>

definition legible :: "envelope ext \<Rightarrow> (json \<Rightarrow> string) \<Rightarrow> display_event \<Rightarrow> bool" where
  "legible X J v \<longleftrightarrow> i64_range (de_timestamp v) \<and>
     (let text = J (enc_display_event X v)
      in text \<noteq> [] \<and> CHR 0x0A \<notin> set text \<and> trim text = text \<and>
         json_parse X text = Some (enc_display_event X v))"

lemma line_back:
  assumes "uuid_ok X" "legible X J v"
  shows "List.map_filter (line_event X) (str_lines (display_text X J v)) = [v]"
  using str_lines_terminated[of "[J (enc_display_event X v)]"] assms
  by (simp add: display_text_def line_event_def legible_def Let_def rt_display_event map_filter_simps)

section \<open>The frames of a session\<close>

text \<open>
  The frames of a connection on which these events arrive, in order, before it ends in whatever
  way; frames of other kinds, such as pings, may lie between them.
\<close>

definition arrives :: "envelope ext \<Rightarrow> (json \<Rightarrow> string) \<Rightarrow> display_event list \<Rightarrow> client_frame list \<Rightarrow> bool" where
  "arrives X J vs fs \<longleftrightarrow>
     (\<exists>fin. filter (\<lambda>f. f \<noteq> CfBinary \<and> f \<noteq> CfOther) fs = map (\<lambda>v. CfText (display_text X J v)) vs @ fin \<and>
        (fin = [] \<or> fin = [CfClose] \<or> (\<exists>e. fin = [CfError e])))"

lemma frames_filtered: "frame_events X (filter (\<lambda>f. f \<noteq> CfBinary \<and> f \<noteq> CfOther) fs) = frame_events X fs"
  by (induction X fs rule: frame_events.induct) simp_all

lemma texts_read:
  assumes "uuid_ok X" "\<forall>v \<in> set vs. legible X J v"
  shows "frame_events X (map (\<lambda>v. CfText (display_text X J v)) vs @ fin) = vs @ frame_events X fin"
  using assms(2) by (induction vs) (simp_all add: line_back[OF assms(1)])

lemma arrived_read:
  assumes "uuid_ok X" "\<forall>v \<in> set vs. legible X J v" "arrives X J vs fs"
  shows "frame_events X fs = vs"
proof -
  obtain fin where "filter (\<lambda>f. f \<noteq> CfBinary \<and> f \<noteq> CfOther) fs = map (\<lambda>v. CfText (display_text X J v)) vs @ fin"
    and "frame_events X fin = []"
    using assms(3) by (auto simp: arrives_def)
  then show ?thesis using texts_read[OF assms(1,2), of fin] frames_filtered[of X fs] by simp
qed

section \<open>From the phones to the user\<close>

lemma subseq_map_filter: "subseq xs ys \<Longrightarrow> subseq (List.map_filter f xs) (List.map_filter f ys)"
  by (simp add: List.map_filter_def subseq_map subseq_filter)

text \<open>What the socket of a display has been written, and all of it once its tasks have nothing to do.\<close>

lemma written_told:
  assumes "display_seen X i ls (s, q)"
  obtains sent where "told (display_told X) (world ls) sent" "subseq (pp_written q) sent"
    "pp_writer q \<and> pipe_work i q = 0 \<and> Own PlLagged \<notin> set ls \<longrightarrow> pp_written q = sent"
proof -
  obtain sent where s: "told (display_told X) (world ls) sent" "subseq (pp_written q) sent"
      "pp_writer q \<longrightarrow> feed i (pp_bus q) (pp_written q @ pp_chan q) sent (Own PlLagged \<in> set ls)"
    using assms unfolding display_seen_def prod.case by (elim conjE exE) (rule that)
  have "pp_written q = sent" if "pp_writer q" "pipe_work i q = 0" "Own PlLagged \<notin> set ls"
    using s(3) that feed_done[of i "pp_bus q" "pp_written q" sent] by (simp add: pipe_work_def)
  with s(1,2) show thesis by (intro that) auto
qed


text \<open>A display asks for something of a phone that is not connected, and its user is told.\<close>

definition demo_ask :: display_action where
  "demo_ask = \<lparr>da_kind = ''call.end'', da_envelope_id = 3, da_device_id = 7, da_to = None, da_body = None,
     da_call_id = Some ''k''\<rparr>"

definition demo_notice :: display_event where
  "demo_notice = build_display_event ''phone.offline'' 7 3
     (JObj [(''action_kind'', JStr ''call.end''), (''message'', JStr ''phone offline; action not delivered'')]) 0"

definition demo_line :: "envelope ext" where
  "demo_line = demo_ext\<lparr>json_parse :=
     (\<lambda>s. if s = ''e'' then Some (enc_display_event demo_ext demo_notice) else None)\<rparr>"

lemma demo_legible: "uuid_ok demo_line \<and> legible demo_line (\<lambda>_. ''e'') demo_notice"
proof -
  have "enc_display_event demo_line demo_notice = enc_display_event demo_ext demo_notice"
    by (simp add: enc_display_event_def demo_line_def enc_uuid_def)
  moreover have "trim ''e'' = ''e''" by code_simp
  ultimately show ?thesis using demo_uuid_ok
    by (simp add: legible_def uuid_ok_def demo_line_def demo_notice_def build_display_event_def i64_range_def)
qed

lemma demo_answered:
  assumes "app_display_bus s = fst (bus_subscribe display_bus_new)" "n_registry (a_net s) = []"
  obtains b where "bus_recv 0 (app_display_bus (handle_display_action demo_line D (demo_tick 0) s demo_ask)) =
    Some (b, RvEvent demo_notice)"
proof -
  let ?b = "app_display_bus (handle_display_action demo_line D (demo_tick 0) s demo_ask)"
  have w: "bus_wf (app_display_bus s)" using assms(1) bus_subscribe_wf[OF display_bus_new_wf] by simp
  have c: "\<not> app_connected s (da_device_id demo_ask)" using assms(2) by (simp add: app_connected_iff)
  obtain r where "?b = publish_all [demo_notice, r] (app_display_bus s)"
    using action_answer[of demo_line D "demo_tick 0" s demo_ask] c
    by (auto simp: Let_def demo_ask_def demo_notice_def demo_tick_def)
  then have b: "?b = fold (\<lambda>e b. fst (bus_send e b)) [demo_notice, r] (app_display_bus s)"
    using publish_all_sends[OF w] by simp
  have "sub_of 0 (app_display_bus s) = Some \<lparr>sub_id = 0, sub_queue = [], sub_lagged = False\<rparr>"
    "bus_cap (app_display_bus s) = 1024"
    by (simp_all add: assms(1) display_bus_new_def bus_new_def bus_subscribe_def sub_of_def)
  moreover have "bus_cap (fst (bus_send e b)) = bus_cap b" for e and b :: display_bus by (simp add: bus_send_def)
  ultimately have "sub_of 0 ?b = Some \<lparr>sub_id = 0, sub_queue = [demo_notice, r], sub_lagged = False\<rparr>"
    by (simp add: b sub_of_send sub_push_def)
  then show thesis using that by (auto simp: bus_recv_def sub_of_def Let_def)
qed


end
