(* ===== verification/Spec2Isabelle.thy ===== *)
theory Spec2Isabelle
  imports StartUp Protocol Windows DeskStart ApiDocs ApiBody Race PairCli Upgrades EndToEnd
begin

text \<open>
  PhoneBridge is a broker between Android phones and a desktop. The message-center (the Rust
  crates under crates/) accepts phones over WebSockets, pairs with them, stores what they send in
  SQLite, serves a REST interface and a web console, and forwards events to displays; DeskDisplay
  is the desktop program that shows those events and sends the user's answers back.

  \<^bold>\<open>Parts and theories.\<close> A theory models the files named in it, one definition per function,
  in the order of the code; a struct is a record, an enum a datatype, and a fallible function
  returns a sum, the error on the left.

  \<^item> Prelude, Text, Json: machine integers, association lists for \<open>HashMap\<close> (locale
    \<open>hash_map\<close>), Rust's string functions on byte lists, and how serde's derived code reads
    and writes JSON values.
  \<^item> Wire (phonebridge-proto): the message types, the envelope, every payload struct with its
    encoder and decoder. Protocol: what the wire promises.
  \<^item> Crypto, Pairing (phonebridge-crypto, phonebridge-net/src/pairing.rs): fingerprints, codes,
    key agreement, pins, and the two sides of the pairing exchange.
  \<^item> Sessions, WsHandler (registry.rs, ws_handler.rs): the shared maps of sessions, pending
    requests and connected phones, and a phone's connection from the hello to the cleanup.
  \<^item> Storage (phonebridge-storage): tables as lists of rows, every query, the constraints of the
    schema.
  \<^item> NoiseFilter, Buses, CenterSink (message-center, phonebridge-bus): the deny list, the buses
    (locale \<open>broadcast_bus\<close>), and what each message of a phone stores and publishes
    (locale \<open>ws_sink\<close>).
  \<^item> Rest, Feeds, DisplayWs, DisplayAuth (message-center): the REST handlers on the shared state,
    the sockets of the web console and of the displays, the display token.
  \<^item> Api, ApiBody, ApiDocs (main.rs, rest.rs, openapi.rs): the route table, one HTTP request from
    method and path to the answer, the JSON of every body, the API description.
  \<^item> System: all of these as steps on one state, in any interleaving. Upgrades: a whole connection
    as a run of such steps. Watchers: a console's and a display's tasks inside the system. Causes:
    why a message was sent. Race: the dispatcher split at the locks of the pairing map. PairCli: the
    test client.
  \<^item> Identity, Discovery, Config, StaticFiles (message-center, phonebridge-core, mdns.rs): what the
    program keeps on disk, announces, reads as configuration, and serves as console. Listener: the
    log, the opening of the database, the TLS server. StartUp: main, from the command line to the
    listener, over all of these.
  \<^item> Dictionaries, I18n: the translation tables, the endpoint that serves them, and the display's
    loader and template renderer.
  \<^item> DeskBackend, Windows, DeskClient, Platforms, DeskConfig (DeskDisplay/src): translation of
    events to toasts, the backends (locale \<open>display_backend\<close>), the client loop, the backend of
    each platform, the configuration. DeskStart: the start of the display and what it shows.
    EndToEnd: the center and the display together, from a phone's message to the user.

  \<^bold>\<open>State and interaction.\<close> The shared state of the message-center is the record
  \<open>app\<close> (app_state.rs) around \<open>net\<close>, the maps a connection shares with the others,
  whose sink is \<open>center\<close>: the database and the two buses. A handler takes the state and
  returns it updated. A phone's frame goes through \<open>handle_envelope\<close> (registration, side
  effects in the sink, pairing dispatcher); the sink writes the database, publishes to the console
  bus and, through the noise filter, to the display bus; a display's action comes back through
  \<open>handle_display_action\<close> and leaves for the phone through the registry. Outbound channels
  are numbers; the envelopes they took are recorded in order. What the event loop interleaves is a
  step relation (\<open>sys_step\<close>, \<open>pipe_step\<close>, \<open>console_step\<close>,
  \<open>desk_step\<close>), and its properties quantify over every sequence of steps. A step of
  \<open>sys_step\<close> is a whole handler; \<open>race_step\<close> is one use of the pairing map, and
  \<open>handlers_atomic_per_device\<close> says when the coarser step is justified. An awaited send to a
  queue is taken to have been waited for, so a handler that is held up by a full queue is a later
  step; the wait of a closed connection for its writer is \<open>connection_end\<close>.

  \<^bold>\<open>What the lemmas show.\<close> Component invariants and their preservation (database, buses,
  sessions, registry), the outcome of each operation on every branch, the refinement of the
  per-peer session machine by the dispatcher on the shared map, delivery to displays and consoles
  in every interleaving with the whole system, its termination, and what reaches the user of the
  desktop in the end, equality of the hand-written queries, comparisons and lookups with their
  reference definitions, round trips of the wire, the stored rows, the markup, the configuration
  and the announcements, the agreement of the API description with the routes, the cause of every
  message sent, and, where the program does not do what its comments say, exactly what it
  does.

  \<^bold>\<open>Parameters.\<close> Code outside the repository is an argument: the record \<open>ext\<close>
  (uuid, base64, SHA-256, HKDF, P-256, rcgen, the JSON text parser, the channels), the record
  \<open>axum\<close> (which pattern a path matches, query strings, body reading), the PEM parser and
  rustls, sqlx's connecting and migrating, the TOML and URL parsers, the mDNS daemon, media types. What is relied on is a named hypothesis
  (\<open>uuid_ok\<close>, \<open>b64_ok\<close>, \<open>ec_ok\<close>, \<open>certs_wf\<close>), and Demo and the
  witnesses give instances. Clock readings, fresh identifiers, row ids, environment variables,
  file-system faults and interleavings are arguments too, so theorems hold for all of them.

  \<^bold>\<open>Bounds and fuel.\<close> Integers with a width are words, or integers with their range
  where serde checks it (\<open>i64_range\<close>); sums that can overflow are written with their
  wrap-around. Every model of program code terminates by structural recursion over its input. Fuel
  occurs only in the reader of the Windows markup (\<open>read_actions\<close>), a specification,
  which gets the length of the markup, more than it has actions.

  \<^bold>\<open>Not modelled.\<close> TLS records, the lines of the log, the rendering of the API description, the
  text of the migrations, D-Bus and WinRT themselves: libraries whose code is not in the repository;
  what the program asks of them and what it does with their errors is modelled. Test modules, the Kotlin application and the TypeScript console are not Rust
  implementation code of the message-center. A panic of a lock and the exhaustion of memory are not
  modelled; SQL is modelled by the rows its statements select and change, not by its text.
\<close>

end
